(* ===== verification/Prelude.thy ===== *)
theory Prelude
  imports Main "HOL-Library.Word"
begin

text \<open>
  Shared vocabulary of the development: the Rust integer types as words, the result of a
  Rust computation (a value, an \<open>Err\<close>, or a panic), arithmetic under both cargo profiles,
  and the list operations that stand for the SQL statements on a keyed table, with the
  interface (a locale) through which the components use them.
\<close>

section \<open>Collections of facts\<close>

named_theorems run_simps \<open>what running a task from a state yields\<close>
named_theorems model_defs \<open>definitions of the model, for symbolic evaluation\<close>
named_theorems pres_intro \<open>introduction rules: a task keeps an invariant\<close>

section \<open>Rust types\<close>

text \<open>
  The casts \<open>as i64\<close> and \<open>as u64\<close> between the two 64-bit types keep the bit pattern, so
  both types are \<open>64 word\<close>; a signed reading is \<open>sint\<close>, an unsigned one \<open>unat\<close>.
\<close>

type_synonym u8 = "8 word"
type_synonym i32 = "32 word"
type_synonym u64 = "64 word"
type_synonym i64 = "64 word"
type_synonym bytes = "8 word list"

datatype ('a, 'e) res = Ok 'a | Err 'e | Panic

text \<open>The \<open>anyhow::Error\<close> values: the sources the code can meet, instead of their messages.\<close>

datatype anyhow =
    SqlFailed            \<comment> \<open>the driver could not execute a statement\<close>
  | RowNotFound          \<comment> \<open>\<open>fetch_one\<close> without a row\<close>
  | ColumnDecode         \<comment> \<open>\<open>try_get\<close> could not decode a column\<close>
  | HexDecode            \<comment> \<open>\<open>hex::decode\<close> on an invalid string\<close>
  | External string      \<comment> \<open>an error a library call returned\<close>
  | Anyhow string        \<comment> \<open>\<open>anyhow!(..)\<close> in the code itself\<close>

fun map_res :: "('a \<Rightarrow> 'b) \<Rightarrow> ('a, 'e) res \<Rightarrow> ('b, 'e) res" where
  "map_res f (Ok a) = Ok (f a)"
| "map_res f (Err e) = Err e"
| "map_res f Panic = Panic"

fun bind_res :: "('a, 'e) res \<Rightarrow> ('a \<Rightarrow> ('b, 'e) res) \<Rightarrow> ('b, 'e) res" where
  "bind_res (Ok a) f = f a"
| "bind_res (Err e) f = Err e"
| "bind_res Panic f = Panic"

fun map_err_res :: "('e \<Rightarrow> 'f) \<Rightarrow> ('a, 'e) res \<Rightarrow> ('a, 'f) res" where
  "map_err_res g (Ok a) = Ok a"
| "map_err_res g (Err e) = Err (g e)"
| "map_err_res g Panic = Panic"

fun is_ok :: "('a, 'e) res \<Rightarrow> bool" where
  "is_ok (Ok a) = True"
| "is_ok (Err e) = False"
| "is_ok Panic = False"

definition ok_or :: "'e \<Rightarrow> 'a option \<Rightarrow> ('a, 'e) res" where
  "ok_or e x = (case x of None \<Rightarrow> Err e | Some a \<Rightarrow> Ok a)"

definition ok_or_panic :: "'a option \<Rightarrow> ('a, 'e) res" where
  "ok_or_panic x = (case x of None \<Rightarrow> Panic | Some a \<Rightarrow> Ok a)"

lemma ok_or_simps [simp]: "ok_or e None = Err e" "ok_or e (Some a) = Ok a"
  by (simp_all add: ok_or_def)

lemma ok_or_panic_simps [simp]: "ok_or_panic None = Panic" "ok_or_panic (Some a) = Ok a"
  by (simp_all add: ok_or_panic_def)

lemma bind_res_eq_Ok: "bind_res m f = Ok b \<longleftrightarrow> (\<exists>a. m = Ok a \<and> f a = Ok b)"
  by (cases m) auto

lemma bind_res_eq_Err: "bind_res m f = Err e \<longleftrightarrow> m = Err e \<or> (\<exists>a. m = Ok a \<and> f a = Err e)"
  by (cases m) auto

lemma bind_res_assoc: "bind_res (bind_res m f) g = bind_res m (\<lambda>a. bind_res (f a) g)"
  by (cases m) auto

section \<open>Unsigned arithmetic\<close>

text \<open>
  Rust's \<open>+\<close>, \<open>-\<close> and \<open>*\<close> on \<open>u64\<close> panic on overflow when the cargo profile has overflow
  checks (the dev profile, \<open>cargo run\<close>) and wrap around otherwise (the release profile, for
  which the Cargo.toml files do not enable them): \<open>chk\<close> is the profile.
\<close>

definition add_u64 :: "bool \<Rightarrow> u64 \<Rightarrow> u64 \<Rightarrow> (u64, 'e) res" where
  "add_u64 chk a b = (if chk \<and> 2 ^ 64 \<le> uint a + uint b then Panic else Ok (a + b))"

definition sub_u64 :: "bool \<Rightarrow> u64 \<Rightarrow> u64 \<Rightarrow> (u64, 'e) res" where
  "sub_u64 chk a b = (if chk \<and> uint a < uint b then Panic else Ok (a - b))"

definition mul_u64 :: "bool \<Rightarrow> u64 \<Rightarrow> u64 \<Rightarrow> (u64, 'e) res" where
  "mul_u64 chk a b = (if chk \<and> 2 ^ 64 \<le> uint a * uint b then Panic else Ok (a * b))"

text \<open>\<open>iter().sum()\<close> adds from the left, from 0.\<close>

fun sum_from_u64 :: "bool \<Rightarrow> u64 \<Rightarrow> u64 list \<Rightarrow> (u64, 'e) res" where
  "sum_from_u64 chk acc [] = Ok acc"
| "sum_from_u64 chk acc (x # xs) = bind_res (add_u64 chk acc x) (\<lambda>acc'. sum_from_u64 chk acc' xs)"

lemma unat_add_u64: "unat (a + b :: u64) = unat a + unat b" if "unat a + unat b < 2 ^ 64"
  using that by (simp add: unat_word_ariths)

lemma unat_sub_u64: "unat (a - b :: u64) = unat a - unat b" if "unat b \<le> unat a"
  using that by (simp add: unat_sub word_le_nat_alt)

lemma unat_mul_u64: "unat (a * b :: u64) = unat a * unat b" if "unat a * unat b < 2 ^ 64"
  using that by (simp add: unat_word_ariths)

lemma add_u64_unat: "add_u64 chk a b = (if chk \<and> 2 ^ 64 \<le> unat a + unat b then Panic else Ok (a + b))"
  using zle_int [of "2 ^ 64" "unat a + unat b"] by (simp add: add_u64_def)

lemma sub_u64_unat: "sub_u64 chk a b = (if chk \<and> unat a < unat b then Panic else Ok (a - b))"
  by (simp add: sub_u64_def flip: of_nat_less_iff [where ?'a = int])

lemma mul_u64_unat: "mul_u64 chk a b = (if chk \<and> 2 ^ 64 \<le> unat a * unat b then Panic else Ok (a * b))"
  using zle_int [of "2 ^ 64" "unat a * unat b"] by (simp add: mul_u64_def)

lemma add_u64_Ok: "unat a + unat b < 2 ^ 64 \<Longrightarrow> add_u64 chk a b = Ok (a + b)"
  by (simp add: add_u64_unat)

lemma sub_u64_Ok: "unat b \<le> unat a \<Longrightarrow> sub_u64 chk a b = Ok (a - b)"
  by (simp add: sub_u64_unat)

lemma mul_u64_Ok: "unat a * unat b < 2 ^ 64 \<Longrightarrow> mul_u64 chk a b = Ok (a * b)"
  by (simp add: mul_u64_unat)

text \<open>With the checks on, an \<open>Ok\<close> result is the mathematical one.\<close>

lemma add_u64_checked: "add_u64 True a b = Ok c \<longleftrightarrow> unat a + unat b < 2 ^ 64 \<and> c = a + b"
  by (auto simp: add_u64_unat)

lemma sub_u64_checked: "sub_u64 True a b = Ok c \<longleftrightarrow> unat b \<le> unat a \<and> c = a - b"
  by (auto simp: sub_u64_unat)

lemma mul_u64_checked: "mul_u64 True a b = Ok c \<longleftrightarrow> unat a * unat b < 2 ^ 64 \<and> c = a * b"
  by (auto simp: mul_u64_unat)

lemma sum_from_u64_no_overflow:
  "unat acc + sum_list (map unat xs) < 2 ^ 64 \<Longrightarrow>
     \<exists>s. sum_from_u64 chk acc xs = (Ok s :: (u64, 'e) res) \<and> unat s = unat acc + sum_list (map unat xs)"
proof (induction xs arbitrary: acc)
  case Nil
  then show ?case by simp
next
  case (Cons x xs)
  then have lt: "unat acc + unat x < 2 ^ 64" by simp
  then have "unat (acc + x) + sum_list (map unat xs) < 2 ^ 64"
    using Cons.prems by (simp add: unat_add_u64)
  then obtain s where "sum_from_u64 chk (acc + x) xs = (Ok s :: (u64, 'e) res)"
      "unat s = unat (acc + x) + sum_list (map unat xs)"
    using Cons.IH by blast
  then show ?case using lt by (simp add: add_u64_Ok unat_add_u64)
qed

lemma sum_from_u64_not_Err: "sum_from_u64 chk acc xs \<noteq> Err e"
  by (induction xs arbitrary: acc) (auto simp: add_u64_def)

lemma sum_from_u64_checked:
  "sum_from_u64 True acc xs = (Ok s :: (u64, 'e) res) \<Longrightarrow> unat s = unat acc + sum_list (map unat xs)"
proof (induction xs arbitrary: acc)
  case Nil
  then show ?case by simp
next
  case (Cons x xs)
  then obtain a where "add_u64 True acc x = (Ok a :: (u64, 'e) res)" "sum_from_u64 True a xs = (Ok s :: (u64, 'e) res)"
    by (auto simp: bind_res_eq_Ok)
  then show ?case using Cons.IH [of a] by (simp add: add_u64_checked unat_add_u64)
qed

section \<open>Lines of input\<close>

text \<open>\<open>str::trim\<close> on ASCII strings.\<close>

definition is_space :: "char \<Rightarrow> bool" where
  "is_space c \<longleftrightarrow> c = CHR '' '' \<or> (9 \<le> (of_char c :: nat) \<and> (of_char c :: nat) \<le> 13)"

definition trim :: "string \<Rightarrow> string" where
  "trim s = rev (dropWhile is_space (rev (dropWhile is_space s)))"

section \<open>Keyed tables\<close>

text \<open>
  A table with a primary key is the list of its rows in the order of insertion. The SQL
  statements the code uses on one: \<open>SELECT .. WHERE key = ?\<close>, \<open>DELETE .. WHERE key = ?\<close>,
  \<open>INSERT OR REPLACE\<close> and \<open>UPDATE .. WHERE key = ?\<close>.
\<close>

definition tbl_find :: "('r \<Rightarrow> 'k) \<Rightarrow> 'k \<Rightarrow> 'r list \<Rightarrow> 'r option" where
  "tbl_find key k rows = find (\<lambda>r. key r = k) rows"

definition tbl_delete :: "('r \<Rightarrow> 'k) \<Rightarrow> 'k \<Rightarrow> 'r list \<Rightarrow> 'r list" where
  "tbl_delete key k rows = filter (\<lambda>r. key r \<noteq> k) rows"

definition tbl_replace :: "('r \<Rightarrow> 'k) \<Rightarrow> 'r \<Rightarrow> 'r list \<Rightarrow> 'r list" where
  "tbl_replace key r rows = tbl_delete key (key r) rows @ [r]"

definition tbl_update :: "('r \<Rightarrow> 'k) \<Rightarrow> 'k \<Rightarrow> ('r \<Rightarrow> 'r) \<Rightarrow> 'r list \<Rightarrow> 'r list" where
  "tbl_update key k f rows = map (\<lambda>r. if key r = k then f r else r) rows"

definition tbl_wf :: "('r \<Rightarrow> 'k) \<Rightarrow> 'r list \<Rightarrow> bool" where
  "tbl_wf key rows \<longleftrightarrow> distinct (map key rows)"

text \<open>
  The interface of a keyed table, as the components use it: what a lookup returns after
  each statement, and that every statement keeps the keys distinct.
\<close>

locale keyed_table =
  fixes key :: "'r \<Rightarrow> 'k"
    and look :: "'k \<Rightarrow> 't \<Rightarrow> 'r option"
    and del :: "'k \<Rightarrow> 't \<Rightarrow> 't"
    and put :: "'r \<Rightarrow> 't \<Rightarrow> 't"
    and upd :: "'k \<Rightarrow> ('r \<Rightarrow> 'r) \<Rightarrow> 't \<Rightarrow> 't"
    and wf :: "'t \<Rightarrow> bool"
  assumes look_key: "look k t = Some r \<Longrightarrow> key r = k"
    and look_del: "look k' (del k t) = (if k' = k then None else look k' t)"
    and look_put: "look k' (put r t) = (if k' = key r then Some r else look k' t)"
    and look_upd: "(\<And>r. key (f r) = key r) \<Longrightarrow>
       look k' (upd k f t) = (if k' = k then map_option f (look k t) else look k' t)"
    and wf_del: "wf t \<Longrightarrow> wf (del k t)"
    and wf_put: "wf t \<Longrightarrow> wf (put r t)"
    and wf_upd: "(\<And>r. key (f r) = key r) \<Longrightarrow> wf t \<Longrightarrow> wf (upd k f t)"
begin

lemma look_del_same [simp]: "look k (del k t) = None"
  by (simp add: look_del)

lemma look_put_same [simp]: "look (key r) (put r t) = Some r"
  by (simp add: look_put)

lemma look_put_other: "k \<noteq> key r \<Longrightarrow> look k (put r t) = look k t"
  by (simp add: look_put)

lemma look_upd_same: "(\<And>r. key (f r) = key r) \<Longrightarrow> look k (upd k f t) = map_option f (look k t)"
  by (simp add: look_upd)

lemma look_upd_other: "(\<And>r. key (f r) = key r) \<Longrightarrow> k' \<noteq> k \<Longrightarrow> look k' (upd k f t) = look k' t"
  by (simp add: look_upd)

lemma present_upd:
  "(\<And>r. key (f r) = key r) \<Longrightarrow> look k' (upd k f t) = None \<longleftrightarrow> look k' t = None"
  by (simp add: look_upd)

end

lemma tbl_find_None: "tbl_find key k rows = None \<longleftrightarrow> (\<forall>r \<in> set rows. key r \<noteq> k)"
  by (auto simp: tbl_find_def find_None_iff)

lemma tbl_find_Some: "tbl_find key k rows = Some r \<Longrightarrow> r \<in> set rows \<and> key r = k"
  by (auto simp: tbl_find_def find_Some_iff)

lemma tbl_find_member:
  "tbl_wf key rows \<Longrightarrow> r \<in> set rows \<Longrightarrow> tbl_find key (key r) rows = Some r"
  by (induction rows) (auto simp: tbl_find_def tbl_wf_def)

lemma tbl_find_append:
  "tbl_find key k (xs @ ys) = (case tbl_find key k xs of None \<Rightarrow> tbl_find key k ys | Some r \<Rightarrow> Some r)"
  by (induction xs) (simp_all add: tbl_find_def)

lemma tbl_find_delete:
  "tbl_find key k' (tbl_delete key k rows) = (if k' = k then None else tbl_find key k' rows)"
  by (induction rows) (auto simp: tbl_find_def tbl_delete_def)

lemma tbl_find_replace:
  "tbl_find key k' (tbl_replace key r rows) = (if k' = key r then Some r else tbl_find key k' rows)"
  by (auto simp: tbl_replace_def tbl_find_append tbl_find_delete) (simp_all add: tbl_find_def split: option.splits)

lemma tbl_find_update:
  assumes "\<And>r. key (f r) = key r"
  shows "tbl_find key k' (tbl_update key k f rows) =
    (if k' = k then map_option f (tbl_find key k rows) else tbl_find key k' rows)"
  by (induction rows) (auto simp: tbl_find_def tbl_update_def assms)

lemma tbl_wf_delete: "tbl_wf key rows \<Longrightarrow> tbl_wf key (tbl_delete key k rows)"
  by (simp add: tbl_wf_def tbl_delete_def distinct_map_filter)

lemma tbl_wf_replace: "tbl_wf key rows \<Longrightarrow> tbl_wf key (tbl_replace key r rows)"
  using tbl_wf_delete [of key rows "key r"]
  by (auto simp: tbl_replace_def tbl_wf_def) (auto simp: tbl_delete_def)

lemma map_key_update: "(\<And>r. key (f r) = key r) \<Longrightarrow> map key (tbl_update key k f rows) = map key rows"
  by (induction rows) (auto simp: tbl_update_def)

lemma tbl_wf_update: "(\<And>r. key (f r) = key r) \<Longrightarrow> tbl_wf key rows \<Longrightarrow> tbl_wf key (tbl_update key k f rows)"
  by (simp add: tbl_wf_def map_key_update)

lemma set_tbl_delete: "set (tbl_delete key k rows) = {r \<in> set rows. key r \<noteq> k}"
  by (auto simp: tbl_delete_def)

lemma set_tbl_replace: "set (tbl_replace key r rows) = insert r {r' \<in> set rows. key r' \<noteq> key r}"
  by (auto simp: tbl_replace_def tbl_delete_def)

lemma set_tbl_update:
  "set (tbl_update key k f rows) = (\<lambda>r. if key r = k then f r else r) ` set rows"
  by (auto simp: tbl_update_def)

lemmas set_tbl = set_tbl_delete set_tbl_replace set_tbl_update

lemma keyed_table_list:
  "keyed_table key (tbl_find key) (tbl_delete key) (tbl_replace key) (tbl_update key) (tbl_wf key)"
  by unfold_locales
    (auto dest: tbl_find_Some
      simp: tbl_find_delete tbl_find_replace tbl_find_update
        tbl_wf_delete tbl_wf_replace tbl_wf_update)

end
