(* ===== verification/Tasks.thy ===== *)
theory Tasks
  imports Prelude
begin

text \<open>
  The asynchronous functions of the coordinator as resumptions: a task is a sequence of
  atomic actions on the shared state (one SQL statement, one call of the wallet, one access
  to the mempool state), between which the tokio scheduler may run other tasks. \<open>run\<close>
  executes a task alone, from start to end; the theory on interleavings executes several.
\<close>

section \<open>Tasks\<close>

datatype ('s, 'a) task = Done 'a | Step "'s \<Rightarrow> ('s, 'a) task \<times> 's"

text \<open>An \<open>async fn\<close> that returns \<open>Result<'a, 'e>\<close>.\<close>

type_synonym ('s, 'a, 'e) async = "('s, ('a, 'e) res) task"

primrec chain :: "('s, 'a) task \<Rightarrow> ('a \<Rightarrow> ('s, 'b) task) \<Rightarrow> ('s, 'b) task" where
  "chain (Done a) f = f a"
| "chain (Step g) f = Step (\<lambda>s. map_prod (\<lambda>t. chain t f) id (g s))"

primrec run :: "('s, 'a) task \<Rightarrow> 's \<Rightarrow> 'a \<times> 's" where
  "run (Done a) s = (a, s)"
| "run (Step g) s = (\<lambda>(r, s'). r s') (map_prod run id (g s))"

text \<open>\<open>atomic\<close> is one action; \<open>.await?\<close> is \<open>andThen\<close>: it returns early on an error.\<close>

definition atomic :: "('s \<Rightarrow> ('a, 'e) res \<times> 's) \<Rightarrow> ('s, 'a, 'e) async" where
  "atomic g = Step (\<lambda>s. map_prod Done id (g s))"

definition lift_res :: "('a, 'e) res \<Rightarrow> ('s, 'a, 'e) async" where
  "lift_res r = Done r"

definition ret :: "'a \<Rightarrow> ('s, 'a, 'e) async" where
  "ret a = Done (Ok a)"

definition fail :: "'e \<Rightarrow> ('s, 'a, 'e) async" where
  "fail e = Done (Err e)"

definition andThen :: "('s, 'a, 'e) async \<Rightarrow> ('a \<Rightarrow> ('s, 'b, 'e) async) \<Rightarrow> ('s, 'b, 'e) async" where
  "andThen m f = chain m (\<lambda>r. case r of Ok a \<Rightarrow> f a | Err e \<Rightarrow> Done (Err e) | Panic \<Rightarrow> Done Panic)"

text \<open>\<open>match m.await { Ok(a) => f a, Err(e) => h e }\<close>; a panic ends the task.\<close>

definition onResult ::
  "('s, 'a, 'e) async \<Rightarrow> ('a \<Rightarrow> ('s, 'b, 'f) async) \<Rightarrow> ('e \<Rightarrow> ('s, 'b, 'f) async) \<Rightarrow> ('s, 'b, 'f) async"
where
  "onResult m f h = chain m (\<lambda>r. case r of Ok a \<Rightarrow> f a | Err e \<Rightarrow> h e | Panic \<Rightarrow> Done Panic)"

text \<open>\<open>.map_err(g)\<close>\<close>

definition mapErr :: "('e \<Rightarrow> 'f) \<Rightarrow> ('s, 'a, 'e) async \<Rightarrow> ('s, 'a, 'f) async" where
  "mapErr g m = chain m (\<lambda>r. Done (map_err_res g r))"

text \<open>\<open>for x in xs { body x }\<close> with early return on an error.\<close>

fun for_each :: "('x \<Rightarrow> ('s, unit, 'e) async) \<Rightarrow> 'x list \<Rightarrow> ('s, unit, 'e) async" where
  "for_each body [] = ret ()"
| "for_each body (x # xs) = andThen (body x) (\<lambda>_. for_each body xs)"

section \<open>Running a task alone\<close>

lemma run_chain [run_simps]: "run (chain m f) s = (case run m s of (a, s') \<Rightarrow> run (f a) s')"
proof (induction m arbitrary: s)
  case (Done a)
  then show ?case by simp
next
  case (Step g)
  have "fst (g s) \<in> Basic_BNFs.fsts (g s)" by (cases "g s") simp
  from Step [OF rangeI this] show ?case by (cases "g s") simp
qed

lemma run_atomic [run_simps]: "run (atomic g) s = g s"
  by (cases "g s") (simp add: atomic_def)

lemma run_lift_res [run_simps]: "run (lift_res r) s = (r, s)"
  by (simp add: lift_res_def)

lemma run_ret [run_simps]: "run (ret a) s = (Ok a, s)"
  by (simp add: ret_def)

lemma run_fail [run_simps]: "run (fail e) s = (Err e, s)"
  by (simp add: fail_def)

lemma run_andThen [run_simps]:
  "run (andThen m f) s =
     (case run m s of (Ok a, s') \<Rightarrow> run (f a) s' | (Err e, s') \<Rightarrow> (Err e, s') | (Panic, s') \<Rightarrow> (Panic, s'))"
  by (auto simp: andThen_def run_chain split: prod.splits res.splits)

lemma run_onResult [run_simps]:
  "run (onResult m f h) s =
     (case run m s of (Ok a, s') \<Rightarrow> run (f a) s' | (Err e, s') \<Rightarrow> run (h e) s' | (Panic, s') \<Rightarrow> (Panic, s'))"
  by (auto simp: onResult_def run_chain split: prod.splits res.splits)

lemma run_mapErr [run_simps]:
  "run (mapErr g m) s = (case run m s of (r, s') \<Rightarrow> (map_err_res g r, s'))"
  by (auto simp: mapErr_def run_chain split: prod.splits)

lemma run_if [run_simps]: "run (if b then p else q) s = (if b then run p s else run q s)"
  by simp

text \<open>The task ends normally with \<open>a\<close> in \<open>s'\<close>.\<close>

lemma run_andThen_Ok:
  "run (andThen m f) s = (Ok b, s'') \<longleftrightarrow> (\<exists>a s'. run m s = (Ok a, s') \<and> run (f a) s' = (Ok b, s''))"
  by (auto simp: run_andThen split: prod.splits res.splits)

lemma run_is_ok: "is_ok (fst (run m s)) \<Longrightarrow> \<exists>a s'. run m s = (Ok a, s')"
  by (cases "run m s") (auto elim: is_ok.elims)

section \<open>What the actions of a task do\<close>

text \<open>
  \<open>within R m\<close>: every single action of the task changes the state by a step of \<open>R\<close>, in whatever
  state it finds it; so the steps stay within \<open>R\<close> when other tasks run between them.
\<close>

inductive within :: "('s \<Rightarrow> 's \<Rightarrow> bool) \<Rightarrow> ('s, 'a) task \<Rightarrow> bool" for R :: "'s \<Rightarrow> 's \<Rightarrow> bool" where
  within_Done: "within R (Done a)"
| within_Step: "(\<And>s. R s (snd (g s)) \<and> within R (fst (g s))) \<Longrightarrow> within R (Step g)"

inductive_cases within_StepE: "within R (Step g)"

lemma within_run: "within R m \<Longrightarrow> R\<^sup>*\<^sup>* s (snd (run m s))"
proof (induction m arbitrary: s rule: within.induct)
  case (within_Done a)
  then show ?case by simp
next
  case (within_Step g)
  obtain t s' where g: "g s = (t, s')" by (cases "g s")
  have "R s (snd (g s))" "\<And>s. R\<^sup>*\<^sup>* s (snd (run (fst (g s)) s))" for s
    using within_Step by blast+
  have "R s s'" "R\<^sup>*\<^sup>* s' (snd (run t s'))"
    using within_Step [of s] g by auto
  then have "R\<^sup>*\<^sup>* s (snd (run t s'))" by (rule converse_rtranclp_into_rtranclp)
  then show ?case by (simp add: g)
qed

lemma within_chain: "within R m \<Longrightarrow> (\<And>a. within R (f a)) \<Longrightarrow> within R (chain m f)"
proof (induction m rule: within.induct)
  case (within_Done a)
  then show ?case by simp
next
  case (within_Step g)
  then show ?case by (auto intro!: within.within_Step)
qed

lemma within_mono: "within R m \<Longrightarrow> (\<And>s s'. R s s' \<Longrightarrow> Q s s') \<Longrightarrow> within Q m"
  by (induction m rule: within.induct) (auto intro: within.intros)

lemma within_atomic [pres_intro]: "(\<And>s. R s (snd (g s))) \<Longrightarrow> within R (atomic g)"
  by (auto simp: atomic_def intro!: within_Step within_Done)

lemma within_lift_res [pres_intro]: "within R (lift_res r)"
  by (simp add: lift_res_def within_Done)

lemma within_ret [pres_intro]: "within R (ret a)"
  by (simp add: ret_def within_Done)

lemma within_fail [pres_intro]: "within R (fail e)"
  by (simp add: fail_def within_Done)

lemma within_andThen [pres_intro]:
  "within R m \<Longrightarrow> (\<And>a. within R (f a)) \<Longrightarrow> within R (andThen m f)"
  by (auto simp: andThen_def intro!: within_chain within_Done split: res.splits)

lemma within_onResult [pres_intro]:
  "within R m \<Longrightarrow> (\<And>a. within R (f a)) \<Longrightarrow> (\<And>e. within R (h e)) \<Longrightarrow> within R (onResult m f h)"
  by (auto simp: onResult_def intro!: within_chain within_Done split: res.splits)

lemma within_mapErr [pres_intro]: "within R m \<Longrightarrow> within R (mapErr g m)"
  by (auto simp: mapErr_def intro!: within_chain within_Done)

lemma within_for_each [pres_intro]:
  "(\<And>x. within R (body x)) \<Longrightarrow> within R (for_each body xs)"
  by (induction xs) (auto intro!: pres_intro)

lemma within_if [pres_intro]:
  "(b \<Longrightarrow> within R p) \<Longrightarrow> (\<not> b \<Longrightarrow> within R q) \<Longrightarrow> within R (if b then p else q)"
  by simp

lemma within_case_option [pres_intro]:
  "(x = None \<Longrightarrow> within R p) \<Longrightarrow> (\<And>a. x = Some a \<Longrightarrow> within R (q a)) \<Longrightarrow>
     within R (case x of None \<Rightarrow> p | Some a \<Rightarrow> q a)"
  by (cases x) auto

lemma within_case_prod [pres_intro]:
  "(\<And>a b. x = (a, b) \<Longrightarrow> within R (f a b)) \<Longrightarrow> within R (case x of (a, b) \<Rightarrow> f a b)"
  by (cases x) auto

lemma within_Let [pres_intro]: "(\<And>x. x = v \<Longrightarrow> within R (f x)) \<Longrightarrow> within R (let x = v in f x)"
  by simp

text \<open>A task that leaves the part \<open>p\<close> of the state as it is.\<close>

abbreviation frames :: "('s \<Rightarrow> 'p) \<Rightarrow> ('s, 'a) task \<Rightarrow> bool" where
  "frames p m \<equiv> within (\<lambda>s s'. p s' = p s) m"

lemma rtranclp_keeps: "R\<^sup>*\<^sup>* s s' \<Longrightarrow> (\<And>s s'. R s s' \<Longrightarrow> I s \<Longrightarrow> I s') \<Longrightarrow> I s \<Longrightarrow> I s'"
  by (induction rule: rtranclp_induct) auto

lemma framesD: "frames p m \<Longrightarrow> run m s = (r, s') \<Longrightarrow> p s' = p s"
  using rtranclp_keeps [OF within_run [of "\<lambda>s s'. p s' = p s" m s], of "\<lambda>x. p x = p s"] by simp

section \<open>Pre- and postconditions\<close>

text \<open>
  \<open>triple P m Q X\<close>: a task run alone from a state in \<open>P\<close> either ends with a value and a state
  in \<open>Q\<close>, or with an error or a panic in a state in \<open>X\<close>.
\<close>

fun post :: "('a \<Rightarrow> 's \<Rightarrow> bool) \<Rightarrow> ('s \<Rightarrow> bool) \<Rightarrow> ('a, 'e) res \<times> 's \<Rightarrow> bool" where
  "post Q X (Ok a, s) = Q a s"
| "post Q X (Err e, s) = X s"
| "post Q X (Panic, s) = X s"

definition triple ::
  "('s \<Rightarrow> bool) \<Rightarrow> ('s, 'a, 'e) async \<Rightarrow> ('a \<Rightarrow> 's \<Rightarrow> bool) \<Rightarrow> ('s \<Rightarrow> bool) \<Rightarrow> bool"
where
  "triple P m Q X \<longleftrightarrow> (\<forall>s. P s \<longrightarrow> post Q X (run m s))"

abbreviation keeps :: "('s \<Rightarrow> bool) \<Rightarrow> ('s, 'a, 'e) async \<Rightarrow> bool" where
  "keeps I m \<equiv> triple I m (\<lambda>_. I) I"

named_theorems triples \<open>rules for pre- and postconditions\<close>

lemma post_const: "post (\<lambda>_. I) I rs = I (snd rs)"
  by (induction "\<lambda>a::'a. I" I rs rule: post.induct) simp_all

lemma post_mono:
  "post Q X rs \<Longrightarrow> (\<And>a s. Q a s \<Longrightarrow> Q' a s) \<Longrightarrow> (\<And>s. X s \<Longrightarrow> X' s) \<Longrightarrow> post Q' X' rs"
  by (induction Q X rs rule: post.induct) simp_all

lemma tripleI: "(\<And>s. P s \<Longrightarrow> post Q X (run m s)) \<Longrightarrow> triple P m Q X"
  by (simp add: triple_def)

lemma tripleD: "triple P m Q X \<Longrightarrow> P s \<Longrightarrow> post Q X (run m s)"
  by (simp add: triple_def)

lemma keepsD: "keeps I m \<Longrightarrow> I s \<Longrightarrow> I (snd (run m s))"
  using tripleD [of I m "\<lambda>_. I" I s] by (simp add: post_const)

lemma triple_onResult [triples]:
  assumes "triple P m R X" and "\<And>a. triple (R a) (f a) Q Y" and "\<And>e. triple X (h e) Q Y"
    and "\<And>s. X s \<Longrightarrow> Y s"
  shows "triple P (onResult m f h) Q Y"
proof (rule tripleI)
  fix s assume "P s"
  then have post: "post R X (run m s)" using assms(1) by (rule tripleD [rotated])
  obtain r s' where rs: "run m s = (r, s')" by (cases "run m s")
  show "post Q Y (run (onResult m f h) s)"
    using post assms(4) tripleD [OF assms(2)] tripleD [OF assms(3)]
    by (cases r) (simp_all add: run_onResult rs)
qed

lemma andThen_onResult: "andThen m f = onResult m f fail"
  unfolding andThen_def onResult_def fail_def ..

lemma triple_fail [triples]: "(\<And>s. P s \<Longrightarrow> X s) \<Longrightarrow> triple P (fail e) Q X"
  by (simp add: triple_def run_fail)

lemma triple_andThen [triples]:
  "triple P m R X \<Longrightarrow> (\<And>a. triple (R a) (f a) Q X) \<Longrightarrow> triple P (andThen m f) Q X"
  unfolding andThen_onResult by (rule triple_onResult) (auto intro: triple_fail)

lemma triple_mapErr [triples]:
  assumes "triple P m Q X"
  shows "triple P (mapErr g m) Q X"
proof (rule tripleI)
  fix s assume "P s"
  then have post: "post Q X (run m s)" using assms by (rule tripleD [rotated])
  obtain r s' where rs: "run m s = (r, s')" by (cases "run m s")
  show "post Q X (run (mapErr g m) s)"
    using post by (cases r) (simp_all add: run_mapErr rs)
qed

lemma triple_ret [triples]: "(\<And>s. P s \<Longrightarrow> Q a s) \<Longrightarrow> triple P (ret a) Q X"
  by (simp add: triple_def run_ret)

lemma triple_lift_res [triples]:
  "(\<And>s a. P s \<Longrightarrow> r = Ok a \<Longrightarrow> Q a s) \<Longrightarrow> (\<And>s. P s \<Longrightarrow> X s) \<Longrightarrow> triple P (lift_res r) Q X"
  by (cases r) (simp_all add: triple_def run_lift_res)

lemma triple_if [triples]:
  "(b \<Longrightarrow> triple P p Q X) \<Longrightarrow> (\<not> b \<Longrightarrow> triple P q Q X) \<Longrightarrow> triple P (if b then p else q) Q X"
  by simp

lemma triple_case_option [triples]:
  "(x = None \<Longrightarrow> triple P p Q X) \<Longrightarrow> (\<And>a. x = Some a \<Longrightarrow> triple P (q a) Q X) \<Longrightarrow>
     triple P (case x of None \<Rightarrow> p | Some a \<Rightarrow> q a) Q X"
  by (cases x) auto

lemma triple_Let [triples]: "(\<And>x. x = v \<Longrightarrow> triple P (f x) Q X) \<Longrightarrow> triple P (let x = v in f x) Q X"
  by simp

lemma triple_weaken:
  "triple P m Q X \<Longrightarrow> (\<And>s. P' s \<Longrightarrow> P s) \<Longrightarrow> (\<And>a s. Q a s \<Longrightarrow> Q' a s) \<Longrightarrow> (\<And>s. X s \<Longrightarrow> X' s) \<Longrightarrow>
     triple P' m Q' X'"
  unfolding triple_def using post_mono [of Q X _ Q' X'] by blast

lemma triple_for_each [triples]: "(\<And>x. keeps I (body x)) \<Longrightarrow> keeps I (for_each body xs)"
  by (induction xs) (auto intro!: triples)

named_theorems keeps_intro \<open>rules for invariants of tasks run alone\<close>

lemma keeps_andThen [keeps_intro]: "keeps I m \<Longrightarrow> (\<And>a. keeps I (f a)) \<Longrightarrow> keeps I (andThen m f)"
  by (rule triple_andThen)

lemma keeps_onResult [keeps_intro]:
  "keeps I m \<Longrightarrow> (\<And>a. keeps I (f a)) \<Longrightarrow> (\<And>e. keeps I (h e)) \<Longrightarrow> keeps I (onResult m f h)"
  by (rule triple_onResult)

lemma keeps_ret [keeps_intro]: "keeps I (ret a)"
  by (rule triple_ret)

lemma keeps_fail [keeps_intro]: "keeps I (fail e)"
  by (rule triple_fail)

lemma keeps_lift_res [keeps_intro]: "keeps I (lift_res r)"
  by (rule triple_lift_res)

lemmas keeps_structure [keeps_intro] =
  triple_mapErr triple_if triple_case_option triple_Let triple_for_each

text \<open>What every action keeps, the whole task keeps.\<close>

lemma within_keeps:
  assumes "within R m" and "\<And>s s'. R s s' \<Longrightarrow> I s \<Longrightarrow> I s'"
  shows "keeps I m"
  by (rule tripleI) (auto simp: post_const intro: rtranclp_keeps [OF within_run [OF assms(1)] assms(2)])

end
