(* ===== verification/Api.thy ===== *)
theory Api
  imports Prelude
begin

text \<open>
  The messages of the coordinator's HTTP API (\<open>communication/api.rs\<close>), the error types of its
  handlers (\<open>communication/handler_errors.rs\<close>) and the plain data types that its components
  pass to each other. One record per struct, with the struct's field names behind a short
  prefix (record fields share one name space in HOL).
\<close>

section \<open>Requests and responses\<close>

record OfferRequest =
  or_robohash_hex :: string
  or_amount_satoshi :: u64
  or_is_buy_order :: bool
  or_bond_ratio :: u8
  or_offer_duration_ts :: u64

record BondRequirementResponse =
  brr_bond_address :: string
  brr_locking_amount_sat :: u64
  brr_escrow_locking_input_amount_without_trade_sum :: u64

record BondSubmissionRequest =
  bsr_robohash_hex :: string
  bsr_signed_bond_hex :: string
  bsr_payout_address :: string
  bsr_taproot_pubkey_hex :: string
  bsr_musig_pub_nonce_hex :: string
  bsr_musig_pubkey_hex :: string
  bsr_bdk_psbt_inputs_hex_csv :: string
  bsr_client_change_address :: string

record OfferActivatedResponse =
  oar_offer_id_hex :: string
  oar_bond_locked_until_timestamp :: u64

record OffersRequest =
  ofr_buy_offers :: bool
  ofr_amount_min_sat :: u64
  ofr_amount_max_sat :: u64

record PublicOffer =
  po_amount_sat :: u64
  po_offer_id_hex :: string
  po_bond_requirements :: BondRequirementResponse

record PublicOffers =
  pos_offers :: "PublicOffer list option"

record OfferTakenResponse =
  otp_escrow_psbt_hex :: string
  otp_escrow_output_descriptor :: string
  otp_escrow_amount_maker_sat :: u64
  otp_escrow_amount_taker_sat :: u64
  otp_escrow_fee_sat_per_participant :: u64

record OfferPsbtRequest =
  opr_offer :: PublicOffer
  opr_trade_data :: BondSubmissionRequest

record OfferTakenRequest =
  otr_robohash_hex :: string
  otr_offer_id_hex :: string

record PsbtSubmissionRequest =
  psr_signed_psbt_hex :: string
  psr_offer_id_hex :: string
  psr_robohash_hex :: string

record PayoutResponse =
  pr_payout_psbt_hex :: string
  pr_agg_musig_nonce_hex :: string
  pr_agg_musig_pubkey_ctx_hex :: string

record TradeObligationsUnsatisfied =
  tou_robohash_hex :: string
  tou_offer_id_hex :: string

record PayoutSignatureRequest =
  pgr_partial_sig_hex :: string
  pgr_offer_id_hex :: string
  pgr_robohash_hex :: string

section \<open>Errors of the handlers\<close>

text \<open>Where the source carries the error's message (\<open>e.to_string()\<close>) the model carries the error.\<close>

datatype BondError =
    InvalidBond anyhow
  | BondNotFound
  | BondCoordinatorError anyhow

datatype FetchOffersError =
    NoOffersAvailable
  | OffersDatabase anyhow

datatype FetchEscrowConfirmationError =
    ConfirmationNotFound
  | ConfirmationDatabase anyhow

datatype RequestError =
    Database anyhow
  | NotConfirmed
  | CoordinatorError anyhow
  | NotFound
  | PsbtAlreadySubmitted
  | PsbtInvalid anyhow

section \<open>Data passed between the components\<close>

record BondRequirements =
  br_bond_address :: string
  br_locking_amount_sat :: u64
  br_min_input_sum_sat :: u64

record EscrowPsbt =
  ep_escrow_psbt_hex :: string
  ep_escrow_tx_txid :: string
  ep_escrow_output_descriptor :: string
  ep_coordinator_xonly_escrow_pk :: string
  ep_escrow_amount_maker_sat :: u64
  ep_escrow_amount_taker_sat :: u64
  ep_escrow_fee_sat_per_participant :: u64

record AwaitingBondOffer =
  abo_robohash_hex :: string
  abo_is_buy_order :: bool
  abo_amount_satoshi :: u64
  abo_bond_ratio :: u8
  abo_offer_duration_ts :: u64
  abo_bond_address :: string
  abo_bond_amount_sat :: u64
  abo_escrow_locking_input_amount_without_trade_sum :: u64

record AwaitingTakerOffer =
  ato_offer_id :: string
  ato_robohash_maker :: bytes
  ato_is_buy_order :: bool
  ato_amount_sat :: i64
  ato_bond_ratio :: i32
  ato_offer_duration_ts :: i64
  ato_bond_address_maker :: string
  ato_bond_amount_sat :: i64
  ato_bond_tx_hex_maker :: string
  ato_payout_address_maker :: string
  ato_taproot_pubkey_hex_maker :: string
  ato_musig_pub_nonce_hex_maker :: string
  ato_musig_pubkey_hex_maker :: string

record TraderHappiness =
  th_maker_happy :: "bool option"
  th_taker_happy :: "bool option"
  th_escrow_ongoing :: bool

datatype BondTable = Orderbook | ActiveTrades | Memory

record MonitoringBond =
  mb_bond_tx_hex :: string
  mb_trade_id_hex :: string
  mb_robot :: bytes
  mb_requirements :: BondRequirements
  mb_table :: BondTable

record EscrowCase =
  ec_maker_id :: string
  ec_taker_id :: string
  ec_offer_id :: string

datatype EscrowWinner = EscrowMaker | EscrowTaker

datatype PayoutProcessingResult =
    ReadyPSBT PayoutResponse
  | NotReady
  | LostEscrow
  | DecidingEscrow

end
