(* ===== verification/Float64.thy ===== *)
theory Float64
  imports Prelude
begin

text \<open>
  The f64 arithmetic the fee computations use: non-negative finite numbers \<open>m * 2 powi e\<close>
  with at most 53 significant bits, rounded to nearest with ties to even as IEEE 754 and Rust
  prescribe. Not a number, infinities, negative numbers, overflow and subnormal numbers are
  outside: the operands are amounts below 2 ^ 64 and a fee rate in percent.
\<close>

section \<open>Numbers\<close>

type_synonym f64 = "int \<times> int"

function bit_length :: "int \<Rightarrow> int" where
  "bit_length n = (if n \<le> 0 then 0 else 1 + bit_length (n div 2))"
  by pat_completeness auto
termination
  by (relation "measure nat") auto

declare bit_length.simps [simp del]

text \<open>\<open>p / q\<close> to the nearest integer, ties to even.\<close>

definition div_half_even :: "int \<Rightarrow> int \<Rightarrow> int" where
  "div_half_even p q =
     (let d = p div q; r = p mod q
      in if 2 * r < q then d
         else if q < 2 * r then d + 1
         else if even d then d else d + 1)"

text \<open>
  The f64 nearest to \<open>p / q\<close> (\<open>0 < q\<close>): scale the quotient so that its integer part has 53
  bits (or 54, then once more), round it, and keep the scale as the exponent.
\<close>

definition scaled :: "int \<Rightarrow> int \<Rightarrow> int \<Rightarrow> int \<times> int" where
  "scaled p q e = (if 0 \<le> e then (p, q * 2 ^ nat e) else (p * 2 ^ nat (- e), q))"

definition round_f64 :: "int \<Rightarrow> int \<Rightarrow> f64" where
  "round_f64 p q =
     (if p = 0 then (0, 0)
      else let e0 = bit_length p - bit_length q - 53;
               (p0, q0) = scaled p q e0;
               e = (if 2 ^ 53 \<le> p0 div q0 then e0 + 1 else e0);
               (p1, q1) = scaled p q e
           in (div_half_even p1 q1, e))"

definition f64_of_u64 :: "u64 \<Rightarrow> f64" where
  "f64_of_u64 n = round_f64 (uint n) 1"

definition f64_mul :: "f64 \<Rightarrow> f64 \<Rightarrow> f64" where
  "f64_mul a b = (case round_f64 (fst a * fst b) 1 of (m, e) \<Rightarrow> (m, e + snd a + snd b))"

definition f64_div :: "f64 \<Rightarrow> f64 \<Rightarrow> f64" where
  "f64_div a b = (case round_f64 (fst a) (fst b) of (m, e) \<Rightarrow> (m, e + snd a - snd b))"

text \<open>\<open>as u64\<close>: towards zero, saturating.\<close>

definition f64_trunc :: "f64 \<Rightarrow> int" where
  "f64_trunc a = (if 0 \<le> snd a then fst a * 2 ^ nat (snd a) else fst a div 2 ^ nat (- snd a))"

definition f64_to_u64 :: "f64 \<Rightarrow> u64" where
  "f64_to_u64 a = (if 2 ^ 64 \<le> f64_trunc a then -1 else of_int (f64_trunc a))"

definition f64_100 :: f64 where
  "f64_100 = (100, 0)"

section \<open>The two fee formulas\<close>

text \<open>
  The service fee is computed twice: as \<open>((feerate * amount as f64) / 100.0) as u64\<close> when an
  order is processed, and as \<open>(amount as f64 * (feerate / 100.0)) as u64\<close> for the escrow.
\<close>

definition order_fee :: "f64 \<Rightarrow> u64 \<Rightarrow> u64" where
  "order_fee feerate amount = f64_to_u64 (f64_div (f64_mul feerate (f64_of_u64 amount)) f64_100)"

definition escrow_fee :: "f64 \<Rightarrow> u64 \<Rightarrow> u64" where
  "escrow_fee feerate amount = f64_to_u64 (f64_mul (f64_of_u64 amount) (f64_div feerate f64_100))"

end
