(* ===== verification/Externals.thy ===== *)
theory Externals
  imports Api Float64
begin

text \<open>
  Everything the coordinator calls that is not in the repository, as one record of
  parameters: the driver's reading of NULL columns, the hex, bitcoin, bdk, miniscript and
  musig2 libraries, the node's RPC interface, the clock, the random numbers and the
  configuration. The definitions of the model take it as an argument \<open>E\<close>; the theorems hold
  for every such record, but for the laws they name as hypotheses.
\<close>

section \<open>Bitcoin data\<close>

text \<open>The parts of rust-bitcoin's transactions that the code reads; \<open>tx_raw\<close> is the rest.\<close>

record OutPoint =
  op_txid :: string
  op_vout :: nat

record TxOut =
  txo_value :: u64
  txo_script_pubkey :: bytes

record Transaction =
  tx_raw :: bytes
  tx_input :: "OutPoint list"
  tx_output :: "TxOut list"

record PsbtInput =
  pi_witness_utxo :: "TxOut option"
  pi_utxo :: OutPoint
  pi_rest :: bytes

record MempoolAcceptResult =
  mar_txid :: string
  mar_allowed :: bool
  mar_reject_reason :: "string option"

text \<open>What the code tells bdk's transaction builder.\<close>

record TxPlan =
  tp_manually_selected_only :: bool
  tp_recipients :: "(bytes \<times> u64) list"
  tp_fee_absolute :: u64
  tp_foreign_utxos :: "(OutPoint \<times> PsbtInput \<times> nat) list"

text \<open>An output descriptor: a taproot one with its tap tweak, or any other.\<close>

datatype Descriptor = Tr string bytes | OtherDescriptor string

datatype TapTree = Leaf string | Tree TapTree TapTree

text \<open>The answer to \<open>getrawtransaction\<close>: its confirmations, or the JSON-RPC error code.\<close>

datatype RpcTxInfo = TxInfo "nat option" | RpcErrorCode int | OtherRpcError

section \<open>The environment\<close>

record env =
  overflow_checks :: bool
  \<comment> \<open>sqlx: what reading a NULL column as a non-optional type yields (\<open>None\<close>: a decode error),
     and the conversion of an INTEGER to u64\<close>
  null_as_bool :: "bool option"
  null_as_i32 :: "i32 option"
  null_as_i64 :: "i64 option"
  null_as_text :: "string option"
  i64_as_u64 :: "i64 \<Rightarrow> u64 option"
  \<comment> \<open>hex, rand, the system clock, sha2\<close>
  hex_decode :: "string \<Rightarrow> bytes option"
  hex_encode :: "bytes \<Rightarrow> string"
  random_bytes :: "nat \<Rightarrow> bytes"
  unix_now :: "u64 option"
  sha256_digest :: "bytes \<Rightarrow> bytes"
  \<comment> \<open>std's \<open>HashMap\<close>: the place of a key in the order of iteration, which is random\<close>
  hash_rank :: "bytes \<Rightarrow> nat"
  \<comment> \<open>configuration read from the environment variables\<close>
  coordinator_feerate :: f64
  punishment_enabled :: "string option"
  \<comment> \<open>the bdk wallet: the address and the taproot key at a derivation index\<close>
  address_at :: "nat \<Rightarrow> (string, anyhow) res"
  xonly_pk_at :: "nat \<Rightarrow> (string, anyhow) res"
  wallet_raw_tx :: "string \<Rightarrow> (Transaction option, anyhow) res"
  build_tx :: "TxPlan \<Rightarrow> (bytes \<times> string, anyhow) res"
  escrow_unspent :: "string \<Rightarrow> ((OutPoint \<times> PsbtInput) list, anyhow) res"
  \<comment> \<open>rust-bitcoin\<close>
  tx_deserialize :: "bytes \<Rightarrow> (Transaction, anyhow) res"
  tx_txid :: "Transaction \<Rightarrow> string"
  tx_vsize :: "Transaction \<Rightarrow> u64"
  verify_tx :: "Transaction \<Rightarrow> (unit, anyhow) res"
  regtest_script :: "string \<Rightarrow> (bytes, anyhow) res"
  unchecked_script :: "string \<Rightarrow> (bytes, anyhow) res"
  psbt_input_deserialize :: "bytes \<Rightarrow> (PsbtInput, anyhow) res"
  psbt_deserialize :: "bytes \<Rightarrow> (bytes, anyhow) res"
  psbt_combine :: "bytes \<Rightarrow> bytes \<Rightarrow> (bytes, anyhow) res"
  psbt_finalize :: "bytes \<Rightarrow> (bool \<times> Transaction, anyhow) res"
  psbt_to_string :: "bytes \<Rightarrow> string"
  psbt_serialize_hex :: "bytes \<Rightarrow> string"
  keyspend_sighash :: "bytes \<Rightarrow> (bytes, anyhow) res"
  insert_keyspend_witness :: "bytes \<Rightarrow> bytes \<Rightarrow> (Transaction, anyhow) res"
  \<comment> \<open>miniscript\<close>
  parse_descriptor :: "string \<Rightarrow> (Descriptor, anyhow) res"
  parse_policy :: "string \<Rightarrow> (string, anyhow) res"
  compile_policy :: "string \<Rightarrow> (string, anyhow) res"
  new_tr :: "bytes \<Rightarrow> TapTree \<Rightarrow> (string, anyhow) res"
  descriptor_script :: "string \<Rightarrow> (bytes, anyhow) res"
  \<comment> \<open>musig2\<close>
  musig_pubkey_parse :: "string \<Rightarrow> (bytes, anyhow) res"
  musig_scalar :: "bytes \<Rightarrow> (bytes, anyhow) res"
  key_agg_new :: "bytes list \<Rightarrow> (bytes, anyhow) res"
  key_agg_with_tweak :: "bytes \<Rightarrow> bytes \<Rightarrow> (bytes, anyhow) res"
  key_agg_internal_key :: "bytes \<Rightarrow> (bytes, anyhow) res"
  pub_nonce_parse :: "string \<Rightarrow> (bytes, anyhow) res"
  agg_nonce_sum :: "bytes list \<Rightarrow> bytes"
  agg_nonce_string :: "bytes \<Rightarrow> string"
  partial_sig_parse :: "string \<Rightarrow> (bytes, anyhow) res"
  aggregate_partial_signatures :: "bytes \<Rightarrow> bytes \<Rightarrow> bytes list \<Rightarrow> bytes \<Rightarrow> (bytes, anyhow) res"
  \<comment> \<open>the node: chain access, fee estimate, broadcast, mempool\<close>
  chain_tx :: "string \<Rightarrow> (Transaction option, anyhow) res"
  broadcast_accepted :: "Transaction \<Rightarrow> (unit, anyhow) res"
  estimate_fee_vb :: "nat \<Rightarrow> u64 option"
  fallback_fee_vb :: "nat \<Rightarrow> u64"
  rpc_test_mempool_accept :: "string list \<Rightarrow> (MempoolAcceptResult list, anyhow) res"
  rpc_raw_mempool :: "(string list, anyhow) res"
  rpc_raw_transaction :: "string \<Rightarrow> (Transaction, anyhow) res"
  txid_parse :: "string \<Rightarrow> (unit, anyhow) res"
  rpc_transaction_info :: "string \<Rightarrow> RpcTxInfo"

text \<open>
  The laws of the libraries that theorems refer to by name. \<open>sqlite_nulls\<close>: SQLite converts a
  NULL to 0 when it is read as an integer and to the empty text when it is read as a text.
  \<open>int_decoding\<close>: a non-negative INTEGER is read as the same u64. \<open>hex_laws\<close>: decoding what was
  encoded gives the bytes back.
\<close>

definition sqlite_nulls :: "env \<Rightarrow> bool" where
  "sqlite_nulls E \<longleftrightarrow> null_as_bool E = Some False \<and> null_as_i32 E = Some 0 \<and>
     null_as_i64 E = Some 0 \<and> null_as_text E = Some []"

definition int_decoding :: "env \<Rightarrow> bool" where
  "int_decoding E \<longleftrightarrow> (\<forall>x. 0 \<le> sint x \<longrightarrow> i64_as_u64 E x = Some x)"

definition hex_laws :: "env \<Rightarrow> bool" where
  "hex_laws E \<longleftrightarrow> (\<forall>b. hex_decode E (hex_encode E b) = Some b)"

end
