(* ===== verification/Tables.thy ===== *)
theory Tables
  imports Tasks Externals
begin

text \<open>
  The coordinator's shared state: the three SQLite tables of \<open>CoordinatorDB::init\<close>, the
  wallet's address index, the mempool state and the transactions handed to the network; and
  the meaning of the SQL statements as atomic actions on it.
\<close>

section \<open>Rows\<close>

text \<open>
  One record per table, in the column order of the CREATE TABLE statements. A column the code
  can leave NULL is an option; the nullable columns it always binds are not
  (\<open>escrow_psbt_is_confirmed\<close>, the escrow amounts, \<open>taker_bond_address\<close> and the like).
\<close>

record MakerRequestRow =
  mr_robohash :: bytes
  mr_is_buy_order :: "i64 option"
  mr_amount_sat :: i64
  mr_bond_ratio :: u8
  mr_offer_duration_ts :: i64
  mr_bond_address :: string
  mr_bond_amount_sat :: i64
  mr_escrow_locking_input_amount_without_trade_sum :: i64

record ActiveOfferRow =
  ao_offer_id :: string
  ao_robohash :: bytes
  ao_is_buy_order :: "i64 option"
  ao_amount_sat :: i64
  ao_bond_ratio :: i32
  ao_offer_duration_ts :: i64
  ao_bond_address :: string
  ao_bond_amount_sat :: i64
  ao_escrow_locking_input_amount_without_trade_sum :: i64
  ao_bond_tx_hex :: string
  ao_payout_address :: string
  ao_change_address_maker :: string
  ao_escrow_inputs_hex_maker_csv :: string
  ao_taproot_pubkey_hex_maker :: string
  ao_musig_pub_nonce_hex :: string
  ao_musig_pubkey_hex :: string
  ao_taker_bond_address :: string

record TakenOfferRow =
  to_offer_id :: string
  to_robohash_maker :: bytes
  to_robohash_taker :: bytes
  to_is_buy_order :: "i64 option"
  to_amount_sat :: i64
  to_bond_ratio :: i32
  to_offer_duration_ts :: i64
  to_bond_address_maker :: string
  to_bond_address_taker :: string
  to_bond_amount_sat :: i64
  to_bond_tx_hex_maker :: string
  to_bond_tx_hex_taker :: string
  to_payout_address_maker :: string
  to_taproot_xonly_pubkey_hex_maker :: string
  to_payout_address_taker :: string
  to_taproot_xonly_pubkey_hex_taker :: string
  to_musig_pub_nonce_hex_maker :: string
  to_musig_pubkey_compressed_hex_maker :: string
  to_musig_pub_nonce_hex_taker :: string
  to_musig_pubkey_compressed_hex_taker :: string
  to_musig_partial_sig_hex_maker :: "string option"
  to_musig_partial_sig_hex_taker :: "string option"
  to_escrow_psbt_hex :: string
  to_escrow_psbt_txid :: string
  to_signed_escrow_psbt_hex_maker :: "string option"
  to_signed_escrow_psbt_hex_taker :: "string option"
  to_escrow_psbt_is_confirmed :: i64
  to_maker_happy :: "i64 option"
  to_taker_happy :: "i64 option"
  to_escrow_ongoing :: i64
  to_escrow_winner_robohash :: "string option"
  to_escrow_taproot_pk_coordinator :: string
  to_escrow_amount_maker_sat :: i64
  to_escrow_amount_taker_sat :: i64
  to_escrow_fee_per_participant :: i64
  to_escrow_output_descriptor :: string
  to_payout_transaction_psbt_hex :: "string option"
  to_processing :: i64

section \<open>The state\<close>

text \<open>
  \<open>sql_faults\<close> tells which of the next statements the driver fails to execute (\<open>True\<close>: this
  one fails); the empty list is a database without failures.
\<close>

record coord =
  maker_requests :: "MakerRequestRow list"
  active_maker_offers :: "ActiveOfferRow list"
  taken_offers :: "TakenOfferRow list"
  sql_faults :: "bool list"
  wallet_index :: nat
  mempool_transactions :: "(string \<times> OutPoint list) list"
  mempool_utxo_set :: "OutPoint list"
  published :: "Transaction list"

text \<open>What \<open>CoordinatorDB::init\<close> leaves in a new database, a fresh wallet and mempool.\<close>

definition init_coord :: "bool list \<Rightarrow> coord" where
  "init_coord faults = \<lparr> maker_requests = [], active_maker_offers = [], taken_offers = [],
     sql_faults = faults, wallet_index = 0, mempool_transactions = [], mempool_utxo_set = [],
     published = [] \<rparr>"

lemma init_coord_simps [simp]:
  "maker_requests (init_coord fs) = []" "active_maker_offers (init_coord fs) = []"
  "taken_offers (init_coord fs) = []" "sql_faults (init_coord fs) = fs"
  "wallet_index (init_coord fs) = 0" "mempool_transactions (init_coord fs) = []"
  "mempool_utxo_set (init_coord fs) = []" "published (init_coord fs) = []"
  by (simp_all add: init_coord_def)

abbreviation find_request :: "bytes \<Rightarrow> coord \<Rightarrow> MakerRequestRow option" where
  "find_request h s \<equiv> tbl_find mr_robohash h (maker_requests s)"

abbreviation find_active :: "string \<Rightarrow> coord \<Rightarrow> ActiveOfferRow option" where
  "find_active i s \<equiv> tbl_find ao_offer_id i (active_maker_offers s)"

abbreviation find_taken :: "string \<Rightarrow> coord \<Rightarrow> TakenOfferRow option" where
  "find_taken i s \<equiv> tbl_find to_offer_id i (taken_offers s)"

interpretation requests: keyed_table mr_robohash "tbl_find mr_robohash" "tbl_delete mr_robohash"
    "tbl_replace mr_robohash" "tbl_update mr_robohash" "tbl_wf mr_robohash"
  by (rule keyed_table_list)

interpretation orderbook: keyed_table ao_offer_id "tbl_find ao_offer_id" "tbl_delete ao_offer_id"
    "tbl_replace ao_offer_id" "tbl_update ao_offer_id" "tbl_wf ao_offer_id"
  by (rule keyed_table_list)

interpretation trades: keyed_table to_offer_id "tbl_find to_offer_id" "tbl_delete to_offer_id"
    "tbl_replace to_offer_id" "tbl_update to_offer_id" "tbl_wf to_offer_id"
  by (rule keyed_table_list)

section \<open>Statements\<close>

text \<open>The same state, with the faults that one statement consumes gone.\<close>

definition sql_tick :: "coord \<Rightarrow> coord" where
  "sql_tick s = s\<lparr>sql_faults := tl (sql_faults s)\<rparr>"

definition sql_up :: "coord \<Rightarrow> bool" where
  "sql_up s \<longleftrightarrow> sql_faults s = [] \<or> \<not> hd (sql_faults s)"

text \<open>
  One SQL statement: it fails without an effect if the driver fails, otherwise it runs
  \<open>q\<close>. A query has a result and no effect; an \<open>execute\<close> has an effect.
\<close>

definition statement :: "(coord \<Rightarrow> ('a, anyhow) res \<times> coord) \<Rightarrow> (coord, 'a, anyhow) async" where
  "statement q =
     atomic (\<lambda>s. if sql_up s then q (sql_tick s) else (Err SqlFailed, sql_tick s))"

definition query :: "(coord \<Rightarrow> 'a) \<Rightarrow> (coord, 'a, anyhow) async" where
  "query f = statement (\<lambda>s. (Ok (f s), s))"

definition execute :: "(coord \<Rightarrow> coord) \<Rightarrow> (coord, unit, anyhow) async" where
  "execute f = statement (\<lambda>s. (Ok (), f s))"

text \<open>\<open>fetch_one\<close>: the row, or \<open>RowNotFound\<close>.\<close>

definition fetch_one :: "(coord \<Rightarrow> 'r option) \<Rightarrow> (coord, 'r, anyhow) async" where
  "fetch_one f = statement (\<lambda>s. (ok_or RowNotFound (f s), s))"

lemma sql_tick_simps [simp]:
  "maker_requests (sql_tick s) = maker_requests s"
  "active_maker_offers (sql_tick s) = active_maker_offers s"
  "taken_offers (sql_tick s) = taken_offers s"
  "wallet_index (sql_tick s) = wallet_index s"
  "mempool_transactions (sql_tick s) = mempool_transactions s"
  "mempool_utxo_set (sql_tick s) = mempool_utxo_set s"
  "published (sql_tick s) = published s"
  by (simp_all add: sql_tick_def)

lemma sql_tick_faults [simp]: "sql_faults (sql_tick s) = tl (sql_faults s)"
  by (simp add: sql_tick_def)

text \<open>In a database without failures nothing is pending.\<close>

lemma sql_up_healthy [simp]: "sql_faults s = [] \<Longrightarrow> sql_up s"
  by (simp add: sql_up_def)

lemma sql_tick_healthy [simp]: "sql_faults s = [] \<Longrightarrow> sql_tick s = s"
  by (simp add: sql_tick_def)

lemma run_statement:
  "run (statement q) s = (if sql_up s then q (sql_tick s) else (Err SqlFailed, sql_tick s))"
  by (simp add: statement_def run_atomic)

lemma run_query [run_simps]:
  "run (query f) s = (if sql_up s then Ok (f (sql_tick s)) else Err SqlFailed, sql_tick s)"
  by (simp add: query_def run_statement)

lemma run_execute [run_simps]:
  "run (execute f) s =
     (if sql_up s then (Ok (), f (sql_tick s)) else (Err SqlFailed, sql_tick s))"
  by (simp add: execute_def run_statement)

lemma run_fetch_one [run_simps]:
  "run (fetch_one f) s =
     (if sql_up s then ok_or RowNotFound (f (sql_tick s)) else Err SqlFailed, sql_tick s)"
  by (simp add: fetch_one_def run_statement)

lemma within_statement:
  "(\<And>s. R s (sql_tick s)) \<Longrightarrow> (\<And>s. R s (snd (q (sql_tick s)))) \<Longrightarrow> within R (statement q)"
  by (auto simp: statement_def intro!: within_atomic)

lemma within_query [pres_intro]: "(\<And>s. R s (sql_tick s)) \<Longrightarrow> within R (query f)"
  by (simp add: query_def within_statement)

lemma within_fetch_one [pres_intro]: "(\<And>s. R s (sql_tick s)) \<Longrightarrow> within R (fetch_one f)"
  by (simp add: fetch_one_def within_statement)

lemma within_execute [pres_intro]:
  "(\<And>s. R s (sql_tick s)) \<Longrightarrow> (\<And>s. R s (f (sql_tick s))) \<Longrightarrow> within R (execute f)"
  by (simp add: execute_def within_statement)

text \<open>Pre- and postconditions of statements; most predicates do not look at pending faults.\<close>

lemma triple_statement:
  assumes "\<And>s. P s \<Longrightarrow> post Q X (q (sql_tick s))" and "\<And>s. P s \<Longrightarrow> X (sql_tick s)"
  shows "triple P (statement q) Q X"
  using assms by (auto simp: triple_def run_statement)

lemma triple_query:
  "(\<And>s. P s \<Longrightarrow> Q (f (sql_tick s)) (sql_tick s)) \<Longrightarrow> (\<And>s. P s \<Longrightarrow> X (sql_tick s)) \<Longrightarrow> triple P (query f) Q X"
  unfolding query_def by (rule triple_statement) simp_all

lemma triple_fetch_one:
  "(\<And>s r. P s \<Longrightarrow> f (sql_tick s) = Some r \<Longrightarrow> Q r (sql_tick s)) \<Longrightarrow> (\<And>s. P s \<Longrightarrow> X (sql_tick s)) \<Longrightarrow>
     triple P (fetch_one f) Q X"
  unfolding fetch_one_def
proof (rule triple_statement)
  fix s
  assume "\<And>s r. P s \<Longrightarrow> f (sql_tick s) = Some r \<Longrightarrow> Q r (sql_tick s)" "\<And>s. P s \<Longrightarrow> X (sql_tick s)" "P s"
  then show "post Q X (ok_or RowNotFound (f (sql_tick s)), sql_tick s)"
    by (cases "f (sql_tick s)") simp_all
qed

lemma keeps_query [keeps_intro]: "(\<And>s. I s \<Longrightarrow> I (sql_tick s)) \<Longrightarrow> keeps I (query f)"
  by (rule triple_query)

lemma keeps_fetch_one [keeps_intro]: "(\<And>s. I s \<Longrightarrow> I (sql_tick s)) \<Longrightarrow> keeps I (fetch_one f)"
  by (rule triple_fetch_one)

lemma keeps_execute [keeps_intro]:
  "(\<And>s. I s \<Longrightarrow> I (sql_tick s)) \<Longrightarrow> (\<And>s. I s \<Longrightarrow> I (f (sql_tick s))) \<Longrightarrow> keeps I (execute f)"
  unfolding execute_def by (rule triple_statement) simp_all

section \<open>Columns\<close>

text \<open>
  Reading a column with \<open>try_get\<close> returns a decode error, with \<open>get\<close> it panics. \<open>col null v\<close> is
  the value a non-optional read of the nullable column \<open>v\<close> yields.
\<close>

definition col :: "'a option \<Rightarrow> 'a option \<Rightarrow> 'a option" where
  "col null v = (case v of Some x \<Rightarrow> Some x | None \<Rightarrow> null)"

definition try_get :: "'a option \<Rightarrow> (coord, 'a, anyhow) async" where
  "try_get x = lift_res (ok_or ColumnDecode x)"

definition get :: "'a option \<Rightarrow> (coord, 'a, anyhow) async" where
  "get x = lift_res (ok_or_panic x)"

lemma run_try_get [run_simps]: "run (try_get x) s = (ok_or ColumnDecode x, s)"
  by (simp add: try_get_def run_simps)

lemma run_get [run_simps]: "run (get x) s = (ok_or_panic x, s)"
  by (simp add: get_def run_simps)

lemma within_try_get [pres_intro]: "within R (try_get x)"
  by (simp add: try_get_def within_lift_res)

lemma within_get [pres_intro]: "within R (get x)"
  by (simp add: get_def within_lift_res)

text \<open>\<open>hex::decode(..)?\<close>\<close>

definition decode_hex :: "env \<Rightarrow> string \<Rightarrow> (coord, bytes, anyhow) async" where
  "decode_hex E h = lift_res (ok_or HexDecode (hex_decode E h))"

lemma run_decode_hex [run_simps]: "run (decode_hex E h) s = (ok_or HexDecode (hex_decode E h), s)"
  by (simp add: decode_hex_def run_simps)

lemma within_decode_hex [pres_intro]: "within R (decode_hex E h)"
  by (simp add: decode_hex_def within_lift_res)

lemma keeps_try_get [keeps_intro]: "keeps I (try_get x)"
  by (simp add: try_get_def keeps_lift_res)

lemma keeps_get [keeps_intro]: "keeps I (get x)"
  by (simp add: get_def keeps_lift_res)

lemma keeps_decode_hex [keeps_intro]: "keeps I (decode_hex E h)"
  by (simp add: decode_hex_def keeps_lift_res)

text \<open>\<open>bool_to_sql_int\<close>: false becomes NULL.\<close>

definition bool_to_sql_int :: "bool \<Rightarrow> i64 option" where
  "bool_to_sql_int flag = (if flag then Some 1 else None)"

lemma bool_to_sql_int_simps [simp]:
  "bool_to_sql_int True = Some 1" "bool_to_sql_int False = None"
  by (simp_all add: bool_to_sql_int_def)

text \<open>A nullable INTEGER read as a bool: any number but 0 is true.\<close>

definition col_bool :: "env \<Rightarrow> i64 option \<Rightarrow> bool option" where
  "col_bool E v = col (null_as_bool E) (map_option (\<lambda>n. n \<noteq> 0) v)"

lemma col_bool_flag:
  "sqlite_nulls E \<Longrightarrow> col_bool E (bool_to_sql_int b) = Some b"
  by (cases b) (simp_all add: col_bool_def col_def sqlite_nulls_def)

lemma col_i64_flag:
  "sqlite_nulls E \<Longrightarrow> col (null_as_i64 E) (bool_to_sql_int b) = Some (if b then 1 else 0)"
  by (cases b) (simp_all add: col_def sqlite_nulls_def)

text \<open>SQL's three-valued \<open>column = ?\<close> in a WHERE clause: a NULL column never matches.\<close>

definition sql_eq :: "i64 option \<Rightarrow> i64 \<Rightarrow> bool" where
  "sql_eq v x = (case v of None \<Rightarrow> False | Some y \<Rightarrow> y = x)"

lemma sql_eq_flag: "sql_eq (bool_to_sql_int b) x \<longleftrightarrow> b \<and> x = 1"
  by (cases b) (auto simp: sql_eq_def)

end
