(* ===== verification/Keyspend.thy ===== *)
theory Keyspend
  imports Tables
begin

text \<open>
  The pure part of \<open>coordinator/coordinator_utils.rs\<close> (the data of the keyspend payout and the
  signature aggregation) and of \<open>wallet/wallet_utils.rs\<close> (the PSBT inputs a trader submits),
  over the libraries of the environment.
\<close>

section \<open>Payout data and keyspend context\<close>

record PayoutData =
  pd_escrow_output_descriptor :: Descriptor
  pd_payout_address_maker :: bytes
  pd_payout_address_taker :: bytes
  pd_payout_amount_maker :: u64
  pd_payout_amount_taker :: u64
  pd_agg_musig_nonce :: bytes
  pd_aggregated_musig_pubkey_ctx_hex :: string

record KeyspendContext =
  kc_agg_sig :: bytes
  kc_agg_nonce :: bytes
  kc_agg_keyspend_pk :: bytes
  kc_keyspend_psbt :: bytes

definition agg_hex_musig_nonces :: "env \<Rightarrow> string \<Rightarrow> string \<Rightarrow> (bytes, anyhow) res" where
  "agg_hex_musig_nonces E maker_nonce taker_nonce =
     bind_res (map_err_res (\<lambda>_. Anyhow ''Error decoding maker musig pub nonce'') (pub_nonce_parse E maker_nonce)) (\<lambda>m.
     bind_res (map_err_res (\<lambda>_. Anyhow ''Error decoding taker musig pub nonce'') (pub_nonce_parse E taker_nonce)) (\<lambda>t.
     Ok (agg_nonce_sum E [m, t])))"

definition get_keyspend_tweak_scalar :: "env \<Rightarrow> string \<Rightarrow> (bytes, anyhow) res" where
  "get_keyspend_tweak_scalar E descriptor =
     bind_res (parse_descriptor E descriptor) (\<lambda>d.
       case d of Tr s tweak \<Rightarrow> Ok tweak
       | OtherDescriptor s \<Rightarrow> Err (Anyhow ''not a taproot descriptor''))"

definition aggregate_musig_pubkeys_with_tweak ::
  "env \<Rightarrow> string \<Rightarrow> string \<Rightarrow> bytes \<Rightarrow> (bytes, anyhow) res"
where
  "aggregate_musig_pubkeys_with_tweak E maker_musig_pubkey taker_musig_pubkey tweak_scalar =
     bind_res (musig_scalar E tweak_scalar) (\<lambda>musig_scalar.
     bind_res (musig_pubkey_parse E maker_musig_pubkey) (\<lambda>pk1.
     bind_res (musig_pubkey_parse E taker_musig_pubkey) (\<lambda>pk2.
     bind_res (key_agg_new E [pk1, pk2]) (\<lambda>ctx.
     key_agg_with_tweak E ctx musig_scalar))))"

definition payout_data_new_from_strings ::
  "env \<Rightarrow> string \<Rightarrow> string \<Rightarrow> string \<Rightarrow> u64 \<Rightarrow> u64 \<Rightarrow> string \<Rightarrow> string \<Rightarrow> string \<Rightarrow> string
     \<Rightarrow> (PayoutData, anyhow) res"
where
  "payout_data_new_from_strings E escrow_output_descriptor payout_address_maker payout_address_taker
      payout_amount_maker payout_amount_taker musig_pub_nonce_hex_maker musig_pub_nonce_hex_taker
      musig_pk_hex_maker musig_pk_hex_taker =
     bind_res (get_keyspend_tweak_scalar E escrow_output_descriptor) (\<lambda>tweak.
     bind_res (aggregate_musig_pubkeys_with_tweak E musig_pk_hex_maker musig_pk_hex_taker tweak) (\<lambda>ctx.
     bind_res (agg_hex_musig_nonces E musig_pub_nonce_hex_maker musig_pub_nonce_hex_taker) (\<lambda>agg_nonce.
     bind_res (parse_descriptor E escrow_output_descriptor) (\<lambda>d.
     bind_res (regtest_script E payout_address_maker) (\<lambda>addr_maker.
     bind_res (regtest_script E payout_address_taker) (\<lambda>addr_taker.
     Ok \<lparr> pd_escrow_output_descriptor = d,
          pd_payout_address_maker = addr_maker,
          pd_payout_address_taker = addr_taker,
          pd_payout_amount_maker = payout_amount_maker,
          pd_payout_amount_taker = payout_amount_taker,
          pd_agg_musig_nonce = agg_nonce,
          pd_aggregated_musig_pubkey_ctx_hex = hex_encode E ctx \<rparr>))))))"

definition keyspend_context_from_hex_str ::
  "env \<Rightarrow> string \<Rightarrow> string \<Rightarrow> string \<Rightarrow> string \<Rightarrow> string \<Rightarrow> string \<Rightarrow> string \<Rightarrow> string
     \<Rightarrow> (KeyspendContext, anyhow) res"
where
  "keyspend_context_from_hex_str E maker_sig taker_sig maker_nonce taker_nonce maker_pk taker_pk
      keyspend_psbt descriptor =
     bind_res (get_keyspend_tweak_scalar E descriptor) (\<lambda>tweak.
     bind_res (aggregate_musig_pubkeys_with_tweak E maker_pk taker_pk tweak) (\<lambda>agg_keyspend_pk.
     bind_res (agg_hex_musig_nonces E maker_nonce taker_nonce) (\<lambda>agg_nonce.
     bind_res (ok_or HexDecode (hex_decode E keyspend_psbt)) (\<lambda>psbt_bytes.
     bind_res (psbt_deserialize E psbt_bytes) (\<lambda>psbt.
     bind_res (partial_sig_parse E maker_sig) (\<lambda>partial_maker_sig.
     bind_res (partial_sig_parse E taker_sig) (\<lambda>partial_taker_sig.
     bind_res (keyspend_sighash E psbt) (\<lambda>msg.
     bind_res (aggregate_partial_signatures E agg_keyspend_pk agg_nonce
                 [partial_maker_sig, partial_taker_sig] msg) (\<lambda>agg_sig.
     Ok \<lparr> kc_agg_sig = agg_sig, kc_agg_nonce = agg_nonce, kc_agg_keyspend_pk = agg_keyspend_pk,
          kc_keyspend_psbt = psbt \<rparr>)))))))))"

text \<open>\<open>generate_random_order_id\<close>: the hex form of \<open>n\<close> random bytes.\<close>

definition generate_random_order_id :: "env \<Rightarrow> nat \<Rightarrow> string" where
  "generate_random_order_id E n = hex_encode E (random_bytes E n)"

section \<open>PSBT inputs\<close>

text \<open>\<open>str::split(',')\<close>: the pieces between the commas, at least one.\<close>

fun split_comma :: "string \<Rightarrow> string list" where
  "split_comma [] = [[]]"
| "split_comma (c # cs) =
     (if c = CHR '','' then [] # split_comma cs
      else case split_comma cs of [] \<Rightarrow> [[c]] | p # ps \<Rightarrow> (c # p) # ps)"

fun deserialize_inputs :: "env \<Rightarrow> string list \<Rightarrow> (PsbtInput list, anyhow) res" where
  "deserialize_inputs E [] = Ok []"
| "deserialize_inputs E (h # hs) =
     bind_res (ok_or HexDecode (hex_decode E h)) (\<lambda>binary.
     bind_res (psbt_input_deserialize E binary) (\<lambda>input.
     map_res (\<lambda>inputs. input # inputs) (deserialize_inputs E hs)))"

definition csv_hex_to_bdk_input :: "env \<Rightarrow> string \<Rightarrow> (PsbtInput list, anyhow) res" where
  "csv_hex_to_bdk_input E inputs_csv_hex =
     bind_res (deserialize_inputs E (split_comma inputs_csv_hex)) (\<lambda>inputs.
       if inputs = [] then Err (Anyhow ''No inputs found in csv input value'') else Ok inputs)"

record EscrowPsbtConstructionData =
  ed_taproot_xonly_pubkey_hex :: string
  ed_escrow_input_utxos :: "PsbtInput list"
  ed_change_address :: bytes
  ed_musig_pubkey_compressed_hex :: string

text \<open>\<open>EscrowPsbtConstructionData::input_sum\<close>: the values of the witness UTXOs.\<close>

definition witness_values :: "PsbtInput list \<Rightarrow> u64 list" where
  "witness_values inputs = map txo_value (List.map_filter pi_witness_utxo inputs)"

definition escrow_input_sum :: "bool \<Rightarrow> EscrowPsbtConstructionData \<Rightarrow> (u64, anyhow) res" where
  "escrow_input_sum chk d =
     bind_res (sum_from_u64 chk 0 (witness_values (ed_escrow_input_utxos d))) (\<lambda>input_sum.
       if input_sum = 0 then Err (Anyhow ''Input sum of escrow creation psbt input is 0'')
       else Ok input_sum)"

section \<open>Facts\<close>

lemma split_comma_not_Nil: "split_comma s \<noteq> []"
  by (induction s) (auto split: list.splits)

text \<open>Splitting inverts \<open>join(\",\")\<close>, the way the traders build the value, on pieces without commas.\<close>

fun join_comma :: "string list \<Rightarrow> string" where
  "join_comma [] = []"
| "join_comma [p] = p"
| "join_comma (p # q # ps) = p @ CHR '','' # join_comma (q # ps)"

lemma split_comma_piece: "CHR '','' \<notin> set p \<Longrightarrow> split_comma p = [p]"
  by (induction p) auto

lemma split_comma_append:
  "CHR '','' \<notin> set p \<Longrightarrow> split_comma (p @ CHR '','' # s) = p # split_comma s"
  by (induction p) auto

lemma split_join_comma:
  "ps \<noteq> [] \<Longrightarrow> \<forall>p \<in> set ps. CHR '','' \<notin> set p \<Longrightarrow> split_comma (join_comma ps) = ps"
  by (induction ps rule: join_comma.induct) (auto simp: split_comma_piece split_comma_append)

lemma deserialize_inputs_length:
  "deserialize_inputs E hs = Ok inputs \<Longrightarrow> length inputs = length hs"
proof (induction hs arbitrary: inputs)
  case Nil
  then show ?case by simp
next
  case (Cons h hs)
  then obtain i is' where "deserialize_inputs E hs = Ok is'" "inputs = i # is'"
    by (auto simp: bind_res_eq_Ok elim!: map_res.elims)
  then show ?case using Cons.IH by simp
qed

text \<open>The emptiness check of \<open>csv_hex_to_bdk_input\<close> never fires: a split has a piece.\<close>

lemma csv_inputs_nonempty: "csv_hex_to_bdk_input E s = deserialize_inputs E (split_comma s)"
proof (cases "deserialize_inputs E (split_comma s)")
  case (Ok inputs)
  then show ?thesis
    using deserialize_inputs_length [OF Ok] split_comma_not_Nil [of s]
    by (auto simp: csv_hex_to_bdk_input_def)
qed (simp_all add: csv_hex_to_bdk_input_def)

lemma escrow_input_sum_checked:
  assumes "escrow_input_sum True d = Ok s"
  shows "unat s = sum_list (map unat (witness_values (ed_escrow_input_utxos d)))"
  using assms sum_from_u64_checked [of 0 "witness_values (ed_escrow_input_utxos d)" s]
  by (auto simp: escrow_input_sum_def bind_res_eq_Ok split: if_splits)

end
