(* ===== verification/Database.thy ===== *)
theory Database
  imports Keyspend
begin

text \<open>
  The operations of \<open>CoordinatorDB\<close> (\<open>database/mod.rs\<close>), one task per method, with its
  statements in their order: no method uses a transaction, so each statement is an action of
  its own and a failure between two of them leaves the effect of the first.
\<close>

section \<open>Pending requests and the orderbook\<close>

definition insert_new_maker_request ::
  "env \<Rightarrow> OfferRequest \<Rightarrow> BondRequirementResponse \<Rightarrow> (coord, unit, anyhow) async"
where
  "insert_new_maker_request E order bond_requirements =
     andThen (decode_hex E (or_robohash_hex order)) (\<lambda>robohash.
     execute (\<lambda>s. s\<lparr>maker_requests := tbl_replace mr_robohash
       \<lparr> mr_robohash = robohash,
         mr_is_buy_order = bool_to_sql_int (or_is_buy_order order),
         mr_amount_sat = or_amount_satoshi order,
         mr_bond_ratio = or_bond_ratio order,
         mr_offer_duration_ts = or_offer_duration_ts order,
         mr_bond_address = brr_bond_address bond_requirements,
         mr_bond_amount_sat = brr_locking_amount_sat bond_requirements,
         mr_escrow_locking_input_amount_without_trade_sum =
           brr_escrow_locking_input_amount_without_trade_sum bond_requirements \<rparr>
       (maker_requests s)\<rparr>))"

definition fetch_bond_requirements :: "env \<Rightarrow> string \<Rightarrow> (coord, BondRequirements, anyhow) async" where
  "fetch_bond_requirements E robohash =
     andThen (decode_hex E robohash) (\<lambda>h.
     andThen (fetch_one (find_request h)) (\<lambda>maker_request.
     ret \<lparr> br_bond_address = mr_bond_address maker_request,
           br_locking_amount_sat = mr_bond_amount_sat maker_request,
           br_min_input_sum_sat = mr_amount_sat maker_request \<rparr>))"

text \<open>
  The query selects eight columns, the tuple takes the first seven, and the last field of the
  struct is filled from column 6, \<open>bond_amount_sat\<close>.
\<close>

definition fetch_and_delete_offer_from_bond_table ::
  "env \<Rightarrow> string \<Rightarrow> (coord, AwaitingBondOffer, anyhow) async"
where
  "fetch_and_delete_offer_from_bond_table E robohash_hex =
     andThen (decode_hex E robohash_hex) (\<lambda>h.
     andThen (fetch_one (find_request h)) (\<lambda>fetched.
     andThen (try_get (col_bool E (mr_is_buy_order fetched))) (\<lambda>is_buy_order.
     andThen (decode_hex E robohash_hex) (\<lambda>h'.
     andThen (execute (\<lambda>s. s\<lparr>maker_requests := tbl_delete mr_robohash h' (maker_requests s)\<rparr>)) (\<lambda>_.
     ret \<lparr> abo_robohash_hex = hex_encode E (mr_robohash fetched),
           abo_is_buy_order = is_buy_order,
           abo_amount_satoshi = mr_amount_sat fetched,
           abo_bond_ratio = mr_bond_ratio fetched,
           abo_offer_duration_ts = mr_offer_duration_ts fetched,
           abo_bond_address = mr_bond_address fetched,
           abo_bond_amount_sat = mr_bond_amount_sat fetched,
           abo_escrow_locking_input_amount_without_trade_sum = mr_bond_amount_sat fetched \<rparr>)))))"

definition move_offer_to_active ::
  "env \<Rightarrow> BondSubmissionRequest \<Rightarrow> string \<Rightarrow> string \<Rightarrow> (coord, u64, anyhow) async"
where
  "move_offer_to_active E data offer_id taker_bond_address =
     andThen (fetch_and_delete_offer_from_bond_table E (bsr_robohash_hex data)) (\<lambda>remaining.
     andThen (decode_hex E (bsr_robohash_hex data)) (\<lambda>robohash.
     andThen (execute (\<lambda>s. s\<lparr>active_maker_offers := tbl_replace ao_offer_id
       \<lparr> ao_offer_id = offer_id,
         ao_robohash = robohash,
         ao_is_buy_order = bool_to_sql_int (abo_is_buy_order remaining),
         ao_amount_sat = abo_amount_satoshi remaining,
         ao_bond_ratio = ucast (abo_bond_ratio remaining),
         ao_offer_duration_ts = abo_offer_duration_ts remaining,
         ao_bond_address = abo_bond_address remaining,
         ao_bond_amount_sat = abo_bond_amount_sat remaining,
         ao_escrow_locking_input_amount_without_trade_sum =
           abo_escrow_locking_input_amount_without_trade_sum remaining,
         ao_bond_tx_hex = bsr_signed_bond_hex data,
         ao_payout_address = bsr_payout_address data,
         ao_change_address_maker = bsr_client_change_address data,
         ao_escrow_inputs_hex_maker_csv = bsr_bdk_psbt_inputs_hex_csv data,
         ao_taproot_pubkey_hex_maker = bsr_taproot_pubkey_hex data,
         ao_musig_pub_nonce_hex = bsr_musig_pub_nonce_hex data,
         ao_musig_pubkey_hex = bsr_musig_pubkey_hex data,
         ao_taker_bond_address = taker_bond_address \<rparr>
       (active_maker_offers s)\<rparr>)) (\<lambda>_.
     ret (abo_offer_duration_ts remaining))))"

definition public_offer_of_row :: "ActiveOfferRow \<Rightarrow> PublicOffer" where
  "public_offer_of_row r =
     \<lparr> po_amount_sat = ao_amount_sat r,
       po_offer_id_hex = ao_offer_id r,
       po_bond_requirements =
         \<lparr> brr_bond_address = ao_taker_bond_address r,
           brr_locking_amount_sat = ao_bond_amount_sat r,
           brr_escrow_locking_input_amount_without_trade_sum =
             ao_escrow_locking_input_amount_without_trade_sum r \<rparr> \<rparr>"

text \<open>\<open>WHERE is_buy_order = ? AND amount_sat BETWEEN ? AND ?\<close>: signed comparisons.\<close>

definition offer_matches :: "OffersRequest \<Rightarrow> ActiveOfferRow \<Rightarrow> bool" where
  "offer_matches requested r \<longleftrightarrow>
     sql_eq (ao_is_buy_order r) (if ofr_buy_offers requested then 1 else 0) \<and>
     sint (ofr_amount_min_sat requested) \<le> sint (ao_amount_sat r) \<and>
     sint (ao_amount_sat r) \<le> sint (ofr_amount_max_sat requested)"

definition fetch_suitable_offers :: "OffersRequest \<Rightarrow> (coord, PublicOffer list option, anyhow) async" where
  "fetch_suitable_offers requested =
     andThen (query (\<lambda>s. filter (offer_matches requested) (active_maker_offers s))) (\<lambda>fetched_offers.
       let available_offers = map public_offer_of_row fetched_offers
       in if available_offers = [] then ret None else ret (Some available_offers))"

definition fetch_taker_bond_requirements :: "string \<Rightarrow> (coord, BondRequirements, anyhow) async" where
  "fetch_taker_bond_requirements offer_id_hex =
     andThen (fetch_one (find_active offer_id_hex)) (\<lambda>r.
     ret \<lparr> br_bond_address = ao_taker_bond_address r,
           br_locking_amount_sat = ao_bond_amount_sat r,
           br_min_input_sum_sat = ao_amount_sat r \<rparr>)"

definition fetch_and_delete_offer_from_public_offers_table ::
  "env \<Rightarrow> string \<Rightarrow> (coord, AwaitingTakerOffer, anyhow) async"
where
  "fetch_and_delete_offer_from_public_offers_table E offer_id_hex =
     andThen (fetch_one (find_active offer_id_hex)) (\<lambda>fetched.
     andThen (try_get (col (null_as_i32 E) (map_option ucast (ao_is_buy_order fetched)))) (\<lambda>is_buy_order.
     andThen (execute (\<lambda>s. s\<lparr>active_maker_offers := tbl_delete ao_offer_id offer_id_hex (active_maker_offers s)\<rparr>)) (\<lambda>_.
     ret \<lparr> ato_offer_id = offer_id_hex,
           ato_robohash_maker = ao_robohash fetched,
           ato_is_buy_order = (is_buy_order \<noteq> 0),
           ato_amount_sat = ao_amount_sat fetched,
           ato_bond_ratio = ao_bond_ratio fetched,
           ato_offer_duration_ts = ao_offer_duration_ts fetched,
           ato_bond_address_maker = ao_bond_address fetched,
           ato_bond_amount_sat = ao_bond_amount_sat fetched,
           ato_bond_tx_hex_maker = ao_bond_tx_hex fetched,
           ato_payout_address_maker = ao_payout_address fetched,
           ato_taproot_pubkey_hex_maker = ao_taproot_pubkey_hex_maker fetched,
           ato_musig_pub_nonce_hex_maker = ao_musig_pub_nonce_hex fetched,
           ato_musig_pubkey_hex_maker = ao_musig_pubkey_hex fetched \<rparr>)))"

section \<open>Taken offers\<close>

text \<open>The row \<open>add_taker_info_and_move_table\<close> inserts; the columns it does not name are NULL.\<close>

definition taken_row ::
  "AwaitingTakerOffer \<Rightarrow> bytes \<Rightarrow> OfferPsbtRequest \<Rightarrow> EscrowPsbt \<Rightarrow> TakenOfferRow"
where
  "taken_row public_offer robohash_taker info escrow =
     \<lparr> to_offer_id = ato_offer_id public_offer,
       to_robohash_maker = ato_robohash_maker public_offer,
       to_robohash_taker = robohash_taker,
       to_is_buy_order = bool_to_sql_int (ato_is_buy_order public_offer),
       to_amount_sat = ato_amount_sat public_offer,
       to_bond_ratio = ato_bond_ratio public_offer,
       to_offer_duration_ts = ato_offer_duration_ts public_offer,
       to_bond_address_maker = ato_bond_address_maker public_offer,
       to_bond_address_taker = brr_bond_address (po_bond_requirements (opr_offer info)),
       to_bond_amount_sat = ato_bond_amount_sat public_offer,
       to_bond_tx_hex_maker = ato_bond_tx_hex_maker public_offer,
       to_bond_tx_hex_taker = bsr_signed_bond_hex (opr_trade_data info),
       to_payout_address_maker = ato_payout_address_maker public_offer,
       to_taproot_xonly_pubkey_hex_maker = ato_taproot_pubkey_hex_maker public_offer,
       to_payout_address_taker = bsr_payout_address (opr_trade_data info),
       to_taproot_xonly_pubkey_hex_taker = bsr_taproot_pubkey_hex (opr_trade_data info),
       to_musig_pub_nonce_hex_maker = ato_musig_pub_nonce_hex_maker public_offer,
       to_musig_pubkey_compressed_hex_maker = ato_musig_pubkey_hex_maker public_offer,
       to_musig_pub_nonce_hex_taker = bsr_musig_pub_nonce_hex (opr_trade_data info),
       to_musig_pubkey_compressed_hex_taker = bsr_musig_pubkey_hex (opr_trade_data info),
       to_musig_partial_sig_hex_maker = None,
       to_musig_partial_sig_hex_taker = None,
       to_escrow_psbt_hex = ep_escrow_psbt_hex escrow,
       to_escrow_psbt_txid = ep_escrow_tx_txid escrow,
       to_signed_escrow_psbt_hex_maker = None,
       to_signed_escrow_psbt_hex_taker = None,
       to_escrow_psbt_is_confirmed = 0,
       to_maker_happy = None,
       to_taker_happy = None,
       to_escrow_ongoing = 0,
       to_escrow_winner_robohash = None,
       to_escrow_taproot_pk_coordinator = ep_coordinator_xonly_escrow_pk escrow,
       to_escrow_amount_maker_sat = ep_escrow_amount_maker_sat escrow,
       to_escrow_amount_taker_sat = ep_escrow_amount_taker_sat escrow,
       to_escrow_fee_per_participant = ep_escrow_fee_sat_per_participant escrow,
       to_escrow_output_descriptor = ep_escrow_output_descriptor escrow,
       to_payout_transaction_psbt_hex = None,
       to_processing = 0 \<rparr>"

definition add_taker_info_and_move_table ::
  "env \<Rightarrow> OfferPsbtRequest \<Rightarrow> EscrowPsbt \<Rightarrow> (coord, unit, anyhow) async"
where
  "add_taker_info_and_move_table E info escrow =
     andThen (fetch_and_delete_offer_from_public_offers_table E (po_offer_id_hex (opr_offer info))) (\<lambda>public_offer.
     andThen (decode_hex E (bsr_robohash_hex (opr_trade_data info))) (\<lambda>robohash_taker.
     execute (\<lambda>s. s\<lparr>taken_offers :=
       tbl_replace to_offer_id (taken_row public_offer robohash_taker info escrow) (taken_offers s)\<rparr>)))"

definition fetch_escrow_output_information :: "string \<Rightarrow> (coord, EscrowPsbt option, anyhow) async" where
  "fetch_escrow_output_information offer_id_hex =
     andThen (query (find_taken offer_id_hex)) (\<lambda>offer.
       case offer of
         None \<Rightarrow> ret None
       | Some r \<Rightarrow> ret (Some
           \<lparr> ep_escrow_psbt_hex = to_escrow_psbt_hex r,
             ep_escrow_tx_txid = to_escrow_psbt_txid r,
             ep_escrow_output_descriptor = to_escrow_output_descriptor r,
             ep_coordinator_xonly_escrow_pk = to_escrow_taproot_pk_coordinator r,
             ep_escrow_amount_maker_sat = to_escrow_amount_maker_sat r,
             ep_escrow_amount_taker_sat = to_escrow_amount_taker_sat r,
             ep_escrow_fee_sat_per_participant = to_escrow_fee_per_participant r \<rparr>))"

text \<open>\<open>UPDATE taken_offers SET .. WHERE offer_id = ?\<close>\<close>

definition update_taken :: "string \<Rightarrow> (TakenOfferRow \<Rightarrow> TakenOfferRow) \<Rightarrow> (coord, unit, anyhow) async" where
  "update_taken offer_id f =
     execute (\<lambda>s. s\<lparr>taken_offers := tbl_update to_offer_id offer_id f (taken_offers s)\<rparr>)"

section \<open>Monitoring\<close>

definition monitoring_bond_of_row :: "ActiveOfferRow \<Rightarrow> MonitoringBond" where
  "monitoring_bond_of_row r =
     \<lparr> mb_bond_tx_hex = ao_bond_tx_hex r,
       mb_trade_id_hex = ao_offer_id r,
       mb_robot = ao_robohash r,
       mb_requirements =
         \<lparr> br_bond_address = ao_bond_address r,
           br_locking_amount_sat = ao_bond_amount_sat r,
           br_min_input_sum_sat = ao_amount_sat r \<rparr>,
       mb_table = Orderbook \<rparr>"

definition fetch_all_bonds :: "(coord, MonitoringBond list, anyhow) async" where
  "fetch_all_bonds = query (\<lambda>s. map monitoring_bond_of_row (active_maker_offers s))"

definition remove_violating_bond :: "MonitoringBond \<Rightarrow> (coord, unit, anyhow) async" where
  "remove_violating_bond bond =
     (if mb_table bond = Orderbook
      then execute (\<lambda>s. s\<lparr>active_maker_offers :=
             tbl_delete ao_offer_id (mb_trade_id_hex bond) (active_maker_offers s)\<rparr>)
      else fail (Anyhow ''Invalid table type when trying to remove violating bond from db''))"

definition fetch_unconfirmed_escrow_txids :: "(coord, string list, anyhow) async" where
  "fetch_unconfirmed_escrow_txids =
     query (\<lambda>s. map to_escrow_psbt_txid
       (filter (\<lambda>r. to_escrow_psbt_is_confirmed r = 0) (taken_offers s)))"

definition confirm_txid :: "string \<Rightarrow> TakenOfferRow list \<Rightarrow> TakenOfferRow list" where
  "confirm_txid txid = map (\<lambda>r. if to_escrow_psbt_txid r = txid then r\<lparr>to_escrow_psbt_is_confirmed := 1\<rparr> else r)"

definition confirm_bond_txids :: "string list \<Rightarrow> (coord, unit, anyhow) async" where
  "confirm_bond_txids confirmed_txids =
     for_each (\<lambda>txid. execute (\<lambda>s. s\<lparr>taken_offers := confirm_txid txid (taken_offers s)\<rparr>)) confirmed_txids"

definition get_txid_confirmation_status :: "string \<Rightarrow> (coord, bool, anyhow) async" where
  "get_txid_confirmation_status txid =
     andThen (fetch_one (\<lambda>s. tbl_find to_escrow_psbt_txid txid (taken_offers s))) (\<lambda>status.
     ret (to_escrow_psbt_is_confirmed status = 1))"

section \<open>The trade: roles, signed escrow PSBTs, happiness\<close>

definition is_valid_robohash_in_table :: "env \<Rightarrow> string \<Rightarrow> string \<Rightarrow> (coord, bool, anyhow) async" where
  "is_valid_robohash_in_table E robohash_hex offer_id =
     andThen (decode_hex E robohash_hex) (\<lambda>robohash.
     query (\<lambda>s. \<exists>r \<in> set (taken_offers s).
       (to_robohash_maker r = robohash \<or> to_robohash_taker r = robohash) \<and> to_offer_id r = offer_id))"

definition is_maker_in_taken_offers :: "env \<Rightarrow> string \<Rightarrow> string \<Rightarrow> (coord, bool, anyhow) async" where
  "is_maker_in_taken_offers E offer_id robohash_hex =
     andThen (decode_hex E robohash_hex) (\<lambda>robohash_bytes.
     andThen (fetch_one (find_taken offer_id)) (\<lambda>row.
       let is_maker = to_robohash_maker row = robohash_bytes;
           is_taker = to_robohash_taker row = robohash_bytes
       in if \<not> is_maker \<and> \<not> is_taker
          then fail (Anyhow ''Robohash does not match maker or taker'')
          else ret is_maker))"

definition insert_signed_escrow_psbt :: "env \<Rightarrow> PsbtSubmissionRequest \<Rightarrow> (coord, bool, anyhow) async" where
  "insert_signed_escrow_psbt E data =
     andThen (is_maker_in_taken_offers E (psr_offer_id_hex data) (psr_robohash_hex data)) (\<lambda>is_maker.
     andThen (fetch_one (find_taken (psr_offer_id_hex data))) (\<lambda>status.
       let is_already_there =
         (if is_maker then to_signed_escrow_psbt_hex_maker status \<noteq> None
          else to_signed_escrow_psbt_hex_taker status \<noteq> None)
       in if is_already_there then ret False
          else andThen (update_taken (psr_offer_id_hex data)
            (if is_maker
             then (\<lambda>r. r\<lparr>to_signed_escrow_psbt_hex_maker := Some (psr_signed_psbt_hex data)\<rparr>)
             else (\<lambda>r. r\<lparr>to_signed_escrow_psbt_hex_taker := Some (psr_signed_psbt_hex data)\<rparr>))) (\<lambda>_.
            ret True)))"

definition fetch_both_signed_escrow_psbts :: "string \<Rightarrow> (coord, (string \<times> string) option, anyhow) async" where
  "fetch_both_signed_escrow_psbts offer_id_hex =
     andThen (fetch_one (find_taken offer_id_hex)) (\<lambda>row.
     ret (case (to_signed_escrow_psbt_hex_maker row, to_signed_escrow_psbt_hex_taker row) of
            (Some maker, Some taker) \<Rightarrow> Some (maker, taker)
          | _ \<Rightarrow> None))"

definition fetch_escrow_tx_confirmation_status :: "string \<Rightarrow> (coord, bool, anyhow) async" where
  "fetch_escrow_tx_confirmation_status offer_id =
     andThen (fetch_one (find_taken offer_id)) (\<lambda>status.
     ret (to_escrow_psbt_is_confirmed status = 1))"

definition set_trader_happy_field :: "env \<Rightarrow> string \<Rightarrow> string \<Rightarrow> bool \<Rightarrow> (coord, unit, anyhow) async" where
  "set_trader_happy_field E offer_id robohash is_happy =
     andThen (is_maker_in_taken_offers E offer_id robohash) (\<lambda>is_maker.
     andThen (update_taken offer_id
       (if is_maker then (\<lambda>r. r\<lparr>to_maker_happy := bool_to_sql_int is_happy\<rparr>)
        else (\<lambda>r. r\<lparr>to_taker_happy := bool_to_sql_int is_happy\<rparr>))) (\<lambda>_.
     if \<not> is_happy
     then update_taken offer_id (\<lambda>r. r\<lparr>to_escrow_ongoing := 1\<rparr>)
     else ret ()))"

definition fetch_trader_happiness :: "string \<Rightarrow> (coord, TraderHappiness, anyhow) async" where
  "fetch_trader_happiness offer_id =
     andThen (fetch_one (find_taken offer_id)) (\<lambda>row.
     ret \<lparr> th_maker_happy = map_option (\<lambda>v. v \<noteq> 0) (to_maker_happy row),
           th_taker_happy = map_option (\<lambda>v. v \<noteq> 0) (to_taker_happy row),
           th_escrow_ongoing = (to_escrow_ongoing row \<noteq> 0) \<rparr>)"

definition fetch_escrow_result :: "string \<Rightarrow> (coord, string option, anyhow) async" where
  "fetch_escrow_result offer_id =
     andThen (fetch_one (find_taken offer_id)) (\<lambda>row. ret (to_escrow_winner_robohash row))"

section \<open>Escrow and payout\<close>

definition get_escrow_tx_amounts :: "env \<Rightarrow> string \<Rightarrow> f64 \<Rightarrow> (coord, u64 \<times> u64 \<times> u64, anyhow) async" where
  "get_escrow_tx_amounts E trade_id feerate =
     andThen (fetch_one (find_active trade_id)) (\<lambda>row.
     andThen (get (i64_as_u64 E (ao_amount_sat row))) (\<lambda>amount_sat.
     andThen (get (col (null_as_i64 E) (ao_is_buy_order row))) (\<lambda>is_buy.
     andThen (get (i64_as_u64 E (ao_bond_amount_sat row))) (\<lambda>bond_amount_sat.
     andThen (lift_res (add_u64 (overflow_checks E) amount_sat bond_amount_sat)) (\<lambda>with_trade_sum.
       let escrow_fee_per_participant = escrow_fee feerate amount_sat;
           is_buy_order = (is_buy = 1)
       in if \<not> is_buy_order
          then ret (with_trade_sum, bond_amount_sat, escrow_fee_per_participant)
          else ret (bond_amount_sat, with_trade_sum, escrow_fee_per_participant))))))"

definition fetch_maker_escrow_psbt_data :: "env \<Rightarrow> string \<Rightarrow> (coord, EscrowPsbtConstructionData, anyhow) async" where
  "fetch_maker_escrow_psbt_data E trade_id =
     andThen (fetch_one (find_active trade_id)) (\<lambda>row.
     andThen (lift_res (csv_hex_to_bdk_input E (ao_escrow_inputs_hex_maker_csv row))) (\<lambda>inputs.
     andThen (lift_res (unchecked_script E (ao_change_address_maker row))) (\<lambda>change_address.
     ret \<lparr> ed_taproot_xonly_pubkey_hex = ao_taproot_pubkey_hex_maker row,
           ed_escrow_input_utxos = inputs,
           ed_change_address = change_address,
           ed_musig_pubkey_compressed_hex = ao_musig_pubkey_hex row \<rparr>)))"

text \<open>The amounts are swapped between maker and taker for a buy order.\<close>

definition fetch_payout_data :: "env \<Rightarrow> string \<Rightarrow> (coord, PayoutData, anyhow) async" where
  "fetch_payout_data E trade_id =
     andThen (fetch_one (find_taken trade_id)) (\<lambda>row.
     andThen (get (col (null_as_i64 E) (to_is_buy_order row))) (\<lambda>is_buy.
       let (payout_amount_maker, payout_amount_taker) =
         (if is_buy = 1
          then (to_escrow_amount_taker_sat row, to_escrow_amount_maker_sat row)
          else (to_escrow_amount_maker_sat row, to_escrow_amount_taker_sat row))
       in lift_res (payout_data_new_from_strings E
            (to_escrow_output_descriptor row)
            (to_payout_address_maker row) (to_payout_address_taker row)
            payout_amount_maker payout_amount_taker
            (to_musig_pub_nonce_hex_maker row) (to_musig_pub_nonce_hex_taker row)
            (to_musig_pubkey_compressed_hex_maker row) (to_musig_pubkey_compressed_hex_taker row))))"

definition insert_keyspend_payout_psbt :: "string \<Rightarrow> string \<Rightarrow> (coord, unit, anyhow) async" where
  "insert_keyspend_payout_psbt offer_id_hex payout_psbt_hex =
     update_taken offer_id_hex (\<lambda>r. r\<lparr>to_payout_transaction_psbt_hex := Some payout_psbt_hex\<rparr>)"

definition insert_partial_sig :: "env \<Rightarrow> string \<Rightarrow> string \<Rightarrow> string \<Rightarrow> (coord, unit, anyhow) async" where
  "insert_partial_sig E partial_sig_hex offer_id_hex robohash_hex =
     andThen (is_maker_in_taken_offers E offer_id_hex robohash_hex) (\<lambda>is_maker.
     andThen (fetch_one (find_taken offer_id_hex)) (\<lambda>status.
       let is_already_there =
         (if is_maker then to_musig_partial_sig_hex_maker status \<noteq> None
          else to_musig_partial_sig_hex_taker status \<noteq> None)
       in if is_already_there then fail (Anyhow ''Partial sig already submitted'')
          else update_taken offer_id_hex
            (if is_maker
             then (\<lambda>r. r\<lparr>to_musig_partial_sig_hex_maker := Some partial_sig_hex\<rparr>)
             else (\<lambda>r. r\<lparr>to_musig_partial_sig_hex_taker := Some partial_sig_hex\<rparr>))))"

definition fetch_keyspend_payout_information ::
  "env \<Rightarrow> string \<Rightarrow> (coord, KeyspendContext option, anyhow) async"
where
  "fetch_keyspend_payout_information E offer_id_hex =
     andThen (fetch_one (find_taken offer_id_hex)) (\<lambda>row.
     andThen (try_get (col (null_as_text E) (to_payout_transaction_psbt_hex row))) (\<lambda>keyspend_psbt.
       case (to_musig_partial_sig_hex_maker row, to_musig_partial_sig_hex_taker row) of
         (Some maker, Some taker) \<Rightarrow>
           lift_res (map_res Some (keyspend_context_from_hex_str E maker taker
             (to_musig_pub_nonce_hex_maker row) (to_musig_pub_nonce_hex_taker row)
             (to_musig_pubkey_compressed_hex_maker row) (to_musig_pubkey_compressed_hex_taker row)
             keyspend_psbt (to_escrow_output_descriptor row)))
       | _ \<Rightarrow> ret None))"

definition fetch_keyspend_payout_psbt :: "string \<Rightarrow> (coord, string option, anyhow) async" where
  "fetch_keyspend_payout_psbt offer_id_hex =
     andThen (fetch_one (find_taken offer_id_hex)) (\<lambda>row. ret (to_payout_transaction_psbt_hex row))"

text \<open>\<open>UPDATE .. SET processing = CASE WHEN processing = 0 THEN 1 ELSE 0 END .. RETURNING processing\<close>\<close>

definition toggle_processing :: "string \<Rightarrow> (coord, bool, anyhow) async" where
  "toggle_processing offer_id =
     statement (\<lambda>s.
       let s' = s\<lparr>taken_offers := tbl_update to_offer_id offer_id
         (\<lambda>r. r\<lparr>to_processing := if to_processing r = 0 then 1 else 0\<rparr>) (taken_offers s)\<rparr>
       in (map_res (\<lambda>r. to_processing r = 1) (ok_or RowNotFound (find_taken offer_id s')), s'))"

definition delete_complete_offer :: "string \<Rightarrow> (coord, unit, anyhow) async" where
  "delete_complete_offer offer_id =
     execute (\<lambda>s. s\<lparr>taken_offers := tbl_delete to_offer_id offer_id (taken_offers s)\<rparr>)"

section \<open>Disputes\<close>

definition get_open_escrows :: "env \<Rightarrow> (coord, EscrowCase list, anyhow) async" where
  "get_open_escrows E =
     query (\<lambda>s. map (\<lambda>r. \<lparr> ec_maker_id = hex_encode E (to_robohash_maker r),
                          ec_taker_id = hex_encode E (to_robohash_taker r),
                          ec_offer_id = to_offer_id r \<rparr>)
       (filter (\<lambda>r. to_escrow_ongoing r = 1) (taken_offers s)))"

definition resolve_escrow :: "string \<Rightarrow> string \<Rightarrow> (coord, unit, anyhow) async" where
  "resolve_escrow offer_id winner_robohash =
     update_taken offer_id (\<lambda>r. r\<lparr>to_escrow_ongoing := 0, to_escrow_winner_robohash := Some winner_robohash\<rparr>)"

end
