(* ===== verification/BondTx.thy ===== *)
theory BondTx
  imports Database "HOL-Library.AList"
begin

text \<open>
  Bond transactions: the amounts of a transaction (\<open>BondTx\<close> in \<open>wallet/wallet_utils.rs\<close>), the
  validation of bonds against requirements, testmempoolaccept and the mempool
  (\<open>wallet/mod.rs\<close>, \<open>MempoolHandler::lookup_mempool_inputs\<close>), and their publication. A HashMap
  is an association list updated by key, and iterated in an order that the environment chooses.
\<close>

section \<open>Amounts of a transaction\<close>

fun input_sum_from :: "env \<Rightarrow> u64 \<Rightarrow> OutPoint list \<Rightarrow> (u64, anyhow) res" where
  "input_sum_from E acc [] = Ok acc"
| "input_sum_from E acc (i # is) =
     bind_res (wallet_raw_tx E (op_txid i)) (\<lambda>in_db.
     bind_res (case in_db of Some prev_tx \<Rightarrow> Ok prev_tx
               | None \<Rightarrow> bind_res (chain_tx E (op_txid i)) (\<lambda>on_chain.
                   ok_or (Anyhow ''MissingInputTx'') on_chain)) (\<lambda>prev_tx.
     bind_res (if op_vout i < length (tx_output prev_tx) then Ok (tx_output prev_tx ! op_vout i)
               else Err (Anyhow ''InvalidInput'')) (\<lambda>spent_output.
     bind_res (add_u64 (overflow_checks E) acc (txo_value spent_output)) (\<lambda>acc'.
     input_sum_from E acc' is))))"

definition input_sum :: "env \<Rightarrow> Transaction \<Rightarrow> (u64, anyhow) res" where
  "input_sum E tx =
     bind_res (input_sum_from E 0 (tx_input tx)) (\<lambda>input_sum.
       if input_sum = 0 then Err (Anyhow ''Empty input sum in transaction'') else Ok input_sum)"

text \<open>Despite its name, the value of the first output to the bond address.\<close>

definition bond_output_sum :: "env \<Rightarrow> Transaction \<Rightarrow> string \<Rightarrow> (u64, anyhow) res" where
  "bond_output_sum E tx bond_address =
     bind_res (regtest_script E bond_address) (\<lambda>bond_script.
       case find (\<lambda>out. txo_script_pubkey out = bond_script) (tx_output tx) of
         Some out \<Rightarrow> Ok (txo_value out)
       | None \<Rightarrow> Err (Anyhow ''No output to bond address in transaction''))"

definition all_output_sum :: "env \<Rightarrow> Transaction \<Rightarrow> (u64, anyhow) res" where
  "all_output_sum E tx = sum_from_u64 (overflow_checks E) 0 (map txo_value (tx_output tx))"

section \<open>Validation of bonds\<close>

type_synonym bond_map = "(bytes \<times> (MonitoringBond \<times> anyhow)) list"

definition bond_id :: "env \<Rightarrow> MonitoringBond \<Rightarrow> (bytes, anyhow) res" where
  "bond_id E bond = map_res (sha256_digest E) (ok_or HexDecode (hex_decode E (mb_bond_tx_hex bond)))"

definition bond_transaction :: "env \<Rightarrow> MonitoringBond \<Rightarrow> (Transaction, anyhow) res" where
  "bond_transaction E bond =
     bind_res (ok_or HexDecode (hex_decode E (mb_bond_tx_hex bond))) (tx_deserialize E)"

text \<open>
  Iteration over a \<open>HashMap\<close> (\<open>for .. in map\<close>, \<open>values()\<close>): any order of the entries is possible, and
  every order is that of some \<open>hash_rank\<close>.
\<close>

definition bond_map_iter :: "env \<Rightarrow> bond_map \<Rightarrow> bond_map" where
  "bond_map_iter E m = sort_key (\<lambda>(k, v). hash_rank E k) m"

text \<open>\<open>HashMap::extend\<close>; the order in which the entries of the second map arrive does not matter.\<close>

fun extend_map :: "bond_map \<Rightarrow> bond_map \<Rightarrow> bond_map" where
  "extend_map m [] = m"
| "extend_map m ((k, v) # kvs) = extend_map (AList.update k v m) kvs"

text \<open>
  \<open>(input_sum - tx.all_output_sum()) / tx.vsize() as u64\<close>: the subtraction can underflow and
  the division by a zero size panics.
\<close>

definition bond_fee_rate :: "env \<Rightarrow> Transaction \<Rightarrow> u64 \<Rightarrow> (u64, anyhow) res" where
  "bond_fee_rate E tx in_sum =
     bind_res (all_output_sum E tx) (\<lambda>out_sum.
     bind_res (sub_u64 (overflow_checks E) in_sum out_sum) (\<lambda>fee.
       if tx_vsize E tx = 0 then Panic else Ok (fee div tx_vsize E tx)))"

text \<open>
  One round of the loop of \<open>validate_bonds\<close>: \<open>Ok None\<close> is a bond without objection,
  \<open>Ok (Some e)\<close> one that goes into the map of invalid bonds (\<open>continue\<close>), an error ends the
  whole validation.
\<close>

definition bond_verdict :: "env \<Rightarrow> MonitoringBond \<Rightarrow> (anyhow option, anyhow) res" where
  "bond_verdict E bond =
     bind_res (bond_transaction E bond) (\<lambda>tx.
     case verify_tx E tx of
       Err e \<Rightarrow> Ok (Some e)
     | Panic \<Rightarrow> Panic
     | Ok _ \<Rightarrow>
     bind_res (input_sum E tx) (\<lambda>in_sum.
     if in_sum < br_min_input_sum_sat (mb_requirements bond)
     then Ok (Some (Anyhow ''Bond input sum too small''))
     else
     bind_res (bond_output_sum E tx (br_bond_address (mb_requirements bond))) (\<lambda>bond_out.
     if bond_out < br_locking_amount_sat (mb_requirements bond)
     then Ok (Some (Anyhow ''Bond output sum too small''))
     else
     bind_res (bond_fee_rate E tx in_sum) (\<lambda>rate.
     if rate < 200 then Ok (Some (Anyhow ''Bond fee rate too low''))
     else Ok None))))"

fun check_bonds :: "env \<Rightarrow> bond_map \<Rightarrow> MonitoringBond list \<Rightarrow> (bond_map, anyhow) res" where
  "check_bonds E invalid [] = Ok invalid"
| "check_bonds E invalid (bond # bonds) =
     bind_res (bond_verdict E bond) (\<lambda>verdict.
       case verdict of
         None \<Rightarrow> check_bonds E invalid bonds
       | Some e \<Rightarrow>
           bind_res (bond_id E bond) (\<lambda>i.
           check_bonds E (AList.update i (bond, e) invalid) bonds))"

text \<open>\<open>slice::chunks\<close>\<close>

function chunks :: "nat \<Rightarrow> 'a list \<Rightarrow> 'a list list" where
  "chunks n xs = (if n = 0 \<or> xs = [] then [] else take n xs # chunks n (drop n xs))"
  by pat_completeness auto
termination
  by (relation "measure (\<lambda>(n, xs). length xs)") auto

declare chunks.simps [simp del]

fun search_monitoring_bond_by_txid ::
  "env \<Rightarrow> MonitoringBond list \<Rightarrow> string \<Rightarrow> (MonitoringBond, anyhow) res"
where
  "search_monitoring_bond_by_txid E [] txid = Err (Anyhow ''Bond not found in monitoring bonds'')"
| "search_monitoring_bond_by_txid E (bond # bonds) txid =
     bind_res (bond_transaction E bond) (\<lambda>bond_tx.
       if tx_txid E bond_tx = txid then Ok bond
       else search_monitoring_bond_by_txid E bonds txid)"

fun mempool_accept_results :: "env \<Rightarrow> string list list \<Rightarrow> (MempoolAcceptResult list, anyhow) res" where
  "mempool_accept_results E [] = Ok []"
| "mempool_accept_results E (c # cs) =
     bind_res (rpc_test_mempool_accept E c) (\<lambda>rs.
     map_res (\<lambda>rs'. rs @ rs') (mempool_accept_results E cs))"

fun rejected_bonds ::
  "env \<Rightarrow> MonitoringBond list \<Rightarrow> bond_map \<Rightarrow> MempoolAcceptResult list \<Rightarrow> (bond_map, anyhow) res"
where
  "rejected_bonds E bonds invalid [] = Ok invalid"
| "rejected_bonds E bonds invalid (r # rs) =
     (if \<not> mar_allowed r
      then bind_res (search_monitoring_bond_by_txid E bonds (mar_txid r)) (\<lambda>bond.
           bind_res (bond_id E bond) (\<lambda>i.
           rejected_bonds E bonds
             (AList.update i (bond, Anyhow ''Bond not accepted by testmempoolaccept'') invalid) rs))
      else rejected_bonds E bonds invalid rs)"

definition test_mempool_accept_bonds :: "env \<Rightarrow> MonitoringBond list \<Rightarrow> (bond_map, anyhow) res" where
  "test_mempool_accept_bonds E bonds =
     bind_res (mempool_accept_results E (chunks 25 (map mb_bond_tx_hex bonds))) (\<lambda>results.
     rejected_bonds E bonds [] results)"

fun bonds_in_mempool ::
  "env \<Rightarrow> OutPoint list \<Rightarrow> bond_map \<Rightarrow> MonitoringBond list \<Rightarrow> (bond_map, anyhow) res"
where
  "bonds_in_mempool E utxo_set to_punish [] = Ok to_punish"
| "bonds_in_mempool E utxo_set to_punish (bond # bonds) =
     bind_res (bond_transaction E bond) (\<lambda>bond_tx.
       if \<exists>i \<in> set (tx_input bond_tx). i \<in> set utxo_set
       then bind_res (bond_id E bond) (\<lambda>i.
            bonds_in_mempool E utxo_set
              (AList.update i (bond, Anyhow ''Input in mempool'') to_punish) bonds)
       else bonds_in_mempool E utxo_set to_punish bonds)"

definition lookup_mempool_inputs :: "env \<Rightarrow> MonitoringBond list \<Rightarrow> (coord, bond_map, anyhow) async" where
  "lookup_mempool_inputs E bonds =
     atomic (\<lambda>s. (bonds_in_mempool E (mempool_utxo_set s) [] bonds, s))"

definition validate_bonds :: "env \<Rightarrow> MonitoringBond list \<Rightarrow> (coord, bond_map, anyhow) async" where
  "validate_bonds E bonds =
     andThen (lift_res (check_bonds E [] bonds)) (\<lambda>invalid_bonds.
     andThen (lift_res (test_mempool_accept_bonds E bonds)) (\<lambda>invalid_testmempoolaccept.
     andThen (lookup_mempool_inputs E bonds) (\<lambda>mempool_bonds.
     ret (extend_map (extend_map invalid_bonds invalid_testmempoolaccept) mempool_bonds))))"

definition validate_bond_tx_hex :: "env \<Rightarrow> string \<Rightarrow> BondRequirements \<Rightarrow> (coord, unit, anyhow) async" where
  "validate_bond_tx_hex E bond_tx_hex requirements =
     (let dummy_monitoring_bond =
        \<lparr> mb_bond_tx_hex = bond_tx_hex, mb_trade_id_hex = ''0'', mb_robot = [0],
          mb_requirements = requirements, mb_table = Memory \<rparr>
      in andThen (validate_bonds E [dummy_monitoring_bond]) (\<lambda>invalid_bond.
           case bond_map_iter E invalid_bond of
             [] \<Rightarrow> ret ()
           | (_, (_, error)) # _ \<Rightarrow> fail error))"

section \<open>Addresses and publication\<close>

text \<open>bdk's \<open>get_address(AddressIndex::New)\<close> moves the index on and derives the address there.\<close>

definition get_new_address :: "env \<Rightarrow> (coord, string, anyhow) async" where
  "get_new_address E = atomic (\<lambda>s. (address_at E (wallet_index s), s\<lparr>wallet_index := Suc (wallet_index s)\<rparr>))"

definition get_coordinator_taproot_pk :: "env \<Rightarrow> (coord, string, anyhow) async" where
  "get_coordinator_taproot_pk E =
     atomic (\<lambda>s. (xonly_pk_at E (wallet_index s), s\<lparr>wallet_index := Suc (wallet_index s)\<rparr>))"

text \<open>\<open>blockchain.broadcast(&tx)?\<close>; the published transactions are recorded in the state.\<close>

definition broadcast :: "env \<Rightarrow> Transaction \<Rightarrow> (coord, unit, anyhow) async" where
  "broadcast E tx = atomic (\<lambda>s.
     case broadcast_accepted E tx of
       Ok _ \<Rightarrow> (Ok (), s\<lparr>published := published s @ [tx]\<rparr>)
     | Err e \<Rightarrow> (Err e, s)
     | Panic \<Rightarrow> (Panic, s))"

definition publish_bond_tx_hex :: "env \<Rightarrow> string \<Rightarrow> (coord, unit, anyhow) async" where
  "publish_bond_tx_hex E bond =
     andThen (decode_hex E bond) (\<lambda>raw.
     andThen (lift_res (tx_deserialize E raw)) (\<lambda>tx.
     broadcast E tx))"

lemma run_get_new_address [run_simps]:
  "run (get_new_address E) s = (address_at E (wallet_index s), s\<lparr>wallet_index := Suc (wallet_index s)\<rparr>)"
  by (simp add: get_new_address_def run_simps)

lemma run_get_coordinator_taproot_pk [run_simps]:
  "run (get_coordinator_taproot_pk E) s =
     (xonly_pk_at E (wallet_index s), s\<lparr>wallet_index := Suc (wallet_index s)\<rparr>)"
  by (simp add: get_coordinator_taproot_pk_def run_simps)

lemma run_lookup_mempool_inputs [run_simps]:
  "run (lookup_mempool_inputs E bonds) s = (bonds_in_mempool E (mempool_utxo_set s) [] bonds, s)"
  by (simp add: lookup_mempool_inputs_def run_simps)

text \<open>The validation of bonds only reads; its result as a function of the mempool's spent outputs.\<close>

definition bonds_result :: "env \<Rightarrow> OutPoint list \<Rightarrow> MonitoringBond list \<Rightarrow> (bond_map, anyhow) res" where
  "bonds_result E utxo_set bonds =
     bind_res (check_bonds E [] bonds) (\<lambda>invalid_bonds.
     bind_res (test_mempool_accept_bonds E bonds) (\<lambda>not_accepted.
     bind_res (bonds_in_mempool E utxo_set [] bonds) (\<lambda>mempool_bonds.
     Ok (extend_map (extend_map invalid_bonds not_accepted) mempool_bonds))))"

lemma run_validate_bonds [run_simps]:
  "run (validate_bonds E bonds) s = (bonds_result E (mempool_utxo_set s) bonds, s)"
  by (cases "check_bonds E [] bonds"; cases "test_mempool_accept_bonds E bonds";
      cases "bonds_in_mempool E (mempool_utxo_set s) [] bonds")
    (simp_all add: validate_bonds_def bonds_result_def run_simps)

definition first_error :: "env \<Rightarrow> bond_map \<Rightarrow> (unit, anyhow) res" where
  "first_error E m = (case bond_map_iter E m of [] \<Rightarrow> Ok () | (_, (_, error)) # _ \<Rightarrow> Err error)"

definition submitted_bond :: "string \<Rightarrow> BondRequirements \<Rightarrow> MonitoringBond" where
  "submitted_bond tx_hex requirements =
     \<lparr> mb_bond_tx_hex = tx_hex, mb_trade_id_hex = ''0'', mb_robot = [0],
       mb_requirements = requirements, mb_table = Memory \<rparr>"

lemma run_validate_bond_tx_hex [run_simps]:
  "run (validate_bond_tx_hex E tx_hex req) s =
     (bind_res (bonds_result E (mempool_utxo_set s) [submitted_bond tx_hex req]) (first_error E), s)"
  by (cases "bonds_result E (mempool_utxo_set s) [submitted_bond tx_hex req]")
    (auto simp: validate_bond_tx_hex_def run_simps submitted_bond_def first_error_def split: list.split)

end
