(* ===== verification/EscrowTx.thy ===== *)
theory EscrowTx
  imports BondTx
begin

text \<open>
  The escrow locking transaction (\<open>wallet/escrow_psbt.rs\<close>) and the keyspend payout transaction
  (\<open>wallet/payout_tx.rs\<close>): the output descriptor, the amounts given to the transaction
  builder, the combination and publication of what the traders signed.
\<close>

section \<open>The escrow output descriptor\<close>

definition aggregate_musig_pubkeys :: "env \<Rightarrow> string \<Rightarrow> string \<Rightarrow> (bytes, anyhow) res" where
  "aggregate_musig_pubkeys E maker_musig_pubkey taker_musig_pubkey =
     bind_res (musig_pubkey_parse E maker_musig_pubkey) (\<lambda>pk1.
     bind_res (musig_pubkey_parse E taker_musig_pubkey) (\<lambda>pk2.
     key_agg_new E [pk1, pk2]))"

definition policy_a :: "string \<Rightarrow> string \<Rightarrow> string" where
  "policy_a maker_pk coordinator_pk = ''and(pk('' @ maker_pk @ ''),pk('' @ coordinator_pk @ ''))''"

definition policy_b :: "string \<Rightarrow> string \<Rightarrow> string" where
  "policy_b taker_pk coordinator_pk = ''and(pk('' @ taker_pk @ ''),pk('' @ coordinator_pk @ ''))''"

definition policy_c :: "string \<Rightarrow> string" where
  "policy_c maker_pk = ''and(pk('' @ maker_pk @ ''),after(12228))''"

definition policy_d :: "string \<Rightarrow> string \<Rightarrow> string" where
  "policy_d maker_pk taker_pk = ''and(and(pk('' @ maker_pk @ ''),pk('' @ taker_pk @ '')),after(2048))''"

definition build_escrow_transaction_output_descriptor ::
  "env \<Rightarrow> EscrowPsbtConstructionData \<Rightarrow> EscrowPsbtConstructionData \<Rightarrow> string \<Rightarrow> (string, anyhow) res"
where
  "build_escrow_transaction_output_descriptor E maker_escrow_data taker_escrow_data coordinator_pk =
    (let maker_pk = ed_taproot_xonly_pubkey_hex maker_escrow_data;
         taker_pk = ed_taproot_xonly_pubkey_hex taker_escrow_data
     in
     bind_res (parse_policy E (policy_a maker_pk coordinator_pk)) (\<lambda>policy_a.
     bind_res (parse_policy E (policy_b taker_pk coordinator_pk)) (\<lambda>policy_b.
     bind_res (parse_policy E (policy_c maker_pk)) (\<lambda>policy_c.
     bind_res (parse_policy E (policy_d maker_pk taker_pk)) (\<lambda>policy_d.
     bind_res (compile_policy E policy_a) (\<lambda>miniscript_a.
     bind_res (compile_policy E policy_b) (\<lambda>miniscript_b.
     bind_res (compile_policy E policy_c) (\<lambda>miniscript_c.
     bind_res (compile_policy E policy_d) (\<lambda>miniscript_d.
       let tap_node_ab = Tree (Leaf miniscript_a) (Leaf miniscript_b);
           tap_node_cd = Tree (Leaf miniscript_d) (Leaf miniscript_c);
           tap_root = Tree tap_node_ab tap_node_cd
       in
       bind_res (aggregate_musig_pubkeys E (ed_musig_pubkey_compressed_hex maker_escrow_data)
                   (ed_musig_pubkey_compressed_hex taker_escrow_data)) (\<lambda>key_agg_ctx.
       bind_res (key_agg_internal_key E key_agg_ctx) (\<lambda>internal_agg_musig_key.
       new_tr E internal_agg_musig_key tap_root)))))))))))"

section \<open>The escrow locking transaction\<close>

text \<open>What one trader gets back: inputs less escrow amount, service fee and half of the tx fee.\<close>

definition escrow_change_amount ::
  "env \<Rightarrow> EscrowPsbtConstructionData \<Rightarrow> u64 \<Rightarrow> u64 \<Rightarrow> u64 \<Rightarrow> (u64, anyhow) res"
where
  "escrow_change_amount E d escrow_amount_sat escrow_fee_sat_per_participant tx_fee_abs =
     bind_res (escrow_input_sum (overflow_checks E) d) (\<lambda>in_sum.
     bind_res (add_u64 (overflow_checks E) escrow_amount_sat escrow_fee_sat_per_participant) (\<lambda>a.
     bind_res (add_u64 (overflow_checks E) a (tx_fee_abs div 2)) (\<lambda>b.
     sub_u64 (overflow_checks E) in_sum b)))"

text \<open>The builder's input in \<open>create_escrow_psbt\<close>; the weight of a foreign input is 264.\<close>

definition escrow_plan ::
  "env \<Rightarrow> EscrowPsbtConstructionData \<Rightarrow> EscrowPsbtConstructionData \<Rightarrow> bytes \<Rightarrow> bytes
     \<Rightarrow> u64 \<Rightarrow> u64 \<Rightarrow> u64 \<Rightarrow> (TxPlan, anyhow) res"
where
  "escrow_plan E maker taker escrow_script fee_script
      escrow_amount_maker_sat escrow_amount_taker_sat escrow_fee_sat_per_participant =
    (let tx_fee_abs = 10000 in
     bind_res (escrow_change_amount E maker escrow_amount_maker_sat escrow_fee_sat_per_participant tx_fee_abs) (\<lambda>change_amount_maker.
     bind_res (escrow_change_amount E taker escrow_amount_taker_sat escrow_fee_sat_per_participant tx_fee_abs) (\<lambda>change_amount_taker.
     bind_res (add_u64 (overflow_checks E) escrow_amount_maker_sat escrow_amount_taker_sat) (\<lambda>amount_escrow.
     bind_res (mul_u64 (overflow_checks E) escrow_fee_sat_per_participant 2) (\<lambda>service_fee.
     Ok \<lparr> tp_manually_selected_only = True,
          tp_recipients =
            [(escrow_script, amount_escrow),
             (fee_script, service_fee),
             (ed_change_address maker, change_amount_maker),
             (ed_change_address taker, change_amount_taker)],
          tp_fee_absolute = tx_fee_abs,
          tp_foreign_utxos =
            map (\<lambda>i. (pi_utxo i, i, 264)) (ed_escrow_input_utxos maker @ ed_escrow_input_utxos taker) \<rparr>)))))"

definition create_escrow_psbt :: "env \<Rightarrow> OfferPsbtRequest \<Rightarrow> (coord, EscrowPsbt, anyhow) async" where
  "create_escrow_psbt E taker_psbt_request =
    (let trade_id = po_offer_id_hex (opr_offer taker_psbt_request);
         trade_data = opr_trade_data taker_psbt_request
     in
     andThen (fetch_maker_escrow_psbt_data E trade_id) (\<lambda>maker_psbt_input_data.
     andThen (lift_res (csv_hex_to_bdk_input E (bsr_bdk_psbt_inputs_hex_csv trade_data))) (\<lambda>taker_inputs.
     andThen (lift_res (unchecked_script E (bsr_client_change_address trade_data))) (\<lambda>taker_change.
     let taker_psbt_input_data =
       \<lparr> ed_taproot_xonly_pubkey_hex = bsr_taproot_pubkey_hex trade_data,
         ed_escrow_input_utxos = taker_inputs,
         ed_change_address = taker_change,
         ed_musig_pubkey_compressed_hex = bsr_musig_pubkey_hex trade_data \<rparr>
     in
     andThen (get_coordinator_taproot_pk E) (\<lambda>coordinator_escrow_pk.
     andThen (lift_res (build_escrow_transaction_output_descriptor E maker_psbt_input_data
                taker_psbt_input_data coordinator_escrow_pk)) (\<lambda>escrow_output_descriptor.
     andThen (get_new_address E) (\<lambda>fee_address.
     andThen (lift_res (unchecked_script E fee_address)) (\<lambda>escrow_coordinator_fee_address.
     andThen (get_escrow_tx_amounts E trade_id (coordinator_feerate E))
       (\<lambda>(escrow_amount_maker_sat, escrow_amount_taker_sat, escrow_fee_sat_per_participant).
     andThen (lift_res (descriptor_script E escrow_output_descriptor)) (\<lambda>escrow_address.
     andThen (lift_res (escrow_plan E maker_psbt_input_data taker_psbt_input_data escrow_address
                escrow_coordinator_fee_address escrow_amount_maker_sat escrow_amount_taker_sat
                escrow_fee_sat_per_participant)) (\<lambda>plan.
     andThen (lift_res (build_tx E plan)) (\<lambda>(escrow_psbt, txid).
     ret \<lparr> ep_escrow_psbt_hex = psbt_to_string E escrow_psbt,
           ep_escrow_tx_txid = txid,
           ep_escrow_output_descriptor = escrow_output_descriptor,
           ep_coordinator_xonly_escrow_pk = coordinator_escrow_pk,
           ep_escrow_amount_maker_sat = escrow_amount_maker_sat,
           ep_escrow_amount_taker_sat = escrow_amount_taker_sat,
           ep_escrow_fee_sat_per_participant = escrow_fee_sat_per_participant \<rparr>))))))))))))"

text \<open>A placeholder that accepts every PSBT.\<close>

definition validate_escrow_init_psbt :: "string \<Rightarrow> (coord, unit, anyhow) async" where
  "validate_escrow_init_psbt escrow_init_psbt = ret ()"

definition combine_and_broadcast_escrow_psbt ::
  "env \<Rightarrow> string \<Rightarrow> string \<Rightarrow> (coord, unit, anyhow) async"
where
  "combine_and_broadcast_escrow_psbt E signed_maker_psbt_hex signed_taker_psbt_hex =
     andThen (decode_hex E signed_maker_psbt_hex) (\<lambda>maker_raw.
     andThen (lift_res (psbt_deserialize E maker_raw)) (\<lambda>maker_psbt.
     andThen (decode_hex E signed_taker_psbt_hex) (\<lambda>taker_raw.
     andThen (lift_res (psbt_deserialize E taker_raw)) (\<lambda>taker_psbt.
     andThen (lift_res (psbt_combine E maker_psbt taker_psbt)) (\<lambda>combined.
     andThen (lift_res (map_err_res (\<lambda>_. Anyhow ''Error finalizing escrow psbt'') (psbt_finalize E combined)))
       (\<lambda>(finalized, tx).
          if finalized then broadcast E tx
          else fail (Anyhow ''Failed to finalize escrow psbt'')))))))"

section \<open>The payout transaction\<close>

text \<open>The fee for 140 virtual bytes, and half of it per trader.\<close>

definition get_tx_fees_abs_sat :: "env \<Rightarrow> u64 \<times> u64" where
  "get_tx_fees_abs_sat E =
     (let tx_fee_abs = (case estimate_fee_vb E 140 of Some fee \<Rightarrow> fee | None \<Rightarrow> fallback_fee_vb E 140)
      in (tx_fee_abs, tx_fee_abs div 2))"

definition descriptor_string :: "Descriptor \<Rightarrow> string" where
  "descriptor_string d = (case d of Tr s tweak \<Rightarrow> s | OtherDescriptor s \<Rightarrow> s)"

definition get_escrow_utxo :: "env \<Rightarrow> Descriptor \<Rightarrow> (PsbtInput \<times> OutPoint, anyhow) res" where
  "get_escrow_utxo E descriptor =
     bind_res (escrow_unspent E (descriptor_string descriptor)) (\<lambda>available_utxos.
       case available_utxos of
         [(outpoint, input)] \<Rightarrow> Ok (input, outpoint)
       | _ \<Rightarrow> Err (Anyhow ''Expected exactly one utxo''))"

definition payout_plan :: "env \<Rightarrow> PayoutData \<Rightarrow> PsbtInput \<times> OutPoint \<Rightarrow> (TxPlan, anyhow) res" where
  "payout_plan E payout_information utxo =
     (case get_tx_fees_abs_sat E of (tx_fee_abs, tx_fee_abs_sat_per_user) \<Rightarrow>
      bind_res (sub_u64 (overflow_checks E) (pd_payout_amount_maker payout_information) tx_fee_abs_sat_per_user) (\<lambda>to_maker.
      bind_res (sub_u64 (overflow_checks E) (pd_payout_amount_taker payout_information) tx_fee_abs_sat_per_user) (\<lambda>to_taker.
      Ok \<lparr> tp_manually_selected_only = False,
           tp_recipients =
             [(pd_payout_address_maker payout_information, to_maker),
              (pd_payout_address_taker payout_information, to_taker)],
           tp_fee_absolute = tx_fee_abs,
           tp_foreign_utxos = [(snd utxo, fst utxo, 264)] \<rparr>)))"

definition assemble_keyspend_payout_psbt :: "env \<Rightarrow> PayoutData \<Rightarrow> (coord, string, anyhow) async" where
  "assemble_keyspend_payout_psbt E payout_information =
     atomic (\<lambda>s. (bind_res (get_escrow_utxo E (pd_escrow_output_descriptor payout_information)) (\<lambda>utxo.
       bind_res (payout_plan E payout_information utxo) (\<lambda>plan.
       map_res (\<lambda>(payout_psbt, txid). psbt_serialize_hex E payout_psbt) (build_tx E plan))), s))"

definition broadcast_keyspend_tx :: "env \<Rightarrow> KeyspendContext \<Rightarrow> (coord, unit, anyhow) async" where
  "broadcast_keyspend_tx E keyspend_ctx =
     andThen (lift_res (insert_keyspend_witness E (kc_keyspend_psbt keyspend_ctx) (kc_agg_sig keyspend_ctx))) (\<lambda>tx.
     broadcast E tx)"

end
