(* ===== verification/Handlers.thy ===== *)
theory Handlers
  imports EscrowTx
begin

text \<open>
  The request handlers of \<open>coordinator/mod.rs\<close>, with \<open>check_offer_and_confirmation\<close> of
  \<open>coordinator/coordinator_utils.rs\<close>: each is the task the code runs for one request.
\<close>

section \<open>Creating an offer\<close>

definition order_requirements :: "env \<Rightarrow> OfferRequest \<Rightarrow> (u64 \<times> u64, anyhow) res" where
  "order_requirements E offer =
     bind_res (mul_u64 (overflow_checks E) (ucast (or_bond_ratio offer)) (or_amount_satoshi offer)) (\<lambda>product.
     let bond_amount = product div 100;
         coordinator_fee = order_fee (coordinator_feerate E) (or_amount_satoshi offer);
         absolute_tx_fee = 5000
     in
     bind_res (add_u64 (overflow_checks E) bond_amount coordinator_fee) (\<lambda>a.
     bind_res (add_u64 (overflow_checks E) a absolute_tx_fee) (\<lambda>b.
     bind_res (add_u64 (overflow_checks E) b 5000) (\<lambda>escrow_locking_input_amount_without_trade_sum.
     Ok (bond_amount, escrow_locking_input_amount_without_trade_sum)))))"

definition process_order :: "env \<Rightarrow> OfferRequest \<Rightarrow> (coord, BondRequirementResponse, anyhow) async" where
  "process_order E offer =
     andThen (lift_res (order_requirements E offer))
       (\<lambda>(bond_amount, escrow_locking_input_amount_without_trade_sum).
     andThen (get_new_address E) (\<lambda>bond_address.
     let bond_requirements =
       \<lparr> brr_bond_address = bond_address,
         brr_locking_amount_sat = bond_amount,
         brr_escrow_locking_input_amount_without_trade_sum = escrow_locking_input_amount_without_trade_sum \<rparr>
     in
     andThen (insert_new_maker_request E offer bond_requirements) (\<lambda>_.
     ret bond_requirements)))"

section \<open>Bonds\<close>

definition handle_maker_bond ::
  "env \<Rightarrow> BondSubmissionRequest \<Rightarrow> (coord, OfferActivatedResponse, BondError) async"
where
  "handle_maker_bond E payload =
     andThen (mapErr (\<lambda>_. BondNotFound) (fetch_bond_requirements E (bsr_robohash_hex payload))) (\<lambda>bond_requirements.
     andThen (mapErr InvalidBond (validate_bond_tx_hex E (bsr_signed_bond_hex payload) bond_requirements)) (\<lambda>_.
     let offer_id_hex = generate_random_order_id E 16 in
     andThen (mapErr BondCoordinatorError (get_new_address E)) (\<lambda>new_taker_bond_address.
     andThen (mapErr BondCoordinatorError (move_offer_to_active E payload offer_id_hex new_taker_bond_address))
       (\<lambda>bond_locked_until_timestamp.
     ret \<lparr> oar_offer_id_hex = offer_id_hex,
           oar_bond_locked_until_timestamp = bond_locked_until_timestamp \<rparr>))))"

definition get_public_offers :: "OffersRequest \<Rightarrow> (coord, PublicOffers, FetchOffersError) async" where
  "get_public_offers request =
     andThen (mapErr OffersDatabase (fetch_suitable_offers request)) (\<lambda>offers.
       if offers = None then fail NoOffersAvailable
       else ret \<lparr> pos_offers = offers \<rparr>)"

definition offer_taken_response :: "EscrowPsbt \<Rightarrow> OfferTakenResponse" where
  "offer_taken_response d =
     \<lparr> otp_escrow_psbt_hex = ep_escrow_psbt_hex d,
       otp_escrow_output_descriptor = ep_escrow_output_descriptor d,
       otp_escrow_amount_maker_sat = ep_escrow_amount_maker_sat d,
       otp_escrow_amount_taker_sat = ep_escrow_amount_taker_sat d,
       otp_escrow_fee_sat_per_participant = ep_escrow_fee_sat_per_participant d \<rparr>"

definition handle_taker_bond :: "env \<Rightarrow> OfferPsbtRequest \<Rightarrow> (coord, OfferTakenResponse, BondError) async" where
  "handle_taker_bond E payload =
     andThen (mapErr (\<lambda>_. BondNotFound) (fetch_taker_bond_requirements (po_offer_id_hex (opr_offer payload)))) (\<lambda>bond_requirements.
     andThen (mapErr InvalidBond (validate_bond_tx_hex E (bsr_signed_bond_hex (opr_trade_data payload)) bond_requirements)) (\<lambda>_.
     andThen (mapErr BondCoordinatorError (create_escrow_psbt E payload)) (\<lambda>escrow_output_data.
     andThen (mapErr BondCoordinatorError (add_taker_info_and_move_table E payload escrow_output_data)) (\<lambda>_.
     ret (offer_taken_response escrow_output_data)))))"

section \<open>Polling and escrow\<close>

definition get_offer_status_maker :: "OfferTakenRequest \<Rightarrow> (coord, OfferTakenResponse, FetchOffersError) async" where
  "get_offer_status_maker payload =
     onResult (fetch_escrow_output_information (otr_offer_id_hex payload))
       (\<lambda>found. case found of
          Some escrow_psbt_data \<Rightarrow> ret (offer_taken_response escrow_psbt_data)
        | None \<Rightarrow> fail NoOffersAvailable)
       (\<lambda>e. fail (OffersDatabase e))"

definition fetch_escrow_confirmation_status ::
  "env \<Rightarrow> OfferTakenRequest \<Rightarrow> (coord, bool, FetchEscrowConfirmationError) async"
where
  "fetch_escrow_confirmation_status E payload =
     onResult (is_valid_robohash_in_table E (otr_robohash_hex payload) (otr_offer_id_hex payload))
       (\<lambda>valid. if \<not> valid then fail ConfirmationNotFound
          else mapErr ConfirmationDatabase (fetch_escrow_tx_confirmation_status (otr_offer_id_hex payload)))
       (\<lambda>e. fail (ConfirmationDatabase e))"

definition check_offer_and_confirmation :: "env \<Rightarrow> string \<Rightarrow> string \<Rightarrow> (coord, unit, RequestError) async" where
  "check_offer_and_confirmation E offer_id_hex robohash_hex =
     onResult (is_valid_robohash_in_table E robohash_hex offer_id_hex)
       (\<lambda>valid. if \<not> valid then fail NotFound
          else onResult (fetch_escrow_tx_confirmation_status offer_id_hex)
            (\<lambda>confirmed. if \<not> confirmed then fail NotConfirmed else ret ())
            (\<lambda>e. fail (Database e)))
       (\<lambda>e. fail (Database e))"

definition handle_signed_escrow_psbt :: "env \<Rightarrow> PsbtSubmissionRequest \<Rightarrow> (coord, unit, RequestError) async" where
  "handle_signed_escrow_psbt E payload =
     onResult (is_valid_robohash_in_table E (psr_robohash_hex payload) (psr_offer_id_hex payload))
       (\<lambda>valid. if \<not> valid then fail NotFound else
         andThen (mapErr PsbtInvalid (validate_escrow_init_psbt (psr_signed_psbt_hex payload))) (\<lambda>_.
         onResult (insert_signed_escrow_psbt E payload)
           (\<lambda>inserted. if \<not> inserted then fail PsbtAlreadySubmitted else
             onResult (fetch_both_signed_escrow_psbts (psr_offer_id_hex payload))
               (\<lambda>both. case both of
                  None \<Rightarrow> ret ()
                | Some (maker_psbt, taker_psbt) \<Rightarrow>
                    mapErr PsbtInvalid (combine_and_broadcast_escrow_psbt E maker_psbt taker_psbt))
               (\<lambda>e. fail (Database e)))
           (\<lambda>e. fail (Database e))))
       (\<lambda>e. fail (Database e))"

definition handle_obligation_confirmation :: "env \<Rightarrow> OfferTakenRequest \<Rightarrow> (coord, unit, RequestError) async" where
  "handle_obligation_confirmation E payload =
     andThen (check_offer_and_confirmation E (otr_offer_id_hex payload) (otr_robohash_hex payload)) (\<lambda>_.
     mapErr Database (set_trader_happy_field E (otr_offer_id_hex payload) (otr_robohash_hex payload) True))"

definition initiate_escrow :: "env \<Rightarrow> TradeObligationsUnsatisfied \<Rightarrow> (coord, unit, RequestError) async" where
  "initiate_escrow E payload =
     andThen (check_offer_and_confirmation E (tou_offer_id_hex payload) (tou_robohash_hex payload)) (\<lambda>_.
     mapErr Database (set_trader_happy_field E (tou_offer_id_hex payload) (tou_robohash_hex payload) False))"

section \<open>Payout\<close>

definition payout_response :: "env \<Rightarrow> PayoutData \<Rightarrow> string \<Rightarrow> PayoutResponse" where
  "payout_response E escrow_payout_data payout_keyspend_psbt_hex =
     \<lparr> pr_payout_psbt_hex = payout_keyspend_psbt_hex,
       pr_agg_musig_nonce_hex = agg_nonce_string E (pd_agg_musig_nonce escrow_payout_data),
       pr_agg_musig_pubkey_ctx_hex = pd_aggregated_musig_pubkey_ctx_hex escrow_payout_data \<rparr>"

text \<open>The section of \<open>handle_final_payout\<close> that is meant to be entered by one request only.\<close>

definition assemble_locked ::
  "env \<Rightarrow> string \<Rightarrow> PayoutData \<Rightarrow> (coord, PayoutProcessingResult, RequestError) async"
where
  "assemble_locked E offer_id_hex escrow_payout_data =
     andThen (mapErr CoordinatorError (assemble_keyspend_payout_psbt E escrow_payout_data)) (\<lambda>payout_keyspend_psbt_hex.
     andThen (mapErr Database (insert_keyspend_payout_psbt offer_id_hex payout_keyspend_psbt_hex)) (\<lambda>_.
     andThen (mapErr Database (toggle_processing offer_id_hex)) (\<lambda>_.
     ret (ReadyPSBT (payout_response E escrow_payout_data payout_keyspend_psbt_hex)))))"

definition both_happy :: "TraderHappiness \<Rightarrow> bool" where
  "both_happy h \<longleftrightarrow> th_maker_happy h = Some True \<and> th_taker_happy h = Some True"

definition waiting_for_traders :: "TraderHappiness \<Rightarrow> bool" where
  "waiting_for_traders h \<longleftrightarrow>
     (th_maker_happy h = None \<or> th_taker_happy h = None) \<and> \<not> th_escrow_ongoing h"

definition handle_final_payout ::
  "env \<Rightarrow> OfferTakenRequest \<Rightarrow> (coord, PayoutProcessingResult, RequestError) async"
where
  "handle_final_payout E payload =
     andThen (mapErr Database (fetch_trader_happiness (otr_offer_id_hex payload))) (\<lambda>trader_happiness.
     if both_happy trader_happiness then
       andThen (mapErr Database (fetch_payout_data E (otr_offer_id_hex payload))) (\<lambda>escrow_payout_data.
       andThen (mapErr Database (fetch_keyspend_payout_psbt (otr_offer_id_hex payload))) (\<lambda>stored.
         case stored of
           Some payout_psbt_hex \<Rightarrow> ret (ReadyPSBT (payout_response E escrow_payout_data payout_psbt_hex))
         | None \<Rightarrow>
             andThen (mapErr Database (toggle_processing (otr_offer_id_hex payload))) (\<lambda>locked.
               if \<not> locked then ret NotReady
               else assemble_locked E (otr_offer_id_hex payload) escrow_payout_data)))
     else if waiting_for_traders trader_happiness then ret NotReady
     else
       andThen (mapErr Database (fetch_escrow_result (otr_offer_id_hex payload))) (\<lambda>potential_escrow_winner.
         case potential_escrow_winner of
           Some escrow_winner \<Rightarrow>
             if escrow_winner = otr_robohash_hex payload then lift_res Panic
             else ret LostEscrow
         | None \<Rightarrow> ret DecidingEscrow))"

definition handle_payout_signature :: "env \<Rightarrow> PayoutSignatureRequest \<Rightarrow> (coord, bool, RequestError) async" where
  "handle_payout_signature E payload =
     andThen (check_offer_and_confirmation E (pgr_offer_id_hex payload) (pgr_robohash_hex payload)) (\<lambda>_.
     andThen (mapErr Database (insert_partial_sig E (pgr_partial_sig_hex payload) (pgr_offer_id_hex payload) (pgr_robohash_hex payload))) (\<lambda>_.
     andThen (mapErr Database (fetch_keyspend_payout_information E (pgr_offer_id_hex payload))) (\<lambda>keyspend_information.
       case keyspend_information of
         None \<Rightarrow> ret False
       | Some context \<Rightarrow>
           andThen (mapErr CoordinatorError (broadcast_keyspend_tx E context)) (\<lambda>_.
           andThen (mapErr Database (delete_complete_offer (pgr_offer_id_hex payload))) (\<lambda>_.
           ret True)))))"

end
