(* ===== verification/Http.thy ===== *)
theory Http
  imports Handlers
begin

text \<open>
  The HTTP interface (\<open>communication/mod.rs\<close>): validation of an order, one axum handler per
  route with the status code of every outcome, and the router. A panic of a handler has no
  response: the connection is dropped.
\<close>

section \<open>Validation of an order\<close>

datatype ValidationError = OfferDurationTooShort | OfferDurationTooLong

definition validate_timestamp :: "env \<Rightarrow> u64 \<Rightarrow> (unit, ValidationError) res" where
  "validate_timestamp E offer_duration_ts =
     bind_res (ok_or_panic (unix_now E)) (\<lambda>unix_timestamp.
     bind_res (add_u64 (overflow_checks E) unix_timestamp 10800) (\<lambda>earliest.
     if offer_duration_ts < earliest then Err OfferDurationTooShort
     else
     bind_res (add_u64 (overflow_checks E) unix_timestamp 604800) (\<lambda>latest.
     if latest < offer_duration_ts then Err OfferDurationTooLong
     else Ok ())))"

text \<open>The ranges of the \<open>validate\<close> attributes of \<open>OfferRequest\<close>; every field is checked.\<close>

definition offer_in_range :: "OfferRequest \<Rightarrow> bool" where
  "offer_in_range offer \<longleftrightarrow>
     10000 \<le> or_amount_satoshi offer \<and> or_amount_satoshi offer \<le> 20000000 \<and>
     2 \<le> or_bond_ratio offer \<and> or_bond_ratio offer \<le> 50"

definition validate_offer :: "env \<Rightarrow> OfferRequest \<Rightarrow> (bool, anyhow) res" where
  "validate_offer E offer =
     (case validate_timestamp E (or_offer_duration_ts offer) of
        Panic \<Rightarrow> Panic
      | r \<Rightarrow> Ok (offer_in_range offer \<and> is_ok r))"

section \<open>Responses\<close>

datatype Body =
    NoBody
  | TextBody string
  | BondRequirementsJson BondRequirementResponse
  | OfferActivatedJson OfferActivatedResponse
  | PublicOffersJson PublicOffers
  | OfferTakenJson OfferTakenResponse
  | PayoutJson PayoutResponse

record Response =
  status :: nat
  body :: Body

definition code :: "nat \<Rightarrow> Response" where
  "code n = \<lparr> status = n, body = NoBody \<rparr>"

definition json :: "Body \<Rightarrow> Response" where
  "json b = \<lparr> status = 200, body = b \<rparr>"

abbreviation OK_200 :: nat where "OK_200 \<equiv> 200"
abbreviation CREATED_201 :: nat where "CREATED_201 \<equiv> 201"
abbreviation ACCEPTED_202 :: nat where "ACCEPTED_202 \<equiv> 202"
abbreviation NO_CONTENT_204 :: nat where "NO_CONTENT_204 \<equiv> 204"
abbreviation BAD_REQUEST_400 :: nat where "BAD_REQUEST_400 \<equiv> 400"
abbreviation NOT_FOUND_404 :: nat where "NOT_FOUND_404 \<equiv> 404"
abbreviation NOT_ACCEPTABLE_406 :: nat where "NOT_ACCEPTABLE_406 \<equiv> 406"
abbreviation GONE_410 :: nat where "GONE_410 \<equiv> 410"
abbreviation INTERNAL_SERVER_ERROR_500 :: nat where "INTERNAL_SERVER_ERROR_500 \<equiv> 500"

text \<open>\<open>AppError::into_response\<close>\<close>

definition app_error_response :: "anyhow \<Rightarrow> Response" where
  "app_error_response e = \<lparr> status = INTERNAL_SERVER_ERROR_500, body = TextBody ''Something went wrong'' \<rparr>"

section \<open>The handlers\<close>

definition receive_order :: "env \<Rightarrow> OfferRequest \<Rightarrow> (coord, Response, anyhow) async" where
  "receive_order E offer =
     andThen (lift_res (validate_offer E offer)) (\<lambda>valid.
       if \<not> valid then ret (code BAD_REQUEST_400)
       else andThen (process_order E offer) (\<lambda>bond_requirements.
            ret (json (BondRequirementsJson bond_requirements))))"

definition bond_error_response :: "BondError \<Rightarrow> Response" where
  "bond_error_response e =
     (case e of
        BondNotFound \<Rightarrow> code NOT_FOUND_404
      | InvalidBond _ \<Rightarrow> code NOT_ACCEPTABLE_406
      | BondCoordinatorError _ \<Rightarrow> code INTERNAL_SERVER_ERROR_500)"

definition submit_maker_bond :: "env \<Rightarrow> BondSubmissionRequest \<Rightarrow> (coord, Response, anyhow) async" where
  "submit_maker_bond E payload =
     onResult (handle_maker_bond E payload)
       (\<lambda>offer_activated_response. ret (json (OfferActivatedJson offer_activated_response)))
       (\<lambda>e. ret (bond_error_response e))"

definition offers_error_response :: "FetchOffersError \<Rightarrow> Response" where
  "offers_error_response e =
     (case e of
        NoOffersAvailable \<Rightarrow> code NO_CONTENT_204
      | OffersDatabase _ \<Rightarrow> code INTERNAL_SERVER_ERROR_500)"

definition fetch_available_offers :: "OffersRequest \<Rightarrow> (coord, Response, anyhow) async" where
  "fetch_available_offers payload =
     onResult (get_public_offers payload)
       (\<lambda>offers. ret (json (PublicOffersJson offers)))
       (\<lambda>e. ret (offers_error_response e))"

definition submit_taker_bond :: "env \<Rightarrow> OfferPsbtRequest \<Rightarrow> (coord, Response, anyhow) async" where
  "submit_taker_bond E payload =
     onResult (handle_taker_bond E payload)
       (\<lambda>offer_taken_response. ret (json (OfferTakenJson offer_taken_response)))
       (\<lambda>e. ret (bond_error_response e))"

definition request_offer_status_maker :: "OfferTakenRequest \<Rightarrow> (coord, Response, anyhow) async" where
  "request_offer_status_maker payload =
     onResult (get_offer_status_maker payload)
       (\<lambda>offer_taken_response. ret (json (OfferTakenJson offer_taken_response)))
       (\<lambda>e. ret (offers_error_response e))"

definition submit_escrow_psbt :: "env \<Rightarrow> PsbtSubmissionRequest \<Rightarrow> (coord, Response, anyhow) async" where
  "submit_escrow_psbt E payload =
     onResult (handle_signed_escrow_psbt E payload)
       (\<lambda>_. ret (code OK_200))
       (\<lambda>e. ret (case e of
          PsbtAlreadySubmitted \<Rightarrow> code INTERNAL_SERVER_ERROR_500
        | PsbtInvalid _ \<Rightarrow> code NOT_ACCEPTABLE_406
        | _ \<Rightarrow> code INTERNAL_SERVER_ERROR_500))"

definition poll_escrow_confirmation :: "env \<Rightarrow> OfferTakenRequest \<Rightarrow> (coord, Response, anyhow) async" where
  "poll_escrow_confirmation E payload =
     onResult (fetch_escrow_confirmation_status E payload)
       (\<lambda>confirmed. ret (if confirmed then code OK_200 else code ACCEPTED_202))
       (\<lambda>e. ret (case e of
          ConfirmationNotFound \<Rightarrow> code NOT_FOUND_404
        | ConfirmationDatabase _ \<Rightarrow> code INTERNAL_SERVER_ERROR_500))"

definition request_error_response :: "RequestError \<Rightarrow> Response" where
  "request_error_response e =
     (case e of
        NotFound \<Rightarrow> code NOT_FOUND_404
      | NotConfirmed \<Rightarrow> code NOT_ACCEPTABLE_406
      | Database _ \<Rightarrow> code INTERNAL_SERVER_ERROR_500
      | _ \<Rightarrow> code INTERNAL_SERVER_ERROR_500)"

definition submit_obligation_confirmation :: "env \<Rightarrow> OfferTakenRequest \<Rightarrow> (coord, Response, anyhow) async" where
  "submit_obligation_confirmation E payload =
     onResult (handle_obligation_confirmation E payload)
       (\<lambda>_. ret (code OK_200))
       (\<lambda>e. ret (request_error_response e))"

definition request_escrow :: "env \<Rightarrow> TradeObligationsUnsatisfied \<Rightarrow> (coord, Response, anyhow) async" where
  "request_escrow E payload =
     onResult (initiate_escrow E payload)
       (\<lambda>_. ret (code OK_200))
       (\<lambda>e. ret (request_error_response e))"

definition payout_result_response :: "PayoutProcessingResult \<Rightarrow> Response" where
  "payout_result_response r =
     (case r of
        NotReady \<Rightarrow> code ACCEPTED_202
      | LostEscrow \<Rightarrow> code GONE_410
      | ReadyPSBT psbt_and_nonce \<Rightarrow> json (PayoutJson psbt_and_nonce)
      | DecidingEscrow \<Rightarrow> code CREATED_201)"

definition poll_final_payout :: "env \<Rightarrow> OfferTakenRequest \<Rightarrow> (coord, Response, anyhow) async" where
  "poll_final_payout E payload =
     onResult (handle_final_payout E payload)
       (\<lambda>r. ret (payout_result_response r))
       (\<lambda>e. ret (request_error_response e))"

definition submit_payout_signature :: "env \<Rightarrow> PayoutSignatureRequest \<Rightarrow> (coord, Response, anyhow) async" where
  "submit_payout_signature E payload =
     onResult (handle_payout_signature E payload)
       (\<lambda>published_tx. ret (if published_tx then code OK_200 else code ACCEPTED_202))
       (\<lambda>e. ret (code INTERNAL_SERVER_ERROR_500))"

section \<open>The router\<close>

datatype ApiRequest =
    Test
  | CreateOffer OfferRequest
  | SubmitMakerBond BondSubmissionRequest
  | FetchAvailableOffers OffersRequest
  | SubmitTakerBond OfferPsbtRequest
  | RequestOfferStatus OfferTakenRequest
  | SubmitEscrowPsbt PsbtSubmissionRequest
  | PollEscrowConfirmation OfferTakenRequest
  | SubmitObligationConfirmation OfferTakenRequest
  | RequestEscrow TradeObligationsUnsatisfied
  | PollFinalPayout OfferTakenRequest
  | SubmitPayoutSignature PayoutSignatureRequest

fun api_server :: "env \<Rightarrow> ApiRequest \<Rightarrow> (coord, Response, anyhow) async" where
  "api_server E Test = ret \<lparr> status = OK_200, body = TextBody ''Hello, World!'' \<rparr>"
| "api_server E (CreateOffer p) = receive_order E p"
| "api_server E (SubmitMakerBond p) = submit_maker_bond E p"
| "api_server E (FetchAvailableOffers p) = fetch_available_offers p"
| "api_server E (SubmitTakerBond p) = submit_taker_bond E p"
| "api_server E (RequestOfferStatus p) = request_offer_status_maker p"
| "api_server E (SubmitEscrowPsbt p) = submit_escrow_psbt E p"
| "api_server E (PollEscrowConfirmation p) = poll_escrow_confirmation E p"
| "api_server E (SubmitObligationConfirmation p) = submit_obligation_confirmation E p"
| "api_server E (RequestEscrow p) = request_escrow E p"
| "api_server E (PollFinalPayout p) = poll_final_payout E p"
| "api_server E (SubmitPayoutSignature p) = submit_payout_signature E p"

text \<open>What the client sees: an \<open>Err(AppError)\<close> is a response too, a panic is none.\<close>

definition respond :: "env \<Rightarrow> ApiRequest \<Rightarrow> coord \<Rightarrow> Response option \<times> coord" where
  "respond E req s =
     (case run (api_server E req) s of
        (Ok r, s') \<Rightarrow> (Some r, s')
      | (Err e, s') \<Rightarrow> (Some (app_error_response e), s')
      | (Panic, s') \<Rightarrow> (None, s'))"

end
