(* ===== verification/Monitors.thy ===== *)
theory Monitors
  imports Http
begin

text \<open>
  The coordinator's background tasks, one round of each loop: bond monitoring and punishment
  (\<open>bond_monitoring.rs\<close>), confirmation of escrow transactions
  (\<open>tx_confirmation_monitoring.rs\<close>), the operator's decision of disputes (\<open>escrow_cli.rs\<close>) and
  the copy of the node's mempool (\<open>mempool_monitoring.rs\<close>).
\<close>

section \<open>Bond monitoring\<close>

definition punish :: "env \<Rightarrow> MonitoringBond \<Rightarrow> (coord, unit, anyhow) async" where
  "punish E bond =
     andThen (publish_bond_tx_hex E (mb_bond_tx_hex bond)) (\<lambda>_.
     remove_violating_bond bond)"

definition treat_violation :: "env \<Rightarrow> MonitoringBond \<Rightarrow> (coord, unit, anyhow) async" where
  "treat_violation E bond =
    (let setting = (case punishment_enabled E of Some v \<Rightarrow> v | None \<Rightarrow> ''0'') in
     if setting = ''1'' then punish E bond
     else if setting = ''0'' then ret ()
     else fail (Anyhow ''Invalid PUNISHMENT_ENABLED env var''))"

text \<open>One round of \<open>monitor_bonds\<close>; an error ends the loop, which \<open>main\<close> then starts again.\<close>

definition monitor_bonds :: "env \<Rightarrow> (coord, unit, anyhow) async" where
  "monitor_bonds E =
     andThen fetch_all_bonds (\<lambda>bonds.
       if bonds = [] then ret ()
       else
       andThen (validate_bonds E bonds) (\<lambda>validation_results.
       for_each (treat_violation E) (map (\<lambda>(_, (bond, _)). bond) (bond_map_iter E validation_results))))"

section \<open>Confirmations\<close>

fun get_confirmations :: "env \<Rightarrow> string list \<Rightarrow> (string list, anyhow) res" where
  "get_confirmations E [] = Ok []"
| "get_confirmations E (txid # txids) =
     bind_res (txid_parse E txid) (\<lambda>_.
     case rpc_transaction_info E txid of
       TxInfo confirmations \<Rightarrow>
         map_res (\<lambda>rest. (case confirmations of
                             Some n \<Rightarrow> if 3 < n then [txid] else []
                           | None \<Rightarrow> []) @ rest) (get_confirmations E txids)
     | RpcErrorCode c \<Rightarrow>
         if c = -5 then get_confirmations E txids
         else Err (Anyhow ''Error fetching transaction info'')
     | OtherRpcError \<Rightarrow> Err (Anyhow ''Error fetching transaction info''))"

text \<open>One round of \<open>update_transaction_confirmations\<close>: errors are logged and dropped.\<close>

definition update_transaction_confirmations :: "env \<Rightarrow> (coord, unit, anyhow) async" where
  "update_transaction_confirmations E =
     onResult fetch_unconfirmed_escrow_txids
       (\<lambda>unconfirmed_transactions.
          if unconfirmed_transactions = [] then ret ()
          else
          let newly_confirmed_txids =
            (case get_confirmations E unconfirmed_transactions of Ok txids \<Rightarrow> txids | _ \<Rightarrow> [])
          in if newly_confirmed_txids = [] then ret ()
             else onResult (confirm_bond_txids newly_confirmed_txids) (\<lambda>_. ret ()) (\<lambda>_. ret ()))
       (\<lambda>_. ret ())"

section \<open>Disputes\<close>

text \<open>
  The prompt reads lines until one is \<open>M\<close> or \<open>T\<close>: the decision and the lines left, or \<open>None\<close>
  while the operator has not entered either (the prompt does not return).
\<close>

fun get_coordinator_cli_input :: "string list \<Rightarrow> (EscrowWinner \<times> string list) option" where
  "get_coordinator_cli_input [] = None"
| "get_coordinator_cli_input (input # lines) =
     (if trim input = ''M'' then Some (EscrowMaker, lines)
      else if trim input = ''T'' then Some (EscrowTaker, lines)
      else get_coordinator_cli_input lines)"

definition expect :: "(coord, 'a, anyhow) async \<Rightarrow> (coord, 'a, anyhow) async" where
  "expect m = onResult m ret (\<lambda>_. lift_res Panic)"

fun resolve_cases :: "string list \<Rightarrow> EscrowCase list \<Rightarrow> (coord, unit, anyhow) async" where
  "resolve_cases lines [] = ret ()"
| "resolve_cases lines (escrow # escrows) =
     (case get_coordinator_cli_input lines of
        None \<Rightarrow> ret ()
      | Some (winner, lines') \<Rightarrow>
          andThen (expect (resolve_escrow (ec_offer_id escrow)
            (case winner of EscrowMaker \<Rightarrow> ec_maker_id escrow | EscrowTaker \<Rightarrow> ec_taker_id escrow))) (\<lambda>_.
          resolve_cases lines' escrows))"

text \<open>One round of \<open>escrow_cli_loop\<close>, with the lines the operator types during it.\<close>

definition escrow_cli_loop :: "env \<Rightarrow> string list \<Rightarrow> (coord, unit, anyhow) async" where
  "escrow_cli_loop E lines =
     andThen (expect (get_open_escrows E)) (\<lambda>open_escrows.
     resolve_cases lines open_escrows)"

section \<open>Mempool\<close>

fun fetch_mempool_txs ::
  "env \<Rightarrow> (string \<times> OutPoint list) list \<Rightarrow> string list \<Rightarrow> (string \<times> OutPoint list) list"
where
  "fetch_mempool_txs E m [] = m"
| "fetch_mempool_txs E m (txid # txids) =
     (if txid \<in> fst ` set m then fetch_mempool_txs E m txids
      else case rpc_raw_transaction E txid of
             Ok tx \<Rightarrow> fetch_mempool_txs E (m @ [(txid, tx_input tx)]) txids
           | _ \<Rightarrow> fetch_mempool_txs E m txids)"

definition refresh_mempool :: "env \<Rightarrow> string list \<Rightarrow> coord \<Rightarrow> coord" where
  "refresh_mempool E mempool_txs s =
    (let m = filter (\<lambda>(txid, _). txid \<in> set mempool_txs)
               (fetch_mempool_txs E (mempool_transactions s) mempool_txs)
     in s\<lparr>mempool_transactions := m, mempool_utxo_set := remdups (concat (map snd m))\<rparr>)"

text \<open>One round of \<open>run_mempool\<close>.\<close>

definition run_mempool :: "env \<Rightarrow> (coord, unit, anyhow) async" where
  "run_mempool E = atomic (\<lambda>s.
     case rpc_raw_mempool E of
       Ok mempool_txs \<Rightarrow> (Ok (), refresh_mempool E mempool_txs s)
     | _ \<Rightarrow> (Ok (), s))"

end
