(* ===== verification/Effects.thy ===== *)
theory Effects
  imports Monitors
begin

text \<open>
  What a single action of the coordinator can do to the shared state: the abstract machine
  behind every handler and background task. \<open>row_update\<close> lists the UPDATE statements on a taken
  offer, \<open>permission\<close> the kinds of writing actions, and \<open>effect A\<close> the actions of the kinds in \<open>A\<close>.
  Every action of every task is one of them, so what the effects keep is kept under any
  interleaving of the tasks.
\<close>

section \<open>Updates of a taken offer\<close>

datatype row_update =
    SignedByMaker string
  | SignedByTaker string
  | MakerHappy bool
  | TakerHappy bool
  | OpenEscrow
  | PartialSigMaker string
  | PartialSigTaker string
  | StorePayout string
  | ToggleProcessing
  | ResolveEscrow string

fun apply_update :: "row_update \<Rightarrow> TakenOfferRow \<Rightarrow> TakenOfferRow" where
  "apply_update (SignedByMaker p) r = r\<lparr>to_signed_escrow_psbt_hex_maker := Some p\<rparr>"
| "apply_update (SignedByTaker p) r = r\<lparr>to_signed_escrow_psbt_hex_taker := Some p\<rparr>"
| "apply_update (MakerHappy b) r = r\<lparr>to_maker_happy := bool_to_sql_int b\<rparr>"
| "apply_update (TakerHappy b) r = r\<lparr>to_taker_happy := bool_to_sql_int b\<rparr>"
| "apply_update OpenEscrow r = r\<lparr>to_escrow_ongoing := 1\<rparr>"
| "apply_update (PartialSigMaker p) r = r\<lparr>to_musig_partial_sig_hex_maker := Some p\<rparr>"
| "apply_update (PartialSigTaker p) r = r\<lparr>to_musig_partial_sig_hex_taker := Some p\<rparr>"
| "apply_update (StorePayout p) r = r\<lparr>to_payout_transaction_psbt_hex := Some p\<rparr>"
| "apply_update ToggleProcessing r = r\<lparr>to_processing := if to_processing r = 0 then 1 else 0\<rparr>"
| "apply_update (ResolveEscrow w) r = r\<lparr>to_escrow_ongoing := 0, to_escrow_winner_robohash := Some w\<rparr>"

lemma apply_update_key [simp]: "to_offer_id (apply_update u r) = to_offer_id r"
  by (cases u) simp_all

text \<open>A row as it enters the table of taken offers: nothing signed, decided or confirmed.\<close>

definition new_trade :: "TakenOfferRow \<Rightarrow> bool" where
  "new_trade r \<longleftrightarrow>
     to_is_buy_order r \<in> range bool_to_sql_int \<and>
     to_musig_partial_sig_hex_maker r = None \<and> to_musig_partial_sig_hex_taker r = None \<and>
     to_signed_escrow_psbt_hex_maker r = None \<and> to_signed_escrow_psbt_hex_taker r = None \<and>
     to_escrow_psbt_is_confirmed r = 0 \<and> to_maker_happy r = None \<and> to_taker_happy r = None \<and>
     to_escrow_ongoing r = 0 \<and> to_escrow_winner_robohash r = None \<and>
     to_payout_transaction_psbt_hex r = None \<and> to_processing r = 0"

lemma new_trade_taken_row: "new_trade (taken_row offer h info escrow)"
  by (simp add: new_trade_def taken_row_def)

section \<open>Effects\<close>

datatype permission =
    Requests          \<comment> \<open>the pending requests\<close>
  | Offers            \<comment> \<open>the orderbook\<close>
  | NewTrades         \<comment> \<open>entering a taken offer\<close>
  | Confirmations     \<comment> \<open>the confirmation of an escrow transaction\<close>
  | Closings          \<comment> \<open>deleting a taken offer\<close>
  | Publishing        \<comment> \<open>handing a transaction to the network\<close>
  | MempoolCopy       \<comment> \<open>the copy of the node's mempool\<close>
  | Update row_update

inductive effect :: "permission set \<Rightarrow> coord \<Rightarrow> coord \<Rightarrow> bool" for A :: "permission set" where
  Idle: "effect A s s"
| Tick: "effect A s (sql_tick s)"
| PutRequest: "Requests \<in> A \<Longrightarrow> mr_is_buy_order r \<in> range bool_to_sql_int \<Longrightarrow>
    effect A s (sql_tick s\<lparr>maker_requests := tbl_replace mr_robohash r (maker_requests s)\<rparr>)"
| DeleteRequest: "Requests \<in> A \<Longrightarrow> effect A s (sql_tick s\<lparr>maker_requests := tbl_delete mr_robohash h (maker_requests s)\<rparr>)"
| PutOffer: "Offers \<in> A \<Longrightarrow> ao_is_buy_order r \<in> range bool_to_sql_int \<Longrightarrow>
    effect A s (sql_tick s\<lparr>active_maker_offers := tbl_replace ao_offer_id r (active_maker_offers s)\<rparr>)"
| DeleteOffer: "Offers \<in> A \<Longrightarrow> effect A s (sql_tick s\<lparr>active_maker_offers := tbl_delete ao_offer_id i (active_maker_offers s)\<rparr>)"
| PutTrade: "NewTrades \<in> A \<Longrightarrow> new_trade r \<Longrightarrow>
    effect A s (sql_tick s\<lparr>taken_offers := tbl_replace to_offer_id r (taken_offers s)\<rparr>)"
| UpdateTrade: "Update u \<in> A \<Longrightarrow> effect A s (sql_tick s\<lparr>taken_offers :=
    tbl_update to_offer_id i (apply_update u) (taken_offers s)\<rparr>)"
| Confirm: "Confirmations \<in> A \<Longrightarrow> effect A s (sql_tick s\<lparr>taken_offers := confirm_txid txid (taken_offers s)\<rparr>)"
| DeleteTrade: "Closings \<in> A \<Longrightarrow> effect A s (sql_tick s\<lparr>taken_offers := tbl_delete to_offer_id i (taken_offers s)\<rparr>)"
| NextAddress: "effect A s (s\<lparr>wallet_index := Suc (wallet_index s)\<rparr>)"
| Publish: "Publishing \<in> A \<Longrightarrow> effect A s (s\<lparr>published := published s @ [tx]\<rparr>)"
| Mempool: "MempoolCopy \<in> A \<Longrightarrow> effect A s (s\<lparr>mempool_transactions := m, mempool_utxo_set := remdups (concat (map snd m))\<rparr>)"

lemmas table_effects = PutRequest DeleteRequest PutOffer DeleteOffer PutTrade UpdateTrade Confirm DeleteTrade

section \<open>The operations stay within the effects\<close>

named_theorems within_effects \<open>operations whose every action is an effect\<close>

lemma within_effect_query [within_effects]: "within (effect A) (query f)"
  by (intro within_query Tick)

lemma within_effect_fetch_one [within_effects]: "within (effect A) (fetch_one f)"
  by (intro within_fetch_one Tick)

lemma within_effect_execute:
  "(\<And>s. effect A s (f (sql_tick s))) \<Longrightarrow> within (effect A) (execute f)"
  by (intro within_execute Tick)

lemma within_effect_update:
  assumes "\<And>r. f r = apply_update u r" and "Update u \<in> A"
  shows "within (effect A) (update_taken i f)"
proof -
  have "f = apply_update u" using assms by auto
  then show ?thesis
    unfolding update_taken_def using UpdateTrade [OF assms(2), of _ i] by (auto intro!: within_effect_execute)
qed

lemma within_insert_new_maker_request [within_effects]: "Requests \<in> A \<Longrightarrow> within (effect A) (insert_new_maker_request E order br)"
  unfolding insert_new_maker_request_def
  by (intro pres_intro within_effect_execute) (simp add: PutRequest)

lemma within_fetch_and_delete_offer_from_bond_table [within_effects]:
  "Requests \<in> A \<Longrightarrow> within (effect A) (fetch_and_delete_offer_from_bond_table E h)"
  unfolding fetch_and_delete_offer_from_bond_table_def
  by (intro within_andThen within_ret within_decode_hex within_try_get within_effects within_effect_execute)
    (simp add: DeleteRequest)

lemma within_move_offer_to_active [within_effects]: "Requests \<in> A \<Longrightarrow> Offers \<in> A \<Longrightarrow> within (effect A) (move_offer_to_active E d i a)"
  unfolding move_offer_to_active_def
  by (intro within_andThen within_ret within_decode_hex within_effects within_effect_execute)
    (simp_all add: PutOffer)

lemma within_add_taker_info_and_move_table [within_effects]:
  "Offers \<in> A \<Longrightarrow> NewTrades \<in> A \<Longrightarrow> within (effect A) (add_taker_info_and_move_table E info escrow)"
  unfolding add_taker_info_and_move_table_def fetch_and_delete_offer_from_public_offers_table_def
  by (intro within_andThen within_ret within_decode_hex within_try_get within_effects within_effect_execute)
    (simp_all add: DeleteOffer PutTrade new_trade_taken_row)

lemma within_remove_violating_bond [within_effects]: "Offers \<in> A \<Longrightarrow> within (effect A) (remove_violating_bond bond)"
  unfolding remove_violating_bond_def
  by (intro within_if within_fail within_effect_execute) (simp add: DeleteOffer)

lemma within_confirm_bond_txids [within_effects]: "Confirmations \<in> A \<Longrightarrow> within (effect A) (confirm_bond_txids txids)"
  unfolding confirm_bond_txids_def
  by (intro within_for_each within_effect_execute) (simp add: Confirm)

lemma within_delete_complete_offer [within_effects]: "Closings \<in> A \<Longrightarrow> within (effect A) (delete_complete_offer i)"
  unfolding delete_complete_offer_def by (intro within_effect_execute) (simp add: DeleteTrade)

lemma within_toggle_processing [within_effects]:
  assumes "Update ToggleProcessing \<in> A"
  shows "within (effect A) (toggle_processing i)"
proof -
  have "(\<lambda>r. r\<lparr>to_processing := if to_processing r = 0 then 1 else 0\<rparr>) = apply_update ToggleProcessing"
    by auto
  then show ?thesis unfolding toggle_processing_def
    using UpdateTrade [OF assms, of _ i] by (intro within_statement Tick) (simp add: Let_def)
qed

lemma within_resolve_escrow [within_effects]:
  "Update (ResolveEscrow w) \<in> A \<Longrightarrow> within (effect A) (resolve_escrow i w)"
  unfolding resolve_escrow_def by (rule within_effect_update [of _ "ResolveEscrow w"]) simp_all

lemma within_insert_keyspend_payout_psbt [within_effects]:
  "Update (StorePayout p) \<in> A \<Longrightarrow> within (effect A) (insert_keyspend_payout_psbt i p)"
  unfolding insert_keyspend_payout_psbt_def by (rule within_effect_update [of _ "StorePayout p"]) simp_all

lemma within_is_maker_in_taken_offers [within_effects]: "within (effect A) (is_maker_in_taken_offers E i h)"
  unfolding is_maker_in_taken_offers_def
  by (intro within_andThen within_decode_hex within_effects within_Let within_if within_fail within_ret)

lemma within_insert_signed_escrow_psbt [within_effects]:
  assumes "\<And>p. Update (SignedByMaker p) \<in> A" and "\<And>p. Update (SignedByTaker p) \<in> A"
  shows "within (effect A) (insert_signed_escrow_psbt E d)"
proof -
  have "within (effect A) (update_taken i (if m
     then (\<lambda>r. r\<lparr>to_signed_escrow_psbt_hex_maker := Some p\<rparr>)
     else (\<lambda>r. r\<lparr>to_signed_escrow_psbt_hex_taker := Some p\<rparr>)))" for i m p
    by (rule within_effect_update [of _ "if m then SignedByMaker p else SignedByTaker p"]) (simp_all add: assms)
  then show ?thesis unfolding insert_signed_escrow_psbt_def
    by (intro within_andThen within_effects within_Let within_if within_ret)
qed

lemma within_insert_partial_sig [within_effects]:
  assumes "Update (PartialSigMaker p) \<in> A" and "Update (PartialSigTaker p) \<in> A"
  shows "within (effect A) (insert_partial_sig E p i h)"
proof -
  have "within (effect A) (update_taken i (if m
     then (\<lambda>r. r\<lparr>to_musig_partial_sig_hex_maker := Some p\<rparr>)
     else (\<lambda>r. r\<lparr>to_musig_partial_sig_hex_taker := Some p\<rparr>)))" for i m
    by (rule within_effect_update [of _ "if m then PartialSigMaker p else PartialSigTaker p"]) (simp_all add: assms)
  then show ?thesis unfolding insert_partial_sig_def
    by (intro within_andThen within_effects within_Let within_if within_fail)
qed

lemma within_set_trader_happy_field [within_effects]:
  assumes "Update (MakerHappy b) \<in> A" and "Update (TakerHappy b) \<in> A" and "Update OpenEscrow \<in> A"
  shows "within (effect A) (set_trader_happy_field E i h b)"
proof -
  have "within (effect A) (update_taken i (if m
     then (\<lambda>r. r\<lparr>to_maker_happy := bool_to_sql_int b\<rparr>)
     else (\<lambda>r. r\<lparr>to_taker_happy := bool_to_sql_int b\<rparr>)))" for m
    by (rule within_effect_update [of _ "if m then MakerHappy b else TakerHappy b"]) (simp_all add: assms)
  moreover have "within (effect A) (update_taken i (\<lambda>r. r\<lparr>to_escrow_ongoing := 1\<rparr>))"
    by (rule within_effect_update [of _ OpenEscrow]) (simp_all add: assms)
  ultimately show ?thesis unfolding set_trader_happy_field_def
    by (intro within_andThen within_effects within_if within_ret)
qed

lemma within_get_new_address [within_effects]: "within (effect A) (get_new_address E)"
  unfolding get_new_address_def by (intro within_atomic) (simp add: NextAddress)

lemma within_get_coordinator_taproot_pk [within_effects]: "within (effect A) (get_coordinator_taproot_pk E)"
  unfolding get_coordinator_taproot_pk_def by (intro within_atomic) (simp add: NextAddress)

lemma within_broadcast [within_effects]: "Publishing \<in> A \<Longrightarrow> within (effect A) (broadcast E tx)"
  unfolding broadcast_def by (intro within_atomic) (simp add: Publish Idle split: res.split)

lemma within_lookup_mempool_inputs [within_effects]: "within (effect A) (lookup_mempool_inputs E bonds)"
  unfolding lookup_mempool_inputs_def by (intro within_atomic) (simp add: Idle)

lemma within_assemble_keyspend_payout_psbt [within_effects]: "within (effect A) (assemble_keyspend_payout_psbt E d)"
  unfolding assemble_keyspend_payout_psbt_def by (intro within_atomic) (simp add: Idle)

lemma within_run_mempool [within_effects]: "MempoolCopy \<in> A \<Longrightarrow> within (effect A) (run_mempool E)"
  unfolding run_mempool_def
  by (intro within_atomic) (auto simp: refresh_mempool_def Let_def Idle Mempool split: res.split)

section \<open>The handlers and the background tasks\<close>

lemmas reading_ops = fetch_bond_requirements_def fetch_suitable_offers_def fetch_taker_bond_requirements_def
  fetch_escrow_output_information_def fetch_all_bonds_def fetch_unconfirmed_escrow_txids_def
  get_txid_confirmation_status_def is_valid_robohash_in_table_def fetch_both_signed_escrow_psbts_def
  fetch_escrow_tx_confirmation_status_def fetch_trader_happiness_def fetch_escrow_result_def
  get_escrow_tx_amounts_def fetch_maker_escrow_psbt_data_def fetch_payout_data_def
  fetch_keyspend_payout_information_def fetch_keyspend_payout_psbt_def get_open_escrows_def

lemmas within_steps = within_andThen within_onResult within_mapErr within_ret within_fail within_lift_res
  within_if within_Let within_case_option within_case_prod within_for_each within_decode_hex
  within_get within_try_get

lemma within_check_offer_and_confirmation [within_effects]:
  "within (effect A) (check_offer_and_confirmation E i h)"
  unfolding check_offer_and_confirmation_def reading_ops by (intro within_steps within_effects)

lemma within_validate_bonds [within_effects]: "within (effect A) (validate_bonds E bonds)"
  unfolding validate_bonds_def by (intro within_steps within_effects)

lemma within_validate_bond_tx_hex [within_effects]: "within (effect A) (validate_bond_tx_hex E tx req)"
  unfolding validate_bond_tx_hex_def
  by (intro within_steps within_effects) (auto intro!: within_ret within_fail split: list.split)

lemma within_create_escrow_psbt [within_effects]: "within (effect A) (create_escrow_psbt E req)"
  unfolding create_escrow_psbt_def reading_ops by (intro within_steps within_effects)

lemma within_combine_and_broadcast [within_effects]: "Publishing \<in> A \<Longrightarrow> within (effect A) (combine_and_broadcast_escrow_psbt E m t)"
  unfolding combine_and_broadcast_escrow_psbt_def by (intro within_steps within_effects)

lemma within_process_order [within_effects]: "Requests \<in> A \<Longrightarrow> within (effect A) (process_order E offer)"
  unfolding process_order_def by (intro within_steps within_effects)

lemma within_handle_maker_bond [within_effects]: "Requests \<in> A \<Longrightarrow> Offers \<in> A \<Longrightarrow> within (effect A) (handle_maker_bond E p)"
  unfolding handle_maker_bond_def reading_ops by (intro within_steps within_effects)

lemma within_handle_taker_bond [within_effects]: "Offers \<in> A \<Longrightarrow> NewTrades \<in> A \<Longrightarrow> within (effect A) (handle_taker_bond E p)"
  unfolding handle_taker_bond_def reading_ops by (intro within_steps within_effects)

lemma within_handle_signed_escrow_psbt [within_effects]:
  "Publishing \<in> A \<Longrightarrow> (\<And>p. Update (SignedByMaker p) \<in> A) \<Longrightarrow> (\<And>p. Update (SignedByTaker p) \<in> A) \<Longrightarrow>
     within (effect A) (handle_signed_escrow_psbt E p)"
  unfolding handle_signed_escrow_psbt_def validate_escrow_init_psbt_def reading_ops by (intro within_steps within_effects)

lemma within_handle_final_payout [within_effects]:
  "(\<And>p. Update (StorePayout p) \<in> A) \<Longrightarrow> Update ToggleProcessing \<in> A \<Longrightarrow> within (effect A) (handle_final_payout E p)"
  unfolding handle_final_payout_def assemble_locked_def reading_ops by (intro within_steps within_effects)

lemma within_handle_payout_signature [within_effects]:
  "Publishing \<in> A \<Longrightarrow> Closings \<in> A \<Longrightarrow> (\<And>p. Update (PartialSigMaker p) \<in> A) \<Longrightarrow> (\<And>p. Update (PartialSigTaker p) \<in> A) \<Longrightarrow>
     within (effect A) (handle_payout_signature E p)"
  unfolding handle_payout_signature_def broadcast_keyspend_tx_def reading_ops by (intro within_steps within_effects)

lemmas http_defs = receive_order_def submit_maker_bond_def fetch_available_offers_def
  get_public_offers_def submit_taker_bond_def request_offer_status_maker_def get_offer_status_maker_def
  submit_escrow_psbt_def poll_escrow_confirmation_def fetch_escrow_confirmation_status_def
  submit_obligation_confirmation_def handle_obligation_confirmation_def request_escrow_def
  initiate_escrow_def poll_final_payout_def submit_payout_signature_def

lemma within_monitor_bonds [within_effects]: "Publishing \<in> A \<Longrightarrow> Offers \<in> A \<Longrightarrow> within (effect A) (monitor_bonds E)"
  unfolding monitor_bonds_def treat_violation_def punish_def publish_bond_tx_hex_def reading_ops
  by (intro within_steps within_effects)

lemma within_update_transaction_confirmations [within_effects]:
  "Confirmations \<in> A \<Longrightarrow> within (effect A) (update_transaction_confirmations E)"
  unfolding update_transaction_confirmations_def reading_ops by (intro within_steps within_effects)

lemma within_resolve_cases [within_effects]:
  "(\<And>w. Update (ResolveEscrow w) \<in> A) \<Longrightarrow> within (effect A) (resolve_cases lines cases)"
  by (induction cases arbitrary: lines) (auto simp: expect_def intro!: within_steps within_effects)

lemma within_escrow_cli_loop [within_effects]:
  "(\<And>w. Update (ResolveEscrow w) \<in> A) \<Longrightarrow> within (effect A) (escrow_cli_loop E lines)"
  unfolding escrow_cli_loop_def expect_def reading_ops by (intro within_steps within_effects)

text \<open>What each request may write, besides taking addresses from the wallet.\<close>

fun request_writes :: "ApiRequest \<Rightarrow> permission set" where
  "request_writes (CreateOffer p) = {Requests}"
| "request_writes (SubmitMakerBond p) = {Requests, Offers}"
| "request_writes (SubmitTakerBond p) = {Offers, NewTrades}"
| "request_writes (SubmitEscrowPsbt p) = {Publishing} \<union> range (Update \<circ> SignedByMaker) \<union> range (Update \<circ> SignedByTaker)"
| "request_writes (SubmitObligationConfirmation p) = {Update (MakerHappy True), Update (TakerHappy True), Update OpenEscrow}"
| "request_writes (RequestEscrow p) = {Update (MakerHappy False), Update (TakerHappy False), Update OpenEscrow}"
| "request_writes (PollFinalPayout p) = {Update ToggleProcessing} \<union> range (Update \<circ> StorePayout)"
| "request_writes (SubmitPayoutSignature p) =
     {Publishing, Closings} \<union> range (Update \<circ> PartialSigMaker) \<union> range (Update \<circ> PartialSigTaker)"
| "request_writes _ = {}"

lemma within_request_writes: "within (effect (request_writes req)) (api_server E req)"
  by (cases req; simp only: api_server.simps http_defs reading_ops;
     (intro within_steps within_effects)?; simp)

lemma effect_mono: "effect A s s' \<Longrightarrow> A \<subseteq> B \<Longrightarrow> effect B s s'"
  by (induction rule: effect.induct) (auto intro: effect.intros)

lemma within_writes_mono: "within (effect A) m \<Longrightarrow> A \<subseteq> B \<Longrightarrow> within (effect B) m"
  by (erule within_mono) (erule (1) effect_mono)

text \<open>The requests of the first half of the protocol update a trade only by a signed PSBT.\<close>

fun first_half :: "ApiRequest \<Rightarrow> bool" where
  "first_half (SubmitObligationConfirmation p) = False"
| "first_half (RequestEscrow p) = False"
| "first_half (PollFinalPayout p) = False"
| "first_half (SubmitPayoutSignature p) = False"
| "first_half _ = True"

definition signing :: "permission set" where
  "signing = {Requests, Offers, NewTrades, Confirmations, Publishing, MempoolCopy} \<union>
     range (Update \<circ> SignedByMaker) \<union> range (Update \<circ> SignedByTaker)"

lemma within_first_half: "first_half req \<Longrightarrow> within (effect signing) (api_server E req)"
  by (rule within_writes_mono [OF within_request_writes]) (cases req; auto simp: signing_def)

section \<open>Tasks that only read\<close>

text \<open>
  A task is quiet if it leaves the tables, the mempool state and the published transactions as
  they are: it may only query, and take addresses from the wallet.
\<close>

definition quiet :: "coord \<Rightarrow> coord \<Rightarrow> bool" where
  "quiet s s' \<longleftrightarrow>
     maker_requests s' = maker_requests s \<and> active_maker_offers s' = active_maker_offers s \<and>
     taken_offers s' = taken_offers s \<and> published s' = published s \<and>
     mempool_transactions s' = mempool_transactions s \<and> mempool_utxo_set s' = mempool_utxo_set s \<and>
     (sql_faults s = [] \<longrightarrow> sql_faults s' = [])"

lemma quiet_refl: "quiet s s"
  by (simp add: quiet_def)

lemma quiet_trans: "quiet s t \<Longrightarrow> quiet t u \<Longrightarrow> quiet s u"
  by (simp add: quiet_def)

lemma quiet_tick: "quiet s (sql_tick s)"
  by (simp add: quiet_def)

lemma quietD: "within quiet m \<Longrightarrow> run m s = (r, s') \<Longrightarrow> quiet s s'"
  using within_run [of quiet m s]
  by (auto elim: rtranclp_induct [of quiet s s'] intro: quiet_refl quiet_trans)

named_theorems within_quiet \<open>operations that only read\<close>

lemma quiet_query [within_quiet]: "within quiet (query f)"
  by (intro within_query quiet_tick)

lemma quiet_fetch_one [within_quiet]: "within quiet (fetch_one f)"
  by (intro within_fetch_one quiet_tick)

lemma quiet_get_new_address [within_quiet]: "within quiet (get_new_address E)"
  unfolding get_new_address_def by (intro within_atomic) (simp add: quiet_def)

lemma quiet_get_coordinator_taproot_pk [within_quiet]: "within quiet (get_coordinator_taproot_pk E)"
  unfolding get_coordinator_taproot_pk_def by (intro within_atomic) (simp add: quiet_def)

lemma quiet_lookup_mempool_inputs [within_quiet]: "within quiet (lookup_mempool_inputs E bonds)"
  unfolding lookup_mempool_inputs_def by (intro within_atomic) (simp add: quiet_def)

lemma quiet_assemble_keyspend_payout_psbt [within_quiet]: "within quiet (assemble_keyspend_payout_psbt E d)"
  unfolding assemble_keyspend_payout_psbt_def by (intro within_atomic) (simp add: quiet_def)

lemma quiet_is_maker_in_taken_offers [within_quiet]: "within quiet (is_maker_in_taken_offers E i h)"
  unfolding is_maker_in_taken_offers_def by (intro within_steps within_quiet)

lemma quiet_check_offer_and_confirmation [within_quiet]: "within quiet (check_offer_and_confirmation E i h)"
  unfolding check_offer_and_confirmation_def reading_ops by (intro within_steps within_quiet)

lemma quiet_create_escrow_psbt [within_quiet]: "within quiet (create_escrow_psbt E req)"
  unfolding create_escrow_psbt_def reading_ops by (intro within_steps within_quiet)

lemma quiet_fetch_payout_data [within_quiet]: "within quiet (fetch_payout_data E i)"
  unfolding fetch_payout_data_def by (intro within_steps within_quiet)

lemma quiet_fetch_keyspend_payout_information [within_quiet]:
  "within quiet (fetch_keyspend_payout_information E i)"
  unfolding fetch_keyspend_payout_information_def by (intro within_steps within_quiet)

lemma quiet_get_public_offers [within_quiet]: "within quiet (get_public_offers q)"
  unfolding get_public_offers_def fetch_suitable_offers_def by (intro within_steps within_quiet)

lemma quiet_get_offer_status_maker [within_quiet]: "within quiet (get_offer_status_maker q)"
  unfolding get_offer_status_maker_def fetch_escrow_output_information_def by (intro within_steps within_quiet)

lemma quiet_fetch_escrow_confirmation_status [within_quiet]: "within quiet (fetch_escrow_confirmation_status E q)"
  unfolding fetch_escrow_confirmation_status_def reading_ops by (intro within_steps within_quiet)

end
