(* ===== verification/System.thy ===== *)
theory System
  imports Effects
begin

text \<open>
  The running coordinator: what can happen to its state is an API request or a round of a
  background task (\<open>main.rs\<close> spawns them), each in an environment of its own. \<open>exec\<close> runs one
  event to its end, \<open>exec_all\<close> a sequence of them.
\<close>

datatype event =
    Request env ApiRequest
  | BondRound env
  | ConfirmationRound env
  | CliRound env "string list"
  | MempoolRound env

text \<open>The event as a task; what it returns is not needed here.\<close>

fun event_task :: "event \<Rightarrow> (coord, unit) task" where
  "event_task (Request E req) = chain (api_server E req) (\<lambda>_. Done ())"
| "event_task (BondRound E) = chain (monitor_bonds E) (\<lambda>_. Done ())"
| "event_task (ConfirmationRound E) = chain (update_transaction_confirmations E) (\<lambda>_. Done ())"
| "event_task (CliRound E lines) = chain (escrow_cli_loop E lines) (\<lambda>_. Done ())"
| "event_task (MempoolRound E) = chain (run_mempool E) (\<lambda>_. Done ())"

definition exec :: "event \<Rightarrow> coord \<Rightarrow> coord" where
  "exec e s = snd (run (event_task e) s)"

fun exec_all :: "event list \<Rightarrow> coord \<Rightarrow> coord" where
  "exec_all [] s = s"
| "exec_all (e # es) s = exec_all es (exec e s)"

lemma exec_simps:
  "exec (Request E req) s = snd (run (api_server E req) s)"
  "exec (BondRound E) s = snd (run (monitor_bonds E) s)"
  "exec (ConfirmationRound E) s = snd (run (update_transaction_confirmations E) s)"
  "exec (CliRound E lines) s = snd (run (escrow_cli_loop E lines) s)"
  "exec (MempoolRound E) s = snd (run (run_mempool E) s)"
  by (simp_all add: exec_def run_chain split: prod.split)

lemma exec_all_append: "exec_all (xs @ ys) s = exec_all ys (exec_all xs s)"
  by (induction xs arbitrary: s) simp_all

section \<open>What the events write\<close>

fun event_writes :: "event \<Rightarrow> permission set" where
  "event_writes (Request E req) = request_writes req"
| "event_writes (BondRound E) = {Publishing, Offers}"
| "event_writes (ConfirmationRound E) = {Confirmations}"
| "event_writes (CliRound E lines) = range (Update \<circ> ResolveEscrow)"
| "event_writes (MempoolRound E) = {MempoolCopy}"

lemma within_event_writes: "within (effect (event_writes e)) (event_task e)"
  by (cases e) (auto intro!: within_chain within_Done within_effects within_request_writes)

lemma within_event: "within (effect UNIV) (event_task e)"
  by (rule within_writes_mono [OF within_event_writes]) simp

end
