(* ===== verification/Sample.thy ===== *)
theory Sample
  imports System
begin

text \<open>
  A concrete environment and concrete requests, on which the witnesses of the properties
  evaluate the model: a world with one kind of transaction in which every library call
  succeeds. Hex strings have one character per byte here.
\<close>

definition sample_decode :: "string \<Rightarrow> bytes option" where
  "sample_decode s = Some (map of_char s)"

definition sample_encode :: "bytes \<Rightarrow> string" where
  "sample_encode b = map (\<lambda>w. char_of (uint w)) b"

definition sample_script :: "string \<Rightarrow> bytes" where
  "sample_script s = map of_char s"

text \<open>The only transaction there is spends 100000 and pays 4000 to the address \<open>b\<close>.\<close>

definition sample_tx :: "bytes \<Rightarrow> Transaction" where
  "sample_tx b = \<lparr> tx_raw = b, tx_input = [\<lparr> op_txid = ''p'', op_vout = 0 \<rparr>],
     tx_output = [\<lparr> txo_value = 4000, txo_script_pubkey = sample_script ''b'' \<rparr>] \<rparr>"

definition sample_prev :: Transaction where
  "sample_prev = \<lparr> tx_raw = [], tx_input = [],
     tx_output = [\<lparr> txo_value = 100000, txo_script_pubkey = [] \<rparr>] \<rparr>"

definition sample_input :: PsbtInput where
  "sample_input = \<lparr> pi_witness_utxo = Some \<lparr> txo_value = 100000, txo_script_pubkey = [] \<rparr>,
     pi_utxo = \<lparr> op_txid = ''p'', op_vout = 0 \<rparr>, pi_rest = [] \<rparr>"

definition env0 :: env where
  "env0 = \<lparr>
     overflow_checks = True,
     null_as_bool = Some False, null_as_i32 = Some 0, null_as_i64 = Some 0, null_as_text = Some [],
     i64_as_u64 = Some,
     hex_decode = sample_decode, hex_encode = sample_encode,
     random_bytes = (\<lambda>n. replicate n 65),
     unix_now = Some 1700000000,
     sha256_digest = (\<lambda>b. b), hash_rank = (\<lambda>k. 0),
     coordinator_feerate = (1, 0), punishment_enabled = Some ''1'',
     address_at = (\<lambda>n. Ok ''b''), xonly_pk_at = (\<lambda>n. Ok ''k''),
     wallet_raw_tx = (\<lambda>i. Ok None),
     build_tx = (\<lambda>plan. Ok ([1], ''t'')),
     escrow_unspent = (\<lambda>d. Ok [(\<lparr> op_txid = ''t'', op_vout = 0 \<rparr>, sample_input)]),
     tx_deserialize = (\<lambda>b. Ok (sample_tx b)),
     tx_txid = (\<lambda>tx. sample_encode (tx_raw tx)), tx_vsize = (\<lambda>tx. 100),
     verify_tx = (\<lambda>tx. Ok ()),
     regtest_script = (\<lambda>a. Ok (sample_script a)), unchecked_script = (\<lambda>a. Ok (sample_script a)),
     psbt_input_deserialize = (\<lambda>b. Ok sample_input),
     psbt_deserialize = Ok, psbt_combine = (\<lambda>a b. Ok (a @ b)),
     psbt_finalize = (\<lambda>p. Ok (True, sample_tx p)),
     psbt_to_string = sample_encode, psbt_serialize_hex = sample_encode,
     keyspend_sighash = Ok, insert_keyspend_witness = (\<lambda>p g. Ok (sample_tx (p @ g))),
     parse_descriptor = (\<lambda>s. Ok (Tr s [1])),
     parse_policy = Ok, compile_policy = Ok, new_tr = (\<lambda>k t. Ok ''tr''),
     descriptor_script = (\<lambda>d. Ok (sample_script d)),
     musig_pubkey_parse = (\<lambda>s. Ok (sample_script s)), musig_scalar = Ok,
     key_agg_new = (\<lambda>ks. Ok (concat ks)), key_agg_with_tweak = (\<lambda>k t. Ok (k @ t)),
     key_agg_internal_key = Ok,
     pub_nonce_parse = (\<lambda>s. Ok (sample_script s)), agg_nonce_sum = concat,
     agg_nonce_string = sample_encode,
     partial_sig_parse = (\<lambda>s. Ok (sample_script s)),
     aggregate_partial_signatures = (\<lambda>k n sigs m. Ok (concat sigs)),
     chain_tx = (\<lambda>i. Ok (Some sample_prev)), broadcast_accepted = (\<lambda>tx. Ok ()),
     estimate_fee_vb = (\<lambda>v. Some 281), fallback_fee_vb = (\<lambda>v. 140),
     rpc_test_mempool_accept = (\<lambda>hs. Ok (map (\<lambda>h. \<lparr> mar_txid = h, mar_allowed = True, mar_reject_reason = None \<rparr>) hs)),
     rpc_raw_mempool = Ok [], rpc_raw_transaction = (\<lambda>i. Ok sample_prev),
     txid_parse = (\<lambda>i. Ok ()),
     rpc_transaction_info = (\<lambda>i. TxInfo (Some 4)) \<rparr>"

lemma of_char_char_of_byte: "of_char (char_of (uint w) :: char) = (w :: u8)"
proof -
  have "(of_char (char_of (uint w)) :: u8) = of_int (of_char (char_of (uint w)))"
    by (simp only: of_int_of_char)
  then show ?thesis using uint_lt2p [of w] by (simp add: mod_pos_pos_trivial)
qed

lemma env0_laws: "sqlite_nulls env0" "int_decoding env0" "hex_laws env0"
  by (simp_all add: env0_def sqlite_nulls_def int_decoding_def hex_laws_def sample_decode_def
      sample_encode_def comp_def of_char_char_of_byte)

section \<open>A trade from the order to the payout\<close>

definition sample_order :: OfferRequest where
  "sample_order = \<lparr> or_robohash_hex = ''m'', or_amount_satoshi = 20000, or_is_buy_order = True,
     or_bond_ratio = 10, or_offer_duration_ts = 1700086400 \<rparr>"

definition sample_bond :: "string \<Rightarrow> BondSubmissionRequest" where
  "sample_bond who = \<lparr> bsr_robohash_hex = who, bsr_signed_bond_hex = who, bsr_payout_address = who,
     bsr_taproot_pubkey_hex = who, bsr_musig_pub_nonce_hex = who, bsr_musig_pubkey_hex = who,
     bsr_bdk_psbt_inputs_hex_csv = who, bsr_client_change_address = who \<rparr>"

definition sample_id :: string where
  "sample_id = sample_encode (replicate 16 65)"

definition sample_offer :: PublicOffer where
  "sample_offer = \<lparr> po_amount_sat = 20000, po_offer_id_hex = sample_id,
     po_bond_requirements = \<lparr> brr_bond_address = ''b'', brr_locking_amount_sat = 2000,
       brr_escrow_locking_input_amount_without_trade_sum = 2000 \<rparr> \<rparr>"

definition sample_poll :: "string \<Rightarrow> OfferTakenRequest" where
  "sample_poll who = \<lparr> otr_robohash_hex = who, otr_offer_id_hex = sample_id \<rparr>"

definition sample_psbt :: "string \<Rightarrow> PsbtSubmissionRequest" where
  "sample_psbt who = \<lparr> psr_signed_psbt_hex = who, psr_offer_id_hex = sample_id, psr_robohash_hex = who \<rparr>"

definition sample_sig :: "string \<Rightarrow> PayoutSignatureRequest" where
  "sample_sig who = \<lparr> pgr_partial_sig_hex = who, pgr_offer_id_hex = sample_id, pgr_robohash_hex = who \<rparr>"

definition sample_dispute :: "string \<Rightarrow> TradeObligationsUnsatisfied" where
  "sample_dispute who = \<lparr> tou_robohash_hex = who, tou_offer_id_hex = sample_id \<rparr>"

text \<open>The maker \<open>m\<close> offers, the taker \<open>t\<close> takes; the requests up to a locked and confirmed escrow.\<close>

definition offer_events :: "event list" where
  "offer_events = [Request env0 (CreateOffer sample_order), Request env0 (SubmitMakerBond (sample_bond ''m''))]"

definition taken_events :: "event list" where
  "taken_events = offer_events @
     [Request env0 (SubmitTakerBond \<lparr> opr_offer = sample_offer, opr_trade_data = sample_bond ''t'' \<rparr>)]"

definition confirmed_events :: "event list" where
  "confirmed_events = taken_events @
     [Request env0 (SubmitEscrowPsbt (sample_psbt ''m'')), Request env0 (SubmitEscrowPsbt (sample_psbt ''t'')),
      ConfirmationRound env0]"

definition sample_state :: "event list \<Rightarrow> coord" where
  "sample_state es = exec_all es (init_coord [])"

section \<open>The states of the trade, evaluated\<close>

definition sample_row :: ActiveOfferRow where
  "sample_row = \<lparr>
     ao_offer_id = sample_id, ao_robohash = [109], ao_is_buy_order = Some 1, ao_amount_sat = 20000,
     ao_bond_ratio = 10, ao_offer_duration_ts = 1700086400, ao_bond_address = ''b'',
     ao_bond_amount_sat = 2000, ao_escrow_locking_input_amount_without_trade_sum = 2000,
     ao_bond_tx_hex = ''m'', ao_payout_address = ''m'', ao_change_address_maker = ''m'',
     ao_escrow_inputs_hex_maker_csv = ''m'', ao_taproot_pubkey_hex_maker = ''m'',
     ao_musig_pub_nonce_hex = ''m'', ao_musig_pubkey_hex = ''m'', ao_taker_bond_address = ''b'' \<rparr>"

definition offer_state :: coord where
  "offer_state = (init_coord [])\<lparr>active_maker_offers := [sample_row], wallet_index := 2\<rparr>"

definition sample_trade :: TakenOfferRow where
  "sample_trade = \<lparr>
     to_offer_id = sample_id, to_robohash_maker = [109], to_robohash_taker = [116],
     to_is_buy_order = Some 1, to_amount_sat = 20000, to_bond_ratio = 10,
     to_offer_duration_ts = 1700086400,
     to_bond_address_maker = ''b'', to_bond_address_taker = ''b'', to_bond_amount_sat = 2000,
     to_bond_tx_hex_maker = ''m'', to_bond_tx_hex_taker = ''t'',
     to_payout_address_maker = ''m'', to_taproot_xonly_pubkey_hex_maker = ''m'',
     to_payout_address_taker = ''t'', to_taproot_xonly_pubkey_hex_taker = ''t'',
     to_musig_pub_nonce_hex_maker = ''m'', to_musig_pubkey_compressed_hex_maker = ''m'',
     to_musig_pub_nonce_hex_taker = ''t'', to_musig_pubkey_compressed_hex_taker = ''t'',
     to_musig_partial_sig_hex_maker = None, to_musig_partial_sig_hex_taker = None,
     to_escrow_psbt_hex = [CHR 0x01], to_escrow_psbt_txid = ''t'',
     to_signed_escrow_psbt_hex_maker = None, to_signed_escrow_psbt_hex_taker = None,
     to_escrow_psbt_is_confirmed = 0, to_maker_happy = None, to_taker_happy = None,
     to_escrow_ongoing = 0, to_escrow_winner_robohash = None,
     to_escrow_taproot_pk_coordinator = ''k'',
     to_escrow_amount_maker_sat = 2000, to_escrow_amount_taker_sat = 22000,
     to_escrow_fee_per_participant = 200, to_escrow_output_descriptor = ''tr'',
     to_payout_transaction_psbt_hex = None, to_processing = 0 \<rparr>"

definition taken_state :: coord where
  "taken_state = (init_coord [])\<lparr>taken_offers := [sample_trade], wallet_index := 4\<rparr>"

definition confirmed_state :: coord where
  "confirmed_state = taken_state\<lparr>
     taken_offers := [sample_trade\<lparr>to_signed_escrow_psbt_hex_maker := Some ''m'',
       to_signed_escrow_psbt_hex_taker := Some ''t'', to_escrow_psbt_is_confirmed := 1\<rparr>],
     published := [sample_tx [109, 116]]\<rparr>"

text \<open>What follows the confirmation of the escrow.\<close>

definition later :: "event list \<Rightarrow> coord" where
  "later es = exec_all es confirmed_state"

definition both_happy_events :: "event list" where
  "both_happy_events =
     [Request env0 (SubmitObligationConfirmation (sample_poll ''m'')),
      Request env0 (SubmitObligationConfirmation (sample_poll ''t''))]"

definition happy_events :: "event list" where
  "happy_events = both_happy_events @ [Request env0 (PollFinalPayout (sample_poll ''m''))]"

lemma hex_sample [simp]: "hex_decode env0 ''m'' = Some [109]" "hex_decode env0 ''t'' = Some [116]"
  by (simp_all add: env0_def sample_decode_def of_char_def)

lemma sample_offered: "sample_state offer_events = offer_state"
  by code_simp

lemma sample_taken: "sample_state taken_events = taken_state"
proof -
  have "exec_all [Request env0 (SubmitTakerBond
      \<lparr> opr_offer = sample_offer, opr_trade_data = sample_bond ''t'' \<rparr>)] offer_state = taken_state"
    by code_simp
  then show ?thesis
    using sample_offered by (simp add: sample_state_def taken_events_def exec_all_append)
qed

lemma sample_confirmed: "sample_state confirmed_events = confirmed_state"
proof -
  have "exec_all [Request env0 (SubmitEscrowPsbt (sample_psbt ''m'')),
      Request env0 (SubmitEscrowPsbt (sample_psbt ''t'')), ConfirmationRound env0] taken_state = confirmed_state"
    by code_simp
  then show ?thesis
    using sample_taken by (simp add: sample_state_def confirmed_events_def exec_all_append)
qed

end
