(* ===== verification/Startup.thy ===== *)
theory Startup
  imports System
begin

text \<open>
  The coordinator's process: what \<open>main\<close> (\<open>main.rs\<close>) does before it serves requests, that is
  \<open>CoordinatorDB::init\<close> (\<open>database/mod.rs\<close>), \<open>init_coordinator_wallet\<close> (\<open>wallet/mod.rs\<close>),
  \<open>MempoolHandler::new\<close> (\<open>mempool_monitoring.rs\<close>) and the listener of \<open>api_server\<close>
  (\<open>communication/mod.rs\<close>), and the life of the mempool thread with its shutdown.
\<close>

section \<open>The environment of a start\<close>

record RpcConfig =
  rc_url :: string
  rc_username :: string
  rc_password :: string
  rc_wallet_name :: string

text \<open>
  The environment variables (with what \<open>dotenv\<close> adds) and the results of the libraries. bdk's
  \<open>sync\<close> leaves the wallet at the derivation index after the last one the node has seen used.
\<close>

record boot =
  env_var :: "string \<Rightarrow> string option"
  sqlite_connect :: "string \<Rightarrow> (unit, anyhow) res"
  parse_xprv :: "string \<Rightarrow> (string, anyhow) res"
  wallet_name_from_descriptor :: "string \<Rightarrow> (string, anyhow) res"
  rpc_client :: "RpcConfig \<Rightarrow> (unit, anyhow) res"
  rpc_blockchain :: "RpcConfig \<Rightarrow> (unit, anyhow) res"
  wallet_new :: "string \<Rightarrow> (unit, anyhow) res"
  wallet_sync :: "RpcConfig \<Rightarrow> (nat, anyhow) res"
  wallet_balance :: "(unit, anyhow) res"
  parse_f64 :: "string \<Rightarrow> (f64, anyhow) res"
  parse_u16 :: "string \<Rightarrow> (16 word, anyhow) res"
  tcp_bind :: "16 word \<Rightarrow> (unit, anyhow) res"

definition env_var_or :: "boot \<Rightarrow> string \<Rightarrow> anyhow \<Rightarrow> (string, anyhow) res" where
  "env_var_or B name e = ok_or e (env_var B name)"

abbreviation env_var_req :: "boot \<Rightarrow> string \<Rightarrow> (string, anyhow) res" where
  "env_var_req B name \<equiv> env_var_or B name (External name)"

section \<open>The process\<close>

text \<open>
  The database file (\<open>schema\<close>: the tables that exist; the rows are those of \<open>coordinator\<close>), the
  shared state, and the \<open>MempoolHandler\<close>: its sender and its join handle (taken by \<open>shutdown\<close>),
  the message in the oneshot channel, and whether the blocking thread runs.
\<close>

record process =
  coordinator :: coord
  schema :: "string list"
  shutdown_sender :: bool
  shutdown_message :: bool
  thread_handle :: bool
  mempool_thread :: bool

text \<open>No process runs on the database; all that is left of the state of the last one are the
  tables and what it has published, whatever the other fields of \<open>coord\<close> are.\<close>

definition stopped :: "string list \<Rightarrow> coord \<Rightarrow> process" where
  "stopped tables s = \<lparr> coordinator = s, schema = tables, shutdown_sender = False,
     shutdown_message = False, thread_handle = False, mempool_thread = False \<rparr>"

definition create_table_if_not_exists :: "string \<Rightarrow> (process, unit, anyhow) async" where
  "create_table_if_not_exists name = atomic (\<lambda>p.
     let q = p\<lparr>coordinator := sql_tick (coordinator p)\<rparr>
     in if sql_up (coordinator p) then (Ok (), q\<lparr>schema := List.insert name (schema p)\<rparr>)
        else (Err SqlFailed, q))"

definition init_db :: "boot \<Rightarrow> (process, unit, anyhow) async" where
  "init_db B =
     andThen (lift_res (env_var_req B ''DATABASE_PATH'')) (\<lambda>_.
     andThen (lift_res (env_var_or B ''DATABASE_PATH'' (Anyhow ''Parsing DATABASE_PATH from .env failed''))) (\<lambda>db_path.
     andThen (lift_res (map_err_res (\<lambda>_. Anyhow ''Failed to connect to SQLite database'')
       (sqlite_connect B (''sqlite:'' @ db_path @ ''?mode=rwc'')))) (\<lambda>_.
     andThen (create_table_if_not_exists ''maker_requests'') (\<lambda>_.
     andThen (create_table_if_not_exists ''active_maker_offers'') (\<lambda>_.
     create_table_if_not_exists ''taken_offers'')))))"

text \<open>\<open>MempoolHandler::new\<close>: an empty copy of the mempool, a channel and a new thread.\<close>

definition mempool_handler_new :: "(process, unit, anyhow) async" where
  "mempool_handler_new = atomic (\<lambda>p. (Ok (),
     p\<lparr>coordinator := (coordinator p)\<lparr>mempool_transactions := [], mempool_utxo_set := []\<rparr>,
       shutdown_sender := True, shutdown_message := False, thread_handle := True, mempool_thread := True\<rparr>))"

definition rpc_config :: "boot \<Rightarrow> string \<Rightarrow> (RpcConfig, anyhow) res" where
  "rpc_config B wallet_xprv =
     bind_res (env_var_req B ''BITCOIN_RPC_ADDRESS_PORT'') (\<lambda>url.
     bind_res (env_var_req B ''BITCOIN_RPC_USER'') (\<lambda>username.
     bind_res (env_var_req B ''BITCOIN_RPC_PASSWORD'') (\<lambda>password.
     bind_res (wallet_name_from_descriptor B wallet_xprv) (\<lambda>name.
     Ok \<lparr> rc_url = url, rc_username = username, rc_password = password, rc_wallet_name = name \<rparr>))))"

text \<open>
  \<open>init_coordinator_wallet\<close>; up to the creation of the JSON-RPC client it touches nothing. The
  wallet is new, in memory, and then synchronised.
\<close>

definition wallet_settings :: "boot \<Rightarrow> (string \<times> RpcConfig, anyhow) res" where
  "wallet_settings B =
     bind_res (env_var_or B ''WALLET_XPRV'' (Anyhow ''loading WALLET_XPRV from .env failed'')) (\<lambda>s.
     bind_res (parse_xprv B s) (\<lambda>wallet_xprv.
     bind_res (rpc_config B wallet_xprv) (\<lambda>config.
     bind_res (rpc_client B config) (\<lambda>_. Ok (wallet_xprv, config)))))"

definition set_wallet_index :: "nat \<Rightarrow> (process, unit, anyhow) async" where
  "set_wallet_index n = atomic (\<lambda>p. (Ok (), p\<lparr>coordinator := (coordinator p)\<lparr>wallet_index := n\<rparr>\<rparr>))"

definition init_coordinator_wallet :: "boot \<Rightarrow> (process, f64, anyhow) async" where
  "init_coordinator_wallet B =
     andThen (lift_res (wallet_settings B)) (\<lambda>(wallet_xprv, config).
     andThen mempool_handler_new (\<lambda>_.
     andThen (lift_res (rpc_blockchain B config)) (\<lambda>_.
     andThen (lift_res (wallet_new B wallet_xprv)) (\<lambda>_.
     andThen (set_wallet_index 0) (\<lambda>_.
     andThen (lift_res (map_err_res (\<lambda>_. Anyhow ''Connection to blockchain server failed.'') (wallet_sync B config))) (\<lambda>n.
     andThen (set_wallet_index n) (\<lambda>_.
     andThen (lift_res (wallet_balance B)) (\<lambda>_.
     lift_res (bind_res (env_var_req B ''COORDINATOR_FEERATE'') (parse_f64 B))))))))))"

text \<open>The listener of \<open>api_server\<close>; a port that cannot be bound is a panic (\<open>unwrap\<close>).\<close>

definition listen :: "boot \<Rightarrow> (unit, anyhow) res" where
  "listen B =
     bind_res (parse_u16 B (case env_var B ''PORT'' of Some port \<Rightarrow> port | None \<Rightarrow> ''9999'')) (\<lambda>port.
     case tcp_bind B port of Ok _ \<Rightarrow> Ok () | _ \<Rightarrow> Panic)"

text \<open>\<open>main\<close> up to the point where it serves; the background tasks are spawned before it listens.\<close>

definition start_coordinator :: "boot \<Rightarrow> (process, f64, anyhow) async" where
  "start_coordinator B =
     andThen (init_db B) (\<lambda>_.
     andThen (init_coordinator_wallet B) (\<lambda>coordinator_feerate.
     andThen (lift_res (listen B)) (\<lambda>_.
     ret coordinator_feerate)))"

section \<open>The mempool thread\<close>

text \<open>
  One pass of the loop of \<open>run_mempool\<close>: the thread ends if the message has arrived, otherwise it
  makes a round; \<open>try_recv\<close> on a channel whose sender was dropped is an error, and the loop goes on.
\<close>

definition mempool_pass :: "env \<Rightarrow> process \<Rightarrow> process" where
  "mempool_pass E p =
     (if \<not> mempool_thread p then p
      else if shutdown_message p then p\<lparr>shutdown_message := False, mempool_thread := False\<rparr>
      else p\<lparr>coordinator := snd (run (run_mempool E) (coordinator p))\<rparr>)"

text \<open>
  Waiting for the thread while it makes a pass in each environment of the list: \<open>None\<close> if it has
  not ended by then.
\<close>

fun join_thread :: "env list \<Rightarrow> process \<Rightarrow> process option" where
  "join_thread [] p = (if mempool_thread p then None else Some p)"
| "join_thread (E # Es) p = (if mempool_thread p then join_thread Es (mempool_pass E p) else Some p)"

definition send_shutdown :: "process \<Rightarrow> process" where
  "send_shutdown p =
     (if shutdown_sender p then p\<lparr>shutdown_sender := False, shutdown_message := mempool_thread p\<rparr> else p)"

text \<open>\<open>MempoolHandler::shutdown\<close>, which \<open>CoordinatorWallet::shutdown\<close> calls.\<close>

definition shutdown :: "env list \<Rightarrow> process \<Rightarrow> process option" where
  "shutdown Es p =
    (let q = send_shutdown p
     in if thread_handle q then join_thread Es (q\<lparr>thread_handle := False\<rparr>) else Some q)"

text \<open>
  The end of the process once \<open>main\<close> has returned (or panicked): the handler is dropped and with it
  the sender, and tokio's runtime waits for its blocking threads.
\<close>

definition end_process :: "env list \<Rightarrow> process \<Rightarrow> process option" where
  "end_process Es p = join_thread Es (p\<lparr>shutdown_sender := False, thread_handle := False\<rparr>)"

section \<open>What a start does\<close>

lemma run_create_table [run_simps]:
  "run (create_table_if_not_exists name) p =
    (let q = p\<lparr>coordinator := sql_tick (coordinator p)\<rparr>
     in if sql_up (coordinator p) then (Ok (), q\<lparr>schema := List.insert name (schema p)\<rparr>)
        else (Err SqlFailed, q))"
  by (simp add: create_table_if_not_exists_def run_simps)

lemma run_set_wallet_index [run_simps]:
  "run (set_wallet_index n) p = (Ok (), p\<lparr>coordinator := (coordinator p)\<lparr>wallet_index := n\<rparr>\<rparr>)"
  by (simp add: set_wallet_index_def run_simps)

lemma run_mempool_handler_new [run_simps]:
  "run mempool_handler_new p = (Ok (),
     p\<lparr>coordinator := (coordinator p)\<lparr>mempool_transactions := [], mempool_utxo_set := []\<rparr>,
       shutdown_sender := True, shutdown_message := False, thread_handle := True, mempool_thread := True\<rparr>)"
  by (simp add: mempool_handler_new_def run_simps)

text \<open>
  What every action of a start keeps: the rows, what has been published and a driver without
  failures; the copy of the mempool is the old one or a new one.
\<close>

definition durable :: "coord \<Rightarrow> coord \<Rightarrow> bool" where
  "durable s s' \<longleftrightarrow>
     maker_requests s' = maker_requests s \<and> active_maker_offers s' = active_maker_offers s \<and>
     taken_offers s' = taken_offers s \<and> published s' = published s \<and>
     (sql_faults s = [] \<longrightarrow> sql_faults s' = []) \<and>
     (mempool_transactions s' = mempool_transactions s \<and> mempool_utxo_set s' = mempool_utxo_set s \<or>
      mempool_transactions s' = [] \<and> mempool_utxo_set s' = [])"

lemma durable_refl [simp]: "durable s s"
  by (simp add: durable_def)

lemma durable_trans: "durable s t \<Longrightarrow> durable t u \<Longrightarrow> durable s u"
  by (auto simp: durable_def)

abbreviation start_action :: "process \<Rightarrow> process \<Rightarrow> bool" where
  "start_action p p' \<equiv> durable (coordinator p) (coordinator p') \<and> set (schema p) \<subseteq> set (schema p')"

lemma within_start: "within start_action (start_coordinator B)"
  unfolding start_coordinator_def init_db_def init_coordinator_wallet_def create_table_if_not_exists_def
    mempool_handler_new_def set_wallet_index_def
  by (intro pres_intro) (auto simp: durable_def Let_def)

lemma start_durable: "run (start_coordinator B) p = (r, p') \<Longrightarrow> durable (coordinator p) (coordinator p')"
  using rtranclp_keeps [OF within_run [OF within_start [of B], of p],
      of "\<lambda>q. durable (coordinator p) (coordinator q)"]
  by (auto intro: durable_trans)

text \<open>The result of a start whose three statements and whose wallet are fine.\<close>

definition tables_of_schema :: "string list" where
  "tables_of_schema = [''maker_requests'', ''active_maker_offers'', ''taken_offers'']"

definition served :: "nat \<Rightarrow> process \<Rightarrow> process" where
  "served n p =
     \<lparr> coordinator = (coordinator p)\<lparr>sql_faults := drop 3 (sql_faults (coordinator p)), wallet_index := n,
         mempool_transactions := [], mempool_utxo_set := []\<rparr>,
       schema = fold List.insert tables_of_schema (schema p),
       shutdown_sender = True, shutdown_message = False, thread_handle = True, mempool_thread = True \<rparr>"

lemma run_init_db_state:
  "run (init_db B) p = (r, p') \<Longrightarrow> mempool_thread p' = mempool_thread p \<and> shutdown_message p' = shutdown_message p"
  unfolding init_db_def
  by (auto simp: run_simps Let_def split: res.splits if_splits)

lemma init_db_Ok:
  assumes "run (init_db B) p = (Ok u, p')"
  shows "p' = p\<lparr>coordinator := sql_tick (sql_tick (sql_tick (coordinator p))),
    schema := fold List.insert tables_of_schema (schema p)\<rparr>"
  using assms unfolding init_db_def tables_of_schema_def
  by (auto simp: run_simps Let_def split: res.splits if_splits)

lemma sql_tick_thrice: "sql_tick (sql_tick (sql_tick s)) = s\<lparr>sql_faults := drop 3 (sql_faults s)\<rparr>"
  by (simp add: sql_tick_def drop_Suc numeral_3_eq_3)

lemma map_err_res_eq_Ok [simp]: "map_err_res g r = Ok a \<longleftrightarrow> r = Ok a"
  by (cases r) simp_all

lemma start_Ok:
  assumes "run (start_coordinator B) p = (Ok feerate, p')"
  obtains xprv config n where "wallet_settings B = Ok (xprv, config)" "wallet_sync B config = Ok n"
    "p' = served n p"
proof -
  obtain u p1 where db: "run (init_db B) p = (Ok u, p1)"
    using assms unfolding start_coordinator_def by (auto simp: run_andThen_Ok)
  have "\<exists>xprv config n. wallet_settings B = Ok (xprv, config) \<and> wallet_sync B config = Ok n \<and> p' = served n p"
    using assms unfolding start_coordinator_def init_coordinator_wallet_def
    by (auto simp: run_simps db init_db_Ok [OF db] served_def sql_tick_thrice
      split: res.splits prod.splits intro!: process.equality)
  then show thesis using that by blast
qed

section \<open>The end of the process\<close>

lemma join_thread_waits:
  "mempool_thread p \<Longrightarrow> \<not> shutdown_message p \<Longrightarrow> join_thread Es p = None"
  by (induction Es arbitrary: p) (simp_all add: mempool_pass_def)

text \<open>The thread is started right after the JSON-RPC client, whatever fails after that.\<close>

lemma start_thread:
  assumes "run (start_coordinator B) (stopped tables s) = (r, p)"
  shows "\<not> shutdown_message p \<and>
    (mempool_thread p \<longleftrightarrow> is_ok (fst (run (init_db B) (stopped tables s))) \<and> is_ok (wallet_settings B))"
proof -
  obtain r1 p1 where db: "run (init_db B) (stopped tables s) = (r1, p1)" by (cases "run (init_db B) (stopped tables s)")
  have p1: "\<not> mempool_thread p1" "\<not> shutdown_message p1"
    using run_init_db_state [OF db] by (simp_all add: stopped_def)
  show ?thesis
    using assms p1 unfolding start_coordinator_def init_coordinator_wallet_def
    by (cases r1; cases "wallet_settings B") (auto simp: run_simps db split: res.splits prod.splits)
qed

section \<open>Crashes and restarts\<close>

text \<open>
  The process is gone, with its tasks, its wallet and its copy of the mempool, and the coordinator is
  started on the database again, until a start succeeds.
\<close>

inductive restarted :: "coord \<Rightarrow> coord \<Rightarrow> bool" where
  Served: "run (start_coordinator B) (stopped tables s) = (Ok feerate, p) \<Longrightarrow> restarted s (coordinator p)"
| Failed: "run (start_coordinator B) (stopped tables s) = (r, p) \<Longrightarrow> \<not> is_ok r \<Longrightarrow>
    restarted (coordinator p) s' \<Longrightarrow> restarted s s'"

lemma restarted_durable: "restarted s s' \<Longrightarrow> durable s s'"
proof (induction rule: restarted.induct)
  case (Served B tables s feerate p)
  then show ?case using start_durable by (fastforce simp: stopped_def)
next
  case (Failed B tables s r p s')
  from start_durable [OF Failed(1)] have "durable s (coordinator p)" by (simp add: stopped_def)
  then show ?case using Failed.IH by (rule durable_trans)
qed

section \<open>Runs\<close>

text \<open>
  The sequential runs of the system: events one after the other from a new database, and restarts
  between them.
\<close>

inductive reachable :: "coord \<Rightarrow> bool" where
  reachable_init: "reachable (init_coord faults)"
| reachable_exec: "reachable s \<Longrightarrow> reachable (exec e s)"
| reachable_restarted: "reachable s \<Longrightarrow> restarted s s' \<Longrightarrow> reachable s'"

lemma reachable_exec_all: "reachable s \<Longrightarrow> reachable (exec_all es s)"
  by (induction es arbitrary: s) (simp_all add: reachable_exec)

text \<open>
  The contract of an invariant of sequential runs: it holds in a new database, every event keeps
  it, and so does the loss of what was only in memory. A client (a component with such an
  invariant) gets it in every reachable state.
\<close>

locale run_invariant =
  fixes I :: "coord \<Rightarrow> bool"
  assumes start: "I (init_coord faults)"
    and event: "I s \<Longrightarrow> I (exec e s)"
    and restart: "I s \<Longrightarrow> durable s s' \<Longrightarrow> I s'"
begin

lemma restarted: "I s \<Longrightarrow> restarted s s' \<Longrightarrow> I s'"
  using restart restarted_durable by blast

lemma reachable: "reachable s \<Longrightarrow> I s"
  by (induction rule: reachable.induct) (auto intro: start event restarted)

end

text \<open>
  A stronger contract: every single action keeps it, so it also holds when the events are
  interleaved and when a crash ends them half-way.
\<close>

locale action_invariant =
  fixes I :: "coord \<Rightarrow> bool"
  assumes init: "I (init_coord faults)"
    and effect: "effect UNIV s s' \<Longrightarrow> I s \<Longrightarrow> I s'"
    and lost_memory: "I s \<Longrightarrow> durable s s' \<Longrightarrow> I s'"

sublocale action_invariant \<subseteq> run_invariant
  by unfold_locales
    (auto simp: init exec_def intro: rtranclp_keeps [OF within_run [OF within_event]] effect lost_memory)

text \<open>A configuration with which a start succeeds, and one in which the node cannot be reached.\<close>

definition boot0 :: boot where
  "boot0 = \<lparr> env_var = (\<lambda>name. if name = ''PORT'' then None else Some name),
     sqlite_connect = (\<lambda>_. Ok ()), parse_xprv = Ok, wallet_name_from_descriptor = Ok,
     rpc_client = (\<lambda>_. Ok ()), rpc_blockchain = (\<lambda>_. Ok ()), wallet_new = (\<lambda>_. Ok ()),
     wallet_sync = (\<lambda>_. Ok 0), wallet_balance = Ok (), parse_f64 = (\<lambda>_. Ok (1, 0)),
     parse_u16 = (\<lambda>_. Ok 9999), tcp_bind = (\<lambda>_. Ok ()) \<rparr>"

definition offline_boot :: boot where
  "offline_boot = boot0\<lparr>wallet_sync := \<lambda>_. Err (External ''connection refused'')\<rparr>"

end
