(* ===== verification/Invariants.thy ===== *)
theory Invariants
  imports Sample Startup
begin

text \<open>
  Invariants of the coordinator's state: the well-formedness of the tables under every
  interleaving of actions, and the gating of a trade by the confirmation of its escrow when
  requests are served one after the other; both outlive the process.
\<close>

section \<open>Well-formed tables\<close>

definition flag_column :: "i64 option \<Rightarrow> bool" where
  "flag_column v \<longleftrightarrow> v = None \<or> v = Some 1"

text \<open>The columns of a taken offer hold the values the code writes and no others.\<close>

definition trade_flags :: "TakenOfferRow \<Rightarrow> bool" where
  "trade_flags r \<longleftrightarrow>
     flag_column (to_is_buy_order r) \<and> flag_column (to_maker_happy r) \<and> flag_column (to_taker_happy r) \<and>
     to_escrow_psbt_is_confirmed r \<in> {0, 1} \<and> to_escrow_ongoing r \<in> {0, 1} \<and> to_processing r \<in> {0, 1}"

definition keys_distinct :: "coord \<Rightarrow> bool" where
  "keys_distinct s \<longleftrightarrow>
     tbl_wf mr_robohash (maker_requests s) \<and> tbl_wf ao_offer_id (active_maker_offers s) \<and>
     tbl_wf to_offer_id (taken_offers s)"

definition flags_ok :: "coord \<Rightarrow> bool" where
  "flags_ok s \<longleftrightarrow>
     (\<forall>r \<in> set (maker_requests s). flag_column (mr_is_buy_order r)) \<and>
     (\<forall>r \<in> set (active_maker_offers s). flag_column (ao_is_buy_order r)) \<and>
     (\<forall>r \<in> set (taken_offers s). trade_flags r)"

definition mempool_ok :: "coord \<Rightarrow> bool" where
  "mempool_ok s \<longleftrightarrow>
     mempool_utxo_set s = remdups (concat (map snd (mempool_transactions s)))"

lemma flag_column_bool [simp]: "flag_column (bool_to_sql_int b)"
  by (cases b) (simp_all add: flag_column_def)

lemma flag_column_range: "v \<in> range bool_to_sql_int \<Longrightarrow> flag_column v"
  by auto

lemma trade_flags_new: "new_trade r \<Longrightarrow> trade_flags r"
  by (auto simp: new_trade_def trade_flags_def dest: flag_column_range) (simp_all add: flag_column_def)

lemma trade_flags_update: "trade_flags r \<Longrightarrow> trade_flags (apply_update u r)"
  by (cases u) (simp_all add: trade_flags_def)

lemma confirm_txid_keys: "map to_offer_id (confirm_txid txid rows) = map to_offer_id rows"
  by (simp add: confirm_txid_def)

lemma tbl_wf_confirm: "tbl_wf to_offer_id rows \<Longrightarrow> tbl_wf to_offer_id (confirm_txid txid rows)"
  by (simp add: tbl_wf_def confirm_txid_keys)

lemma keys_distinct_effect: "effect A s s' \<Longrightarrow> keys_distinct s \<Longrightarrow> keys_distinct s'"
  by (induction rule: effect.induct)
    (simp_all add: keys_distinct_def requests.wf_put requests.wf_del orderbook.wf_put orderbook.wf_del
      trades.wf_put trades.wf_del trades.wf_upd tbl_wf_confirm)

lemma trade_flags_confirm: "trade_flags r \<Longrightarrow> trade_flags (r\<lparr>to_escrow_psbt_is_confirmed := 1\<rparr>)"
  by (simp add: trade_flags_def)

lemma flags_ok_effect: "effect A s s' \<Longrightarrow> flags_ok s \<Longrightarrow> flags_ok s'"
  by (induction rule: effect.induct)
    (auto simp: flags_ok_def set_tbl flag_column_range trade_flags_new trade_flags_update
      confirm_txid_def trade_flags_confirm)

lemma mempool_ok_effect: "effect A s s' \<Longrightarrow> mempool_ok s \<Longrightarrow> mempool_ok s'"
  by (induction rule: effect.induct) (simp_all add: mempool_ok_def)

definition tables_ok :: "coord \<Rightarrow> bool" where
  "tables_ok s \<longleftrightarrow> keys_distinct s \<and> flags_ok s \<and> mempool_ok s"

lemma tables_ok_durable: "tables_ok s \<Longrightarrow> durable s s' \<Longrightarrow> tables_ok s'"
  by (auto simp: tables_ok_def durable_def keys_distinct_def flags_ok_def mempool_ok_def)

lemma tables_ok_init: "tables_ok (init_coord faults)"
  by (simp add: tables_ok_def init_coord_def keys_distinct_def flags_ok_def mempool_ok_def tbl_wf_def)

lemma tables_ok_effect: "effect UNIV s s' \<Longrightarrow> tables_ok s \<Longrightarrow> tables_ok s'"
  by (auto simp: tables_ok_def intro: keys_distinct_effect flags_ok_effect mempool_ok_effect)

interpretation tables: action_invariant tables_ok
  by unfold_locales (fact tables_ok_init tables_ok_effect tables_ok_durable)+

text \<open>With distinct keys a lookup finds the one row with the key.\<close>

lemma find_taken_member:
  "keys_distinct s \<Longrightarrow> r \<in> set (taken_offers s) \<Longrightarrow> find_taken (to_offer_id r) s = Some r"
  by (simp add: keys_distinct_def tbl_find_member)

section \<open>A trade is gated by the confirmation of its escrow\<close>

text \<open>
  An offer whose escrow transaction is not confirmed has seen nothing of the second half of
  the protocol.
\<close>

definition untouched :: "TakenOfferRow \<Rightarrow> bool" where
  "untouched r \<longleftrightarrow>
     to_maker_happy r = None \<and> to_taker_happy r = None \<and> to_escrow_ongoing r = 0 \<and>
     to_escrow_winner_robohash r = None \<and> to_musig_partial_sig_hex_maker r = None \<and>
     to_musig_partial_sig_hex_taker r = None \<and> to_payout_transaction_psbt_hex r = None \<and>
     to_processing r = 0"

definition gated_row :: "TakenOfferRow \<Rightarrow> bool" where
  "gated_row r \<longleftrightarrow> to_escrow_psbt_is_confirmed r = 1 \<or> untouched r"

definition gated :: "coord \<Rightarrow> bool" where
  "gated s \<longleftrightarrow> tables_ok s \<and> (\<forall>r \<in> set (taken_offers s). gated_row r)"

definition confirmed_offer :: "string \<Rightarrow> coord \<Rightarrow> bool" where
  "confirmed_offer i s \<longleftrightarrow> (\<forall>r \<in> set (taken_offers s). to_offer_id r = i \<longrightarrow> to_escrow_psbt_is_confirmed r = 1)"

lemma apply_update_confirmed [simp]:
  "to_escrow_psbt_is_confirmed (apply_update u r) = to_escrow_psbt_is_confirmed r"
  by (cases u) simp_all

lemma gated_new: "new_trade r \<Longrightarrow> gated_row r"
  by (simp add: new_trade_def gated_row_def untouched_def)

lemma gated_update_signing: "Update u \<in> signing \<Longrightarrow> gated_row r \<Longrightarrow> gated_row (apply_update u r)"
  by (auto simp: gated_row_def untouched_def signing_def)

lemma gated_update_confirmed: "to_escrow_psbt_is_confirmed r = 1 \<Longrightarrow> gated_row (apply_update u r)"
  by (simp add: gated_row_def)

lemma gated_row_confirm: "gated_row r \<Longrightarrow> gated_row (r\<lparr>to_escrow_psbt_is_confirmed := 1\<rparr>)"
  by (simp add: gated_row_def)

lemma gated_tick [simp]: "gated (sql_tick s) = gated s"
  by (simp add: gated_def tables_ok_def keys_distinct_def flags_ok_def mempool_ok_def)

lemma confirmed_offer_tick [simp]: "confirmed_offer i (sql_tick s) = confirmed_offer i s"
  by (simp add: confirmed_offer_def)

lemma gated_effect:
  assumes "effect signing s s'" and "gated s"
  shows "gated s'"
proof -
  have "tables_ok s'"
    using assms keys_distinct_effect flags_ok_effect mempool_ok_effect by (auto simp: gated_def tables_ok_def)
  moreover have "\<forall>r \<in> set (taken_offers s'). gated_row r"
    using assms
    by (induction rule: effect.induct)
      (auto simp: gated_def set_tbl gated_new gated_update_signing confirm_txid_def gated_row_confirm)
  ultimately show ?thesis by (simp add: gated_def)
qed

text \<open>The state while a handler works on the trade \<open>i\<close> whose escrow it found confirmed.\<close>

definition gated_at :: "string \<Rightarrow> coord \<Rightarrow> bool" where
  "gated_at i s \<longleftrightarrow> gated s \<and> confirmed_offer i s"

lemma gated_at_tick: "gated_at i s \<Longrightarrow> gated_at i (sql_tick s)"
  by (simp add: gated_at_def)

lemma gated_at_other [simp]:
  "gated_at i (s\<lparr>published := p\<rparr>) = gated_at i s"
  by (simp add: gated_at_def gated_def tables_ok_def keys_distinct_def flags_ok_def mempool_ok_def
      confirmed_offer_def)

lemma confirmed_offer_update:
  "confirmed_offer j s \<Longrightarrow> confirmed_offer j (s\<lparr>taken_offers := tbl_update to_offer_id i (apply_update u) (taken_offers s)\<rparr>)"
  by (auto simp: confirmed_offer_def set_tbl)

lemma gated_update:
  assumes "gated s" and "confirmed_offer i s"
  shows "gated (s\<lparr>taken_offers := tbl_update to_offer_id i (apply_update u) (taken_offers s)\<rparr>)"
proof -
  let ?s = "s\<lparr>taken_offers := tbl_update to_offer_id i (apply_update u) (taken_offers s)\<rparr>"
  have "tables_ok ?s"
    using assms(1) trade_flags_update
    by (auto simp: gated_def tables_ok_def keys_distinct_def flags_ok_def mempool_ok_def set_tbl trades.wf_upd)
  then show ?thesis
    using assms by (auto simp: gated_def confirmed_offer_def set_tbl gated_update_confirmed)
qed

lemma keeps_update_taken:
  assumes "f = apply_update u"
  shows "keeps (gated_at i) (update_taken i f)"
  unfolding update_taken_def assms
  using gated_update [of "sql_tick s" for s] confirmed_offer_update [of i "sql_tick s" for s]
  by (intro keeps_execute) (simp_all add: gated_at_def)

lemma keeps_is_maker [keeps_intro]:
  "(\<And>s. I s \<Longrightarrow> I (sql_tick s)) \<Longrightarrow> keeps I (is_maker_in_taken_offers E i h)"
  unfolding is_maker_in_taken_offers_def by (intro keeps_intro)

lemma keeps_set_trader_happy_field: "keeps (gated_at i) (set_trader_happy_field E i h b)"
proof -
  have "(\<lambda>r. r\<lparr>to_maker_happy := bool_to_sql_int b\<rparr>) = apply_update (MakerHappy b)"
    "(\<lambda>r. r\<lparr>to_taker_happy := bool_to_sql_int b\<rparr>) = apply_update (TakerHappy b)"
    "(\<lambda>r. r\<lparr>to_escrow_ongoing := 1\<rparr>) = apply_update OpenEscrow"
    by auto
  then show ?thesis unfolding set_trader_happy_field_def
    by (intro keeps_intro) (auto intro: gated_at_tick keeps_update_taken)
qed

lemma keeps_insert_partial_sig: "keeps (gated_at i) (insert_partial_sig E p i h)"
proof -
  have "(\<lambda>r. r\<lparr>to_musig_partial_sig_hex_maker := Some p\<rparr>) = apply_update (PartialSigMaker p)"
    "(\<lambda>r. r\<lparr>to_musig_partial_sig_hex_taker := Some p\<rparr>) = apply_update (PartialSigTaker p)"
    by auto
  then show ?thesis unfolding insert_partial_sig_def
    by (intro keeps_intro) (auto intro: gated_at_tick keeps_update_taken)
qed

lemma keeps_delete_complete_offer: "keeps (gated_at i) (delete_complete_offer i)"
  unfolding delete_complete_offer_def
  by (rule keeps_execute)
    (auto simp: gated_at_def gated_def tables_ok_def keys_distinct_def flags_ok_def mempool_ok_def
      confirmed_offer_def set_tbl trades.wf_del)

lemma keeps_broadcast: "keeps (gated_at i) (broadcast E tx)"
  by (auto simp: broadcast_def triple_def run_atomic split: res.split)

text \<open>After \<open>check_offer_and_confirmation\<close> the escrow of the offer is confirmed.\<close>

lemma find_confirmed:
  assumes "gated s" and "find_taken i s = Some r" and "to_escrow_psbt_is_confirmed r = 1"
  shows "confirmed_offer i s"
  using assms find_taken_member [of s] by (fastforce simp: confirmed_offer_def gated_def tables_ok_def)

lemma triple_check_offer:
  "triple gated (check_offer_and_confirmation E i h) (\<lambda>_. gated_at i) gated"
proof -
  have fetch: "triple gated (fetch_escrow_tx_confirmation_status i)
      (\<lambda>c s. gated s \<and> (c \<longrightarrow> confirmed_offer i s)) gated"
    unfolding fetch_escrow_tx_confirmation_status_def
    by (rule triple_andThen [where R = "\<lambda>r s. gated s \<and> find_taken i s = Some r"])
      (auto intro!: triple_fetch_one triple_ret intro: find_confirmed)
  have valid: "keeps gated (is_valid_robohash_in_table E h i)"
    unfolding is_valid_robohash_in_table_def by (intro keeps_intro) simp_all
  show ?thesis unfolding check_offer_and_confirmation_def
    by (intro triple_onResult [OF valid] triple_if triple_fail triple_onResult [OF fetch] triple_ret)
      (auto simp: gated_at_def)
qed

lemma keeps_guarded:
  assumes "keeps (gated_at i) m"
  shows "keeps gated (andThen (check_offer_and_confirmation E i h) (\<lambda>_. m))"
  by (rule triple_andThen [OF triple_check_offer], rule triple_weaken [OF assms])
    (auto simp: gated_at_def)

lemma keeps_handle_obligation_confirmation: "keeps gated (handle_obligation_confirmation E p)"
  unfolding handle_obligation_confirmation_def
  by (intro keeps_guarded triple_mapErr keeps_set_trader_happy_field)

lemma keeps_initiate_escrow: "keeps gated (initiate_escrow E p)"
  unfolding initiate_escrow_def
  by (intro keeps_guarded triple_mapErr keeps_set_trader_happy_field)

lemma keeps_fetch_keyspend: "keeps (gated_at i) (fetch_keyspend_payout_information E i)"
  unfolding fetch_keyspend_payout_information_def
  by (intro keeps_intro) (auto simp: gated_at_tick intro!: keeps_intro split: option.split)

lemma keeps_handle_payout_signature: "keeps gated (handle_payout_signature E p)"
  unfolding handle_payout_signature_def broadcast_keyspend_tx_def
  by (intro keeps_guarded keeps_intro keeps_insert_partial_sig keeps_fetch_keyspend
      keeps_broadcast keeps_delete_complete_offer)

text \<open>Two happy traders have a confirmed escrow: this is what gates the payout.\<close>

lemma triple_fetch_trader_happiness:
  "triple gated (fetch_trader_happiness i) (\<lambda>h s. gated s \<and> (both_happy h \<longrightarrow> gated_at i s)) gated"
  unfolding fetch_trader_happiness_def
proof (rule triple_andThen [where R = "\<lambda>r s. gated s \<and> find_taken i s = Some r"])
  show "triple gated (fetch_one (find_taken i)) (\<lambda>r s. gated s \<and> find_taken i s = Some r) gated"
    by (rule triple_fetch_one) simp_all
  fix r
  have "to_escrow_psbt_is_confirmed r = 1" if "gated s" "find_taken i s = Some r" "to_maker_happy r \<noteq> None" for s
    using that by (auto dest: tbl_find_Some simp: gated_def gated_row_def untouched_def)
  then show "triple (\<lambda>s. gated s \<and> find_taken i s = Some r)
     (ret \<lparr>th_maker_happy = map_option (\<lambda>v. v \<noteq> 0) (to_maker_happy r),
           th_taker_happy = map_option (\<lambda>v. v \<noteq> 0) (to_taker_happy r),
           th_escrow_ongoing = to_escrow_ongoing r \<noteq> 0\<rparr>)
     (\<lambda>h s. gated s \<and> (both_happy h \<longrightarrow> gated_at i s)) gated"
    by (intro triple_ret) (auto simp: both_happy_def gated_at_def intro: find_confirmed)
qed

lemma toggle_keeps: "keeps (gated_at i) (toggle_processing i)"
proof -
  have toggle: "(\<lambda>r. r\<lparr>to_processing := if to_processing r = 0 then 1 else 0\<rparr>) = apply_update ToggleProcessing"
    by auto
  show ?thesis unfolding toggle_processing_def toggle
    using gated_update [of "sql_tick s" for s] confirmed_offer_update [of i "sql_tick s" for s]
    by (intro triple_statement) (simp_all add: Let_def post_const gated_at_def)
qed

lemma keeps_insert_keyspend: "keeps (gated_at i) (insert_keyspend_payout_psbt i p)"
  unfolding insert_keyspend_payout_psbt_def by (rule keeps_update_taken [of _ "StorePayout p"]) auto

lemma keeps_assemble: "keeps I (assemble_keyspend_payout_psbt E d)"
  by (auto simp: assemble_keyspend_payout_psbt_def triple_def run_atomic post_const)

lemma keeps_handle_final_payout: "keeps gated (handle_final_payout E p)"
proof -
  let ?i = "otr_offer_id_hex p"
  have happy: "keeps (gated_at ?i) (andThen (mapErr Database (fetch_payout_data E ?i)) (\<lambda>d.
       andThen (mapErr Database (fetch_keyspend_payout_psbt ?i)) (\<lambda>stored.
         case stored of
           Some x \<Rightarrow> ret (ReadyPSBT (payout_response E d x))
         | None \<Rightarrow> andThen (mapErr Database (toggle_processing ?i)) (\<lambda>locked.
               if \<not> locked then ret NotReady else assemble_locked E ?i d))))"
    unfolding fetch_payout_data_def fetch_keyspend_payout_psbt_def assemble_locked_def
    by (intro keeps_intro toggle_keeps keeps_insert_keyspend keeps_assemble)
      (auto simp: gated_at_tick intro!: keeps_intro)
  show ?thesis unfolding handle_final_payout_def fetch_escrow_result_def
    by (intro triple_andThen [OF triple_mapErr, OF triple_fetch_trader_happiness] triple_if
        triple_weaken [OF happy])
      (auto simp: gated_at_def intro!: triple_weaken [where P = gated and Q = "\<lambda>_. gated" and X = gated] keeps_intro)
qed

text \<open>The operator decides only open disputes, which exist for confirmed escrows only.\<close>

definition gated_cases :: "EscrowCase list \<Rightarrow> coord \<Rightarrow> bool" where
  "gated_cases cases s \<longleftrightarrow> gated s \<and> (\<forall>c \<in> set cases. confirmed_offer (ec_offer_id c) s)"

lemma triple_get_open_escrows: "triple gated (get_open_escrows E) gated_cases gated"
  unfolding get_open_escrows_def
proof (rule triple_query)
  fix s assume gated: "gated s"
  have "confirmed_offer (to_offer_id r) s" if "r \<in> set (taken_offers s)" "to_escrow_ongoing r = 1" for r
    using gated that find_taken_member [of s r]
    by (intro find_confirmed [OF gated, of _ r]) (auto simp: gated_def tables_ok_def gated_row_def untouched_def)
  then show "gated_cases (map (\<lambda>r. \<lparr>ec_maker_id = hex_encode E (to_robohash_maker r),
      ec_taker_id = hex_encode E (to_robohash_taker r), ec_offer_id = to_offer_id r\<rparr>)
      (filter (\<lambda>r. to_escrow_ongoing r = 1) (taken_offers (sql_tick s)))) (sql_tick s)"
    using gated by (auto simp: gated_cases_def)
qed simp

lemma keeps_resolve_escrow:
  "c \<in> set cases \<Longrightarrow> keeps (gated_cases cases) (resolve_escrow (ec_offer_id c) w)"
proof -
  assume c: "c \<in> set cases"
  have resolve: "(\<lambda>r. r\<lparr>to_escrow_ongoing := 0, to_escrow_winner_robohash := Some w\<rparr>) = apply_update (ResolveEscrow w)"
    by auto
  show ?thesis unfolding resolve_escrow_def update_taken_def resolve
    using c gated_update [of "sql_tick s" for s] confirmed_offer_update [of _ "sql_tick s" for s]
    by (intro keeps_execute) (simp_all add: gated_cases_def)
qed

lemma keeps_resolve_cases:
  "set cases \<subseteq> set all \<Longrightarrow> keeps (gated_cases all) (resolve_cases lines cases)"
proof (induction cases arbitrary: lines)
  case Nil
  then show ?case by (simp add: keeps_ret)
next
  case (Cons c cases)
  then show ?case unfolding resolve_cases.simps expect_def
    by (intro keeps_structure) (auto intro!: keeps_intro keeps_resolve_escrow)
qed

lemma keeps_escrow_cli_loop: "keeps gated (escrow_cli_loop E lines)"
  unfolding escrow_cli_loop_def expect_def
proof (intro triple_andThen triple_onResult [OF triple_get_open_escrows])
  fix cases
  show "triple (gated_cases cases) (resolve_cases lines cases) (\<lambda>_. gated) gated"
    by (rule triple_weaken [OF keeps_resolve_cases [OF subset_refl]]) (simp_all add: gated_cases_def)
qed (auto intro: triple_ret triple_lift_res)

section \<open>Every event keeps the gate\<close>

lemma keeps_http: "keeps I m \<Longrightarrow> keeps I (onResult m (\<lambda>a. ret (f a)) (\<lambda>e. ret (g e)))"
  by (intro keeps_intro)

lemma keeps_signing: "within (effect signing) m \<Longrightarrow> keeps gated m"
  by (erule within_keeps) (rule gated_effect)

lemma keeps_api_server: "keeps gated (api_server E req)"
proof (cases "first_half req")
  case True
  then show ?thesis by (intro keeps_signing within_first_half)
next
  case False
  then show ?thesis
    by (cases req)
      (simp_all add: submit_obligation_confirmation_def request_escrow_def poll_final_payout_def
        submit_payout_signature_def keeps_http keeps_handle_obligation_confirmation keeps_initiate_escrow
        keeps_handle_final_payout keeps_handle_payout_signature)
qed

lemma gated_exec: "gated s \<Longrightarrow> gated (exec e s)"
proof (cases e)
  case (Request E req)
  then show "gated s \<Longrightarrow> ?thesis" by (simp add: exec_simps keepsD keeps_api_server)
next
  case (CliRound E lines)
  then show "gated s \<Longrightarrow> ?thesis" by (simp add: exec_simps keepsD keeps_escrow_cli_loop)
qed (simp_all add: exec_simps keepsD keeps_signing within_effects signing_def)

interpretation trade_gate: run_invariant gated
proof
  show "gated (init_coord faults)" for faults
    using tables.start [of faults] by (simp add: gated_def init_coord_def)
  show "gated s'" if "gated s" "durable s s'" for s s'
    using that tables.restart [of s s'] by (simp add: gated_def durable_def)
qed (rule gated_exec)

lemma reachable_flags: "reachable s \<Longrightarrow> flags_ok s"
  by (auto dest: tables.reachable simp: tables_ok_def)

lemma reachable_keys: "reachable s \<Longrightarrow> keys_distinct s"
  by (auto dest: tables.reachable simp: tables_ok_def)

section \<open>A database without failures stays one\<close>

lemma healthy_effect: "effect A s s' \<Longrightarrow> sql_faults s = [] \<Longrightarrow> sql_faults s' = []"
  by (induction rule: effect.induct) simp_all

lemma healthy_exec [simp]: "sql_faults s = [] \<Longrightarrow> sql_faults (exec e s) = []"
  unfolding exec_def
  by (rule rtranclp_keeps [OF within_run [OF within_event [of e]], of "\<lambda>s. sql_faults s = []"])
    (auto dest: healthy_effect)

lemma healthy_exec_all [simp]: "sql_faults s = [] \<Longrightarrow> sql_faults (exec_all es s) = []"
  by (induction es arbitrary: s) simp_all

section \<open>The sample states\<close>

lemma reachable_sample [simp]: "reachable (sample_state es)"
  by (simp add: sample_state_def reachable_exec_all reachable_init)

lemma reachable_offer [simp]: "reachable offer_state"
  by (simp flip: sample_offered)

lemma reachable_taken [simp]: "reachable taken_state"
  by (simp flip: sample_taken)

lemma reachable_later [simp]: "reachable (later es)"
proof -
  have "later es = sample_state (confirmed_events @ es)"
    by (simp add: later_def sample_confirmed [symmetric] sample_state_def exec_all_append)
  then show ?thesis by simp
qed

lemmas offer_flags = reachable_flags [OF reachable_offer]
lemmas later_flags = reachable_flags [OF reachable_later]
lemmas later_keys = reachable_keys [OF reachable_later]

lemma sample_healthy [simp]:
  "sql_faults (sample_state es) = []" "sql_faults offer_state = []" "sql_faults taken_state = []"
  "sql_faults (later es) = []"
  by (simp_all add: sample_state_def offer_state_def taken_state_def later_def confirmed_state_def)

end
