(* ===== verification/Payout_Spec.thy ===== *)
theory Payout_Spec
  imports Invariants
begin

text \<open>
  What the coordinator promises about the end of a trade: that nothing of it happens before the
  escrow is confirmed, when the payout is published, and what a repeated or failed one leads to.
\<close>

section \<open>The parties of a trade\<close>

definition party :: "bytes \<Rightarrow> TakenOfferRow \<Rightarrow> bool" where
  "party h r \<longleftrightarrow> to_robohash_maker r = h \<or> to_robohash_taker r = h"

lemma valid_robohash_iff:
  assumes "keys_distinct s"
  shows "(\<exists>r \<in> set (taken_offers s). (to_robohash_maker r = h \<or> to_robohash_taker r = h) \<and> to_offer_id r = i)
    \<longleftrightarrow> (\<exists>r. find_taken i s = Some r \<and> party h r)"
  using find_taken_member [OF assms] by (auto simp: party_def dest: tbl_find_Some)

text \<open>\<open>check_offer_and_confirmation\<close> on a database without failures, as a function.\<close>

definition check_result :: "env \<Rightarrow> string \<Rightarrow> string \<Rightarrow> coord \<Rightarrow> (unit, RequestError) res" where
  "check_result E i robohash s =
     (case hex_decode E robohash of
        None \<Rightarrow> Err (Database HexDecode)
      | Some h \<Rightarrow>
          (case find_taken i s of
             None \<Rightarrow> Err NotFound
           | Some r \<Rightarrow>
               if \<not> party h r then Err NotFound
               else if to_escrow_psbt_is_confirmed r \<noteq> 1 then Err NotConfirmed
               else Ok ()))"

lemma run_check:
  assumes "sql_faults s = []" and "keys_distinct s"
  shows "run (check_offer_and_confirmation E i robohash) s = (check_result E i robohash s, s)"
proof (cases "hex_decode E robohash")
  case None
  then show ?thesis using assms(1)
    by (simp add: check_offer_and_confirmation_def is_valid_robohash_in_table_def run_simps check_result_def)
next
  case (Some h)
  show ?thesis
  proof (cases "find_taken i s")
    case None
    then show ?thesis using assms Some valid_robohash_iff [OF assms(2), of h i]
      by (simp add: check_offer_and_confirmation_def is_valid_robohash_in_table_def run_simps check_result_def)
  next
    case (Some r)
    then show ?thesis using assms \<open>hex_decode E robohash = Some h\<close> valid_robohash_iff [OF assms(2), of h i]
      by (simp add: check_offer_and_confirmation_def is_valid_robohash_in_table_def
          fetch_escrow_tx_confirmation_status_def run_simps check_result_def)
  qed
qed

lemma check_result_Ok:
  "check_result E i robohash s = Ok () \<longleftrightarrow>
     (\<exists>h r. hex_decode E robohash = Some h \<and> find_taken i s = Some r \<and> party h r \<and>
        to_escrow_psbt_is_confirmed r = 1)"
  by (auto simp: check_result_def split: option.splits if_splits)

lemma run_is_maker:
  assumes "sql_faults s = []" and "hex_decode E robohash = Some h" and "find_taken i s = Some r" and "party h r"
  shows "run (is_maker_in_taken_offers E i robohash) s = (Ok (to_robohash_maker r = h), s)"
  using assms by (auto simp: is_maker_in_taken_offers_def run_simps party_def Let_def)

lemma run_update_taken:
  "sql_faults s = [] \<Longrightarrow> run (update_taken i f) s =
     (Ok (), s\<lparr>taken_offers := tbl_update to_offer_id i f (taken_offers s)\<rparr>)"
  by (simp add: update_taken_def run_simps)

lemma find_updated:
  assumes "\<And>r. to_offer_id (f r) = to_offer_id r"
  shows "find_taken j (s\<lparr>taken_offers := tbl_update to_offer_id i f (taken_offers s)\<rparr>) =
    (if j = i then map_option f (find_taken i s) else find_taken j s)"
  using trades.look_upd [of f, OF assms] by simp

text \<open>
  C4: Nothing of the second half of the protocol happens before the escrow is confirmed: in
  every state that requests served one after the other can lead to, with restarts between them, a
  trade whose escrow transaction is not confirmed has no happy or unhappy trader, no dispute and no
  decision, no partial signature, no payout transaction, and no payout in progress.
\<close>

theorem unconfirmed_trade_untouched:
  assumes "reachable s" and "r \<in> set (taken_offers s)" and "to_escrow_psbt_is_confirmed r \<noteq> 1"
  shows "to_maker_happy r = None \<and> to_taker_happy r = None \<and> to_escrow_ongoing r = 0 \<and>
    to_escrow_winner_robohash r = None \<and> to_musig_partial_sig_hex_maker r = None \<and>
    to_musig_partial_sig_hex_taker r = None \<and> to_payout_transaction_psbt_hex r = None \<and>
    to_processing r = 0"
  using trade_gate.reachable [OF assms(1)] assms(2,3) by (auto simp: gated_def gated_row_def untouched_def)

lemma unconfirmed_trade_untouched_witness:
  "\<exists>r. find_taken sample_id taken_state = Some r \<and> to_maker_happy r = None"
proof -
  let ?s = taken_state
  have "map_option to_escrow_psbt_is_confirmed (find_taken sample_id ?s) = Some 0" by code_simp
  then obtain r where r: "find_taken sample_id ?s = Some r" "to_escrow_psbt_is_confirmed r = 0" by auto
  then have "r \<in> set (taken_offers ?s)" by (auto dest: tbl_find_Some)
  from unconfirmed_trade_untouched [OF reachable_taken this] r show ?thesis by auto
qed

section \<open>The signatures of the payout\<close>

text \<open>What one partial signature makes of the trade's row.\<close>

definition add_partial_sig :: "bytes \<Rightarrow> string \<Rightarrow> TakenOfferRow \<Rightarrow> TakenOfferRow" where
  "add_partial_sig h p r =
     (if to_robohash_maker r = h then r\<lparr>to_musig_partial_sig_hex_maker := Some p\<rparr>
      else r\<lparr>to_musig_partial_sig_hex_taker := Some p\<rparr>)"

definition already_signed :: "bytes \<Rightarrow> TakenOfferRow \<Rightarrow> bool" where
  "already_signed h r \<longleftrightarrow>
     (if to_robohash_maker r = h then to_musig_partial_sig_hex_maker r \<noteq> None
      else to_musig_partial_sig_hex_taker r \<noteq> None)"

definition set_trade :: "string \<Rightarrow> TakenOfferRow \<Rightarrow> coord \<Rightarrow> coord" where
  "set_trade i r s = s\<lparr>taken_offers := tbl_update to_offer_id i (\<lambda>_. r) (taken_offers s)\<rparr>"

lemma tbl_update_cong:
  assumes "tbl_wf key rows" and "tbl_find key k rows = Some r"
  shows "tbl_update key k f rows = tbl_update key k (\<lambda>_. f r) rows"
  using assms by (auto simp: tbl_update_def dest: tbl_find_member)

lemma update_is_set_trade:
  assumes "keys_distinct s" and "find_taken i s = Some r"
  shows "s\<lparr>taken_offers := tbl_update to_offer_id i f (taken_offers s)\<rparr> = set_trade i (f r) s"
  unfolding set_trade_def using assms tbl_update_cong [of to_offer_id "taken_offers s" i r f]
  by (simp add: keys_distinct_def)

lemma find_set_trade:
  assumes "find_taken i s = Some r" and "to_offer_id r' = i"
  shows "find_taken j (set_trade i r' s) = (if j = i then Some r' else find_taken j s)"
proof -
  have "tbl_find to_offer_id j (tbl_update to_offer_id i (\<lambda>_. r') rows) =
      (if j = i then map_option (\<lambda>_. r') (tbl_find to_offer_id i rows) else tbl_find to_offer_id j rows)" for rows
    using assms(2) by (induction rows) (auto simp: tbl_find_def tbl_update_def)
  then show ?thesis using assms(1) by (simp add: set_trade_def)
qed

lemma keys_set_trade:
  assumes "keys_distinct s" and "to_offer_id r = i"
  shows "keys_distinct (set_trade i r s)"
proof -
  have "map to_offer_id (tbl_update to_offer_id i (\<lambda>_. r) rows) = map to_offer_id rows" for rows
    using assms(2) by (induction rows) (simp_all add: tbl_update_def)
  then show ?thesis using assms(1) by (simp add: keys_distinct_def set_trade_def tbl_wf_def)
qed

lemma set_trade_simps [simp]:
  "sql_faults (set_trade i r s) = sql_faults s" "published (set_trade i r s) = published s"
  "maker_requests (set_trade i r s) = maker_requests s"
  "active_maker_offers (set_trade i r s) = active_maker_offers s"
  by (simp_all add: set_trade_def)

lemma run_insert_partial_sig:
  assumes "sql_faults s = []" and "keys_distinct s" and "hex_decode E robohash = Some h"
    and "find_taken i s = Some r" and "party h r"
  shows "run (insert_partial_sig E p i robohash) s =
    (if already_signed h r then (Err (Anyhow ''Partial sig already submitted''), s)
     else (Ok (), set_trade i (add_partial_sig h p r) s))"
  using assms run_is_maker [OF assms(1,3,4,5)]
  by (simp add: insert_partial_sig_def run_simps Let_def already_signed_def add_partial_sig_def
      run_update_taken update_is_set_trade)

text \<open>The keyspend context of a trade with both signatures.\<close>

definition keyspend_of :: "env \<Rightarrow> TakenOfferRow \<Rightarrow> string \<Rightarrow> string \<Rightarrow> (KeyspendContext, anyhow) res" where
  "keyspend_of E r maker_sig taker_sig =
     keyspend_context_from_hex_str E maker_sig taker_sig
       (to_musig_pub_nonce_hex_maker r) (to_musig_pub_nonce_hex_taker r)
       (to_musig_pubkey_compressed_hex_maker r) (to_musig_pubkey_compressed_hex_taker r)
       (case to_payout_transaction_psbt_hex r of None \<Rightarrow> [] | Some x \<Rightarrow> x) (to_escrow_output_descriptor r)"

lemma run_fetch_keyspend:
  assumes "sql_faults s = []" and "sqlite_nulls E" and "find_taken i s = Some r"
  shows "run (fetch_keyspend_payout_information E i) s =
    (case (to_musig_partial_sig_hex_maker r, to_musig_partial_sig_hex_taker r) of
       (Some m, Some t) \<Rightarrow> map_res Some (keyspend_of E r m t)
     | _ \<Rightarrow> Ok None, s)"
proof -
  have "col (null_as_text E) v = Some (case v of None \<Rightarrow> [] | Some x \<Rightarrow> x)" for v
    using assms(2) by (simp add: col_def sqlite_nulls_def split: option.split)
  then show ?thesis using assms(1,3)
    by (auto simp: fetch_keyspend_payout_information_def run_simps keyspend_of_def split: option.split)
qed

lemma run_broadcast [run_simps]:
  "run (broadcast E tx) s =
     (case broadcast_accepted E tx of
        Ok _ \<Rightarrow> (Ok (), s\<lparr>published := published s @ [tx]\<rparr>) | Err e \<Rightarrow> (Err e, s) | Panic \<Rightarrow> (Panic, s))"
  by (simp add: broadcast_def run_simps)

text \<open>The whole of \<open>handle_payout_signature\<close> on a confirmed trade, as a function.\<close>

definition publish_payout :: "env \<Rightarrow> KeyspendContext \<Rightarrow> (Transaction, anyhow) res" where
  "publish_payout E ctx =
     bind_res (insert_keyspend_witness E (kc_keyspend_psbt ctx) (kc_agg_sig ctx)) (\<lambda>tx.
     map_res (\<lambda>_. tx) (broadcast_accepted E tx))"

definition complete_payout :: "env \<Rightarrow> string \<Rightarrow> KeyspendContext \<Rightarrow> coord \<Rightarrow> (bool, RequestError) res \<times> coord" where
  "complete_payout E i ctx s =
     (case publish_payout E ctx of
        Ok tx \<Rightarrow> (Ok True, s\<lparr>published := published s @ [tx],
                          taken_offers := tbl_delete to_offer_id i (taken_offers s)\<rparr>)
      | Err e \<Rightarrow> (Err (CoordinatorError e), s)
      | Panic \<Rightarrow> (Panic, s))"

lemma run_payout_signature:
  assumes "sql_faults s = []" and "keys_distinct s" and "sqlite_nulls E"
    and "hex_decode E (pgr_robohash_hex p) = Some h" and "find_taken (pgr_offer_id_hex p) s = Some r"
    and "party h r" and "to_escrow_psbt_is_confirmed r = 1"
    and s1: "s1 = set_trade (pgr_offer_id_hex p) (add_partial_sig h (pgr_partial_sig_hex p) r) s"
  shows "run (handle_payout_signature E p) s =
    (if already_signed h r then (Err (Database (Anyhow ''Partial sig already submitted'')), s)
     else case (to_musig_partial_sig_hex_maker (add_partial_sig h (pgr_partial_sig_hex p) r),
                to_musig_partial_sig_hex_taker (add_partial_sig h (pgr_partial_sig_hex p) r)) of
       (Some m, Some t) \<Rightarrow>
         (case keyspend_of E r m t of
            Ok ctx \<Rightarrow> complete_payout E (pgr_offer_id_hex p) ctx s1
          | Err e \<Rightarrow> (Err (Database e), s1)
          | Panic \<Rightarrow> (Panic, s1))
     | _ \<Rightarrow> (Ok False, s1))"
proof -
  let ?i = "pgr_offer_id_hex p" and ?sig = "pgr_partial_sig_hex p"
  let ?r = "add_partial_sig h ?sig r"
  have "check_result E ?i (pgr_robohash_hex p) s = Ok ()"
    using assms by (auto simp: check_result_Ok)
  then have check: "run (check_offer_and_confirmation E ?i (pgr_robohash_hex p)) s = (Ok (), s)"
    using run_check [OF assms(1,2)] by simp
  have id: "to_offer_id ?r = ?i"
    using trades.look_key [OF assms(5)] by (simp add: add_partial_sig_def)
  have "find_taken ?i s1 = Some ?r"
    unfolding s1 using find_set_trade [OF assms(5) id] by simp
  moreover have "sql_faults s1 = []" using assms(1) s1 by simp
  moreover have "keyspend_of E ?r m t = keyspend_of E r m t" for m t
    by (simp add: keyspend_of_def add_partial_sig_def)
  ultimately have fetch: "run (fetch_keyspend_payout_information E ?i) s1 =
      (case (to_musig_partial_sig_hex_maker ?r, to_musig_partial_sig_hex_taker ?r) of
         (Some m, Some t) \<Rightarrow> map_res Some (keyspend_of E r m t) | _ \<Rightarrow> Ok None, s1)"
    and healthy: "sql_faults s1 = []"
    using run_fetch_keyspend [OF _ assms(3), of s1 ?i ?r] by (simp_all split: option.split)
  have complete: "run (andThen (mapErr CoordinatorError (broadcast_keyspend_tx E ctx)) (\<lambda>_.
           andThen (mapErr Database (delete_complete_offer ?i)) (\<lambda>_. ret True))) s1 =
      complete_payout E ?i ctx s1" for ctx
    using healthy
    by (cases "insert_keyspend_witness E (kc_keyspend_psbt ctx) (kc_agg_sig ctx)")
      (auto simp: broadcast_keyspend_tx_def delete_complete_offer_def run_simps complete_payout_def
        publish_payout_def split: res.split)
  show ?thesis
    using check fetch complete run_insert_partial_sig [OF assms(1,2,4,5,6), of ?sig]
    by (auto simp: handle_payout_signature_def run_simps s1 [symmetric] split: option.splits res.splits)
qed

text \<open>
  C5: When a payout signature is answered with success, the trade was confirmed, the sender is
  one of its traders and had not signed before, the other trader had: the one transaction
  published is the payout transaction with the signature aggregated from exactly these two
  partial signatures, and the trade is deleted; nothing else changes.
\<close>

theorem payout_published:
  assumes "sql_faults s = []" and "keys_distinct s" and "sqlite_nulls E"
    and "run (handle_payout_signature E p) s = (Ok True, s')"
  shows "\<exists>h r m t ctx tx. hex_decode E (pgr_robohash_hex p) = Some h \<and>
    find_taken (pgr_offer_id_hex p) s = Some r \<and> to_escrow_psbt_is_confirmed r = 1 \<and>
    (if to_robohash_maker r = h
     then to_musig_partial_sig_hex_maker r = None \<and> m = pgr_partial_sig_hex p \<and>
       to_musig_partial_sig_hex_taker r = Some t
     else to_robohash_taker r = h \<and> to_musig_partial_sig_hex_taker r = None \<and>
       t = pgr_partial_sig_hex p \<and> to_musig_partial_sig_hex_maker r = Some m) \<and>
    keyspend_of E r m t = Ok ctx \<and>
    insert_keyspend_witness E (kc_keyspend_psbt ctx) (kc_agg_sig ctx) = Ok tx \<and>
    s' = s\<lparr>published := published s @ [tx],
      taken_offers := tbl_delete to_offer_id (pgr_offer_id_hex p) (taken_offers s)\<rparr>"
proof -
  let ?i = "pgr_offer_id_hex p" and ?sig = "pgr_partial_sig_hex p"
  have "check_result E ?i (pgr_robohash_hex p) s = Ok ()"
    using assms(4) run_check [OF assms(1,2)]
    by (auto simp: handle_payout_signature_def run_andThen split: res.splits)
  then obtain h r where r: "hex_decode E (pgr_robohash_hex p) = Some h" "find_taken ?i s = Some r" "party h r"
    "to_escrow_psbt_is_confirmed r = 1"
    by (auto simp: check_result_Ok)
  define s1 where "s1 = set_trade ?i (add_partial_sig h ?sig r) s"
  note run = run_payout_signature [OF assms(1-3) r s1_def]
  obtain m t ctx tx where c:
    "\<not> already_signed h r" "to_musig_partial_sig_hex_maker (add_partial_sig h ?sig r) = Some m"
    "to_musig_partial_sig_hex_taker (add_partial_sig h ?sig r) = Some t"
    "keyspend_of E r m t = Ok ctx" "publish_payout E ctx = Ok tx"
    "s' = s1\<lparr>published := published s1 @ [tx], taken_offers := tbl_delete to_offer_id ?i (taken_offers s1)\<rparr>"
    using assms(4) run
    by (auto simp: complete_payout_def split: if_splits option.splits res.splits)
  have "to_offer_id (add_partial_sig h ?sig r) = ?i"
    using trades.look_key [OF r(2)] by (simp add: add_partial_sig_def)
  then have "tbl_delete to_offer_id ?i (tbl_update to_offer_id ?i (\<lambda>_. add_partial_sig h ?sig r) rows) =
      tbl_delete to_offer_id ?i rows" for rows
    by (induction rows) (simp_all add: tbl_delete_def tbl_update_def)
  then have "s' = s\<lparr>published := published s @ [tx], taken_offers := tbl_delete to_offer_id ?i (taken_offers s)\<rparr>"
    using c(6) by (simp add: s1_def set_trade_def)
  moreover have "insert_keyspend_witness E (kc_keyspend_psbt ctx) (kc_agg_sig ctx) = Ok tx"
    using c(5) by (cases "insert_keyspend_witness E (kc_keyspend_psbt ctx) (kc_agg_sig ctx)";
      cases "broadcast_accepted E tx") (auto simp: publish_payout_def bind_res_eq_Ok elim: map_res.elims)
  ultimately show ?thesis
    using r c by (intro exI conjI) (auto simp: add_partial_sig_def already_signed_def party_def split: if_splits)
qed

text \<open>Both traders are happy and the maker has signed the payout.\<close>

definition maker_signed_events :: "event list" where
  "maker_signed_events = happy_events @ [Request env0 (SubmitPayoutSignature (sample_sig ''m''))]"

lemma payout_published_witness:
  "published (snd (run (handle_payout_signature env0 (sample_sig ''t'')) (later maker_signed_events)))
     \<noteq> published (later maker_signed_events)"
proof -
  let ?s = "later maker_signed_events"
  have "fst (run (handle_payout_signature env0 (sample_sig ''t'')) ?s) = Ok True \<and> sql_faults ?s = []" by code_simp
  then obtain s' where "run (handle_payout_signature env0 (sample_sig ''t'')) ?s = (Ok True, s')" "sql_faults ?s = []"
    by (cases "run (handle_payout_signature env0 (sample_sig ''t'')) ?s") auto
  then show ?thesis
    using payout_published [OF _ later_keys env0_laws(1), of maker_signed_events "sample_sig ''t''" s'] by auto
qed

text \<open>A trader signs the payout once: the second partial signature is refused and changes nothing.\<close>

lemma repeated_signature_refused:
  assumes "sql_faults s = []" and "keys_distinct s" and "sqlite_nulls E"
    and "hex_decode E (pgr_robohash_hex p) = Some h" and "find_taken (pgr_offer_id_hex p) s = Some r"
    and "party h r" and "already_signed h r"
  shows "respond E (SubmitPayoutSignature p) s = (Some (code 500), s)"
proof (cases "to_escrow_psbt_is_confirmed r = 1")
  case True
  show ?thesis
    using run_payout_signature [OF assms(1-6) True refl] assms(7)
    by (simp add: respond_def submit_payout_signature_def run_simps)
next
  case False
  then have "check_result E (pgr_offer_id_hex p) (pgr_robohash_hex p) s = Err NotConfirmed"
    using assms by (simp add: check_result_def)
  then show ?thesis
    using run_check [OF assms(1,2), of E "pgr_offer_id_hex p" "pgr_robohash_hex p"]
    by (simp add: respond_def submit_payout_signature_def handle_payout_signature_def run_simps)
qed

text \<open>
  C25: A payout signature is not retried: when both partial signatures are there but the payout
  transaction cannot be aggregated, assembled or broadcast, the trade keeps both signatures and
  every later signature of either trader, in whatever environment, is refused with status 500.
\<close>

theorem failed_payout_stuck:
  assumes "sql_faults s = []" and "keys_distinct s" and "sqlite_nulls E" and "sqlite_nulls E'"
    and "hex_decode E (pgr_robohash_hex p) = Some h" and "find_taken i s = Some r"
    and "party h r" and "to_escrow_psbt_is_confirmed r = 1" and "\<not> already_signed h r"
    and "pgr_offer_id_hex p = i" and "pgr_offer_id_hex p' = i"
    and "run (handle_payout_signature E p) s = (Err e, s')"
    and "hex_decode E' (pgr_robohash_hex p') = Some h'" and "party h' r"
  shows "published s' = published s \<and> respond E' (SubmitPayoutSignature p') s' = (Some (code 500), s')"
proof -
  let ?r = "add_partial_sig h (pgr_partial_sig_hex p) r"
  note find = assms(6) [folded assms(10)]
  note run = run_payout_signature [OF assms(1-3,5) find assms(7,8) refl]
  have s': "s' = set_trade i ?r s" "to_musig_partial_sig_hex_maker ?r \<noteq> None"
    "to_musig_partial_sig_hex_taker ?r \<noteq> None"
    using assms(9,10,12) run by (auto simp: complete_payout_def split: option.splits res.splits)
  have id: "to_offer_id ?r = i" using trades.look_key [OF assms(6)] by (simp add: add_partial_sig_def)
  have "find_taken i s' = Some ?r" unfolding s'(1) using find_set_trade [OF assms(6) id] by simp
  moreover have "keys_distinct s'"
    unfolding s'(1) using assms(2) id by (rule keys_set_trade)
  moreover have "party h' ?r" using assms(14) by (auto simp: party_def add_partial_sig_def)
  moreover have "already_signed h' ?r" using s'(2,3) by (simp add: already_signed_def)
  moreover have "sql_faults s' = []" using s'(1) assms(1) by simp
  ultimately have "respond E' (SubmitPayoutSignature p') s' = (Some (code 500), s')"
    using assms(4,11,13) by (intro repeated_signature_refused [where h = h' and r = ?r]) simp_all
  then show ?thesis using s'(1) by simp
qed

text \<open>An environment in which the network refuses every transaction.\<close>

definition refusing_env :: env where
  "refusing_env = env0\<lparr>broadcast_accepted := \<lambda>tx. Err (External ''refused'')\<rparr>"

lemma refusing_laws: "sqlite_nulls refusing_env"
  using env0_laws(1) by (simp add: refusing_env_def sqlite_nulls_def)

lemma failed_payout_stuck_witness:
  "respond env0 (SubmitPayoutSignature (sample_sig ''t''))
     (snd (run (handle_payout_signature refusing_env (sample_sig ''t'')) (later maker_signed_events))) =
   (Some (code 500), snd (run (handle_payout_signature refusing_env (sample_sig ''t'')) (later maker_signed_events)))"
proof -
  let ?s = "later maker_signed_events" and ?p = "sample_sig ''t''"
  have "fst (run (handle_payout_signature refusing_env ?p) ?s) = Err (CoordinatorError (External ''refused'')) \<and>
      map_option (\<lambda>r. party [116] r \<and> to_escrow_psbt_is_confirmed r = 1 \<and> \<not> already_signed [116] r)
        (find_taken sample_id ?s) = Some True \<and> sql_faults ?s = [] \<and>
      hex_decode refusing_env (pgr_robohash_hex ?p) = Some [116] \<and> hex_decode env0 (pgr_robohash_hex ?p) = Some [116]"
    by code_simp
  then obtain r s' where r: "run (handle_payout_signature refusing_env ?p) ?s = (Err (CoordinatorError (External ''refused'')), s')"
      "find_taken sample_id ?s = Some r" "party [116] r" "to_escrow_psbt_is_confirmed r = 1"
      "\<not> already_signed [116] r" "sql_faults ?s = []"
      "hex_decode refusing_env (pgr_robohash_hex ?p) = Some [116]" "hex_decode env0 (pgr_robohash_hex ?p) = Some [116]"
    by (cases "run (handle_payout_signature refusing_env ?p) ?s") auto
  have "pgr_offer_id_hex ?p = sample_id" by (simp add: sample_sig_def)
  from failed_payout_stuck [OF r(6) later_keys refusing_laws env0_laws(1) r(7,2,3,4,5) this this r(1) r(8,3)]
  show ?thesis by (simp add: r(1))
qed

end
