(* ===== verification/Settlement_Spec.thy ===== *)
theory Settlement_Spec
  imports Payout_Spec
begin

text \<open>
  The settlement of a trade: the amounts the traders lock in the escrow and get back from it, the
  polling of the payout, and what becomes of a dispute.
\<close>

section \<open>Amounts\<close>

lemma col_i64_flag_column:
  "sqlite_nulls E \<Longrightarrow> flag_column v \<Longrightarrow> col (null_as_i64 E) v = Some (if v = Some 1 then 1 else 0)"
  by (auto simp: flag_column_def col_def sqlite_nulls_def)

lemma run_get_escrow_tx_amounts:
  assumes "sql_faults s = []" and "sqlite_nulls E" and "int_decoding E"
    and "find_active i s = Some offer" and "flag_column (ao_is_buy_order offer)"
    and "0 \<le> sint (ao_amount_sat offer)" and "0 \<le> sint (ao_bond_amount_sat offer)"
    and "unat (ao_amount_sat offer) + unat (ao_bond_amount_sat offer) < 2 ^ 64"
  shows "run (get_escrow_tx_amounts E i rate) s =
    (Ok (let a = ao_amount_sat offer; b = ao_bond_amount_sat offer; fee = escrow_fee rate a
         in if ao_is_buy_order offer = Some 1 then (b, a + b, fee) else (a + b, b, fee)), s)"
  using assms
  by (auto simp: get_escrow_tx_amounts_def run_simps col_i64_flag_column int_decoding_def add_u64_Ok Let_def)

definition payout_of :: "env \<Rightarrow> TakenOfferRow \<Rightarrow> u64 \<Rightarrow> u64 \<Rightarrow> (PayoutData, anyhow) res" where
  "payout_of E r to_maker to_taker =
     payout_data_new_from_strings E (to_escrow_output_descriptor r)
       (to_payout_address_maker r) (to_payout_address_taker r) to_maker to_taker
       (to_musig_pub_nonce_hex_maker r) (to_musig_pub_nonce_hex_taker r)
       (to_musig_pubkey_compressed_hex_maker r) (to_musig_pubkey_compressed_hex_taker r)"

lemma run_fetch_payout_data:
  assumes "sql_faults s = []" and "sqlite_nulls E" and "find_taken i s = Some r"
    and "flag_column (to_is_buy_order r)"
  shows "run (fetch_payout_data E i) s =
    (if to_is_buy_order r = Some 1
     then payout_of E r (to_escrow_amount_taker_sat r) (to_escrow_amount_maker_sat r)
     else payout_of E r (to_escrow_amount_maker_sat r) (to_escrow_amount_taker_sat r), s)"
  using assms by (auto simp: fetch_payout_data_def run_simps col_i64_flag_column payout_of_def)

lemma payout_of_amounts:
  "payout_of E r m t = Ok d \<Longrightarrow> pd_payout_amount_maker d = m \<and> pd_payout_amount_taker d = t"
  by (auto simp: payout_of_def payout_data_new_from_strings_def bind_res_eq_Ok)

text \<open>
  C6: In the payout of a buy order the traded amount has changed hands and both bonds are back:
  the amounts of the escrow, as computed when the offer is taken, give the maker (the buyer)
  bond plus amount and the taker (the seller) its bond, and together they are the amount locked.
\<close>

theorem buy_order_payout:
  assumes "sql_faults s = []" and "sqlite_nulls E" and "int_decoding E"
    and "find_active i s = Some offer" and "ao_is_buy_order offer = Some 1"
    and "0 \<le> sint (ao_amount_sat offer)" and "0 \<le> sint (ao_bond_amount_sat offer)"
    and "unat (ao_amount_sat offer) + 2 * unat (ao_bond_amount_sat offer) < 2 ^ 64"
    and "run (get_escrow_tx_amounts E i rate) s = (Ok (maker_locks, taker_locks, fee), s)"
    and "sql_faults s' = []" and "find_taken i s' = Some trade"
    and "to_is_buy_order trade = ao_is_buy_order offer"
    and "to_escrow_amount_maker_sat trade = maker_locks" and "to_escrow_amount_taker_sat trade = taker_locks"
    and "run (fetch_payout_data E i) s' = (Ok d, s')"
  shows "unat (pd_payout_amount_maker d) = unat maker_locks + unat (ao_amount_sat offer) \<and>
    unat (pd_payout_amount_taker d) = unat (ao_bond_amount_sat offer) \<and>
    unat maker_locks = unat (ao_bond_amount_sat offer) \<and>
    unat taker_locks = unat (ao_bond_amount_sat offer) + unat (ao_amount_sat offer) \<and>
    unat (pd_payout_amount_maker d) + unat (pd_payout_amount_taker d) = unat maker_locks + unat taker_locks"
proof -
  have flag: "flag_column (ao_is_buy_order offer)" using assms(5) by (simp add: flag_column_def)
  have locks: "maker_locks = ao_bond_amount_sat offer" "taker_locks = ao_amount_sat offer + ao_bond_amount_sat offer"
    using run_get_escrow_tx_amounts [OF assms(1-4) flag assms(6,7), of rate] assms(5,8,9) by (simp_all add: Let_def)
  have "payout_of E trade taker_locks maker_locks = Ok d"
    using run_fetch_payout_data [OF assms(10,2,11)] flag assms(5,12-15) by simp
  then show ?thesis
    using locks assms(8) by (auto dest!: payout_of_amounts simp: unat_add_u64)
qed

text \<open>
  C7: In the payout of a sell order nothing has changed hands: with both traders happy the maker,
  who sold, gets back amount and bond, and the taker, who paid, only its bond.
\<close>

theorem sell_order_payout:
  assumes "sql_faults s = []" and "sqlite_nulls E" and "int_decoding E"
    and "find_active i s = Some offer" and "ao_is_buy_order offer = bool_to_sql_int False"
    and "0 \<le> sint (ao_amount_sat offer)" and "0 \<le> sint (ao_bond_amount_sat offer)"
    and "unat (ao_amount_sat offer) + 2 * unat (ao_bond_amount_sat offer) < 2 ^ 64"
    and "run (get_escrow_tx_amounts E i rate) s = (Ok (maker_locks, taker_locks, fee), s)"
    and "sql_faults s' = []" and "find_taken i s' = Some trade"
    and "to_is_buy_order trade = ao_is_buy_order offer"
    and "to_escrow_amount_maker_sat trade = maker_locks" and "to_escrow_amount_taker_sat trade = taker_locks"
    and "run (fetch_payout_data E i) s' = (Ok d, s')"
  shows "pd_payout_amount_maker d = maker_locks \<and> pd_payout_amount_taker d = taker_locks \<and>
    unat maker_locks = unat (ao_amount_sat offer) + unat (ao_bond_amount_sat offer) \<and>
    unat taker_locks = unat (ao_bond_amount_sat offer)"
proof -
  have flag: "flag_column (ao_is_buy_order offer)" using assms(5) by (simp add: flag_column_def)
  have locks: "maker_locks = ao_amount_sat offer + ao_bond_amount_sat offer" "taker_locks = ao_bond_amount_sat offer"
    using run_get_escrow_tx_amounts [OF assms(1-4) flag assms(6,7), of rate] assms(5,8,9) by (simp_all add: Let_def)
  have "payout_of E trade maker_locks taker_locks = Ok d"
    using run_fetch_payout_data [OF assms(10,2,11)] flag assms(5,12-15) by simp
  then show ?thesis
    using locks assms(8) by (auto dest!: payout_of_amounts simp: unat_add_u64)
qed

text \<open>The sample offer as a sell order, before and after it is taken.\<close>

definition sell_state :: coord where
  "sell_state = offer_state\<lparr>active_maker_offers := [sample_row\<lparr>ao_is_buy_order := None\<rparr>]\<rparr>"

definition sell_taken_state :: coord where
  "sell_taken_state = taken_state\<lparr>taken_offers := [sample_trade\<lparr>to_is_buy_order := None,
     to_escrow_amount_maker_sat := 22000, to_escrow_amount_taker_sat := 2000\<rparr>]\<rparr>"

lemma sell_taken: "sell_taken_state = exec (Request env0 (SubmitTakerBond
    \<lparr> opr_offer = sample_offer, opr_trade_data = sample_bond ''t'' \<rparr>)) sell_state"
  by code_simp

definition payout_amounts :: "PayoutData \<Rightarrow> nat \<times> nat" where
  "payout_amounts d = (unat (pd_payout_amount_maker d), unat (pd_payout_amount_taker d))"

lemma buy_order_payout_witness:
  "map_res payout_amounts (fst (run (fetch_payout_data env0 sample_id) taken_state)) =
     Ok (22000, 2000)"
proof -
  let ?s = offer_state and ?s' = taken_state
  let ?r = "run (get_escrow_tx_amounts env0 sample_id (1, 0)) ?s" and ?d = "run (fetch_payout_data env0 sample_id) ?s'"
  have c: "sql_faults ?s = [] \<and> sql_faults ?s' = [] \<and> ?r = (Ok (2000, 22000, 200), ?s) \<and>
      is_ok (fst ?d) \<and> snd ?d = ?s' \<and>
      map_option (\<lambda>r. (ao_is_buy_order r, ao_amount_sat r, ao_bond_amount_sat r)) (find_active sample_id ?s) =
        Some (Some 1, 20000, 2000) \<and>
      map_option (\<lambda>t. (to_is_buy_order t, to_escrow_amount_maker_sat t, to_escrow_amount_taker_sat t))
        (find_taken sample_id ?s') = Some (Some 1, 2000, 22000)"
    by code_simp
  obtain d where d: "?d = (Ok d, ?s')" using c by (auto dest: run_is_ok)
  obtain offer trade where o: "find_active sample_id ?s = Some offer" "ao_is_buy_order offer = Some 1"
      "ao_amount_sat offer = 20000" "ao_bond_amount_sat offer = 2000"
      "find_taken sample_id ?s' = Some trade" "to_is_buy_order trade = Some 1"
      "to_escrow_amount_maker_sat trade = 2000" "to_escrow_amount_taker_sat trade = 22000"
    using c by auto
  have "unat (pd_payout_amount_maker d) = 22000" "unat (pd_payout_amount_taker d) = 2000"
    using buy_order_payout [OF _ env0_laws(1,2) o(1,2) _ _ _ _ _ o(5) _ o(7,8) d, of "(1,0)" 200] c o by simp_all
  then show ?thesis using d by (simp add: payout_amounts_def)
qed

lemma sell_order_payout_witness:
  "map_res payout_amounts (fst (run (fetch_payout_data env0 sample_id) sell_taken_state)) =
     Ok (22000, 2000)"
proof -
  let ?s = sell_state and ?s' = sell_taken_state
  let ?r = "run (get_escrow_tx_amounts env0 sample_id (1, 0)) ?s" and ?d = "run (fetch_payout_data env0 sample_id) ?s'"
  have c: "sql_faults ?s = [] \<and> sql_faults ?s' = [] \<and> ?r = (Ok (22000, 2000, 200), ?s) \<and>
      is_ok (fst ?d) \<and> snd ?d = ?s' \<and>
      map_option (\<lambda>r. (ao_is_buy_order r, ao_amount_sat r, ao_bond_amount_sat r)) (find_active sample_id ?s) =
        Some (None, 20000, 2000) \<and>
      map_option (\<lambda>t. (to_is_buy_order t, to_escrow_amount_maker_sat t, to_escrow_amount_taker_sat t))
        (find_taken sample_id ?s') = Some (None, 22000, 2000)"
    by code_simp
  obtain d where d: "?d = (Ok d, ?s')" using c by (auto dest: run_is_ok)
  obtain offer trade where o: "find_active sample_id ?s = Some offer" "ao_is_buy_order offer = None"
      "ao_amount_sat offer = 20000" "ao_bond_amount_sat offer = 2000"
      "find_taken sample_id ?s' = Some trade" "to_is_buy_order trade = None"
      "to_escrow_amount_maker_sat trade = 22000" "to_escrow_amount_taker_sat trade = 2000"
    using c by auto
  have "pd_payout_amount_maker d = 22000 \<and> pd_payout_amount_taker d = 2000"
    using sell_order_payout [OF _ env0_laws(1,2) o(1) _ _ _ _ _ _ o(5) _ o(7,8) d, of "(1,0)" 200] c o by simp
  then show ?thesis using d by (simp add: payout_amounts_def)
qed

section \<open>Polling the payout\<close>

definition happiness_of :: "TakenOfferRow \<Rightarrow> TraderHappiness" where
  "happiness_of r = \<lparr> th_maker_happy = map_option (\<lambda>v. v \<noteq> 0) (to_maker_happy r),
     th_taker_happy = map_option (\<lambda>v. v \<noteq> 0) (to_taker_happy r),
     th_escrow_ongoing = (to_escrow_ongoing r \<noteq> 0) \<rparr>"

lemma run_fetch_trader_happiness:
  "sql_faults s = [] \<Longrightarrow> find_taken i s = Some r \<Longrightarrow>
     run (fetch_trader_happiness i) s = (Ok (happiness_of r), s)"
  by (simp add: fetch_trader_happiness_def run_simps happiness_of_def)

lemma both_happy_iff:
  "trade_flags r \<Longrightarrow> both_happy (happiness_of r) \<longleftrightarrow> to_maker_happy r = Some 1 \<and> to_taker_happy r = Some 1"
  by (auto simp: both_happy_def happiness_of_def trade_flags_def flag_column_def)

lemma waiting_iff:
  "waiting_for_traders (happiness_of r) \<longleftrightarrow>
     (to_maker_happy r = None \<or> to_taker_happy r = None) \<and> to_escrow_ongoing r = 0"
  by (auto simp: waiting_for_traders_def happiness_of_def)

lemma taken_trade_flags: "flags_ok s \<Longrightarrow> find_taken i s = Some r \<Longrightarrow> trade_flags r"
  by (auto dest: tbl_find_Some simp: flags_ok_def)

text \<open>The poll of a trade whose traders are not both happy: it only reads.\<close>

lemma run_payout_unhappy:
  assumes "sql_faults s = []" and "find_taken (otr_offer_id_hex p) s = Some r"
    and "\<not> both_happy (happiness_of r)"
  shows "run (handle_final_payout E p) s =
    (if waiting_for_traders (happiness_of r) then Ok NotReady
     else case to_escrow_winner_robohash r of
       None \<Rightarrow> Ok DecidingEscrow
     | Some w \<Rightarrow> if w = otr_robohash_hex p then Panic else Ok LostEscrow, s)"
  using assms run_fetch_trader_happiness [OF assms(1,2)]
  by (simp add: handle_final_payout_def fetch_escrow_result_def run_simps split: option.split)

text \<open>The taker disputes a confirmed trade.\<close>

definition disputed_events :: "event list" where
  "disputed_events = [Request env0 (SubmitObligationConfirmation (sample_poll ''m'')),
     Request env0 (RequestEscrow (sample_dispute ''t''))]"

section \<open>Opening and deciding a dispute\<close>

text \<open>What a trader's word about the obligations makes of the row.\<close>

definition set_happiness :: "bytes \<Rightarrow> bool \<Rightarrow> TakenOfferRow \<Rightarrow> TakenOfferRow" where
  "set_happiness h b r =
     (let r' = (if to_robohash_maker r = h then r\<lparr>to_maker_happy := bool_to_sql_int b\<rparr>
                else r\<lparr>to_taker_happy := bool_to_sql_int b\<rparr>)
      in if b then r' else r'\<lparr>to_escrow_ongoing := 1\<rparr>)"

lemma set_happiness_key [simp]: "to_offer_id (set_happiness h b r) = to_offer_id r"
  by (simp add: set_happiness_def Let_def)

lemma set_trade_twice: "to_offer_id r' = i \<Longrightarrow> set_trade i r (set_trade i r' s) = set_trade i r s"
proof -
  assume i: "to_offer_id r' = i"
  have "tbl_update to_offer_id i (\<lambda>_. r) (tbl_update to_offer_id i (\<lambda>_. r') rows) =
      tbl_update to_offer_id i (\<lambda>_. r) rows" for rows
    using i by (simp add: tbl_update_def)
  then show ?thesis by (simp add: set_trade_def)
qed

lemma run_set_trader_happy_field:
  assumes "sql_faults s = []" and "keys_distinct s" and "hex_decode E robohash = Some h"
    and "find_taken i s = Some r" and "party h r"
  shows "run (set_trader_happy_field E i robohash b) s = (Ok (), set_trade i (set_happiness h b r) s)"
proof -
  define f where "f = (if to_robohash_maker r = h then (\<lambda>r::TakenOfferRow. r\<lparr>to_maker_happy := bool_to_sql_int b\<rparr>)
    else (\<lambda>r. r\<lparr>to_taker_happy := bool_to_sql_int b\<rparr>))"
  have key: "to_offer_id (f r) = i" using trades.look_key [OF assms(4)] by (simp add: f_def)
  have first: "run (update_taken i f) s = (Ok (), set_trade i (f r) s)"
    using assms by (simp add: run_update_taken update_is_set_trade)
  have second: "run (update_taken i (\<lambda>r. r\<lparr>to_escrow_ongoing := 1\<rparr>)) (set_trade i (f r) s) =
      (Ok (), set_trade i ((f r)\<lparr>to_escrow_ongoing := 1\<rparr>) s)"
    using assms key keys_set_trade [OF assms(2) key] find_set_trade [OF assms(4) key, of i]
    by (simp add: run_update_taken update_is_set_trade set_trade_twice)
  have "set_happiness h b r = (if b then f r else (f r)\<lparr>to_escrow_ongoing := 1\<rparr>)"
    by (simp add: set_happiness_def f_def Let_def)
  then show ?thesis
    using first second run_is_maker [OF assms(1,3-5)]
    by (simp add: set_trader_happy_field_def run_simps f_def [symmetric])
qed

lemma run_word:
  assumes "sql_faults s = []" and "keys_distinct s" and "hex_decode E robohash = Some h"
    and "find_taken i s = Some r" and "party h r" and "to_escrow_psbt_is_confirmed r = 1"
  shows "respond E (SubmitObligationConfirmation \<lparr>otr_robohash_hex = robohash, otr_offer_id_hex = i\<rparr>) s =
      (Some (code 200), set_trade i (set_happiness h True r) s)"
    and "respond E (RequestEscrow \<lparr>tou_robohash_hex = robohash, tou_offer_id_hex = i\<rparr>) s =
      (Some (code 200), set_trade i (set_happiness h False r) s)"
proof -
  have check: "run (check_offer_and_confirmation E i robohash) s = (Ok (), s)"
    using run_check [OF assms(1,2)] assms(3-6) check_result_Ok [of E i robohash s] by auto
  note run = run_set_trader_happy_field [OF assms(1-5)]
  show "respond E (SubmitObligationConfirmation \<lparr>otr_robohash_hex = robohash, otr_offer_id_hex = i\<rparr>) s =
      (Some (code 200), set_trade i (set_happiness h True r) s)"
    using check run [of True]
    by (simp add: respond_def submit_obligation_confirmation_def handle_obligation_confirmation_def run_simps)
  show "respond E (RequestEscrow \<lparr>tou_robohash_hex = robohash, tou_offer_id_hex = i\<rparr>) s =
      (Some (code 200), set_trade i (set_happiness h False r) s)"
    using check run [of False]
    by (simp add: respond_def request_escrow_def initiate_escrow_def run_simps)
qed

text \<open>The operator's decision as it is written, and what the poll answers after it.\<close>

definition decided_row :: "string \<Rightarrow> TakenOfferRow \<Rightarrow> TakenOfferRow" where
  "decided_row w r = r\<lparr>to_escrow_ongoing := 0, to_escrow_winner_robohash := Some w\<rparr>"

lemma run_resolve_escrow:
  assumes "sql_faults s = []" and "keys_distinct s" and "find_taken i s = Some r"
  shows "run (resolve_escrow i w) s = (Ok (), set_trade i (decided_row w r) s)"
  using assms by (simp add: resolve_escrow_def run_update_taken update_is_set_trade decided_row_def)

lemma respond_poll_unhappy:
  assumes "sql_faults s = []" and "find_taken i s = Some r" and "\<not> both_happy (happiness_of r)"
    and "to_escrow_winner_robohash r = Some w"
  shows "respond E (PollFinalPayout \<lparr>otr_robohash_hex = who, otr_offer_id_hex = i\<rparr>) s =
    (if waiting_for_traders (happiness_of r) then Some (code 202) else if who = w then None else Some (code 410), s)"
  using run_payout_unhappy [of s "\<lparr>otr_robohash_hex = who, otr_offer_id_hex = i\<rparr>" r E] assms
  by (auto simp: respond_def poll_final_payout_def run_simps payout_result_response_def)

text \<open>
  C8: The decision of a dispute reaches nobody: a trader opens a dispute, the operator resolves it,
  and then every poll of the trade, by the winner, the loser or anyone, is answered with status 202 (not
  ready), for an unhappy trader is stored as NULL and a resolved dispute is no longer ongoing. Only
  after a trader has opened the dispute again does the loser learn of the old decision (410), while
  the handler of the winner's poll panics.
\<close>

theorem decided_dispute_not_delivered:
  assumes "sql_faults s = []" and "keys_distinct s"
    and "hex_decode E robohash = Some h" and "find_taken i s = Some r" and "party h r"
    and "to_escrow_psbt_is_confirmed r = 1"
    and "disputed = snd (respond E (RequestEscrow \<lparr>tou_robohash_hex = robohash, tou_offer_id_hex = i\<rparr>) s)"
    and "decided = snd (run (resolve_escrow i winner) disputed)"
    and "hex_decode E' robohash' = Some h'" and "party h' r"
    and "reopened = snd (respond E' (RequestEscrow \<lparr>tou_robohash_hex = robohash', tou_offer_id_hex = i\<rparr>) decided)"
  shows "map_option to_escrow_winner_robohash (find_taken i decided) = Some (Some winner) \<and>
    respond E'' (PollFinalPayout \<lparr>otr_robohash_hex = who, otr_offer_id_hex = i\<rparr>) decided = (Some (code 202), decided) \<and>
    respond E'' (PollFinalPayout \<lparr>otr_robohash_hex = who, otr_offer_id_hex = i\<rparr>) reopened =
      (if who = winner then None else Some (code 410), reopened)"
proof -
  let ?r1 = "set_happiness h False r"
  let ?r2 = "decided_row winner ?r1"
  let ?r3 = "set_happiness h' False ?r2"
  have id: "to_offer_id ?r1 = i" "to_offer_id ?r2 = i" "to_offer_id ?r3 = i"
    using trades.look_key [OF assms(4)] by (simp_all add: decided_row_def)
  have s1: "disputed = set_trade i ?r1 s" using run_word(2) [OF assms(1-6)] assms(7) by simp
  have f1: "sql_faults disputed = []" "keys_distinct disputed" "find_taken i disputed = Some ?r1"
    using assms(1) keys_set_trade [OF assms(2) id(1)] find_set_trade [OF assms(4) id(1), of i] by (simp_all add: s1)
  have s2: "decided = set_trade i ?r2 disputed" using run_resolve_escrow [OF f1] assms(8) by simp
  have f2: "sql_faults decided = []" "keys_distinct decided" "find_taken i decided = Some ?r2"
    using f1(1) keys_set_trade [OF f1(2) id(2)] find_set_trade [OF f1(3) id(2), of i] by (simp_all add: s2)
  have "party h' ?r2" "to_escrow_psbt_is_confirmed ?r2 = 1"
    using assms(6,10) by (auto simp: party_def decided_row_def set_happiness_def Let_def)
  then have s3: "reopened = set_trade i ?r3 decided"
    using run_word(2) [OF f2(1,2) assms(9) f2(3)] assms(11) by simp
  have f3: "sql_faults reopened = []" "find_taken i reopened = Some ?r3"
    using f2(1) find_set_trade [OF f2(3) id(3), of i] by (simp_all add: s3)
  have "\<not> both_happy (happiness_of ?r2)" "waiting_for_traders (happiness_of ?r2)"
    "\<not> both_happy (happiness_of ?r3)" "\<not> waiting_for_traders (happiness_of ?r3)"
    "to_escrow_winner_robohash ?r2 = Some winner" "to_escrow_winner_robohash ?r3 = Some winner"
    by (simp_all add: both_happy_def waiting_for_traders_def happiness_of_def set_happiness_def decided_row_def Let_def)
  then show ?thesis
    using respond_poll_unhappy [OF f2(1,3), of winner E'' who] respond_poll_unhappy [OF f3, of winner E'' who] f2(3) by simp
qed

lemma decided_dispute_not_delivered_witness:
  "\<exists>decided reopened. (\<forall>who. respond env0 (PollFinalPayout (sample_poll who)) decided = (Some (code 202), decided)) \<and>
     fst (respond env0 (PollFinalPayout (sample_poll ''t'')) reopened) = Some (code 410) \<and>
     fst (respond env0 (PollFinalPayout (sample_poll ''m'')) reopened) = None"
proof -
  let ?s = "later []"
  have "sql_faults ?s = [] \<and> map_option (\<lambda>r. party [116] r \<and> to_escrow_psbt_is_confirmed r = 1) (find_taken sample_id ?s) = Some True"
    by code_simp
  then obtain r where r: "sql_faults ?s = []" "find_taken sample_id ?s = Some r" "party [116] r" "to_escrow_psbt_is_confirmed r = 1"
    by auto
  have "hex_decode env0 ''t'' = Some [116]" by simp
  note hex = this
  define disputed where "disputed = snd (respond env0 (RequestEscrow \<lparr>tou_robohash_hex = ''t'', tou_offer_id_hex = sample_id\<rparr>) ?s)"
  define decided where "decided = snd (run (resolve_escrow sample_id ''m'') disputed)"
  define reopened where "reopened = snd (respond env0 (RequestEscrow \<lparr>tou_robohash_hex = ''t'', tou_offer_id_hex = sample_id\<rparr>) decided)"
  note told = decided_dispute_not_delivered [OF r(1) later_keys hex r(2-4) disputed_def decided_def hex r(3) reopened_def, of env0]
  have "\<forall>who. respond env0 (PollFinalPayout (sample_poll who)) decided = (Some (code 202), decided)"
    using told by (simp add: sample_poll_def)
  moreover have "fst (respond env0 (PollFinalPayout (sample_poll ''t'')) reopened) = Some (code 410)"
    "fst (respond env0 (PollFinalPayout (sample_poll ''m'')) reopened) = None"
    using told [of "''t''"] told [of "''m''"] by (simp_all add: sample_poll_def)
  ultimately show ?thesis by blast
qed

text \<open>
  C23: A trader of a confirmed trade opens a dispute: the request is answered with 200, nothing
  but the trader's own word and the ongoing flag of this trade changes, and as long as
  there is no decision the poll of either trader answers 201, even if the other was happy.
\<close>

theorem dispute_opened:
  assumes "sql_faults s = []" and "keys_distinct s" and "flags_ok s"
    and "hex_decode E robohash = Some h" and "find_taken i s = Some r" and "party h r"
    and "to_escrow_psbt_is_confirmed r = 1" and "to_escrow_winner_robohash r = None"
  shows "\<exists>s' r'. respond E (RequestEscrow \<lparr>tou_robohash_hex = robohash, tou_offer_id_hex = i\<rparr>) s = (Some (code 200), s') \<and>
    find_taken i s' = Some r' \<and> to_escrow_ongoing r' = 1 \<and>
    (if to_robohash_maker r = h then to_maker_happy r' = None \<and> to_taker_happy r' = to_taker_happy r
     else to_taker_happy r' = None \<and> to_maker_happy r' = to_maker_happy r) \<and>
    (\<forall>j. j \<noteq> i \<longrightarrow> find_taken j s' = find_taken j s) \<and> published s' = published s \<and>
    (\<forall>who. respond E (PollFinalPayout \<lparr>otr_robohash_hex = who, otr_offer_id_hex = i\<rparr>) s' = (Some (code 201), s'))"
proof -
  let ?r = "set_happiness h False r"
  let ?s = "set_trade i ?r s"
  have key: "to_offer_id ?r = i" using trades.look_key [OF assms(5)] by simp
  note find = find_set_trade [OF assms(5) key]
  have unhappy: "\<not> both_happy (happiness_of ?r)" "\<not> waiting_for_traders (happiness_of ?r)"
    by (simp_all add: both_happy_def happiness_of_def set_happiness_def Let_def waiting_for_traders_def)
  have "to_escrow_winner_robohash ?r = None" using assms(8) by (simp add: set_happiness_def Let_def)
  then have "respond E (PollFinalPayout \<lparr>otr_robohash_hex = who, otr_offer_id_hex = i\<rparr>) ?s = (Some (code 201), ?s)" for who
    using run_payout_unhappy [of ?s "\<lparr>otr_robohash_hex = who, otr_offer_id_hex = i\<rparr>" ?r E] unhappy find assms(1)
    by (simp add: respond_def poll_final_payout_def run_simps payout_result_response_def)
  then show ?thesis
    using run_word(2) [OF assms(1,2,4-7)] find
    by (intro exI [of _ ?s] exI [of _ ?r]) (simp add: set_happiness_def Let_def)
qed

lemma dispute_opened_witness:
  "\<exists>s' r'. respond env0 (RequestEscrow (sample_dispute ''t'')) (later []) = (Some (code 200), s') \<and>
     find_taken sample_id s' = Some r' \<and> to_escrow_ongoing r' = 1"
proof -
  let ?s = "later []"
  have c: "sql_faults ?s = [] \<and> hex_decode env0 ''t'' = Some [116] \<and>
      map_option (\<lambda>r. party [116] r \<and> to_escrow_psbt_is_confirmed r = 1 \<and> to_escrow_winner_robohash r = None)
        (find_taken sample_id ?s) = Some True"
    by code_simp
  then obtain r where r: "find_taken sample_id ?s = Some r" "party [116] r" "to_escrow_psbt_is_confirmed r = 1"
      "to_escrow_winner_robohash r = None" by auto
  from dispute_opened [OF _ later_keys later_flags _ r, of env0 "''t''"] c
  show ?thesis by (auto simp: sample_dispute_def)
qed

text \<open>The decisions the operator takes in one round: per case the first line that is M or T.\<close>

fun decisions :: "string list \<Rightarrow> EscrowCase list \<Rightarrow> (string \<times> string) list" where
  "decisions lines [] = []"
| "decisions lines (c # cs) =
     (case get_coordinator_cli_input lines of
        None \<Rightarrow> []
      | Some (w, lines') \<Rightarrow>
          (ec_offer_id c, case w of EscrowMaker \<Rightarrow> ec_maker_id c | EscrowTaker \<Rightarrow> ec_taker_id c) # decisions lines' cs)"

definition decide_row :: "(string \<times> string) list \<Rightarrow> TakenOfferRow \<Rightarrow> TakenOfferRow" where
  "decide_row ds r =
     (case map_of ds (to_offer_id r) of
        None \<Rightarrow> r
      | Some w \<Rightarrow> r\<lparr>to_escrow_ongoing := 0, to_escrow_winner_robohash := Some w\<rparr>)"

definition decide_all :: "(string \<times> string) list \<Rightarrow> coord \<Rightarrow> coord" where
  "decide_all ds s = s\<lparr>taken_offers := map (decide_row ds) (taken_offers s)\<rparr>"

lemma decisions_ids: "fst ` set (decisions lines cs) \<subseteq> ec_offer_id ` set cs"
proof (induction cs arbitrary: lines)
  case Nil
  then show ?case by simp
next
  case (Cons c cs)
  show ?case
  proof (cases "get_coordinator_cli_input lines")
    case None
    then show ?thesis by simp
  next
    case (Some d)
    then show ?thesis using Cons.IH [of "snd d"] by (cases d) auto
  qed
qed

lemma run_resolve_cases:
  assumes "sql_faults s = []" and "distinct (map ec_offer_id cs)"
  shows "run (resolve_cases lines cs) s = (Ok (), decide_all (decisions lines cs) s)"
  using assms
proof (induction cs arbitrary: lines s)
  case Nil
  then show ?case by (simp add: run_simps decide_all_def decide_row_def map_idI)
next
  case (Cons c cs)
  show ?case
  proof (cases "get_coordinator_cli_input lines")
    case None
    then show ?thesis by (simp add: run_simps decide_all_def decide_row_def map_idI)
  next
    case (Some d)
    obtain w lines' where d: "d = (w, lines')" by (cases d)
    let ?w = "case w of EscrowMaker \<Rightarrow> ec_maker_id c | EscrowTaker \<Rightarrow> ec_taker_id c"
    let ?s = "s\<lparr>taken_offers := tbl_update to_offer_id (ec_offer_id c)
      (\<lambda>r. r\<lparr>to_escrow_ongoing := 0, to_escrow_winner_robohash := Some ?w\<rparr>) (taken_offers s)\<rparr>"
    have "map_of (decisions lines' cs) (ec_offer_id c) = None"
      using Cons.prems(2) decisions_ids [of lines' cs] by (auto simp: map_of_eq_None_iff)
    then have "decide_all (decisions lines' cs) ?s = decide_all ((ec_offer_id c, ?w) # decisions lines' cs) s"
      by (auto simp: decide_all_def decide_row_def tbl_update_def split: option.split)
    moreover have "run (resolve_cases lines' cs) ?s = (Ok (), decide_all (decisions lines' cs) ?s)"
      using Cons by simp
    ultimately show ?thesis
      using Some d Cons.prems(1) by (simp add: run_simps expect_def resolve_escrow_def run_update_taken)
  qed
qed

lemma map_id_filter: "distinct (map f xs) \<Longrightarrow> distinct (map f (filter P xs))"
  by (simp add: distinct_map_filter)

text \<open>
  The decisions, described without the code's prompt: the answers are the lines that read M or T, and
  the k-th open dispute gets the k-th answer, M for the maker and T for the taker.
\<close>

definition answers :: "string list \<Rightarrow> string list" where
  "answers lines = filter (\<lambda>a. a = ''M'' \<or> a = ''T'') (map trim lines)"

definition verdicts :: "env \<Rightarrow> TakenOfferRow list \<Rightarrow> string list \<Rightarrow> (string \<times> string) list" where
  "verdicts E rows lines = map (\<lambda>(r, a). (to_offer_id r,
       hex_encode E (if a = ''M'' then to_robohash_maker r else to_robohash_taker r))) (zip rows (answers lines))"

definition case_of_row :: "env \<Rightarrow> TakenOfferRow \<Rightarrow> EscrowCase" where
  "case_of_row E r = \<lparr> ec_maker_id = hex_encode E (to_robohash_maker r),
     ec_taker_id = hex_encode E (to_robohash_taker r), ec_offer_id = to_offer_id r \<rparr>"

lemma prompt_answers:
  "get_coordinator_cli_input lines =
     (case answers lines of
        [] \<Rightarrow> None
      | a # as \<Rightarrow> Some (if a = ''M'' then EscrowMaker else EscrowTaker, snd (the (get_coordinator_cli_input lines)))) \<and>
   (answers lines \<noteq> [] \<longrightarrow> answers (snd (the (get_coordinator_cli_input lines))) = tl (answers lines))"
  by (induction lines) (auto simp: answers_def split: list.splits)

lemma decisions_verdicts: "decisions lines (map (case_of_row E) rows) = verdicts E rows lines"
proof (induction rows arbitrary: lines)
  case Nil
  then show ?case by (simp add: verdicts_def)
next
  case (Cons r rows)
  show ?case
  proof (cases "answers lines")
    case Nil
    then show ?thesis using prompt_answers [of lines] by (simp add: verdicts_def)
  next
    case (Cons a as)
    obtain w lines' where "get_coordinator_cli_input lines = Some (w, lines')"
      "w = (if a = ''M'' then EscrowMaker else EscrowTaker)" "answers lines' = as"
      using prompt_answers [of lines] Cons by auto
    then show ?thesis using Cons.IH [of lines'] Cons by (simp add: verdicts_def case_of_row_def)
  qed
qed

text \<open>
  C24: One round of the dispute prompt decides the open disputes in the order of the table, one
  per line that reads M or T after trimming, other lines being asked again: a decided trade is
  no longer open and its winner is the robohash, in hex, of the maker (M) or the taker (T); every
  other trade, and everything else in the database, is as before.
\<close>

theorem cli_round_decides:
  assumes "sql_faults s = []" and "keys_distinct s"
    and "open = filter (\<lambda>r. to_escrow_ongoing r = 1) (taken_offers s)"
    and "given = filter (\<lambda>a. a = ''M'' \<or> a = ''T'') (map trim lines)"
    and "decided = map_of (map (\<lambda>(r, a). (to_offer_id r,
        hex_encode E (if a = ''M'' then to_robohash_maker r else to_robohash_taker r))) (zip open given))"
  shows "exec (CliRound E lines) s = s\<lparr>taken_offers := map (\<lambda>r.
      case decided (to_offer_id r) of
        None \<Rightarrow> r
      | Some w \<Rightarrow> r\<lparr>to_escrow_ongoing := 0, to_escrow_winner_robohash := Some w\<rparr>) (taken_offers s)\<rparr>"
proof -
  let ?cases = "map (case_of_row E) open"
  have "distinct (map ec_offer_id ?cases)"
    using assms(2,3) map_id_filter [of to_offer_id "taken_offers s"]
    by (simp add: keys_distinct_def tbl_wf_def comp_def case_of_row_def)
  then have "exec (CliRound E lines) s = decide_all (decisions lines ?cases) s"
    using assms(1,3) run_resolve_cases [OF assms(1), of ?cases lines]
    by (simp add: exec_simps escrow_cli_loop_def expect_def get_open_escrows_def run_simps case_of_row_def [abs_def])
  moreover have "decided = map_of (verdicts E open lines)"
    using assms(4,5) by (simp add: verdicts_def answers_def)
  ultimately show ?thesis
    unfolding decisions_verdicts decide_all_def decide_row_def [abs_def] by simp
qed

lemma cli_round_decides_witness:
  "map (\<lambda>r. (to_escrow_ongoing r, to_escrow_winner_robohash r))
     (taken_offers (exec (CliRound env0 [''x'', '' M'']) (later disputed_events))) = [(0, Some ''m'')] \<and>
   map (\<lambda>r. (to_escrow_ongoing r, to_escrow_winner_robohash r))
     (taken_offers (exec (CliRound env0 [''T'']) (later disputed_events))) = [(0, Some ''t'')]"
proof -
  let ?s = "later disputed_events"
  have c: "sql_faults ?s = [] \<and>
      map (\<lambda>r. (to_escrow_ongoing r, hex_encode env0 (to_robohash_maker r), hex_encode env0 (to_robohash_taker r)))
        (taken_offers ?s) = [(1, ''m'', ''t'')] \<and>
      filter (\<lambda>a. a = ''M'' \<or> a = ''T'') (map trim [''x'', '' M'']) = [''M''] \<and>
      filter (\<lambda>a. a = ''M'' \<or> a = ''T'') (map trim [''T'']) = [''T'']" by code_simp
  then obtain r where r: "taken_offers ?s = [r]" "to_escrow_ongoing r = 1"
      "hex_encode env0 (to_robohash_maker r) = ''m''" "hex_encode env0 (to_robohash_taker r) = ''t''"
    by (auto simp: map_eq_Cons_conv)
  note round = cli_round_decides [OF _ later_keys refl refl refl, of disputed_events]
  show ?thesis
    using c r round [where lines = "[''x'', '' M'']" and E = env0] round [where lines = "[''T'']" and E = env0] by simp
qed

end
