(* ===== verification/Escrow_Spec.thy ===== *)
theory Escrow_Spec
  imports Settlement_Spec
begin

text \<open>
  What the coordinator promises about the two transactions it assembles: the balance of the
  amounts it gives to the transaction builder, the collection of the traders' signatures on
  the escrow transaction, the one payout transaction per trade, and its agreement with what the
  coordinator aggregates the signatures for.
\<close>

section \<open>The balance of the escrow transaction\<close>

definition recipients_sum :: "TxPlan \<Rightarrow> nat" where
  "recipients_sum plan = sum_list (map (\<lambda>(script, amount). unat amount) (tp_recipients plan))"

definition inputs_sum :: "TxPlan \<Rightarrow> nat" where
  "inputs_sum plan = sum_list (map unat (witness_values (map (\<lambda>(utxo, input, weight). input) (tp_foreign_utxos plan))))"

lemma change_amount_checked:
  assumes "escrow_change_amount E d escrow fee tx_fee = Ok change" and "overflow_checks E"
  shows "sum_list (map unat (witness_values (ed_escrow_input_utxos d))) =
    unat escrow + unat fee + unat tx_fee div 2 + unat change"
proof -
  obtain total a b where s: "escrow_input_sum True d = Ok total"
    "add_u64 True escrow fee = (Ok a :: (u64, anyhow) res)" "add_u64 True a (tx_fee div 2) = (Ok b :: (u64, anyhow) res)"
    "sub_u64 True total b = (Ok change :: (u64, anyhow) res)"
    using assms by (auto simp: escrow_change_amount_def bind_res_eq_Ok)
  then have "unat a = unat escrow + unat fee" "unat b = unat a + unat tx_fee div 2" "unat total = unat b + unat change"
    by (simp_all add: add_u64_checked sub_u64_checked unat_add_u64 unat_sub_u64 unat_div)
  then show ?thesis using escrow_input_sum_checked [OF s(1)] by simp
qed

text \<open>
  C9: With overflow checks on, an escrow plan that the coordinator hands to the builder balances
  to the satoshi: what the inputs of the two traders carry is the escrow output, the service fee
  of both, the change of both and the network fee of 10000 sat; and each trader's change is its
  own inputs less its own escrow amount, its fee and half the network fee, so neither pays for
  the other. A trader whose inputs are too small gets a panic, not a plan.
\<close>

theorem escrow_plan_balanced:
  assumes "escrow_plan E maker taker script fee_script amount_maker amount_taker fee = Ok plan"
    and "overflow_checks E"
  shows "inputs_sum plan = recipients_sum plan + unat (tp_fee_absolute plan) \<and> unat (tp_fee_absolute plan) = 10000 \<and>
    (\<exists>change_maker change_taker.
       tp_recipients plan = [(script, amount_maker + amount_taker), (fee_script, fee * 2),
         (ed_change_address maker, change_maker), (ed_change_address taker, change_taker)] \<and>
       sum_list (map unat (witness_values (ed_escrow_input_utxos maker))) =
         unat amount_maker + unat fee + 5000 + unat change_maker \<and>
       sum_list (map unat (witness_values (ed_escrow_input_utxos taker))) =
         unat amount_taker + unat fee + 5000 + unat change_taker)"
proof -
  obtain cm ct where c: "escrow_change_amount E maker amount_maker fee 10000 = Ok cm"
    "escrow_change_amount E taker amount_taker fee 10000 = Ok ct"
    "unat amount_maker + unat amount_taker < 2 ^ 64" "unat fee * unat (2 :: u64) < 2 ^ 64"
    "plan = \<lparr> tp_manually_selected_only = True,
       tp_recipients = [(script, amount_maker + amount_taker), (fee_script, fee * 2),
         (ed_change_address maker, cm), (ed_change_address taker, ct)],
       tp_fee_absolute = 10000,
       tp_foreign_utxos = map (\<lambda>i. (pi_utxo i, i, 264)) (ed_escrow_input_utxos maker @ ed_escrow_input_utxos taker) \<rparr>"
    using assms by (auto simp: escrow_plan_def Let_def bind_res_eq_Ok add_u64_checked mul_u64_checked)
  have sums: "unat (amount_maker + amount_taker) = unat amount_maker + unat amount_taker" "unat (fee * 2) = unat fee * 2"
    using c(3) unat_mul_u64 [OF c(4)] by (simp_all add: unat_add_u64)
  have "map (\<lambda>(utxo, input, weight). input) (tp_foreign_utxos plan) =
      ed_escrow_input_utxos maker @ ed_escrow_input_utxos taker"
    unfolding c(5) by (simp add: comp_def)
  then have "inputs_sum plan = sum_list (map unat (witness_values (ed_escrow_input_utxos maker))) +
      sum_list (map unat (witness_values (ed_escrow_input_utxos taker)))"
    by (simp add: inputs_sum_def witness_values_def map_filter_def)
  then show ?thesis
    using change_amount_checked [OF c(1) assms(2)] change_amount_checked [OF c(2) assms(2)] sums
    by (simp add: c(5) recipients_sum_def)
qed

definition sample_construction :: EscrowPsbtConstructionData where
  "sample_construction = \<lparr> ed_taproot_xonly_pubkey_hex = ''k'', ed_escrow_input_utxos = [sample_input],
     ed_change_address = [1], ed_musig_pubkey_compressed_hex = ''k'' \<rparr>"

lemma escrow_plan_balanced_witness:
  "\<exists>plan. escrow_plan env0 sample_construction sample_construction [2] [3] 2000 22000 200 = Ok plan \<and>
     inputs_sum plan = recipients_sum plan + unat (tp_fee_absolute plan)"
proof -
  have "is_ok (escrow_plan env0 sample_construction sample_construction [2] [3] 2000 22000 200)" by code_simp
  then obtain plan where p: "escrow_plan env0 sample_construction sample_construction [2] [3] 2000 22000 200 = Ok plan"
    by (auto elim: is_ok.elims)
  have "overflow_checks env0" by (simp add: env0_def)
  then show ?thesis using escrow_plan_balanced [OF p] p by blast
qed

section \<open>The balance of the payout transaction\<close>

lemma halved_fee:
  "f div 2 \<le> a \<Longrightarrow> f div 2 \<le> b \<Longrightarrow> (a - f div 2) + (b - f div 2) + f = a + b + f mod (2::nat)"
  using div_mult_mod_eq [of f 2] by linarith

text \<open>
  C27: The payout plan takes half of the network fee, rounded down, from each trader: for an even
  fee outputs and fee are exactly what is paid out of the escrow, for an odd fee they are one
  satoshi more, so the plan is short of one satoshi.
\<close>

theorem payout_plan_balance:
  assumes "payout_plan E d utxo = Ok plan" and "overflow_checks E"
  shows "recipients_sum plan + unat (tp_fee_absolute plan) =
      unat (pd_payout_amount_maker d) + unat (pd_payout_amount_taker d) + unat (tp_fee_absolute plan) mod 2 \<and>
    map fst (tp_recipients plan) = [pd_payout_address_maker d, pd_payout_address_taker d] \<and>
    map fst (tp_foreign_utxos plan) = [snd utxo]"
proof -
  obtain fee half where f: "get_tx_fees_abs_sat E = (fee, half)" by (cases "get_tx_fees_abs_sat E")
  then have half: "unat half = unat fee div 2"
    by (auto simp: get_tx_fees_abs_sat_def Let_def unat_div)
  obtain m t where p: "sub_u64 True (pd_payout_amount_maker d) half = (Ok m :: (u64, anyhow) res)"
    "sub_u64 True (pd_payout_amount_taker d) half = (Ok t :: (u64, anyhow) res)"
    "plan = \<lparr> tp_manually_selected_only = False,
       tp_recipients = [(pd_payout_address_maker d, m), (pd_payout_address_taker d, t)],
       tp_fee_absolute = fee, tp_foreign_utxos = [(snd utxo, fst utxo, 264)] \<rparr>"
    using assms f by (auto simp: payout_plan_def bind_res_eq_Ok)
  then have le: "unat fee div 2 \<le> unat (pd_payout_amount_maker d)" "unat fee div 2 \<le> unat (pd_payout_amount_taker d)"
    and "unat m = unat (pd_payout_amount_maker d) - unat fee div 2"
    and "unat t = unat (pd_payout_amount_taker d) - unat fee div 2"
    using half by (auto simp: sub_u64_checked unat_sub_u64)
  then show ?thesis
    using halved_fee [OF le] by (simp add: p(3) recipients_sum_def)
qed

definition sample_payout :: PayoutData where
  "sample_payout = \<lparr> pd_escrow_output_descriptor = Tr ''tr'' [1], pd_payout_address_maker = [1],
     pd_payout_address_taker = [2], pd_payout_amount_maker = 22000, pd_payout_amount_taker = 2000,
     pd_agg_musig_nonce = [], pd_aggregated_musig_pubkey_ctx_hex = [] \<rparr>"

lemma payout_plan_balance_witness:
  "\<exists>plan. payout_plan env0 sample_payout (sample_input, \<lparr> op_txid = ''t'', op_vout = 0 \<rparr>) = Ok plan \<and>
     unat (tp_fee_absolute plan) = 281 \<and> recipients_sum plan + 281 = 24001"
proof -
  let ?u = "(sample_input, \<lparr> op_txid = ''t'', op_vout = 0 \<rparr>)"
  have "map_res tp_fee_absolute (payout_plan env0 sample_payout ?u) = Ok 281" by code_simp
  then obtain plan where p: "payout_plan env0 sample_payout ?u = Ok plan" "tp_fee_absolute plan = 281"
    by (auto elim: map_res.elims)
  have "overflow_checks env0" by (simp add: env0_def)
  from payout_plan_balance [OF p(1) this] p show ?thesis
    by (auto simp: sample_payout_def)
qed

section \<open>Signatures on the escrow transaction\<close>

definition add_signed_psbt :: "bytes \<Rightarrow> string \<Rightarrow> TakenOfferRow \<Rightarrow> TakenOfferRow" where
  "add_signed_psbt h p r =
     (if to_robohash_maker r = h then r\<lparr>to_signed_escrow_psbt_hex_maker := Some p\<rparr>
      else r\<lparr>to_signed_escrow_psbt_hex_taker := Some p\<rparr>)"

definition psbt_submitted :: "bytes \<Rightarrow> TakenOfferRow \<Rightarrow> bool" where
  "psbt_submitted h r \<longleftrightarrow>
     (if to_robohash_maker r = h then to_signed_escrow_psbt_hex_maker r \<noteq> None
      else to_signed_escrow_psbt_hex_taker r \<noteq> None)"

text \<open>The transaction that two signed PSBTs make, if the libraries and the network accept it.\<close>

definition escrow_transaction :: "env \<Rightarrow> string \<Rightarrow> string \<Rightarrow> (Transaction, anyhow) res" where
  "escrow_transaction E maker_psbt taker_psbt =
     bind_res (ok_or HexDecode (hex_decode E maker_psbt)) (\<lambda>m.
     bind_res (psbt_deserialize E m) (\<lambda>mp.
     bind_res (ok_or HexDecode (hex_decode E taker_psbt)) (\<lambda>t.
     bind_res (psbt_deserialize E t) (\<lambda>tp.
     bind_res (psbt_combine E mp tp) (\<lambda>combined.
     bind_res (map_err_res (\<lambda>_. Anyhow ''Error finalizing escrow psbt'') (psbt_finalize E combined)) (\<lambda>(finalized, tx).
       if finalized then map_res (\<lambda>_. tx) (broadcast_accepted E tx)
       else Err (Anyhow ''Failed to finalize escrow psbt'')))))))"

lemma run_lift_bind: "run (andThen (lift_res m) f) s = (case m of Ok a \<Rightarrow> run (f a) s | Err e \<Rightarrow> (Err e, s) | Panic \<Rightarrow> (Panic, s))"
  by (simp add: run_simps split: res.split)

lemma run_combine_and_broadcast:
  "run (combine_and_broadcast_escrow_psbt E m t) s =
     (case escrow_transaction E m t of
        Ok tx \<Rightarrow> (Ok (), s\<lparr>published := published s @ [tx]\<rparr>) | Err e \<Rightarrow> (Err e, s) | Panic \<Rightarrow> (Panic, s))"
proof -
  have bind: "(case bind_res x f of Ok a \<Rightarrow> g a | Err e \<Rightarrow> (Err e, s) | Panic \<Rightarrow> (Panic, s)) =
      (case x of Ok a \<Rightarrow> (case f a of Ok a \<Rightarrow> g a | Err e \<Rightarrow> (Err e, s) | Panic \<Rightarrow> (Panic, s))
       | Err e \<Rightarrow> (Err e, s) | Panic \<Rightarrow> (Panic, s))" for x :: "('x, anyhow) res" and f g
    by (cases x) simp_all
  show ?thesis
    unfolding combine_and_broadcast_escrow_psbt_def decode_hex_def escrow_transaction_def bind run_lift_bind
    by (intro arg_cong2 [where f = "\<lambda>x y. case x of Ok a \<Rightarrow> y a | Err e \<Rightarrow> (Err e, s) | Panic \<Rightarrow> (Panic, s)"] refl ext)
      (auto simp: run_simps split: res.split prod.split)
qed

lemma run_handle_signed_escrow_psbt:
  assumes "sql_faults s = []" and "keys_distinct s" and "hex_decode E (psr_robohash_hex p) = Some h"
    and "find_taken (psr_offer_id_hex p) s = Some r" and "party h r"
    and s1: "s1 = set_trade (psr_offer_id_hex p) (add_signed_psbt h (psr_signed_psbt_hex p) r) s"
  shows "run (handle_signed_escrow_psbt E p) s =
    (if psbt_submitted h r then (Err PsbtAlreadySubmitted, s)
     else case (to_signed_escrow_psbt_hex_maker (add_signed_psbt h (psr_signed_psbt_hex p) r),
                to_signed_escrow_psbt_hex_taker (add_signed_psbt h (psr_signed_psbt_hex p) r)) of
       (Some m, Some t) \<Rightarrow>
         (case escrow_transaction E m t of
            Ok tx \<Rightarrow> (Ok (), s1\<lparr>published := published s1 @ [tx]\<rparr>)
          | Err e \<Rightarrow> (Err (PsbtInvalid e), s1)
          | Panic \<Rightarrow> (Panic, s1))
     | _ \<Rightarrow> (Ok (), s1))"
proof -
  let ?i = "psr_offer_id_hex p" and ?r = "add_signed_psbt h (psr_signed_psbt_hex p) r"
  have valid: "run (is_valid_robohash_in_table E (psr_robohash_hex p) ?i) s = (Ok True, s)"
    using assms(1,3-5) valid_robohash_iff [OF assms(2), of h ?i]
    by (auto simp: is_valid_robohash_in_table_def run_simps)
  have key: "to_offer_id ?r = ?i" using trades.look_key [OF assms(4)] by (simp add: add_signed_psbt_def)
  have "find_taken ?i s1 = Some ?r" unfolding s1 using find_set_trade [OF assms(4) key] by simp
  then have fetch: "run (fetch_both_signed_escrow_psbts ?i) s1 =
      (Ok (case (to_signed_escrow_psbt_hex_maker ?r, to_signed_escrow_psbt_hex_taker ?r) of
         (Some m, Some t) \<Rightarrow> Some (m, t) | _ \<Rightarrow> None), s1)"
    using assms(1) s1 by (simp add: fetch_both_signed_escrow_psbts_def run_simps)
  have "run (insert_signed_escrow_psbt E p) s = (if psbt_submitted h r then (Ok False, s) else (Ok True, s1))"
    using assms run_is_maker [OF assms(1,3-5)]
    by (simp add: insert_signed_escrow_psbt_def run_simps Let_def psbt_submitted_def add_signed_psbt_def
        run_update_taken update_is_set_trade)
  then show ?thesis
    using valid fetch
    by (auto simp: handle_signed_escrow_psbt_def validate_escrow_init_psbt_def run_simps
        run_combine_and_broadcast split: option.splits res.splits)
qed

text \<open>
  C10: The escrow transaction is published by the second of the two signed PSBTs and by nothing
  before it. A trader's first submission is stored; if the other trader's is not there it is
  answered with 200 and nothing is published, and if it is there, success means that exactly the
  transaction combined from the maker's and the taker's PSBT, in this order, is published.
  Submitting again is refused with status 500 and changes nothing.
\<close>

theorem escrow_published_by_second_psbt:
  assumes "sql_faults s = []" and "keys_distinct s" and "hex_decode E (psr_robohash_hex p) = Some h"
    and "find_taken (psr_offer_id_hex p) s = Some r" and "party h r"
    and "respond E (SubmitEscrowPsbt p) s = (Some resp, s')"
    and "other = (if to_robohash_maker r = h then to_signed_escrow_psbt_hex_taker r
      else to_signed_escrow_psbt_hex_maker r)"
  shows "if psbt_submitted h r then resp = code 500 \<and> s' = s
    else find_taken (psr_offer_id_hex p) s' = Some (add_signed_psbt h (psr_signed_psbt_hex p) r) \<and>
      (case other of
         None \<Rightarrow> resp = code 200 \<and> published s' = published s
       | Some x \<Rightarrow>
           (case (if to_robohash_maker r = h then escrow_transaction E (psr_signed_psbt_hex p) x
                  else escrow_transaction E x (psr_signed_psbt_hex p)) of
              Ok tx \<Rightarrow> resp = code 200 \<and> published s' = published s @ [tx]
            | _ \<Rightarrow> resp = code 406 \<and> published s' = published s))"
proof -
  let ?r = "add_signed_psbt h (psr_signed_psbt_hex p) r"
  let ?s = "set_trade (psr_offer_id_hex p) ?r s"
  have key: "to_offer_id ?r = psr_offer_id_hex p"
    using trades.look_key [OF assms(4)] by (simp add: add_signed_psbt_def)
  have "find_taken (psr_offer_id_hex p) ?s = Some ?r"
    using find_set_trade [OF assms(4) key] by simp
  then show ?thesis
    using assms(6,7) run_handle_signed_escrow_psbt [OF assms(1-5) refl]
    by (auto simp: respond_def submit_escrow_psbt_def run_simps add_signed_psbt_def
        split: if_splits option.splits res.splits)
qed

lemma escrow_published_by_second_psbt_witness:
  "\<exists>resp s' tx. respond env0 (SubmitEscrowPsbt (sample_psbt ''t''))
       (exec (Request env0 (SubmitEscrowPsbt (sample_psbt ''m''))) taken_state) = (Some resp, s') \<and>
     resp = code 200 \<and> published s' = [tx] \<and> tx_raw tx = [109, 116]"
proof -
  let ?s = "exec (Request env0 (SubmitEscrowPsbt (sample_psbt ''m''))) taken_state"
  have c: "sql_faults ?s = [] \<and> hex_decode env0 (psr_robohash_hex (sample_psbt ''t'')) = Some [116] \<and>
      map_option (\<lambda>r. party [116] r \<and> \<not> psbt_submitted [116] r \<and> to_robohash_maker r \<noteq> [116] \<and>
        to_signed_escrow_psbt_hex_maker r = Some ''m'')
        (find_taken (psr_offer_id_hex (sample_psbt ''t'')) ?s) = Some True \<and> published ?s = [] \<and>
      escrow_transaction env0 ''m'' (psr_signed_psbt_hex (sample_psbt ''t'')) = Ok (sample_tx [109, 116]) \<and>
      fst (respond env0 (SubmitEscrowPsbt (sample_psbt ''t'')) ?s) \<noteq> None"
    by code_simp
  then obtain r where r: "find_taken (psr_offer_id_hex (sample_psbt ''t'')) ?s = Some r" "party [116] r"
      "\<not> psbt_submitted [116] r" "to_robohash_maker r \<noteq> [116]" "to_signed_escrow_psbt_hex_maker r = Some ''m''"
    by auto
  obtain resp s' where resp: "respond env0 (SubmitEscrowPsbt (sample_psbt ''t'')) ?s = (Some resp, s')"
    using c by (cases "respond env0 (SubmitEscrowPsbt (sample_psbt ''t'')) ?s") auto
  have "keys_distinct ?s" using tables.event [of taken_state] tables.reachable [OF reachable_taken]
    by (simp add: tables_ok_def)
  from escrow_published_by_second_psbt [OF _ this _ r(1,2) resp refl] c r(3-5)
  have "resp = code 200 \<and> published s' = [sample_tx [109, 116]]" by simp
  then show ?thesis using resp by (auto simp: sample_tx_def)
qed

section \<open>One payout transaction per trade\<close>

definition payout_of_row :: "env \<Rightarrow> TakenOfferRow \<Rightarrow> (PayoutData, anyhow) res" where
  "payout_of_row E r =
     (if to_is_buy_order r = Some 1
      then payout_of E r (to_escrow_amount_taker_sat r) (to_escrow_amount_maker_sat r)
      else payout_of E r (to_escrow_amount_maker_sat r) (to_escrow_amount_taker_sat r))"

definition assembled_payout :: "env \<Rightarrow> PayoutData \<Rightarrow> (string, anyhow) res" where
  "assembled_payout E d =
     bind_res (get_escrow_utxo E (pd_escrow_output_descriptor d)) (\<lambda>utxo.
     bind_res (payout_plan E d utxo) (\<lambda>plan.
     map_res (\<lambda>(payout_psbt, txid). psbt_serialize_hex E payout_psbt) (build_tx E plan)))"

definition toggled :: "TakenOfferRow \<Rightarrow> TakenOfferRow" where
  "toggled r = r\<lparr>to_processing := if to_processing r = 0 then 1 else 0\<rparr>"

lemma run_toggle:
  assumes "sql_faults s = []" and "keys_distinct s" and "find_taken i s = Some r"
  shows "run (toggle_processing i) s = (Ok (to_processing r = 0), set_trade i (toggled r) s)"
proof -
  let ?f = "\<lambda>r. r\<lparr>to_processing := if to_processing r = 0 then 1 else 0\<rparr>"
  have "tbl_find to_offer_id i (tbl_update to_offer_id i ?f (taken_offers s)) = Some (?f r)"
    using trades.look_upd_same [of ?f i "taken_offers s"] assms(3) by simp
  then show ?thesis
    using assms update_is_set_trade [OF assms(2,3), of ?f]
    by (simp add: toggle_processing_def run_statement Let_def toggled_def)
qed

lemma run_assemble_locked:
  assumes "sql_faults s = []" and "keys_distinct s" and "find_taken i s = Some r"
  shows "run (assemble_locked E i d) s =
    (case assembled_payout E d of
       Ok x \<Rightarrow> (Ok (ReadyPSBT (payout_response E d x)),
               set_trade i (toggled (r\<lparr>to_payout_transaction_psbt_hex := Some x\<rparr>)) s)
     | Err e \<Rightarrow> (Err (CoordinatorError e), s)
     | Panic \<Rightarrow> (Panic, s))"
proof -
  have assemble: "run (assemble_keyspend_payout_psbt E d) s = (assembled_payout E d, s)"
    by (simp add: assemble_keyspend_payout_psbt_def assembled_payout_def run_simps)
  show ?thesis
  proof (cases "assembled_payout E d")
    case (Ok x)
    let ?r = "r\<lparr>to_payout_transaction_psbt_hex := Some x\<rparr>"
    have key: "to_offer_id ?r = i" using trades.look_key [OF assms(3)] by simp
    note s1 = keys_set_trade [OF assms(2) key] find_set_trade [OF assms(3) key, of i]
    have "run (insert_keyspend_payout_psbt i x) s = (Ok (), set_trade i ?r s)"
      using assms by (simp add: insert_keyspend_payout_psbt_def run_update_taken update_is_set_trade)
    moreover have "run (toggle_processing i) (set_trade i ?r s) = (Ok (to_processing r = 0), set_trade i (toggled ?r) s)"
      using run_toggle [of "set_trade i ?r s" i ?r] s1 assms key by (simp add: set_trade_twice)
    ultimately show ?thesis using assemble Ok by (simp add: assemble_locked_def run_simps)
  qed (use assemble in \<open>simp_all add: assemble_locked_def run_simps\<close>)
qed

lemma run_payout_happy:
  assumes "sql_faults s = []" and "keys_distinct s" and "sqlite_nulls E"
    and "find_taken (otr_offer_id_hex p) s = Some r" and "trade_flags r" and "both_happy (happiness_of r)"
  shows "run (handle_final_payout E p) s =
    (case payout_of_row E r of
       Err e \<Rightarrow> (Err (Database e), s)
     | Panic \<Rightarrow> (Panic, s)
     | Ok d \<Rightarrow>
         (case to_payout_transaction_psbt_hex r of
            Some x \<Rightarrow> (Ok (ReadyPSBT (payout_response E d x)), s)
          | None \<Rightarrow>
              if to_processing r \<noteq> 0 then (Ok NotReady, set_trade (otr_offer_id_hex p) (r\<lparr>to_processing := 0\<rparr>) s)
              else (case assembled_payout E d of
                 Ok x \<Rightarrow> (Ok (ReadyPSBT (payout_response E d x)),
                   set_trade (otr_offer_id_hex p) (r\<lparr>to_payout_transaction_psbt_hex := Some x, to_processing := 0\<rparr>) s)
               | Err e \<Rightarrow> (Err (CoordinatorError e), set_trade (otr_offer_id_hex p) (r\<lparr>to_processing := 1\<rparr>) s)
               | Panic \<Rightarrow> (Panic, set_trade (otr_offer_id_hex p) (r\<lparr>to_processing := 1\<rparr>) s))))"
proof -
  let ?i = "otr_offer_id_hex p"
  have happy: "run (fetch_trader_happiness ?i) s = (Ok (happiness_of r), s)"
    using assms(1,4) by (rule run_fetch_trader_happiness)
  have data: "run (fetch_payout_data E ?i) s = (payout_of_row E r, s)"
    using run_fetch_payout_data [OF assms(1,3,4)] assms(5) by (simp add: trade_flags_def payout_of_row_def)
  have stored: "run (fetch_keyspend_payout_psbt ?i) s = (Ok (to_payout_transaction_psbt_hex r), s)"
    using assms(1,4) by (simp add: fetch_keyspend_payout_psbt_def run_simps)
  note toggle = run_toggle [OF assms(1,2,4)]
  have key: "to_offer_id (toggled r) = ?i" using trades.look_key [OF assms(4)] by (simp add: toggled_def)
  have locked: "run (assemble_locked E ?i d) (set_trade ?i (r\<lparr>to_processing := 1\<rparr>) s) =
    (case assembled_payout E d of
       Ok x \<Rightarrow> (Ok (ReadyPSBT (payout_response E d x)),
               set_trade ?i (r\<lparr>to_payout_transaction_psbt_hex := Some x, to_processing := 0\<rparr>) s)
     | Err e \<Rightarrow> (Err (CoordinatorError e), set_trade ?i (r\<lparr>to_processing := 1\<rparr>) s)
     | Panic \<Rightarrow> (Panic, set_trade ?i (r\<lparr>to_processing := 1\<rparr>) s))" if "to_processing r = 0" for d
    using run_assemble_locked [of "set_trade ?i (toggled r) s" ?i "toggled r" E d] that assms(1)
      keys_set_trade [OF assms(2) key] find_set_trade [OF assms(4) key, of ?i] key
    by (simp add: set_trade_twice toggled_def split: res.split)
  show ?thesis
  proof (cases "payout_of_row E r")
    case (Ok d)
    then show ?thesis
      using happy data stored toggle assms(6)
      by (cases "to_payout_transaction_psbt_hex r"; cases "to_processing r = 0")
        (simp_all add: handle_final_payout_def run_simps locked toggled_def)
  qed (use happy data stored assms(6) in \<open>simp_all add: handle_final_payout_def run_simps\<close>)
qed

lemma settled_happy:
  assumes "sql_faults s = []" and "find_taken (otr_offer_id_hex p) s = Some r"
    and "run (handle_final_payout E p) s = (res, s')"
    and "res = Ok (ReadyPSBT resp) \<or> res = Err (CoordinatorError e)"
  shows "both_happy (happiness_of r)"
proof (rule ccontr)
  assume "\<not> both_happy (happiness_of r)"
  from run_payout_unhappy [OF assms(1,2) this, of E] assms(3,4) show False
    by (auto split: if_splits option.splits)
qed

text \<open>What a poll that is answered with the payout leaves behind.\<close>

lemma payout_answered:
  assumes "sql_faults s = []" and "keys_distinct s" and "flags_ok s" and "sqlite_nulls E"
    and "find_taken (otr_offer_id_hex p) s = Some r"
    and "run (handle_final_payout E p) s = (Ok (ReadyPSBT resp), s')"
  obtains d x r' where "payout_of_row E r' = Ok d" "resp = payout_response E d x"
    "sql_faults s' = []" "keys_distinct s'" "find_taken (otr_offer_id_hex p) s' = Some r'"
    "to_payout_transaction_psbt_hex r' = Some x" "trade_flags r'" "both_happy (happiness_of r')"
    "r' = r\<lparr>to_payout_transaction_psbt_hex := Some x, to_processing := to_processing r'\<rparr>"
proof -
  let ?i = "otr_offer_id_hex p"
  have flags: "trade_flags r" using assms(3,5) by (rule taken_trade_flags)
  have happy: "both_happy (happiness_of r)"
    using assms(1,5,6) by (rule settled_happy) simp
  note run = run_payout_happy [OF assms(1,2,4,5) flags happy]
  obtain d where d: "payout_of_row E r = Ok d" using run assms(6) by (auto split: res.splits)
  obtain x where x: "resp = payout_response E d x"
    "s' = s \<and> to_payout_transaction_psbt_hex r = Some x \<or>
     s' = set_trade ?i (r\<lparr>to_payout_transaction_psbt_hex := Some x, to_processing := 0\<rparr>) s"
    using run assms(6) d by (auto split: option.splits if_splits res.splits)
  define r' where "r' = (if s' = s \<and> to_payout_transaction_psbt_hex r = Some x then r
    else r\<lparr>to_payout_transaction_psbt_hex := Some x, to_processing := 0\<rparr>)"
  have key: "to_offer_id (r\<lparr>to_payout_transaction_psbt_hex := Some x, to_processing := 0\<rparr>) = ?i"
    using trades.look_key [OF assms(5)] by simp
  have s': "sql_faults s' = []" "keys_distinct s'" "find_taken ?i s' = Some r'"
    using x(2) assms(1,2,5) keys_set_trade [OF assms(2) key] find_set_trade [OF assms(5) key, of ?i]
    by (auto simp: r'_def)
  have r': "to_payout_transaction_psbt_hex r' = Some x" "trade_flags r'" "both_happy (happiness_of r')"
    "payout_of_row E r' = Ok d" "r' = r\<lparr>to_payout_transaction_psbt_hex := Some x, to_processing := to_processing r'\<rparr>"
    using flags happy d by (auto simp: r'_def trade_flags_def both_happy_def happiness_of_def payout_of_row_def payout_of_def)
  show thesis using that [OF r'(4) x(1) s' r'(1-3,5)] .
qed

text \<open>
  C11: A trade has one payout transaction: once a poll has been answered with it, every later
  poll of the trade, whoever asks and whatever transaction would be assembled by then, is answered
  with the same transaction and changes nothing any more; the transaction is stored with the trade, and
  as long as the libraries answer the same, so are the nonce and the key.
\<close>

theorem payout_answer_stable:
  assumes "sql_faults s = []" and "keys_distinct s" and "flags_ok s" and "sqlite_nulls E"
    and "find_taken (otr_offer_id_hex p) s = Some r"
    and "run (handle_final_payout E p) s = (Ok (ReadyPSBT resp), s')"
    and "otr_offer_id_hex p' = otr_offer_id_hex p" and "sqlite_nulls E'"
  shows "map_option to_payout_transaction_psbt_hex (find_taken (otr_offer_id_hex p) s') =
      Some (Some (pr_payout_psbt_hex resp)) \<and>
    respond E (PollFinalPayout p') s' = (Some (json (PayoutJson resp)), s') \<and>
    run (handle_final_payout E' p') s' =
      (case fst (run (fetch_payout_data E' (otr_offer_id_hex p)) s') of
         Ok d \<Rightarrow> Ok (ReadyPSBT (payout_response E' d (pr_payout_psbt_hex resp)))
       | Err e \<Rightarrow> Err (Database e)
       | Panic \<Rightarrow> Panic, s')"
proof (rule payout_answered [OF assms(1-6)])
  let ?i = "otr_offer_id_hex p"
  fix d x r'
  assume d: "payout_of_row E r' = Ok d" "resp = payout_response E d x"
    and s': "sql_faults s' = []" "keys_distinct s'" "find_taken ?i s' = Some r'"
    and r': "to_payout_transaction_psbt_hex r' = Some x" "trade_flags r'" "both_happy (happiness_of r')"
  have poll: "run (handle_final_payout E2 p') s' = (case payout_of_row E2 r' of
      Ok d \<Rightarrow> Ok (ReadyPSBT (payout_response E2 d x)) | Err e \<Rightarrow> Err (Database e) | Panic \<Rightarrow> Panic, s')"
    if "sqlite_nulls E2" for E2
    using run_payout_happy [OF s'(1,2) that, of p' r'] s'(3) r' assms(7) by (simp split: res.split)
  have "fst (run (fetch_payout_data E' ?i) s') = payout_of_row E' r'"
    using run_fetch_payout_data [OF s'(1) assms(8) s'(3)] r'(2) by (simp add: trade_flags_def payout_of_row_def)
  moreover have "pr_payout_psbt_hex resp = x" using d(2) by (simp add: payout_response_def)
  ultimately show ?thesis
    using poll [OF assms(4)] poll [OF assms(8)] s'(3) r'(1) d(1)
    by (simp add: respond_def poll_final_payout_def run_simps payout_result_response_def d(2) [symmetric] split: res.split)
qed

text \<open>A second environment, in which the same payout becomes another transaction.\<close>

definition other_fee_env :: env where
  "other_fee_env = env0\<lparr>build_tx := \<lambda>plan. Ok ([2], ''u'')\<rparr>"

lemma other_fee_laws: "sqlite_nulls other_fee_env"
  using env0_laws(1) by (simp add: other_fee_env_def sqlite_nulls_def)

lemma payout_answer_stable_witness:
  "\<exists>resp resp'. respond env0 (PollFinalPayout (sample_poll ''t'')) (later happy_events) =
     (Some (json (PayoutJson resp)), later happy_events) \<and> pr_payout_psbt_hex resp \<noteq> [] \<and>
     fst (run (handle_final_payout other_fee_env (sample_poll ''t'')) (later happy_events)) = Ok (ReadyPSBT resp') \<and>
     pr_payout_psbt_hex resp' = pr_payout_psbt_hex resp"
proof -
  let ?s = "later happy_events" and ?p = "sample_poll ''t''"
  have c: "sql_faults ?s = [] \<and> find_taken (otr_offer_id_hex ?p) ?s \<noteq> None \<and>
      is_ok (fst (run (fetch_payout_data other_fee_env (otr_offer_id_hex ?p)) ?s)) \<and>
      (case run (handle_final_payout env0 ?p) ?s of
         (Ok (ReadyPSBT resp), s') \<Rightarrow> s' = ?s \<and> pr_payout_psbt_hex resp \<noteq> [] | _ \<Rightarrow> False)"
    by code_simp
  then obtain r resp where r: "find_taken (otr_offer_id_hex ?p) ?s = Some r"
      "run (handle_final_payout env0 ?p) ?s = (Ok (ReadyPSBT resp), ?s)" "pr_payout_psbt_hex resp \<noteq> []"
    by (auto split: prod.splits res.splits PayoutProcessingResult.splits)
  obtain d where d: "fst (run (fetch_payout_data other_fee_env (otr_offer_id_hex ?p)) ?s) = Ok d"
    using c by (auto elim: is_ok.elims)
  note stable = payout_answer_stable [OF _ later_keys later_flags env0_laws(1) r(1,2) refl other_fee_laws]
  have "sql_faults ?s = []" using c by (rule conjunct1)
  note stable = stable [OF this]
  have "fst (run (handle_final_payout other_fee_env ?p) ?s) =
      Ok (ReadyPSBT (payout_response other_fee_env d (pr_payout_psbt_hex resp)))"
    using stable d by simp
  moreover have "pr_payout_psbt_hex (payout_response other_fee_env d (pr_payout_psbt_hex resp)) = pr_payout_psbt_hex resp"
    by (simp add: payout_response_def)
  ultimately show ?thesis using stable r(3) by blast
qed

text \<open>
  C12: The traders sign for what the coordinator aggregates: when a poll has handed out the payout and
  two of the trade's traders have stored their signatures, the context in which the coordinator
  combines them has the aggregated nonce and the aggregated tweaked key that the poll handed out, and
  the transaction it is about is the one the poll handed out, whatever the node and the transaction
  builder would answer by then.
\<close>

theorem payout_data_agrees_with_keyspend:
  assumes "sql_faults s = []" and "keys_distinct s" and "flags_ok s" and "sqlite_nulls E"
    and "find_taken (otr_offer_id_hex p) s = Some r"
    and "run (handle_final_payout E p) s = (Ok (ReadyPSBT resp), s1)"
    and "hex_decode E robohash = Some h" and "party h r" and "hex_decode E robohash' = Some h'" and "party h' r"
    and "run (insert_partial_sig E sig (otr_offer_id_hex p) robohash) s1 = (Ok (), s2)"
    and "run (insert_partial_sig E sig' (otr_offer_id_hex p) robohash') s2 = (Ok (), s3)"
    and "E' = E\<lparr>build_tx := builder, escrow_unspent := unspent, estimate_fee_vb := fee_rate\<rparr>"
    and "run (fetch_keyspend_payout_information E' (otr_offer_id_hex p)) s3 = (Ok (Some ctx), s4)"
  shows "pr_agg_musig_nonce_hex resp = agg_nonce_string E (kc_agg_nonce ctx) \<and>
    pr_agg_musig_pubkey_ctx_hex resp = hex_encode E (kc_agg_keyspend_pk ctx) \<and>
    (\<exists>raw. hex_decode E (pr_payout_psbt_hex resp) = Some raw \<and> psbt_deserialize E raw = Ok (kc_keyspend_psbt ctx))"
proof (rule payout_answered [OF assms(1-6)])
  let ?i = "otr_offer_id_hex p"
  fix d x r1
  assume d: "payout_of_row E r1 = Ok d" "resp = payout_response E d x"
    and s1: "sql_faults s1 = []" "keys_distinct s1" "find_taken ?i s1 = Some r1"
    and r1: "to_payout_transaction_psbt_hex r1 = Some x"
      "r1 = r\<lparr>to_payout_transaction_psbt_hex := Some x, to_processing := to_processing r1\<rparr>"
  let ?r2 = "add_partial_sig h sig r1"
  let ?r3 = "add_partial_sig h' sig' ?r2"
  have party: "party h r1" "party h' ?r2"
    by (subst r1(2), use assms(8) in \<open>simp add: party_def\<close>)
      (subst r1(2), use assms(10) in \<open>auto simp: party_def add_partial_sig_def\<close>)
  have id: "to_offer_id ?r2 = ?i" "to_offer_id ?r3 = ?i"
    using trades.look_key [OF s1(3)] by (simp_all add: add_partial_sig_def)
  have "s2 = set_trade ?i ?r2 s1"
    using run_insert_partial_sig [OF s1(1,2) assms(7) s1(3) party(1), of sig] assms(11) by (auto split: if_splits)
  then have s2: "sql_faults s2 = []" "keys_distinct s2" "find_taken ?i s2 = Some ?r2"
    using s1(1) keys_set_trade [OF s1(2) id(1)] find_set_trade [OF s1(3) id(1), of ?i] by simp_all
  have "s3 = set_trade ?i ?r3 s2"
    using run_insert_partial_sig [OF s2(1,2) assms(9) s2(3) party(2), of sig'] assms(12) by (auto split: if_splits)
  then have s3: "sql_faults s3 = []" "find_taken ?i s3 = Some ?r3"
    using s2(1) find_set_trade [OF s2(3) id(2), of ?i] by simp_all
  have "sqlite_nulls E'" using assms(4,13) by (simp add: sqlite_nulls_def)
  from run_fetch_keyspend [OF s3(1) this s3(2)] assms(14) obtain m t where "keyspend_of E' ?r3 m t = Ok ctx"
    by (auto split: option.splits dest!: sym [of "Ok (Some ctx)"] elim!: map_res.elims)
  moreover have "keyspend_of E' ?r3 m t = keyspend_of E r1 m t"
    by (simp add: keyspend_of_def add_partial_sig_def assms(13) keyspend_context_from_hex_str_def
        get_keyspend_tweak_scalar_def aggregate_musig_pubkeys_with_tweak_def agg_hex_musig_nonces_def)
  ultimately have "keyspend_of E r1 m t = Ok ctx" by simp
  moreover obtain a b where "payout_of E r1 a b = Ok d" using d(1) by (auto simp: payout_of_row_def split: if_splits)
  ultimately show ?thesis
    using r1(1) d(2)
    by (auto simp: payout_of_def payout_data_new_from_strings_def keyspend_of_def payout_response_def
        keyspend_context_from_hex_str_def bind_res_eq_Ok ok_or_def split: option.splits)
qed

lemma payout_data_agrees_with_keyspend_witness:
  "\<exists>resp (ctx :: KeyspendContext). fst (run (handle_final_payout env0 (sample_poll ''m'')) (later both_happy_events)) = Ok (ReadyPSBT resp) \<and>
     pr_agg_musig_nonce_hex resp = agg_nonce_string env0 (kc_agg_nonce ctx) \<and>
     hex_decode env0 (pr_payout_psbt_hex resp) = Some (kc_keyspend_psbt ctx)"
proof -
  let ?s = "later both_happy_events" and ?p = "sample_poll ''m''"
  have i: "otr_offer_id_hex ?p = sample_id" by (simp add: sample_poll_def)
  have c: "sql_faults ?s = [] \<and> (case run (handle_final_payout env0 ?p) ?s of
      (Ok (ReadyPSBT resp), s1) \<Rightarrow>
        (case run (insert_partial_sig env0 ''m'' sample_id ''m'') s1 of
           (Ok _, s2) \<Rightarrow>
             (case run (insert_partial_sig env0 ''t'' sample_id ''t'') s2 of
                (Ok _, s3) \<Rightarrow>
                  (case run (fetch_keyspend_payout_information
                       (env0\<lparr>build_tx := \<lambda>plan. Ok ([2], ''u''), escrow_unspent := \<lambda>d. Ok [], estimate_fee_vb := \<lambda>n. None\<rparr>) sample_id) s3 of
                     (Ok (Some ctx), s4) \<Rightarrow> True | _ \<Rightarrow> False)
              | _ \<Rightarrow> False)
         | _ \<Rightarrow> False)
    | _ \<Rightarrow> False) \<and>
    map_option (\<lambda>r. party [109] r \<and> party [116] r) (find_taken sample_id ?s) = Some True"
    by code_simp
  then obtain resp s1 s2 s3 ctx s4 where run: "run (handle_final_payout env0 ?p) ?s = (Ok (ReadyPSBT resp), s1)"
      "run (insert_partial_sig env0 ''m'' (otr_offer_id_hex ?p) ''m'') s1 = (Ok (), s2)"
      "run (insert_partial_sig env0 ''t'' (otr_offer_id_hex ?p) ''t'') s2 = (Ok (), s3)"
      "run (fetch_keyspend_payout_information
         (env0\<lparr>build_tx := \<lambda>plan. Ok ([2], ''u''), escrow_unspent := \<lambda>d. Ok [], estimate_fee_vb := \<lambda>n. None\<rparr>)
         (otr_offer_id_hex ?p)) s3 = (Ok (Some ctx), s4)"
    unfolding i by (auto split: prod.splits res.splits option.splits PayoutProcessingResult.splits)
  obtain r where r: "find_taken (otr_offer_id_hex ?p) ?s = Some r" "party [109] r" "party [116] r" using c i by auto
  have "psbt_deserialize env0 = Ok" by (simp add: env0_def)
  moreover have "sql_faults ?s = []" using c by (rule conjunct1)
  note payout_data_agrees_with_keyspend [OF this later_keys later_flags env0_laws(1) r(1) run(1) hex_sample(1) r(2)
        hex_sample(2) r(3) run(2,3) refl run(4)]
  ultimately show ?thesis using run(1) by (intro exI [of _ resp] exI [of _ ctx]) auto
qed

text \<open>
  C26: A failed assembly of the payout transaction does not block the trade: the failing poll is
  answered with 500 and leaves the processing flag set, the next poll, whoever asks, is
  answered with 202 and releases the flag, and the database is then what it was before the failure.
\<close>

theorem failed_assembly_released:
  assumes "sql_faults s = []" and "keys_distinct s" and "sqlite_nulls E" and "sqlite_nulls E'"
    and "find_taken (otr_offer_id_hex p) s = Some r" and "flags_ok s" and "to_processing r = 0"
    and "run (handle_final_payout E p) s = (Err (CoordinatorError e), s')"
    and "otr_offer_id_hex p' = otr_offer_id_hex p" and "is_ok (payout_of_row E' r)"
  shows "respond E (PollFinalPayout p) s = (Some (code 500), s') \<and>
    map_option to_processing (find_taken (otr_offer_id_hex p) s') = Some 1 \<and>
    respond E' (PollFinalPayout p') s' = (Some (code 202), s)"
proof -
  let ?i = "otr_offer_id_hex p"
  let ?r = "r\<lparr>to_processing := 1\<rparr>"
  have flags: "trade_flags r" using assms(6,5) by (rule taken_trade_flags)
  have happy: "both_happy (happiness_of r)"
    using assms(1,5,8) by (rule settled_happy) simp
  have s': "s' = set_trade ?i ?r s" "to_payout_transaction_psbt_hex r = None"
    using run_payout_happy [OF assms(1-3,5) flags happy] assms(7,8)
    by (auto split: res.splits option.splits if_splits)
  have key: "to_offer_id ?r = ?i" using trades.look_key [OF assms(5)] by simp
  have restored: "set_trade ?i r s = s"
  proof -
    have "tbl_update to_offer_id ?i (\<lambda>_. r) (taken_offers s) = taken_offers s"
      using assms(5) find_taken_member [OF assms(2)] by (force simp: tbl_update_def intro!: map_idI)
    then show ?thesis by (simp add: set_trade_def)
  qed
  have "payout_of_row E' ?r = payout_of_row E' r" by (simp add: payout_of_row_def payout_of_def)
  then obtain d where d: "payout_of_row E' ?r = Ok d"
    using assms(10) by (auto elim: is_ok.elims)
  have r: "trade_flags ?r" "both_happy (happiness_of ?r)" "?r\<lparr>to_processing := 0\<rparr> = r"
    using flags happy assms(7) by (simp_all add: trade_flags_def happiness_of_def)
  have healthy: "sql_faults s' = []" "keys_distinct s'" "find_taken (otr_offer_id_hex p') s' = Some ?r"
    using s'(1) assms(1,9) keys_set_trade [OF assms(2) key] find_set_trade [OF assms(5) key, of ?i] by simp_all
  have "run (handle_final_payout E' p') s' = (Ok NotReady, s)"
    using run_payout_happy [OF healthy(1,2) assms(4) healthy(3) r(1,2)] d r(3) s' assms(9) restored
    by (simp add: set_trade_twice key)
  then show ?thesis
    using assms(8) healthy(3) assms(9)
    by (simp add: respond_def poll_final_payout_def run_simps payout_result_response_def request_error_response_def)
qed

text \<open>An environment in which the escrow output is not found.\<close>

definition unsynced_env :: env where
  "unsynced_env = env0\<lparr>escrow_unspent := \<lambda>d. Ok []\<rparr>"

lemma unsynced_laws: "sqlite_nulls unsynced_env"
  using env0_laws(1) by (simp add: unsynced_env_def sqlite_nulls_def)

lemma failed_assembly_released_witness:
  "\<exists>s'. respond unsynced_env (PollFinalPayout (sample_poll ''m'')) (later both_happy_events) = (Some (code 500), s') \<and>
     respond env0 (PollFinalPayout (sample_poll ''t'')) s' = (Some (code 202), later both_happy_events)"
proof -
  let ?s = "later both_happy_events" and ?p = "sample_poll ''m''"
  have c: "sql_faults ?s = [] \<and>
      map_option (\<lambda>r. to_processing r = 0 \<and> is_ok (payout_of_row env0 r)) (find_taken (otr_offer_id_hex ?p) ?s) = Some True \<and>
      fst (run (handle_final_payout unsynced_env ?p) ?s) = Err (CoordinatorError (Anyhow ''Expected exactly one utxo''))"
    by code_simp
  then obtain r s' where r: "find_taken (otr_offer_id_hex ?p) ?s = Some r" "to_processing r = 0"
      "is_ok (payout_of_row env0 r)"
      "run (handle_final_payout unsynced_env ?p) ?s = (Err (CoordinatorError (Anyhow ''Expected exactly one utxo'')), s')"
    by (cases "run (handle_final_payout unsynced_env ?p) ?s") auto
  have "otr_offer_id_hex (sample_poll ''t'') = otr_offer_id_hex ?p" by (simp add: sample_poll_def)
  then show ?thesis
    using failed_assembly_released [OF _ later_keys unsynced_laws env0_laws(1) r(1) later_flags r(2,4) _ r(3)] c by auto
qed

end
