(* ===== verification/Bonds_Spec.thy ===== *)
theory Bonds_Spec
  imports Escrow_Spec
begin

text \<open>
  What the coordinator promises about bonds: that a batch is submitted to the node completely
  and in pieces of at most 25, and when one bond is accepted.
\<close>

section \<open>Batches\<close>

lemma chunks_Nil [simp]: "chunks n [] = []"
  by (simp add: chunks.simps)

lemma chunks_step: "0 < n \<Longrightarrow> xs \<noteq> [] \<Longrightarrow> chunks n xs = take n xs # chunks n (drop n xs)"
  by (simp add: chunks.simps [of n xs])

lemma concat_chunks: "0 < n \<Longrightarrow> concat (chunks n xs) = xs"
proof (induction n xs rule: chunks.induct)
  case (1 n xs)
  then show ?case by (cases "xs = []") (simp_all add: chunks_step)
qed

lemma chunks_sizes: "c \<in> set (chunks n xs) \<Longrightarrow> c \<noteq> [] \<and> length c \<le> n"
proof (induction n xs rule: chunks.induct)
  case (1 n xs)
  show ?case
  proof (cases "n = 0 \<or> xs = []")
    case True
    then show ?thesis using "1.prems" by (simp add: chunks.simps [of n xs])
  next
    case False
    then have "c = take n xs \<or> c \<in> set (chunks n (drop n xs))"
      using "1.prems" by (simp add: chunks_step)
    then show ?thesis using "1.IH" False by auto
  qed
qed

lemma length_chunks: "0 < n \<Longrightarrow> length (chunks n xs) = (length xs + n - 1) div n"
proof (induction n xs rule: chunks.induct)
  case (1 n xs)
  show ?case
  proof (cases "xs = []")
    case True
    then show ?thesis using "1.prems" by simp
  next
    case False
    then have "length (chunks n xs) = Suc ((length xs - n + n - 1) div n)"
      using 1 by (simp add: chunks_step)
    also have "\<dots> = (length xs + n - 1) div n"
    proof (cases "length xs \<le> n")
      case True
      then have "(length xs + n - 1) div n = 1"
        using False "1.prems" Suc_leI [of 0 "length xs"] by (intro div_nat_eqI) auto
      then show ?thesis using True "1.prems" by simp
    next
      case False
      then have "length xs + n - 1 = (length xs - n + n - 1) + n" by simp
      moreover have "(a + n) div n = Suc (a div n)" for a
        using div_add_self2 [of n a] "1.prems" by linarith
      ultimately show ?thesis by metis
    qed
    finally show ?thesis .
  qed
qed

lemma mempool_accept_results_concat:
  assumes "mempool_accept_results E cs = Ok rs"
  shows "\<exists>rss. list_all2 (\<lambda>c r. rpc_test_mempool_accept E c = Ok r) cs rss \<and> rs = concat rss"
  using assms
proof (induction cs arbitrary: rs)
  case Nil
  then show ?case by simp
next
  case (Cons c cs)
  then obtain r rs' where r: "rpc_test_mempool_accept E c = Ok r" "mempool_accept_results E cs = Ok rs'" "rs = r @ rs'"
    by (auto simp: bind_res_eq_Ok elim!: map_res.elims)
  then obtain rss where "list_all2 (\<lambda>c r. rpc_test_mempool_accept E c = Ok r) cs rss" "rs' = concat rss"
    using Cons.IH by blast
  then show ?case using r by (intro exI [of _ "r # rss"]) simp
qed

text \<open>
  The bonds are tested against the node in full: the batches sent to testmempoolaccept
  are the bonds' transactions in order, none left out and none twice, in the least number of
  batches of at most 25, none of them empty, and the results are read in the same order.
\<close>

lemma mempool_test_batches:
  assumes "batches = chunks 25 (map mb_bond_tx_hex bonds)"
  shows "concat batches = map mb_bond_tx_hex bonds \<and>
    (\<forall>b \<in> set batches. b \<noteq> [] \<and> length b \<le> 25) \<and>
    length batches = (length bonds + 24) div 25 \<and>
    (\<forall>rs. mempool_accept_results E batches = Ok rs \<longrightarrow>
      (\<exists>rss. list_all2 (\<lambda>c r. rpc_test_mempool_accept E c = Ok r) batches rss \<and> rs = concat rss))"
  using assms concat_chunks [of 25 "map mb_bond_tx_hex bonds"] chunks_sizes [of _ 25 "map mb_bond_tx_hex bonds"]
    length_chunks [of 25 "map mb_bond_tx_hex bonds"] mempool_accept_results_concat
  by auto

definition sample_bonds :: "MonitoringBond list" where
  "sample_bonds = replicate 26 (submitted_bond ''m'' \<lparr> br_bond_address = ''b'', br_locking_amount_sat = 2000,
     br_min_input_sum_sat = 20000 \<rparr>)"

lemma mempool_test_batches_witness:
  "length (chunks 25 (map mb_bond_tx_hex sample_bonds)) = 2"
  using mempool_test_batches [OF refl, of sample_bonds] by (simp add: sample_bonds_def)

section \<open>The verdict on one bond\<close>

text \<open>The verdict in terms of the amounts as the code computes them.\<close>

definition amounts_ok :: "env \<Rightarrow> MonitoringBond \<Rightarrow> Transaction \<Rightarrow> u64 \<Rightarrow> u64 \<Rightarrow> u64 \<Rightarrow> bool" where
  "amounts_ok E bond tx in_sum bond_out out_sum \<longleftrightarrow>
     bond_transaction E bond = Ok tx \<and> is_ok (verify_tx E tx) \<and>
     input_sum E tx = Ok in_sum \<and> br_min_input_sum_sat (mb_requirements bond) \<le> in_sum \<and>
     bond_output_sum E tx (br_bond_address (mb_requirements bond)) = Ok bond_out \<and>
     br_locking_amount_sat (mb_requirements bond) \<le> bond_out \<and>
     all_output_sum E tx = Ok out_sum \<and> tx_vsize E tx \<noteq> 0 \<and>
     out_sum \<le> in_sum \<and> 200 * unat (tx_vsize E tx) \<le> unat in_sum - unat out_sum"

lemma fee_rate_bound:
  assumes "v \<noteq> 0"
  shows "(200::u64) \<le> fee div v \<longleftrightarrow> 200 * unat v \<le> unat fee"
proof -
  have "0 < unat v" using assms by (simp add: unat_gt_0)
  then show ?thesis
    by (simp add: word_le_nat_alt unat_div less_eq_div_iff_mult_less_eq)
qed

lemma verdict_amounts:
  assumes "overflow_checks E"
  shows "bond_verdict E bond = Ok None \<longleftrightarrow>
    (\<exists>tx in_sum bond_out out_sum. amounts_ok E bond tx in_sum bond_out out_sum)"
proof
  assume v: "bond_verdict E bond = Ok None"
  then obtain tx where tx: "bond_transaction E bond = Ok tx" by (auto simp: bond_verdict_def bind_res_eq_Ok)
  then have ok: "is_ok (verify_tx E tx)" using v by (auto simp: bond_verdict_def split: res.splits)
  then obtain in_sum bond_out rate where s:
    "input_sum E tx = Ok in_sum" "\<not> in_sum < br_min_input_sum_sat (mb_requirements bond)"
    "bond_output_sum E tx (br_bond_address (mb_requirements bond)) = Ok bond_out"
    "\<not> bond_out < br_locking_amount_sat (mb_requirements bond)"
    "bond_fee_rate E tx in_sum = Ok rate" "\<not> rate < 200"
    using v tx by (auto simp: bond_verdict_def bind_res_eq_Ok split: res.splits if_splits)
  then obtain out_sum where o: "all_output_sum E tx = Ok out_sum" "unat out_sum \<le> unat in_sum"
    "tx_vsize E tx \<noteq> 0" "rate = (in_sum - out_sum) div tx_vsize E tx"
    using assms by (auto simp: bond_fee_rate_def bind_res_eq_Ok sub_u64_checked split: if_splits)
  then have "200 * unat (tx_vsize E tx) \<le> unat in_sum - unat out_sum"
    using s(6) fee_rate_bound [OF o(3), of "in_sum - out_sum"] by (simp add: unat_sub_u64 not_less)
  then show "\<exists>tx in_sum bond_out out_sum. amounts_ok E bond tx in_sum bond_out out_sum"
    using tx ok s o by (auto simp: amounts_ok_def not_less word_le_nat_alt)
next
  assume "\<exists>tx in_sum bond_out out_sum. amounts_ok E bond tx in_sum bond_out out_sum"
  then obtain tx in_sum bond_out out_sum where g: "amounts_ok E bond tx in_sum bond_out out_sum" by blast
  then have le: "unat out_sum \<le> unat in_sum" by (simp add: amounts_ok_def word_le_nat_alt)
  then have "200 \<le> (in_sum - out_sum) div tx_vsize E tx"
    using g fee_rate_bound [of "tx_vsize E tx" "in_sum - out_sum"] by (simp add: amounts_ok_def unat_sub_u64)
  moreover have "bond_fee_rate E tx in_sum = Ok ((in_sum - out_sum) div tx_vsize E tx)"
    using g le by (simp add: amounts_ok_def bond_fee_rate_def sub_u64_Ok)
  ultimately show "bond_verdict E bond = Ok None"
    using g by (auto simp: amounts_ok_def bond_verdict_def not_less elim!: is_ok.elims)
qed

text \<open>The three sums, read off the transactions: each input carries the output it spends.\<close>

definition spent_value :: "env \<Rightarrow> OutPoint \<Rightarrow> u64 \<Rightarrow> bool" where
  "spent_value E i v \<longleftrightarrow>
     (\<exists>prev. (wallet_raw_tx E (op_txid i) = Ok (Some prev) \<or>
          wallet_raw_tx E (op_txid i) = Ok None \<and> chain_tx E (op_txid i) = Ok (Some prev)) \<and>
        op_vout i < length (tx_output prev) \<and> v = txo_value (tx_output prev ! op_vout i))"

abbreviation total :: "u64 list \<Rightarrow> nat" where
  "total amounts \<equiv> sum_list (map unat amounts)"

lemma sum_from_u64_iff:
  "sum_from_u64 True acc xs = (Ok s :: (u64, 'e) res) \<longleftrightarrow> unat s = unat acc + total xs"
proof
  assume s: "unat s = unat acc + total xs"
  have "unat s < 2 ^ 64" using unsigned_less [of s, where ?'a = nat] by simp
  then obtain s' where "sum_from_u64 True acc xs = (Ok s' :: (u64, 'e) res)" "unat s' = unat acc + total xs"
    using sum_from_u64_no_overflow [of acc xs True] s by auto
  then show "sum_from_u64 True acc xs = (Ok s :: (u64, 'e) res)" using s by (simp add: word_unat_eq_iff)
qed (rule sum_from_u64_checked)

lemma previous_tx:
  "bind_res (wallet_raw_tx E i) (\<lambda>in_db. case in_db of Some prev \<Rightarrow> Ok prev
     | None \<Rightarrow> bind_res (chain_tx E i) (\<lambda>on_chain. ok_or e on_chain)) = Ok prev \<longleftrightarrow>
   wallet_raw_tx E i = Ok (Some prev) \<or> wallet_raw_tx E i = Ok None \<and> chain_tx E i = Ok (Some prev)"
  by (auto simp: bind_res_eq_Ok ok_or_def split: option.splits)

lemma input_value_step:
  assumes "overflow_checks E"
  shows "input_sum_from E acc (i # ops) = Ok s \<longleftrightarrow>
    (\<exists>v. spent_value E i v \<and> unat acc + unat v < 2 ^ 64 \<and> input_sum_from E (acc + v) ops = Ok s)"
  using assms
  unfolding input_sum_from.simps bind_res_assoc [of "wallet_raw_tx E (op_txid i)", symmetric] bind_res_eq_Ok [of "bind_res _ _"] previous_tx
    spent_value_def
  by (auto simp: bind_res_eq_Ok add_u64_checked split: if_splits)

lemma input_sum_from_iff:
  assumes "overflow_checks E"
  shows "input_sum_from E acc ops = Ok s \<longleftrightarrow>
    (\<exists>vs. list_all2 (spent_value E) ops vs \<and> unat s = unat acc + total vs)"
proof (induction ops arbitrary: acc)
  case Nil
  then show ?case by (auto simp: word_unat_eq_iff)
next
  case (Cons i ops)
  have bound: "unat s < 2 ^ 64" using unsigned_less [of s, where ?'a = nat] by simp
  have step: "unat acc + unat v < 2 ^ 64 \<and> unat s = unat (acc + v) + total vs \<longleftrightarrow> unat s = unat acc + (unat v + total vs)" for v vs
    using bound by (auto simp: unat_add_u64)
  have "input_sum_from E acc (i # ops) = Ok s \<longleftrightarrow>
      (\<exists>v vs. spent_value E i v \<and> unat acc + unat v < 2 ^ 64 \<and> list_all2 (spent_value E) ops vs \<and>
         unat s = unat (acc + v) + total vs)"
    unfolding input_value_step [OF assms] Cons.IH by blast
  also have "\<dots> \<longleftrightarrow> (\<exists>v vs. spent_value E i v \<and> list_all2 (spent_value E) ops vs \<and> unat s = unat acc + (unat v + total vs))"
    using step by blast
  also have "\<dots> \<longleftrightarrow> (\<exists>vs. list_all2 (spent_value E) (i # ops) vs \<and> unat s = unat acc + total vs)"
    unfolding list_all2_Cons1 by force
  finally show ?case .
qed

lemma find_split:
  "find P xs = Some y \<longleftrightarrow> (\<exists>before after. xs = before @ y # after \<and> (\<forall>x \<in> set before. \<not> P x) \<and> P y)"
proof (induction xs)
  case (Cons x xs)
  show ?case
  proof (cases "P x")
    case True
    then show ?thesis by (auto simp: Cons_eq_append_conv)
  next
    case False
    have "(\<exists>before after. x # xs = before @ y # after \<and> (\<forall>x \<in> set before. \<not> P x) \<and> P y) \<longleftrightarrow>
        (\<exists>before after. xs = before @ y # after \<and> (\<forall>x \<in> set before. \<not> P x) \<and> P y)" (is "?l \<longleftrightarrow> ?r")
    proof
      assume ?r
      then obtain before after where "x # xs = (x # before) @ y # after" "\<forall>z \<in> set (x # before). \<not> P z" "P y"
        using False by auto
      then show ?l by blast
    qed (use False in \<open>auto simp: Cons_eq_append_conv\<close>)
    then show ?thesis using False Cons by simp
  qed
qed simp

lemma bond_output_iff:
  "bond_output_sum E tx a = Ok v \<longleftrightarrow>
     (\<exists>script before out after. regtest_script E a = Ok script \<and> tx_output tx = before @ out # after \<and>
        script \<notin> txo_script_pubkey ` set before \<and> txo_script_pubkey out = script \<and> v = txo_value out)"
proof -
  have found: "(case find P xs of Some out \<Rightarrow> Ok (txo_value out) | None \<Rightarrow> Err e) = Ok v \<longleftrightarrow>
      (\<exists>out. find P xs = Some out \<and> v = txo_value out)" for P xs and e :: anyhow
    by (auto split: option.splits)
  have apart: "script \<notin> txo_script_pubkey ` set before \<longleftrightarrow> (\<forall>out \<in> set before. \<not> txo_script_pubkey out = script)" for script before
    by auto
  show ?thesis unfolding bond_output_sum_def bind_res_eq_Ok found find_split apart by blast
qed

text \<open>
  A good bond: it parses and verifies, the outputs it spends carry the required amount, the first
  output to the bond address carries the locking amount, and what is not paid out is a fee of at
  least 200 sat per virtual byte.
\<close>

definition good_bond :: "env \<Rightarrow> MonitoringBond \<Rightarrow> bool" where
  "good_bond E bond \<longleftrightarrow>
     (\<exists>raw tx amounts script before out after.
        hex_decode E (mb_bond_tx_hex bond) = Some raw \<and> tx_deserialize E raw = Ok tx \<and> is_ok (verify_tx E tx) \<and>
        list_all2 (spent_value E) (tx_input tx) amounts \<and> 0 < total amounts \<and> total amounts < 2 ^ 64 \<and>
        unat (br_min_input_sum_sat (mb_requirements bond)) \<le> total amounts \<and>
        regtest_script E (br_bond_address (mb_requirements bond)) = Ok script \<and>
        tx_output tx = before @ out # after \<and> script \<notin> txo_script_pubkey ` set before \<and>
        txo_script_pubkey out = script \<and> br_locking_amount_sat (mb_requirements bond) \<le> txo_value out \<and>
        tx_vsize E tx \<noteq> 0 \<and>
        total (map txo_value (tx_output tx)) + 200 * unat (tx_vsize E tx) \<le> total amounts)"

lemma u64_of_nat: "n < 2 ^ 64 \<Longrightarrow> \<exists>w :: u64. unat w = n"
  by (rule exI [of _ "of_nat n"]) (simp add: unat_of_nat)

lemma amounts_ok_iff:
  assumes "overflow_checks E"
  shows "(\<exists>tx in_sum bond_out out_sum. amounts_ok E bond tx in_sum bond_out out_sum) \<longleftrightarrow> good_bond E bond"
proof
  assume "\<exists>tx in_sum bond_out out_sum. amounts_ok E bond tx in_sum bond_out out_sum"
  then obtain tx in_sum bond_out out_sum where a: "amounts_ok E bond tx in_sum bond_out out_sum" by blast
  obtain raw where raw: "hex_decode E (mb_bond_tx_hex bond) = Some raw" "tx_deserialize E raw = Ok tx"
    using a by (cases "hex_decode E (mb_bond_tx_hex bond)") (auto simp: amounts_ok_def bond_transaction_def)
  obtain amounts where v: "list_all2 (spent_value E) (tx_input tx) amounts" "unat in_sum = total amounts" "in_sum \<noteq> 0"
    using a input_sum_from_iff [OF assms, of 0] by (auto simp: amounts_ok_def input_sum_def bind_res_eq_Ok split: if_splits)
  have out: "unat out_sum = total (map txo_value (tx_output tx))"
    using a assms by (simp add: amounts_ok_def all_output_sum_def sum_from_u64_iff)
  obtain script before out after where o: "regtest_script E (br_bond_address (mb_requirements bond)) = Ok script"
      "tx_output tx = before @ out # after" "script \<notin> txo_script_pubkey ` set before" "txo_script_pubkey out = script"
      "bond_out = txo_value out"
    using a bond_output_iff [of E tx "br_bond_address (mb_requirements bond)" bond_out] by (auto simp: amounts_ok_def)
  have "0 < total amounts" "total amounts < 2 ^ 64"
    using v(2,3) unsigned_less [of in_sum, where ?'a = nat] by (simp_all add: unat_gt_0 flip: v(2))
  then show "good_bond E bond"
    unfolding good_bond_def using a raw v o out
    by (intro exI [of _ raw] exI [of _ tx] exI [of _ amounts] exI [of _ script] exI [of _ before] exI [of _ out] exI [of _ after])
      (auto simp: amounts_ok_def word_le_nat_alt)
next
  assume "good_bond E bond"
  then obtain raw tx amounts script before out after where g:
      "hex_decode E (mb_bond_tx_hex bond) = Some raw" "tx_deserialize E raw = Ok tx" "is_ok (verify_tx E tx)"
      "list_all2 (spent_value E) (tx_input tx) amounts" "0 < total amounts" "total amounts < 2 ^ 64"
      "unat (br_min_input_sum_sat (mb_requirements bond)) \<le> total amounts"
      "regtest_script E (br_bond_address (mb_requirements bond)) = Ok script"
      "tx_output tx = before @ out # after" "script \<notin> txo_script_pubkey ` set before"
      "txo_script_pubkey out = script" "br_locking_amount_sat (mb_requirements bond) \<le> txo_value out"
      "tx_vsize E tx \<noteq> 0" "total (map txo_value (tx_output tx)) + 200 * unat (tx_vsize E tx) \<le> total amounts"
    unfolding good_bond_def by (elim exE conjE)
  obtain in_sum :: u64 where i: "unat in_sum = total amounts" using u64_of_nat [OF g(6)] by blast
  have "total (map txo_value (tx_output tx)) < 2 ^ 64" using g(6,14) by linarith
  then obtain out_sum :: u64 where os: "unat out_sum = total (map txo_value (tx_output tx))" using u64_of_nat by blast
  have "input_sum_from E 0 (tx_input tx) = Ok in_sum"
    using g(4) i by (auto simp: input_sum_from_iff [OF assms])
  moreover have "in_sum \<noteq> 0" using i g(5) by (metis less_irrefl unat_0)
  ultimately have "input_sum E tx = Ok in_sum" by (simp add: input_sum_def)
  moreover have "all_output_sum E tx = Ok out_sum"
    using os assms by (simp add: all_output_sum_def sum_from_u64_iff)
  moreover have "bond_output_sum E tx (br_bond_address (mb_requirements bond)) = Ok (txo_value out)"
    unfolding bond_output_iff using g(8-11) by blast
  moreover have "bond_transaction E bond = Ok tx" using g(1,2) by (simp add: bond_transaction_def)
  ultimately have "amounts_ok E bond tx in_sum (txo_value out) out_sum"
    using g(3,7,12,13,14) i os by (simp add: amounts_ok_def word_le_nat_alt)
  then show "\<exists>tx in_sum bond_out out_sum. amounts_ok E bond tx in_sum bond_out out_sum" by blast
qed

text \<open>
  C35: With overflow checks on, a bond passes the validation without an objection exactly if it is a
  good bond: its transaction parses and verifies, the outputs it spends carry together at least the
  required amount, the first output to the bond address (not the sum of these outputs) carries at
  least the locking amount, and it pays at least 200 sat per virtual byte.
\<close>

theorem bond_accepted_iff:
  assumes "overflow_checks E"
  shows "bond_verdict E bond = Ok None \<longleftrightarrow> good_bond E bond"
  unfolding verdict_amounts [OF assms] amounts_ok_iff [OF assms] ..

lemma bond_accepted_iff_witness:
  "good_bond env0 (hd sample_bonds)"
proof -
  have "bond_verdict env0 (hd sample_bonds) = Ok None" by code_simp
  moreover have "overflow_checks env0" by (simp add: env0_def)
  ultimately show ?thesis using bond_accepted_iff by blast
qed

end
