(* ===== verification/Trader.thy ===== *)
theory Trader
  imports Http
begin

text \<open>
  The trader program (\<open>taptrade-cli-demo/trader\<close>): its functions as state-passing functions
  over the lines on its standard input, the random generator, the wallet's address index and
  the world at the other end of its connections; and the library calls it makes as parameters.
\<close>

section \<open>Flows\<close>

text \<open>
  \<open>rng_calls\<close> counts the seeds drawn, \<open>wallet_next\<close> is the next address index of the wallet,
  \<open>net\<close> the world outside (the coordinator it talks to, and the chain).
\<close>

record 'n trader =
  stdin :: "string list"
  rng_calls :: nat
  wallet_next :: nat
  net :: 'n

text \<open>
  A function of the program: \<open>None\<close> when it does not return (a polling loop that never ends, a
  prompt that is never answered), otherwise its \<open>Result\<close> or a panic, and the state it leaves.
\<close>

type_synonym ('n, 'a) flow = "'n trader \<Rightarrow> (('a, anyhow) res \<times> 'n trader) option"

definition fret :: "'a \<Rightarrow> ('n, 'a) flow" where
  "fret a = (\<lambda>s. Some (Ok a, s))"

definition flift :: "('a, anyhow) res \<Rightarrow> ('n, 'a) flow" where
  "flift r = (\<lambda>s. Some (r, s))"

definition fbind :: "('n, 'a) flow \<Rightarrow> ('a \<Rightarrow> ('n, 'b) flow) \<Rightarrow> ('n, 'b) flow" where
  "fbind m f = (\<lambda>s. case m s of
       None \<Rightarrow> None
     | Some (Ok a, s') \<Rightarrow> f a s'
     | Some (Err e, s') \<Rightarrow> Some (Err e, s')
     | Some (Panic, s') \<Rightarrow> Some (Panic, s'))"

text \<open>\<open>unwrap\<close> and \<open>expect\<close> turn an error into a panic.\<close>

fun unwrap_res :: "('a, 'e) res \<Rightarrow> ('a, 'f) res" where
  "unwrap_res (Ok a) = Ok a"
| "unwrap_res (Err e) = Panic"
| "unwrap_res Panic = Panic"

named_theorems flow_simps \<open>what a flow does from a state\<close>

lemma fret_simps [flow_simps]: "fret a s = Some (Ok a, s)"
  by (simp add: fret_def)

lemma flift_simps [flow_simps]: "flift r s = Some (r, s)"
  by (simp add: flift_def)

lemma fbind_simps [flow_simps]:
  "m s = None \<Longrightarrow> fbind m f s = None"
  "m s = Some (Ok a, s') \<Longrightarrow> fbind m f s = f a s'"
  "m s = Some (Err e, s') \<Longrightarrow> fbind m f s = Some (Err e, s')"
  "m s = Some (Panic, s') \<Longrightarrow> fbind m f s = Some (Panic, s')"
  by (simp_all add: fbind_def)

lemma fbind_Ok: "fbind m f s = Some (Ok b, s'') \<longleftrightarrow>
    (\<exists>a s'. m s = Some (Ok a, s') \<and> f a s' = Some (Ok b, s''))"
  by (auto simp: fbind_def split: option.splits res.splits)

text \<open>
  \<open>loop { .. }\<close>: the turn either goes on (\<open>None\<close>) or leaves the loop with a result. The loop has
  no value when it never ends.
\<close>

partial_function (option) forever ::
  "('n trader \<Rightarrow> (('a, anyhow) res option \<times> 'n trader) option) \<Rightarrow> 'n trader \<Rightarrow> (('a, anyhow) res \<times> 'n trader) option"
where
  "forever turn s =
     (case turn s of
        None \<Rightarrow> None
      | Some (Some r, s') \<Rightarrow> Some (r, s')
      | Some (None, s') \<Rightarrow> forever turn s')"

text \<open>The turn of a loop that calls \<open>m\<close> with \<open>?\<close> and then decides.\<close>

definition try_step ::
  "('n, 'b) flow \<Rightarrow> ('b \<Rightarrow> ('a, anyhow) res option) \<Rightarrow> 'n trader \<Rightarrow> (('a, anyhow) res option \<times> 'n trader) option"
where
  "try_step m decide s =
     (case m s of
        None \<Rightarrow> None
      | Some (Ok b, s') \<Rightarrow> Some (decide b, s')
      | Some (Err e, s') \<Rightarrow> Some (Some (Err e), s')
      | Some (Panic, s') \<Rightarrow> Some (Some Panic, s'))"

lemma forever_simps [flow_simps]:
  "turn s = None \<Longrightarrow> forever turn s = None"
  "turn s = Some (Some r, s') \<Longrightarrow> forever turn s = Some (r, s')"
  "turn s = Some (None, s') \<Longrightarrow> forever turn s = forever turn s'"
  by (simp_all add: forever.simps)

text \<open>A loop whose every turn goes on, in the states that satisfy an invariant, does not end.\<close>

lemma forever_diverges:
  assumes inv: "I s"
    and step: "\<And>s. I s \<Longrightarrow> \<exists>s'. turn s = Some (None, s') \<and> I s'"
  shows "forever turn s = None"
proof (rule ccontr)
  assume "forever turn s \<noteq> None"
  then obtain r where ret: "forever turn s = Some r" by blast
  have "turn = turn \<longrightarrow> \<not> I s"
  proof (rule forever.raw_induct [where P = "\<lambda>b s r. b = turn \<longrightarrow> \<not> I s", OF _ ret])
    fix f :: "('a trader \<Rightarrow> (('b, anyhow) res option \<times> 'a trader) option) \<Rightarrow> 'a trader \<Rightarrow> (('b, anyhow) res \<times> 'a trader) option"
    fix b s r
    assume IH: "\<And>b s r. f b s = Some r \<Longrightarrow> b = turn \<longrightarrow> \<not> I s"
      and eq: "(case b s of None \<Rightarrow> None | Some (Some r, s') \<Rightarrow> Some (r, s') | Some (None, s') \<Rightarrow> f b s') = Some r"
    show "b = turn \<longrightarrow> \<not> I s" using step [of s] IH eq by fastforce
  qed
  then show False using inv by simp
qed

text \<open>A loop that goes on through the states \<open>at 0\<close>, \<open>at 1\<close>, \<open>\<dots>\<close> and leaves in round \<open>k\<close>.\<close>

lemma forever_returns:
  assumes "\<And>j. j < k \<Longrightarrow> turn (st j) = Some (None, st (Suc j))" and "turn (st k) = Some (Some r, s')"
  shows "forever turn (st 0) = Some (r, s')"
proof -
  have "forever turn (st (k - d)) = Some (r, s')" if "d \<le> k" for d
    using that
  proof (induction d)
    case 0
    then show ?case using assms(2) by (simp add: forever_simps)
  next
    case (Suc d)
    then have "turn (st (k - Suc d)) = Some (None, st (k - d))"
      using assms(1) [of "k - Suc d"] by (simp add: Suc_diff_Suc)
    then show ?case using Suc by (simp add: forever_simps)
  qed
  from this [of k] show ?thesis by simp
qed

text \<open>One line of standard input with its end removed; at the end of the input it is empty.\<close>

definition read_line :: "('n, string) flow" where
  "read_line = (\<lambda>s. case stdin s of
       [] \<Rightarrow> Some (Ok [], s)
     | l # ls \<Rightarrow> Some (Ok l, s\<lparr>stdin := ls\<rparr>))"

section \<open>Strings\<close>

definition ascii_lower :: "char \<Rightarrow> char" where
  "ascii_lower c = (let n = (of_char c :: nat) in if 65 \<le> n \<and> n \<le> 90 then char_of (n + 32) else c)"

definition to_lowercase :: "string \<Rightarrow> string" where
  "to_lowercase s = map ascii_lower s"

definition digit :: "char \<Rightarrow> int option" where
  "digit c = (let n = (of_char c :: int) in if 48 \<le> n \<and> n \<le> 57 then Some (n - 48) else None)"

fun digits_value :: "int \<Rightarrow> string \<Rightarrow> int option" where
  "digits_value acc [] = Some acc"
| "digits_value acc (c # cs) =
     (case digit c of None \<Rightarrow> None | Some d \<Rightarrow> digits_value (10 * acc + d) cs)"

text \<open>\<open>str::parse\<close> for an unsigned type with \<open>bound\<close> values: digits after an optional plus sign.\<close>

definition parse_unsigned :: "int \<Rightarrow> string \<Rightarrow> (int, anyhow) res" where
  "parse_unsigned bound s =
    (let ds = (if s \<noteq> [] \<and> hd s = CHR ''+'' then tl s else s) in
     if ds = [] then Err (External ''ParseIntError'')
     else case digits_value 0 ds of
            None \<Rightarrow> Err (External ''ParseIntError'')
          | Some n \<Rightarrow> if n < bound then Ok n else Err (External ''ParseIntError''))"

definition parse_u64 :: "string \<Rightarrow> (u64, anyhow) res" where
  "parse_u64 s = map_res of_int (parse_unsigned 18446744073709551616 s)"

definition parse_u8 :: "string \<Rightarrow> (u8, anyhow) res" where
  "parse_u8 s = map_res of_int (parse_unsigned 256 s)"

section \<open>The libraries the trader calls\<close>

record WalletUtxo =
  wu_outpoint :: OutPoint
  wu_value :: u64

text \<open>What \<open>Bond::assemble\<close> tells the transaction builder.\<close>

record BondPlan =
  bp_recipient :: "bytes \<times> u64"
  bp_fee_rate_sat_per_vb :: nat
  bp_size_of_change :: u64

record 'n tenv =
  t_overflow_checks :: bool
  \<comment> \<open>the operating system: random seeds, the clock, the environment after loading a file\<close>
  os_rng :: "nat \<Rightarrow> bytes"
  t_unix_now :: "u64 option"
  now_nanos_le :: "bytes option"
  dotenv :: "string \<Rightarrow> (string \<Rightarrow> string option, anyhow) res"
  t_hash256 :: "string \<Rightarrow> bytes"
  t_hex_encode :: "bytes \<Rightarrow> string"
  t_hex_decode :: "string \<Rightarrow> bytes option"
  \<comment> \<open>keys\<close>
  xprv_from_str :: "string \<Rightarrow> (bytes, anyhow) res"
  xprv_new_master :: "bytes \<Rightarrow> (bytes, anyhow) res"
  keypair_secret :: "bytes \<Rightarrow> bytes"
  keypair_public :: "bytes \<Rightarrow> bytes"
  x_only_public_key :: "bytes \<Rightarrow> bytes"
  x_only_to_string :: "bytes \<Rightarrow> string"
  \<comment> \<open>the bdk wallet and its electrum backend\<close>
  electrum_connect :: "string \<Rightarrow> (unit, anyhow) res"
  wallet_new :: "bytes \<Rightarrow> (unit, anyhow) res"
  wallet_sync :: "'n \<Rightarrow> (unit, anyhow) res"
  wallet_balance :: "'n \<Rightarrow> (u64, anyhow) res"
  wallet_address :: "nat \<Rightarrow> (string, anyhow) res"
  wallet_list_unspent :: "'n \<Rightarrow> (WalletUtxo list, anyhow) res"
  wallet_psbt_input :: "WalletUtxo \<Rightarrow> (bytes, anyhow) res"
  serialize_psbt_input :: "bytes \<Rightarrow> OutPoint \<Rightarrow> (bytes, anyhow) res"
  t_regtest_script :: "string \<Rightarrow> (bytes, anyhow) res"
  build_bond :: "BondPlan \<Rightarrow> 'n \<Rightarrow> (bytes, anyhow) res"
  wallet_sign :: "bytes \<Rightarrow> (bytes \<times> bool, anyhow) res"
  extract_tx_hex :: "bytes \<Rightarrow> string"
  psbt_from_str :: "string \<Rightarrow> (bytes, anyhow) res"
  t_psbt_deserialize :: "bytes \<Rightarrow> (bytes, anyhow) res"
  t_psbt_serialize_hex :: "bytes \<Rightarrow> string"
  psbt_funding_utxos :: "bytes \<Rightarrow> (TxOut, anyhow) res list"
  psbt_hash_ty :: "bytes \<Rightarrow> (nat, anyhow) res"
  key_spend_hash :: "bytes \<Rightarrow> TxOut \<Rightarrow> nat \<Rightarrow> (bytes, anyhow) res"
  \<comment> \<open>musig2; a partial signature that is the zero scalar is \<open>None\<close>\<close>
  sec_nonce_build :: "bytes \<Rightarrow> bytes \<Rightarrow> bytes"
  public_nonce :: "bytes \<Rightarrow> bytes"
  pub_nonce_to_string :: "bytes \<Rightarrow> string"
  musig_secret_key :: "bytes \<Rightarrow> (bytes, anyhow) res"
  t_agg_nonce_from_str :: "string \<Rightarrow> (bytes, anyhow) res"
  t_key_agg_ctx_from_hex :: "string \<Rightarrow> (bytes, anyhow) res"
  sign_partial :: "bytes \<Rightarrow> bytes \<Rightarrow> bytes \<Rightarrow> bytes \<Rightarrow> bytes \<Rightarrow> (bytes option, anyhow) res"
  \<comment> \<open>reqwest: POST to a URL; an error when there is no response\<close>
  http_post :: "string \<Rightarrow> ApiRequest \<Rightarrow> 'n \<Rightarrow> (Response, anyhow) res \<times> 'n"

definition now_secs :: "'n tenv \<Rightarrow> (u64, anyhow) res" where
  "now_secs E = ok_or (External ''SystemTimeError'') (t_unix_now E)"

text \<open>\<open>wallet_utils::get_seed\<close>\<close>

definition get_seed :: "'n tenv \<Rightarrow> ('n, bytes) flow" where
  "get_seed E = (\<lambda>s. Some (Ok (os_rng E (rng_calls s)), s\<lparr>rng_calls := Suc (rng_calls s)\<rparr>))"

text \<open>\<open>wallet.get_address(AddressIndex::New)\<close>\<close>

definition new_address :: "'n tenv \<Rightarrow> ('n, string) flow" where
  "new_address E = (\<lambda>s. Some (wallet_address E (wallet_next s), s\<lparr>wallet_next := Suc (wallet_next s)\<rparr>))"

definition from_net :: "('n \<Rightarrow> ('a, anyhow) res) \<Rightarrow> ('n, 'a) flow" where
  "from_net f = (\<lambda>s. Some (f (net s), s))"

definition post :: "'n tenv \<Rightarrow> string \<Rightarrow> ApiRequest \<Rightarrow> ('n, Response) flow" where
  "post E url req = (\<lambda>s. case http_post E url req (net s) of (r, n) \<Rightarrow> Some (r, s\<lparr>net := n\<rparr>))"

end
