(* ===== verification/Trader_Settings.thy ===== *)
theory Trader_Settings
  imports Trader
begin

text \<open>
  The trader's command line (\<open>cli/mod.rs\<close>): the mode, the settings read from the prompts or
  from a file of environment variables, and the key of the wallet (\<open>get_wallet_xprv\<close> of
  \<open>wallet/mod.rs\<close>).
\<close>

section \<open>Settings\<close>

datatype OfferType = Buy u64 | Sell u64

fun offer_value :: "OfferType \<Rightarrow> u64" where
  "offer_value (Buy v) = v"
| "offer_value (Sell v) = v"

fun is_buy_order :: "OfferType \<Rightarrow> bool" where
  "is_buy_order (Buy v) = True"
| "is_buy_order (Sell v) = False"

record TraderSettings =
  ts_electrum_endpoint :: string
  ts_coordinator_endpoint :: string
  ts_robosats_robohash_hex :: string
  ts_trade_type :: OfferType
  ts_payout_address :: string
  ts_bond_ratio :: u8
  ts_wallet_xprv :: bytes
  ts_duration_unix_ts :: u64

datatype CliSettings =
    CoordinatorMode
  | Taker TraderSettings
  | Maker TraderSettings

section \<open>Prompts\<close>

definition get_user_input :: "('n, string) flow" where
  "get_user_input = fbind read_line (\<lambda>buffer. fret (trim buffer))"

definition get_trade_type :: "string option \<Rightarrow> ('n, OfferType) flow" where
  "get_trade_type maybe_type =
     fbind (case maybe_type of Some value \<Rightarrow> fret value | None \<Rightarrow> get_user_input) (\<lambda>trade_type.
     if trade_type = ''buy'' then
       fbind get_user_input (\<lambda>amount. flift (map_res Buy (unwrap_res (parse_u64 amount))))
     else if trade_type = ''sell'' then
       fbind get_user_input (\<lambda>amount. flift (map_res Sell (unwrap_res (parse_u64 amount))))
     else flift Panic)"

definition hours_to_ts :: "'n tenv \<Rightarrow> string \<Rightarrow> (u64, anyhow) res" where
  "hours_to_ts E hours =
     bind_res (parse_u64 hours) (\<lambda>duration.
     bind_res (now_secs E) (\<lambda>now.
     bind_res (mul_u64 (t_overflow_checks E) duration 3600) (\<lambda>seconds.
     add_u64 (t_overflow_checks E) now seconds)))"

definition get_wallet_xprv :: "'n tenv \<Rightarrow> string option \<Rightarrow> ('n, bytes) flow" where
  "get_wallet_xprv E xprv_input =
     (case xprv_input of
        Some xprv_i \<Rightarrow> flift (xprv_from_str E xprv_i)
      | None \<Rightarrow> fbind (get_seed E) (\<lambda>seed. flift (xprv_new_master E seed)))"

definition check_xprv_input :: "'n tenv \<Rightarrow> string option \<Rightarrow> ('n, bytes) flow" where
  "check_xprv_input E cli_input =
     (case cli_input of
        Some user_input \<Rightarrow>
          if user_input \<noteq> [] then get_wallet_xprv E (Some user_input) else get_wallet_xprv E None
      | None \<Rightarrow> get_wallet_xprv E None)"

definition get_trader_settings :: "'n tenv \<Rightarrow> ('n, TraderSettings) flow" where
  "get_trader_settings E =
     fbind get_user_input (\<lambda>electrum_endpoint.
     fbind get_user_input (\<lambda>coordinator_endpoint.
     fbind get_user_input (\<lambda>robot_key.
     fbind (get_trade_type None) (\<lambda>trade_type.
     fbind get_user_input (\<lambda>payout_address.
     fbind get_user_input (\<lambda>ratio_input.
     fbind (flift (parse_u8 ratio_input)) (\<lambda>bond_ratio.
     fbind get_user_input (\<lambda>xprv_input.
     fbind (check_xprv_input E (Some xprv_input)) (\<lambda>wallet_xprv.
     fbind get_user_input (\<lambda>hours.
     fbind (flift (hours_to_ts E hours)) (\<lambda>duration_unix_ts.
     fret \<lparr> ts_electrum_endpoint = electrum_endpoint,
            ts_coordinator_endpoint = coordinator_endpoint,
            ts_robosats_robohash_hex = t_hex_encode E (t_hash256 E robot_key),
            ts_trade_type = trade_type,
            ts_payout_address = payout_address,
            ts_bond_ratio = bond_ratio,
            ts_wallet_xprv = wallet_xprv,
            ts_duration_unix_ts = duration_unix_ts \<rparr>)))))))))))"

definition env_var :: "(string \<Rightarrow> string option) \<Rightarrow> string \<Rightarrow> (string, anyhow) res" where
  "env_var vars name = ok_or (External ''VarError'') (vars name)"

definition load_from_env :: "'n tenv \<Rightarrow> string \<Rightarrow> ('n, TraderSettings) flow" where
  "load_from_env E filename =
     fbind (flift (dotenv E filename)) (\<lambda>vars.
     fbind (flift (env_var vars ''ELECTRUM_ENDPOINT'')) (\<lambda>electrum_endpoint.
     fbind (flift (env_var vars ''COORDINATOR_ENDPOINT'')) (\<lambda>coordinator_endpoint.
     fbind (flift (env_var vars ''ROBOHASH_HEX'')) (\<lambda>robosats_robohash_hex.
     fbind (flift (env_var vars ''TRADE_TYPE'')) (\<lambda>trade_type_var.
     fbind (get_trade_type (Some trade_type_var)) (\<lambda>trade_type.
     fbind (flift (env_var vars ''PAYOUT_ADDRESS'')) (\<lambda>payout_address.
     fbind (flift (bind_res (env_var vars ''BOND_RATIO'') parse_u8)) (\<lambda>bond_ratio.
     fbind (flift (env_var vars ''XPRV'')) (\<lambda>xprv_var.
     fbind (check_xprv_input E (Some xprv_var)) (\<lambda>wallet_xprv.
     fbind (flift (bind_res (env_var vars ''OFFER_DURATION_HOURS'') (hours_to_ts E))) (\<lambda>duration_unix_ts.
     fret \<lparr> ts_electrum_endpoint = electrum_endpoint,
            ts_coordinator_endpoint = coordinator_endpoint,
            ts_robosats_robohash_hex = robosats_robohash_hex,
            ts_trade_type = trade_type,
            ts_payout_address = payout_address,
            ts_bond_ratio = bond_ratio,
            ts_wallet_xprv = wallet_xprv,
            ts_duration_unix_ts = duration_unix_ts \<rparr>)))))))))))"

definition parse_trader_settings :: "'n tenv \<Rightarrow> string \<Rightarrow> ('n, TraderSettings) flow" where
  "parse_trader_settings E maybe_filename =
     fbind get_user_input (\<lambda>input.
     if trim input = ''y'' then load_from_env E maybe_filename
     else if trim input = ''N'' then get_trader_settings E
     else flift (Err (Anyhow ''Not a valid input!'')))"

definition parse_cli_args :: "'n tenv \<Rightarrow> ('n, CliSettings) flow" where
  "parse_cli_args E =
     fbind get_user_input (\<lambda>mode.
     if to_lowercase mode = ''maker'' then
       fbind (parse_trader_settings E ''maker.env'') (\<lambda>settings. fret (Maker settings))
     else if to_lowercase mode = ''taker'' then
       fbind (parse_trader_settings E ''taker.env'') (\<lambda>settings. fret (Taker settings))
     else flift (Err (Anyhow ''Either select maker or taker!'')))"

end
