(* ===== verification/Trader_Wallet.thy ===== *)
theory Trader_Wallet
  imports Trader_Settings
begin

text \<open>
  The trader's wallet (\<open>wallet/mod.rs\<close>, \<open>wallet/bond.rs\<close>, \<open>wallet/musig2_utils.rs\<close>): the MuSig
  nonce with its two flags, the assembly of the bond, the choice of the inputs of the escrow
  transaction, and the partial signature of the payout.
\<close>

section \<open>MuSig data\<close>

record MusigNonce =
  mn_secret_nonce :: bytes
  mn_accessed_for_signing :: bool
  mn_accessed_for_sharing :: bool

record MuSigData =
  ms_nonce :: MusigNonce
  ms_public_key :: bytes
  ms_secret_key :: bytes

definition generate_nonce :: "'n tenv \<Rightarrow> ('n, MusigNonce) flow" where
  "generate_nonce E =
     fbind (flift (ok_or (External ''SystemTimeError'') (now_nanos_le E))) (\<lambda>timestamp_salt.
     fbind (get_seed E) (\<lambda>seed.
     fret \<lparr> mn_secret_nonce = sec_nonce_build E seed timestamp_salt,
            mn_accessed_for_signing = False, mn_accessed_for_sharing = False \<rparr>))"

text \<open>\<open>get_sec_for_signing\<close> consumes the nonce; \<open>get_pub_for_sharing\<close> leaves it changed.\<close>

definition get_sec_for_signing :: "MusigNonce \<Rightarrow> (bytes, anyhow) res" where
  "get_sec_for_signing n =
     (if mn_accessed_for_signing n then Err (Anyhow ''MuSig nonce has already been used for signing!'')
      else Ok (mn_secret_nonce n))"

definition get_pub_for_sharing :: "'n tenv \<Rightarrow> MusigNonce \<Rightarrow> (bytes, anyhow) res \<times> MusigNonce" where
  "get_pub_for_sharing E n =
     (if mn_accessed_for_sharing n \<or> mn_accessed_for_signing n then (Err (Anyhow ''MuSig nonce reused!''), n)
      else (Ok (public_nonce E (mn_secret_nonce n)), n\<lparr>mn_accessed_for_sharing := True\<rparr>))"

definition create_musig_data :: "'n tenv \<Rightarrow> bytes \<Rightarrow> ('n, MuSigData) flow" where
  "create_musig_data E xprv =
     fbind (generate_nonce E) (\<lambda>nonce.
     fbind (flift (musig_secret_key E (keypair_secret E xprv))) (\<lambda>secret_key.
     fret \<lparr> ms_nonce = nonce, ms_public_key = keypair_public E xprv, ms_secret_key = secret_key \<rparr>))"

section \<open>The wallet\<close>

text \<open>The bdk wallet itself is part of the state; what is left is the taproot key.\<close>

record TradingWallet =
  tw_taproot_pubkey :: bytes

definition load_wallet :: "'n tenv \<Rightarrow> TraderSettings \<Rightarrow> ('n, TradingWallet) flow" where
  "load_wallet E trader_config =
     fbind (flift (electrum_connect E (ts_electrum_endpoint trader_config))) (\<lambda>_.
     fbind (flift (wallet_new E (ts_wallet_xprv trader_config))) (\<lambda>_.
     fbind (from_net (wallet_sync E)) (\<lambda>_.
     fbind (from_net (wallet_balance E)) (\<lambda>_.
     fbind (new_address E) (\<lambda>_.
     fret \<lparr> tw_taproot_pubkey = x_only_public_key E (ts_wallet_xprv trader_config) \<rparr>)))))"

text \<open>\<open>Bond::assemble\<close>\<close>

definition bond_plan :: "bytes \<Rightarrow> BondRequirementResponse \<Rightarrow> TraderSettings \<Rightarrow> BondPlan" where
  "bond_plan script bond_target trader_input =
     \<lparr> bp_recipient = (script, brr_locking_amount_sat bond_target),
       bp_fee_rate_sat_per_vb = 201,
       bp_size_of_change = offer_value (ts_trade_type trader_input) \<rparr>"

definition assemble_bond :: "'n tenv \<Rightarrow> BondRequirementResponse \<Rightarrow> TraderSettings \<Rightarrow> ('n, bytes) flow" where
  "assemble_bond E bond_target trader_input =
     fbind (flift (t_regtest_script E (brr_bond_address bond_target))) (\<lambda>script.
     fbind (from_net (build_bond E (bond_plan script bond_target trader_input))) (\<lambda>psbt.
     fbind (flift (wallet_sign E psbt)) (\<lambda>(signed, finalized).
     if \<not> finalized then flift (Err (Anyhow ''Transaction could not be finalized''))
     else fret signed)))"

definition trade_onchain_assembly ::
  "'n tenv \<Rightarrow> BondRequirementResponse \<Rightarrow> TraderSettings \<Rightarrow> ('n, bytes \<times> MuSigData \<times> string) flow"
where
  "trade_onchain_assembly E offer_conditions trader_config =
     fbind (assemble_bond E offer_conditions trader_config) (\<lambda>bond.
     fbind (new_address E) (\<lambda>payout_address.
     fbind (create_musig_data E (ts_wallet_xprv trader_config)) (\<lambda>musig_data.
     fret (bond, musig_data, payout_address))))"

section \<open>The inputs of the escrow transaction\<close>

text \<open>\<open>-=\<close> on \<open>i64\<close>\<close>

definition sub_i64 :: "bool \<Rightarrow> i64 \<Rightarrow> i64 \<Rightarrow> (i64, 'e) res" where
  "sub_i64 chk a b =
     (if chk \<and> (sint a - sint b < - (2 ^ 63) \<or> 2 ^ 63 \<le> sint a - sint b) then Panic else Ok (a - b))"

text \<open>The loop over the wallet's outputs; it stops when the amount is reached.\<close>

fun select_inputs :: "'n tenv \<Rightarrow> i64 \<Rightarrow> WalletUtxo list \<Rightarrow> ((WalletUtxo \<times> string) list, anyhow) res" where
  "select_inputs E amount_sat [] = Ok []"
| "select_inputs E amount_sat (utxo # utxos) =
     bind_res (wallet_psbt_input E utxo) (\<lambda>psbt_input.
     bind_res (serialize_psbt_input E psbt_input (wu_outpoint utxo)) (\<lambda>serialized.
     bind_res (sub_i64 (t_overflow_checks E) amount_sat (wu_value utxo)) (\<lambda>rest.
     let input = (utxo, t_hex_encode E serialized) in
     if rest \<le>s 0 then Ok [input]
     else map_res (\<lambda>inputs. input # inputs) (select_inputs E rest utxos))))"

fun join_comma :: "string list \<Rightarrow> string" where
  "join_comma [] = []"
| "join_comma [s] = s"
| "join_comma (s # t # ss) = s @ CHR '','' # join_comma (t # ss)"

definition get_escrow_psbt_inputs :: "'n tenv \<Rightarrow> u64 \<Rightarrow> ('n, string \<times> string) flow" where
  "get_escrow_psbt_inputs E amount_sat =
     fbind (from_net (wallet_sync E)) (\<lambda>_.
     fbind (from_net (wallet_list_unspent E)) (\<lambda>available_utxos.
     fbind (flift (select_inputs E amount_sat available_utxos)) (\<lambda>inputs.
     fbind (new_address E) (\<lambda>change_address.
     fret (join_comma (map snd inputs), change_address)))))"

section \<open>Signing\<close>

definition sign_escrow_psbt :: "'n tenv \<Rightarrow> bytes \<Rightarrow> (bytes, anyhow) res" where
  "sign_escrow_psbt E escrow_psbt = map_res fst (wallet_sign E escrow_psbt)"

text \<open>Both validations are to be written: they accept everything.\<close>

definition validate_escrow_psbt :: "bytes \<Rightarrow> (unit, anyhow) res" where
  "validate_escrow_psbt psbt = Ok ()"

definition validate_payout_psbt :: "bytes \<Rightarrow> (unit, anyhow) res" where
  "validate_payout_psbt psbt = Ok ()"

definition create_keyspend_payout_signature ::
  "'n tenv \<Rightarrow> bytes \<Rightarrow> bytes \<Rightarrow> bytes \<Rightarrow> MuSigData \<Rightarrow> (string, anyhow) res"
where
  "create_keyspend_payout_signature E validated_payout_psbt key_agg_context agg_pub_nonce local_musig_state =
     (case psbt_funding_utxos E validated_payout_psbt of
        [] \<Rightarrow> Err (Anyhow ''No UTXO found in payout psbt'')
      | first # rest \<Rightarrow>
          bind_res first (\<lambda>utxo.
          bind_res (psbt_hash_ty E validated_payout_psbt) (\<lambda>sighash_type.
          bind_res (key_spend_hash E validated_payout_psbt utxo sighash_type) (\<lambda>raw_sig_hash.
          bind_res (get_sec_for_signing (ms_nonce local_musig_state)) (\<lambda>secret_nonce.
          bind_res (sign_partial E key_agg_context (ms_secret_key local_musig_state) secret_nonce
                      agg_pub_nonce raw_sig_hash) (\<lambda>keyspend_sig.
          case keyspend_sig of
            Some sig \<Rightarrow> Ok (t_hex_encode E sig)
          | None \<Rightarrow> Err (Anyhow ''keyspend sig maybe scalar is Zero'')))))))"

end
