(* ===== verification/Trader_Requests.thy ===== *)
theory Trader_Requests
  imports Trader_Wallet
begin

text \<open>
  The trader's HTTP client (\<open>communication/\<close>): one function per call of the coordinator, with
  what it makes of the response's status and body. The structs of the trader's \<open>api.rs\<close> that
  have the coordinator's names and fields are the same records here; those with names of
  their own are written to the wire by \<open>as_\<close> functions, field by field as serde does. The
  polling loops sleep between two requests, which has no effect in the model.
\<close>

section \<open>Messages\<close>

record OrderRequest =
  oq_robohash_hex :: string
  oq_amount_satoshi :: u64
  oq_is_buy_order :: bool
  oq_bond_ratio :: u8
  oq_offer_duration_ts :: u64

definition as_offer_request :: "OrderRequest \<Rightarrow> OfferRequest" where
  "as_offer_request r =
     \<lparr> or_robohash_hex = oq_robohash_hex r, or_amount_satoshi = oq_amount_satoshi r,
       or_is_buy_order = oq_is_buy_order r, or_bond_ratio = oq_bond_ratio r,
       or_offer_duration_ts = oq_offer_duration_ts r \<rparr>"

record OrderActivatedResponse =
  oac_offer_id_hex :: string
  oac_bond_locked_until_timestamp :: u64

record IsOfferReadyRequest =
  irr_robohash_hex :: string
  irr_offer_id_hex :: string

definition as_poll :: "IsOfferReadyRequest \<Rightarrow> OfferTakenRequest" where
  "as_poll r = \<lparr> otr_robohash_hex = irr_robohash_hex r, otr_offer_id_hex = irr_offer_id_hex r \<rparr>"

record TradeObligationsSatisfied =
  tos_robohash_hex :: string
  tos_offer_id_hex :: string

definition as_obligation :: "TradeObligationsSatisfied \<Rightarrow> OfferTakenRequest" where
  "as_obligation r = \<lparr> otr_robohash_hex = tos_robohash_hex r, otr_offer_id_hex = tos_offer_id_hex r \<rparr>"

text \<open>\<open>res.json::<T>()\<close>\<close>

definition json_error :: "('a, anyhow) res" where
  "json_error = Err (External ''error decoding response body'')"

definition json_bond_requirements :: "Response \<Rightarrow> (BondRequirementResponse, anyhow) res" where
  "json_bond_requirements r = (case body r of BondRequirementsJson b \<Rightarrow> Ok b | _ \<Rightarrow> json_error)"

definition json_order_activated :: "Response \<Rightarrow> (OrderActivatedResponse, anyhow) res" where
  "json_order_activated r =
     (case body r of
        OfferActivatedJson b \<Rightarrow> Ok \<lparr> oac_offer_id_hex = oar_offer_id_hex b,
          oac_bond_locked_until_timestamp = oar_bond_locked_until_timestamp b \<rparr>
      | _ \<Rightarrow> json_error)"

definition json_offer_taken :: "Response \<Rightarrow> (OfferTakenResponse, anyhow) res" where
  "json_offer_taken r = (case body r of OfferTakenJson b \<Rightarrow> Ok b | _ \<Rightarrow> json_error)"

definition json_public_offers :: "Response \<Rightarrow> (PublicOffers, anyhow) res" where
  "json_public_offers r = (case body r of PublicOffersJson b \<Rightarrow> Ok b | _ \<Rightarrow> json_error)"

definition json_payout :: "Response \<Rightarrow> (PayoutResponse, anyhow) res" where
  "json_payout r = (case body r of PayoutJson b \<Rightarrow> Ok b | _ \<Rightarrow> json_error)"

section \<open>The maker's requests\<close>

definition format_order_request :: "TraderSettings \<Rightarrow> OrderRequest" where
  "format_order_request trader_setup =
    (let (amount, is_buy) =
       (case ts_trade_type trader_setup of Buy val \<Rightarrow> (val, True) | Sell val \<Rightarrow> (val, False))
     in \<lparr> oq_robohash_hex = ts_robosats_robohash_hex trader_setup,
          oq_amount_satoshi = amount,
          oq_is_buy_order = is_buy,
          oq_bond_ratio = ts_bond_ratio trader_setup,
          oq_offer_duration_ts = ts_duration_unix_ts trader_setup \<rparr>)"

definition fetch_bond_requirement :: "'n tenv \<Rightarrow> TraderSettings \<Rightarrow> ('n, BondRequirementResponse) flow" where
  "fetch_bond_requirement E trader_setup =
     fbind (post E (ts_coordinator_endpoint trader_setup @ ''/create-offer'')
              (CreateOffer (as_offer_request (format_order_request trader_setup)))) (\<lambda>r.
     flift (json_bond_requirements r))"

definition send_maker :: "'n tenv \<Rightarrow> BondSubmissionRequest \<Rightarrow> TraderSettings \<Rightarrow> ('n, OrderActivatedResponse) flow" where
  "send_maker E request trader_setup =
     fbind (post E (ts_coordinator_endpoint trader_setup @ ''/submit-maker-bond'') (SubmitMakerBond request)) (\<lambda>r.
     flift (json_order_activated r))"

definition check_offer_taken ::
  "'n tenv \<Rightarrow> string \<Rightarrow> TraderSettings \<Rightarrow> ('n, OfferTakenResponse option) flow"
where
  "check_offer_taken E offer_id_hex trader_setup =
     fbind (post E (ts_coordinator_endpoint trader_setup @ ''/request-offer-status'')
       (RequestOfferStatus \<lparr> otr_robohash_hex = ts_robosats_robohash_hex trader_setup,
                             otr_offer_id_hex = offer_id_hex \<rparr>)) (\<lambda>r.
     if status r = 200 then flift (map_res Some (json_offer_taken r))
     else if status r = 204 then fret None
     else flift (Err (Anyhow ''Offer status polling failed'')))"

section \<open>The taker's requests\<close>

text \<open>\<open>(amount as f64 * factor).round() as u64\<close>: half a unit is rounded up.\<close>

definition f64_round :: "f64 \<Rightarrow> f64" where
  "f64_round a =
     (if 0 \<le> snd a then a else ((2 * fst a + 2 ^ nat (- snd a)) div 2 ^ nat (1 - snd a), 0))"

text \<open>The f64 nearest to 0.9 and to 1.1.\<close>

definition f64_0_9 :: f64 where
  "f64_0_9 = round_f64 9 10"

definition f64_1_1 :: f64 where
  "f64_1_1 = round_f64 11 10"

definition offers_request :: "TraderSettings \<Rightarrow> OffersRequest" where
  "offers_request taker_config =
    (let amount = offer_value (ts_trade_type taker_config) in
     \<lparr> ofr_buy_offers = (\<not> is_buy_order (ts_trade_type taker_config)),
       ofr_amount_min_sat = f64_to_u64 (f64_round (f64_mul (f64_of_u64 amount) f64_0_9)),
       ofr_amount_max_sat = f64_to_u64 (f64_round (f64_mul (f64_of_u64 amount) f64_1_1)) \<rparr>)"

definition fetch_public_offers :: "'n tenv \<Rightarrow> TraderSettings \<Rightarrow> ('n, PublicOffers) flow" where
  "fetch_public_offers E taker_config =
     fbind (post E (ts_coordinator_endpoint taker_config @ ''/fetch-available-offers'')
              (FetchAvailableOffers (offers_request taker_config))) (\<lambda>r.
     if status r = 204 then fret \<lparr> pos_offers = None \<rparr>
     else flift (json_public_offers r))"

text \<open>\<open>offers.unwrap()[index]\<close> panics without offers and out of range.\<close>

definition ask_user_to_select :: "PublicOffers \<Rightarrow> ('n, PublicOffer) flow" where
  "ask_user_to_select offers =
     (case pos_offers offers of
        None \<Rightarrow> flift Panic
      | Some list \<Rightarrow>
          fbind read_line (\<lambda>input.
          fbind (flift (map_err_res (\<lambda>_. Anyhow ''Wrong index entered'')
                   (parse_unsigned 18446744073709551616 (trim input)))) (\<lambda>index.
          if index < int (length list) then fret (list ! nat index) else flift Panic)))"

definition taker_request ::
  "'n tenv \<Rightarrow> PublicOffer \<Rightarrow> BondSubmissionRequest \<Rightarrow> TraderSettings \<Rightarrow> ('n, OfferTakenResponse) flow"
where
  "taker_request E offer trade_data taker_config =
     fbind (post E (ts_coordinator_endpoint taker_config @ ''/submit-taker-bond'')
              (SubmitTakerBond \<lparr> opr_offer = offer, opr_trade_data = trade_data \<rparr>)) (\<lambda>r.
     if status r = 200 then flift (json_offer_taken r)
     else flift (Err (Anyhow ''Taker bond rejected'')))"

section \<open>The requests of both\<close>

definition expect_200 :: "string \<Rightarrow> ('n, Response) flow \<Rightarrow> ('n, unit) flow" where
  "expect_200 message m =
     fbind m (\<lambda>r. if status r \<noteq> 200 then flift (Err (Anyhow message)) else fret ())"

definition submit_signed_psbt :: "'n tenv \<Rightarrow> bytes \<Rightarrow> string \<Rightarrow> TraderSettings \<Rightarrow> ('n, unit) flow" where
  "submit_signed_psbt E psbt offer_id_hex taker_config =
     expect_200 ''Submitting escrow psbt failed''
       (post E (ts_coordinator_endpoint taker_config @ ''/submit-escrow-psbt'')
         (SubmitEscrowPsbt \<lparr> psr_signed_psbt_hex = t_psbt_serialize_hex E psbt,
            psr_offer_id_hex = offer_id_hex, psr_robohash_hex = ts_robosats_robohash_hex taker_config \<rparr>))"

definition submit_satisfied :: "'n tenv \<Rightarrow> string \<Rightarrow> TraderSettings \<Rightarrow> ('n, unit) flow" where
  "submit_satisfied E offer_id_hex trader_config =
     expect_200 ''Submitting trade obligations confirmation failed''
       (post E (ts_coordinator_endpoint trader_config @ ''/submit-obligation-confirmation'')
         (SubmitObligationConfirmation (as_obligation
            \<lparr> tos_robohash_hex = ts_robosats_robohash_hex trader_config, tos_offer_id_hex = offer_id_hex \<rparr>)))"

definition submit_unsatisfied :: "'n tenv \<Rightarrow> string \<Rightarrow> TraderSettings \<Rightarrow> ('n, unit) flow" where
  "submit_unsatisfied E offer_id_hex trader_config =
     expect_200 ''Submitting trade obligations unsatisfied failed''
       (post E (ts_coordinator_endpoint trader_config @ ''/request-escrow'')
         (RequestEscrow \<lparr> tou_robohash_hex = ts_robosats_robohash_hex trader_config,
            tou_offer_id_hex = offer_id_hex \<rparr>))"

definition send_payout_signature :: "'n tenv \<Rightarrow> TraderSettings \<Rightarrow> string \<Rightarrow> string \<Rightarrow> ('n, unit) flow" where
  "send_payout_signature E trader_config signature offer_id_hex =
     fbind (post E (ts_coordinator_endpoint trader_config @ ''/submit-payout-signature'')
       (SubmitPayoutSignature \<lparr> pgr_partial_sig_hex = signature, pgr_offer_id_hex = offer_id_hex,
          pgr_robohash_hex = ts_robosats_robohash_hex trader_config \<rparr>)) (\<lambda>r.
     if status r \<noteq> 200 \<and> status r \<noteq> 202 then flift (Err (Anyhow ''Submitting trade obligations unsatisfied failed''))
     else fret ())"

section \<open>The polling loops\<close>

definition ready_request :: "TraderSettings \<Rightarrow> string \<Rightarrow> OfferTakenRequest" where
  "ready_request trader_config offer_id_hex =
     as_poll \<lparr> irr_robohash_hex = ts_robosats_robohash_hex trader_config, irr_offer_id_hex = offer_id_hex \<rparr>"

text \<open>\<open>IsOfferReadyRequest::poll\<close>\<close>

definition confirmation_decision :: "Response \<Rightarrow> (unit, anyhow) res option" where
  "confirmation_decision r =
     (if status r = 200 then Some (Ok ())
      else if status r \<noteq> 202 then Some (Err (Anyhow ''Requesting offer status when waiting on other party failed''))
      else None)"

definition poll_confirmation :: "'n tenv \<Rightarrow> TraderSettings \<Rightarrow> string \<Rightarrow> ('n, unit) flow" where
  "poll_confirmation E taker_config offer_id_hex =
     forever (try_step
       (post E (ts_coordinator_endpoint taker_config @ ''/poll-escrow-confirmation'')
          (PollEscrowConfirmation (ready_request taker_config offer_id_hex)))
       confirmation_decision)"

text \<open>The loop of \<open>IsOfferReadyRequest::poll_payout\<close>: it ends with the response of status 200.\<close>

definition payout_decision :: "Response \<Rightarrow> (Response, anyhow) res option" where
  "payout_decision r =
     (if status r = 200 then Some (Ok r)
      else if status r = 202 then None
      else if status r = 201 then None
      else if status r \<noteq> 410 then Some (Err (Anyhow ''We lost the escrow, your bond is gone''))
      else Some (Err (Anyhow ''Requesting final payout when waiting on other party failed'')))"

definition poll_payout_loop :: "'n tenv \<Rightarrow> TraderSettings \<Rightarrow> string \<Rightarrow> ('n, Response) flow" where
  "poll_payout_loop E trader_config offer_id_hex =
     forever (try_step
       (post E (ts_coordinator_endpoint trader_config @ ''/poll-final-payout'')
          (PollFinalPayout (ready_request trader_config offer_id_hex)))
       payout_decision)"

definition poll_payout ::
  "'n tenv \<Rightarrow> TraderSettings \<Rightarrow> string \<Rightarrow> ('n, bytes \<times> bytes \<times> bytes) flow"
where
  "poll_payout E trader_config offer_id_hex =
     fbind (poll_payout_loop E trader_config offer_id_hex) (\<lambda>r.
     fbind (flift (json_payout r)) (\<lambda>payout_response.
     fbind (flift (bind_res (ok_or HexDecode (t_hex_decode E (pr_payout_psbt_hex payout_response)))
              (t_psbt_deserialize E))) (\<lambda>final_psbt.
     fbind (flift (t_agg_nonce_from_str E (pr_agg_musig_nonce_hex payout_response))) (\<lambda>agg_nonce.
     fbind (flift (t_key_agg_ctx_from_hex E (pr_agg_musig_pubkey_ctx_hex payout_response))) (\<lambda>agg_pubk_ctx.
     fret (final_psbt, agg_nonce, agg_pubk_ctx))))))"

end
