(* ===== verification/Trader_Flows.thy ===== *)
theory Trader_Flows
  imports Trader_Requests
begin

text \<open>
  The trading flows of the trader (\<open>trading/\<close>) and its \<open>main.rs\<close>: what a maker and a taker do
  from the settings to the submitted signature of the payout.
\<close>

record ActiveOffer =
  aof_offer_id_hex :: string
  aof_used_musig_config :: MuSigData
  aof_used_bond :: bytes
  aof_expected_payout_address :: string
  aof_escrow_psbt :: "bytes option"
  aof_escrow_change_address :: string
  aof_psbt_inputs_hex_csv :: string

text \<open>The amount of the inputs a trader has to bring into the escrow transaction.\<close>

definition escrow_input_amount :: "'n tenv \<Rightarrow> OfferType \<Rightarrow> BondRequirementResponse \<Rightarrow> (u64, anyhow) res" where
  "escrow_input_amount E trade_type requirements =
     (if is_buy_order trade_type
      then Ok (brr_escrow_locking_input_amount_without_trade_sum requirements)
      else add_u64 (t_overflow_checks E)
             (brr_escrow_locking_input_amount_without_trade_sum requirements) (offer_value trade_type))"

section \<open>Maker\<close>

definition create_offer :: "'n tenv \<Rightarrow> TradingWallet \<Rightarrow> TraderSettings \<Rightarrow> ('n, ActiveOffer) flow" where
  "create_offer E trading_wallet maker_config =
     fbind (fetch_bond_requirement E maker_config) (\<lambda>offer_conditions.
     fbind (trade_onchain_assembly E offer_conditions maker_config) (\<lambda>(bond, musig_data, payout_address).
     fbind (flift (escrow_input_amount E (ts_trade_type maker_config) offer_conditions)) (\<lambda>input_amount.
     fbind (get_escrow_psbt_inputs E input_amount) (\<lambda>(psbt_inputs_hex_csv, escrow_change_address).
     let shared = get_pub_for_sharing E (ms_nonce musig_data) in
     fbind (flift (fst shared)) (\<lambda>pub.
     fbind (send_maker E
       \<lparr> bsr_robohash_hex = ts_robosats_robohash_hex maker_config,
         bsr_signed_bond_hex = extract_tx_hex E bond,
         bsr_payout_address = payout_address,
         bsr_taproot_pubkey_hex = t_hex_encode E (tw_taproot_pubkey trading_wallet),
         bsr_musig_pub_nonce_hex = t_hex_encode E pub,
         bsr_musig_pubkey_hex = t_hex_encode E (ms_public_key musig_data),
         bsr_bdk_psbt_inputs_hex_csv = psbt_inputs_hex_csv,
         bsr_client_change_address = escrow_change_address \<rparr> maker_config) (\<lambda>submission_result.
     fret \<lparr> aof_offer_id_hex = oac_offer_id_hex submission_result,
            aof_used_musig_config = musig_data\<lparr>ms_nonce := snd shared\<rparr>,
            aof_used_bond = bond,
            aof_expected_payout_address = payout_address,
            aof_escrow_psbt = None,
            aof_escrow_change_address = escrow_change_address,
            aof_psbt_inputs_hex_csv = psbt_inputs_hex_csv \<rparr>))))))"

definition wait_until_taken :: "'n tenv \<Rightarrow> string \<Rightarrow> TraderSettings \<Rightarrow> ('n, OfferTakenResponse) flow" where
  "wait_until_taken E offer_id_hex trader_config =
     forever (try_step (check_offer_taken E offer_id_hex trader_config) (map_option Ok))"

section \<open>Taker\<close>

definition take_offer :: "'n tenv \<Rightarrow> TradingWallet \<Rightarrow> TraderSettings \<Rightarrow> PublicOffer \<Rightarrow> ('n, ActiveOffer) flow" where
  "take_offer E trading_wallet taker_config offer =
     fbind (trade_onchain_assembly E (po_bond_requirements offer) taker_config) (\<lambda>(bond, musig_data, payout_address).
     fbind (flift (escrow_input_amount E (ts_trade_type taker_config) (po_bond_requirements offer))) (\<lambda>input_amount.
     fbind (get_escrow_psbt_inputs E input_amount) (\<lambda>(bdk_psbt_inputs_hex_csv, client_change_address).
     let shared = get_pub_for_sharing E (ms_nonce musig_data) in
     fbind (flift (fst shared)) (\<lambda>pub.
     fbind (taker_request E offer
       \<lparr> bsr_robohash_hex = ts_robosats_robohash_hex taker_config,
         bsr_signed_bond_hex = extract_tx_hex E bond,
         bsr_payout_address = payout_address,
         bsr_taproot_pubkey_hex = x_only_to_string E (tw_taproot_pubkey trading_wallet),
         bsr_musig_pub_nonce_hex = pub_nonce_to_string E pub,
         bsr_musig_pubkey_hex = t_hex_encode E (ms_public_key musig_data),
         bsr_bdk_psbt_inputs_hex_csv = bdk_psbt_inputs_hex_csv,
         bsr_client_change_address = client_change_address \<rparr> taker_config) (\<lambda>requirements.
     fbind (flift (psbt_from_str E (otp_escrow_psbt_hex requirements))) (\<lambda>escrow_psbt.
     fbind (flift (validate_escrow_psbt escrow_psbt)) (\<lambda>_.
     fbind (flift (sign_escrow_psbt E escrow_psbt)) (\<lambda>signed_psbt.
     fbind (submit_signed_psbt E signed_psbt (po_offer_id_hex offer) taker_config) (\<lambda>_.
     fret \<lparr> aof_offer_id_hex = po_offer_id_hex offer,
            aof_used_musig_config = musig_data\<lparr>ms_nonce := snd shared\<rparr>,
            aof_used_bond = bond,
            aof_expected_payout_address = payout_address,
            aof_escrow_psbt = Some signed_psbt,
            aof_escrow_change_address = client_change_address,
            aof_psbt_inputs_hex_csv = bdk_psbt_inputs_hex_csv \<rparr>)))))))))"

section \<open>Both\<close>

text \<open>The prompt asks until the answer is \<open>y\<close> or \<open>M\<close>.\<close>

definition fiat_decision :: "string \<Rightarrow> (bool, anyhow) res option" where
  "fiat_decision input =
     (if to_lowercase (trim input) = ''y'' then Some (Ok True)
      else if trim input = ''M'' then Some (Ok False)
      else None)"

definition fiat_confirmation_cli_input :: "('n, bool) flow" where
  "fiat_confirmation_cli_input = forever (try_step read_line fiat_decision)"

definition finish_trade :: "'n tenv \<Rightarrow> ActiveOffer \<Rightarrow> TraderSettings \<Rightarrow> ('n, unit) flow" where
  "finish_trade E offer config =
     fbind (submit_satisfied E (aof_offer_id_hex offer) config) (\<lambda>_.
     fbind (poll_payout E config (aof_offer_id_hex offer)) (\<lambda>(payout_keyspend_psbt, agg_pub_nonce, agg_pubk_ctx).
     fbind (flift (validate_payout_psbt payout_keyspend_psbt)) (\<lambda>_.
     fbind (flift (create_keyspend_payout_signature E payout_keyspend_psbt agg_pubk_ctx agg_pub_nonce
                     (aof_used_musig_config offer))) (\<lambda>signature.
     send_payout_signature E config signature (aof_offer_id_hex offer)))))"

definition run_maker :: "'n tenv \<Rightarrow> TraderSettings \<Rightarrow> ('n, unit) flow" where
  "run_maker E maker_config =
     fbind (load_wallet E maker_config) (\<lambda>wallet.
     fbind (create_offer E wallet maker_config) (\<lambda>offer.
     fbind (wait_until_taken E (aof_offer_id_hex offer) maker_config) (\<lambda>requirements.
     fbind (flift (psbt_from_str E (otp_escrow_psbt_hex requirements))) (\<lambda>escrow_psbt.
     fbind (flift (validate_escrow_psbt escrow_psbt)) (\<lambda>_.
     fbind (flift (sign_escrow_psbt E escrow_psbt)) (\<lambda>signed_psbt.
     fbind (submit_signed_psbt E signed_psbt (aof_offer_id_hex offer) maker_config) (\<lambda>_.
     fbind (poll_confirmation E maker_config (aof_offer_id_hex offer)) (\<lambda>_.
     fbind fiat_confirmation_cli_input (\<lambda>satisfied.
     if satisfied then finish_trade E offer maker_config
     else
       fbind (submit_unsatisfied E (aof_offer_id_hex offer) maker_config) (\<lambda>_.
       fbind (poll_payout E maker_config (aof_offer_id_hex offer)) (\<lambda>_.
       fret ())))))))))))"

text \<open>The taker polls the orderbook until it gets offers.\<close>

definition await_offers :: "'n tenv \<Rightarrow> TraderSettings \<Rightarrow> ('n, PublicOffers) flow" where
  "await_offers E taker_config =
     forever (try_step (fetch_public_offers E taker_config)
       (\<lambda>available_offers. if pos_offers available_offers = None then None else Some (Ok available_offers)))"

definition run_taker :: "'n tenv \<Rightarrow> TraderSettings \<Rightarrow> ('n, unit) flow" where
  "run_taker E taker_config =
     fbind (load_wallet E taker_config) (\<lambda>wallet.
     fbind (await_offers E taker_config) (\<lambda>available_offers.
     fbind (ask_user_to_select available_offers) (\<lambda>selected_offer.
     fbind (take_offer E wallet taker_config selected_offer) (\<lambda>accepted_offer.
     fbind (poll_confirmation E taker_config (aof_offer_id_hex accepted_offer)) (\<lambda>_.
     fbind fiat_confirmation_cli_input (\<lambda>satisfied.
     if satisfied then finish_trade E accepted_offer taker_config
     else flift Panic))))))"

section \<open>The program\<close>

definition start_trade_pipeline :: "'n tenv \<Rightarrow> CliSettings \<Rightarrow> ('n, unit) flow" where
  "start_trade_pipeline E cli_input =
     (case cli_input of
        Maker maker_config \<Rightarrow> run_maker E maker_config
      | Taker taker_config \<Rightarrow> run_taker E taker_config
      | CoordinatorMode \<Rightarrow> flift (Err (Anyhow ''Wrong trading mode selected, not implemented'')))"

definition trader_main :: "'n tenv \<Rightarrow> ('n, unit) flow" where
  "trader_main E = fbind (parse_cli_args E) (start_trade_pipeline E)"

end
