(* ===== verification/Trade_Service.thy ===== *)
theory Trade_Service
  imports Trader_Flows
begin

text \<open>
  What the trader's polling loops rely on of the service behind the HTTP connection, as a locale,
  and what the loops amount to under this contract. The coordinator provides it in
  \<open>Trade_System\<close>.
\<close>

text \<open>
  \<open>serve\<close> answers a request to a URL, \<open>up\<close> is the invariant of the service. It never lists sell
  orders; a poll for the confirmation of an escrow is answered with a bare status, and the service
  moves on by itself (\<open>move_on\<close>) as with any other request that changes nothing.
\<close>

locale trade_service =
  fixes base :: string
    and serve :: "string \<Rightarrow> ApiRequest \<Rightarrow> 'n \<Rightarrow> (Response, anyhow) res \<times> 'n"
    and up :: "'n \<Rightarrow> bool"
    and move_on :: "'n \<Rightarrow> 'n"
    and poll_status :: "OfferTakenRequest \<Rightarrow> 'n \<Rightarrow> nat"
  assumes hides_sell_orders: "up n \<Longrightarrow> \<not> ofr_buy_offers q \<Longrightarrow>
      serve (base @ ''/fetch-available-offers'') (FetchAvailableOffers q) n = (Ok (code 204), move_on n)"
    and answers_polls: "up n \<Longrightarrow>
      serve (base @ ''/poll-escrow-confirmation'') (PollEscrowConfirmation p) n = (Ok (code (poll_status p n)), move_on n)"
    and stays_up: "up n \<Longrightarrow> up (move_on n)"
begin

lemma up_later: "up n \<Longrightarrow> up ((move_on ^^ k) n)"
  by (induction k) (simp_all add: stays_up)

lemma buyer_finds_nothing:
  assumes "http_post E = serve" and "ts_coordinator_endpoint cfg = base" and "is_buy_order (ts_trade_type cfg)"
    and "up (net s)"
  shows "fetch_public_offers E cfg s = Some (Ok \<lparr> pos_offers = None \<rparr>, s\<lparr>net := move_on (net s)\<rparr>)"
  using hides_sell_orders [OF assms(4), of "offers_request cfg"] assms(1-3)
  by (simp add: fetch_public_offers_def post_def flow_simps code_def offers_request_def Let_def fbind_def)

lemma buyer_polls_forever:
  assumes "http_post E = serve" and "ts_coordinator_endpoint cfg = base" and "is_buy_order (ts_trade_type cfg)"
    and "up (net s)"
  shows "await_offers E cfg s = None"
  unfolding await_offers_def
proof (rule forever_diverges [where I = "\<lambda>s. up (net s)"])
  show "up (net s)" by (rule assms(4))
qed (use buyer_finds_nothing [OF assms(1-3)] in \<open>simp add: try_step_def stays_up\<close>)

lemma confirmation_turn:
  assumes "http_post E = serve" and "up (net s)" and "ts_coordinator_endpoint cfg = base"
  shows "try_step (post E (base @ ''/poll-escrow-confirmation'') (PollEscrowConfirmation p)) confirmation_decision
      (s\<lparr>net := (move_on ^^ k) (net s)\<rparr>) =
    Some (confirmation_decision (code (poll_status p ((move_on ^^ k) (net s)))), s\<lparr>net := (move_on ^^ Suc k) (net s)\<rparr>)"
  using answers_polls [OF up_later [OF assms(2)]] assms(1) by (simp add: try_step_def post_def)

text \<open>The wait ends with the first status that is not 202.\<close>

lemma wait_for_confirmation:
  assumes "http_post E = serve" and "ts_coordinator_endpoint cfg = base" and "up (net s)"
    and "\<And>k. answer k = poll_status (ready_request cfg i) ((move_on ^^ k) (net s))"
  shows "((\<forall>k. answer k = 202) \<longrightarrow> poll_confirmation E cfg i s = None) \<and>
    (\<forall>k. (\<forall>j < k. answer j = 202) \<and> answer k \<noteq> 202 \<longrightarrow>
      poll_confirmation E cfg i s =
        Some (if answer k = 200 then Ok ()
              else Err (Anyhow ''Requesting offer status when waiting on other party failed''),
          s\<lparr>net := (move_on ^^ Suc k) (net s)\<rparr>))"
proof (intro conjI impI allI)
  let ?turn = "try_step (post E (base @ ''/poll-escrow-confirmation'')
       (PollEscrowConfirmation (ready_request cfg i))) confirmation_decision"
  let ?st = "\<lambda>k. s\<lparr>net := (move_on ^^ k) (net s)\<rparr>"
  note turn = confirmation_turn [OF assms(1,3,2), of "ready_request cfg i", folded assms(4)]
  {
    assume never: "\<forall>k. answer k = 202"
    show "poll_confirmation E cfg i s = None"
      unfolding poll_confirmation_def assms(2)
    proof (rule forever_diverges [where I = "\<lambda>t. \<exists>k. t = ?st k"])
      show "\<exists>k. s = ?st k" by (rule exI [of _ 0]) simp
      fix t assume "\<exists>k. t = ?st k"
      then obtain k where "t = ?st k" by blast
      then have "?turn t = Some (None, ?st (Suc k))"
        using turn [of k] never by (simp add: confirmation_decision_def code_def)
      then show "\<exists>t'. ?turn t = Some (None, t') \<and> (\<exists>k. t' = ?st k)" by blast
    qed
  next
    fix k assume k: "(\<forall>j < k. answer j = 202) \<and> answer k \<noteq> 202"
    have "forever ?turn (?st 0) =
        Some (if answer k = 200 then Ok () else Err (Anyhow ''Requesting offer status when waiting on other party failed''), ?st (Suc k))"
      by (rule forever_returns [where k = k and st = ?st])
        (use turn k in \<open>simp_all add: confirmation_decision_def code_def\<close>)
    then show "poll_confirmation E cfg i s =
        Some (if answer k = 200 then Ok () else Err (Anyhow ''Requesting offer status when waiting on other party failed''), ?st (Suc k))"
      by (simp add: poll_confirmation_def assms(2))
  }
qed

end

end
