(* ===== verification/Orders_Spec.thy ===== *)
theory Orders_Spec
  imports Invariants
begin

text \<open>
  What the coordinator promises about orders and the orderbook: the amounts of a validated
  order, its way through the tables to the public offers, and what a search returns.
\<close>

section \<open>Amounts of an order\<close>

lemma ucast_u8_u64: "unat (ucast (w :: u8) :: u64) = unat w"
  using unsigned_less [of w, where ?'a = nat] by (simp add: unsigned_ucast_eq take_bit_nat_eq_self)

lemma order_bounds:
  assumes "offer_in_range offer"
  shows "10000 \<le> unat (or_amount_satoshi offer)" "unat (or_amount_satoshi offer) \<le> 20000000"
    "2 \<le> unat (or_bond_ratio offer)" "unat (or_bond_ratio offer) \<le> 50"
  using assms by (simp_all add: offer_in_range_def word_le_nat_alt)

lemma order_product:
  assumes "offer_in_range offer"
  shows "unat (ucast (or_bond_ratio offer) :: u64) * unat (or_amount_satoshi offer) < 2 ^ 64"
    and "unat (ucast (or_bond_ratio offer) * or_amount_satoshi offer :: u64) =
      unat (or_bond_ratio offer) * unat (or_amount_satoshi offer)"
proof -
  have "unat (or_bond_ratio offer) * unat (or_amount_satoshi offer) \<le> 50 * 20000000"
    using order_bounds [OF assms] by (intro mult_le_mono) auto
  then show lt: "unat (ucast (or_bond_ratio offer) :: u64) * unat (or_amount_satoshi offer) < 2 ^ 64"
    by (simp add: ucast_u8_u64)
  show "unat (ucast (or_bond_ratio offer) * or_amount_satoshi offer :: u64) =
      unat (or_bond_ratio offer) * unat (or_amount_satoshi offer)"
    using unat_mul_u64 [OF lt] by (simp add: ucast_u8_u64)
qed

lemma order_bond_amount:
  assumes "offer_in_range offer"
  shows "unat ((ucast (or_bond_ratio offer) * or_amount_satoshi offer :: u64) div 100) =
    unat (or_bond_ratio offer) * unat (or_amount_satoshi offer) div 100"
  by (simp add: unat_div order_product(2) [OF assms])

lemma order_requirements_amounts:
  assumes "offer_in_range offer"
    and "unat (order_fee (coordinator_feerate E) (or_amount_satoshi offer)) < 2 ^ 63"
  shows "\<exists>bond locking. order_requirements E offer = Ok (bond, locking) \<and>
    unat bond = unat (or_bond_ratio offer) * unat (or_amount_satoshi offer) div 100 \<and>
    200 \<le> unat bond \<and> 2 * unat bond \<le> unat (or_amount_satoshi offer) \<and>
    unat locking = unat bond + unat (order_fee (coordinator_feerate E) (or_amount_satoshi offer)) + 10000"
proof -
  let ?a = "unat (or_amount_satoshi offer)" and ?r = "unat (or_bond_ratio offer)"
  let ?bond = "(ucast (or_bond_ratio offer) * or_amount_satoshi offer :: u64) div 100"
  let ?fee = "order_fee (coordinator_feerate E) (or_amount_satoshi offer)"
  note b = order_bounds [OF assms(1)] and p = order_product [OF assms(1)]
  have bond: "unat ?bond = ?r * ?a div 100" by (rule order_bond_amount [OF assms(1)])
  have "2 * 10000 \<le> ?r * ?a" using b by (intro mult_le_mono) auto
  then have low: "200 \<le> ?r * ?a div 100" using div_le_mono [of 20000 "?r * ?a" 100] by simp
  have "?r * ?a \<le> 50 * ?a" using b by simp
  then have high: "2 * (?r * ?a div 100) \<le> ?a" by linarith
  have s1: "unat ?bond + unat ?fee < 2 ^ 64" using assms(2) high b bond by simp
  have s2: "unat (?bond + ?fee) + 5000 < 2 ^ 64" using s1 assms(2) high b bond by (simp add: unat_add_u64)
  then have u2: "unat (?bond + ?fee + 5000) = unat ?bond + unat ?fee + 5000"
    using s1 by (simp add: unat_add_u64)
  have s3: "unat (?bond + ?fee + 5000) + 5000 < 2 ^ 64"
    using u2 assms(2) high b bond by simp
  have "order_requirements E offer = Ok (?bond, ?bond + ?fee + 5000 + 5000)"
    using p(1) s1 s2 s3 by (simp add: order_requirements_def mul_u64_Ok add_u64_Ok Let_def)
  moreover have "unat (?bond + ?fee + 5000 + 5000) = unat ?bond + unat ?fee + 10000"
    using s3 u2 unat_add_u64 [of "?bond + ?fee + 5000" 5000] by simp
  ultimately show ?thesis using bond low high by (metis (no_types, lifting))
qed

text \<open>
  C28: For an order that passes the range checks neither cargo profile meets an overflow, as long as
  the fee is below 2 ^ 63: the bond is the exact percentage, between 200 sat and half of
  the amount, and the input the maker has to lock besides the trade sum is bond, fee and 10000 sat.
\<close>

theorem order_requirements_exact:
  assumes "offer_in_range offer"
    and "unat (order_fee (coordinator_feerate E) (or_amount_satoshi offer)) < 2 ^ 63"
  shows "\<exists>bond locking. order_requirements E offer = Ok (bond, locking) \<and>
    unat bond = unat (or_bond_ratio offer) * unat (or_amount_satoshi offer) div 100 \<and>
    200 \<le> unat bond \<and> 2 * unat bond \<le> unat (or_amount_satoshi offer) \<and>
    unat locking = unat bond + unat (order_fee (coordinator_feerate E) (or_amount_satoshi offer)) + 10000"
  using order_requirements_amounts [OF assms] .

lemma order_requirements_exact_witness:
  "\<exists>bond locking. order_requirements env0 sample_order = Ok (bond, locking) \<and>
    unat bond = unat (or_bond_ratio sample_order) * unat (or_amount_satoshi sample_order) div 100 \<and>
    200 \<le> unat bond \<and> 2 * unat bond \<le> unat (or_amount_satoshi sample_order) \<and>
    unat locking = unat bond + unat (order_fee (coordinator_feerate env0) (or_amount_satoshi sample_order)) + 10000"
proof (rule order_requirements_exact)
  show "offer_in_range sample_order" by code_simp
  have "order_fee (coordinator_feerate env0) (or_amount_satoshi sample_order) = 200" by code_simp
  then show "unat (order_fee (coordinator_feerate env0) (or_amount_satoshi sample_order)) < 2 ^ 63" by simp
qed

section \<open>Validation of an order\<close>

lemma validate_timestamp_window:
  assumes "unix_now E = Some now" and "unat now + 604800 < 2 ^ 64"
  shows "is_ok (validate_timestamp E ts) \<longleftrightarrow> unat now + 10800 \<le> unat ts \<and> unat ts \<le> unat now + 604800"
    and "validate_timestamp E ts \<noteq> Panic"
proof -
  have "unat (now + 10800) = unat now + 10800" "unat (now + 604800) = unat now + 604800"
    using assms(2) by (simp_all add: unat_add_u64)
  then show "is_ok (validate_timestamp E ts) \<longleftrightarrow> unat now + 10800 \<le> unat ts \<and> unat ts \<le> unat now + 604800"
    and "validate_timestamp E ts \<noteq> Panic"
    using assms by (auto simp: validate_timestamp_def add_u64_Ok word_less_nat_alt)
qed

definition acceptable :: "u64 \<Rightarrow> OfferRequest \<Rightarrow> bool" where
  "acceptable now offer \<longleftrightarrow> offer_in_range offer \<and>
     unat now + 10800 \<le> unat (or_offer_duration_ts offer) \<and> unat (or_offer_duration_ts offer) \<le> unat now + 604800"

lemma validate_offer_iff:
  assumes "unix_now E = Some now" and "unat now + 604800 < 2 ^ 64"
  shows "validate_offer E offer = Ok (acceptable now offer)"
  using validate_timestamp_window [OF assms, of "or_offer_duration_ts offer"]
  by (cases "validate_timestamp E (or_offer_duration_ts offer)") (auto simp: validate_offer_def acceptable_def)

text \<open>
  C29: An order whose amount, bond ratio or duration is outside the allowed ranges (10000 to
  20000000 sat, 2 to 50 percent, 3 hours to 7 days from now) is answered with status 400 and
  changes nothing: no address is derived and no row is written.
\<close>

theorem invalid_order_refused:
  assumes "unix_now E = Some now" and "unat now + 604800 < 2 ^ 64"
    and "\<not> (10000 \<le> unat (or_amount_satoshi offer) \<and> unat (or_amount_satoshi offer) \<le> 20000000 \<and>
      2 \<le> unat (or_bond_ratio offer) \<and> unat (or_bond_ratio offer) \<le> 50 \<and>
      unat now + 10800 \<le> unat (or_offer_duration_ts offer) \<and>
      unat (or_offer_duration_ts offer) \<le> unat now + 604800)"
  shows "respond E (CreateOffer offer) s = (Some \<lparr>status = 400, body = NoBody\<rparr>, s)"
proof -
  have "\<not> acceptable now offer"
    using assms(3) by (auto simp: acceptable_def offer_in_range_def word_le_nat_alt)
  then show ?thesis
    using validate_offer_iff [OF assms(1,2), of offer]
    by (simp add: respond_def receive_order_def run_simps code_def)
qed

lemma invalid_order_refused_witness:
  "respond env0 (CreateOffer (sample_order\<lparr>or_bond_ratio := 51\<rparr>)) (init_coord []) =
     (Some \<lparr>status = 400, body = NoBody\<rparr>, init_coord [])"
  by (rule invalid_order_refused [of _ 1700000000]) (simp_all add: env0_def sample_order_def)

section \<open>From the order to a pending request\<close>

definition pending_request :: "bytes \<Rightarrow> OfferRequest \<Rightarrow> BondRequirementResponse \<Rightarrow> MakerRequestRow" where
  "pending_request h offer req =
     \<lparr> mr_robohash = h, mr_is_buy_order = bool_to_sql_int (or_is_buy_order offer),
       mr_amount_sat = or_amount_satoshi offer, mr_bond_ratio = or_bond_ratio offer,
       mr_offer_duration_ts = or_offer_duration_ts offer, mr_bond_address = brr_bond_address req,
       mr_bond_amount_sat = brr_locking_amount_sat req,
       mr_escrow_locking_input_amount_without_trade_sum =
         brr_escrow_locking_input_amount_without_trade_sum req \<rparr>"

text \<open>The successful run of \<open>process_order\<close>.\<close>

lemma process_order_Ok:
  assumes "sql_faults s = []" and "hex_decode E (or_robohash_hex offer) = Some h"
    and "run (process_order E offer) s = (Ok req, s')"
  obtains bond locking addr where
    "order_requirements E offer = Ok (bond, locking)" "address_at E (wallet_index s) = Ok addr"
    "req = \<lparr> brr_bond_address = addr, brr_locking_amount_sat = bond,
       brr_escrow_locking_input_amount_without_trade_sum = locking \<rparr>"
    "s' = s\<lparr>wallet_index := Suc (wallet_index s),
       maker_requests := tbl_replace mr_robohash (pending_request h offer req) (maker_requests s)\<rparr>"
  using assms that
  by (cases "order_requirements E offer"; cases "address_at E (wallet_index s)")
    (auto simp: process_order_def insert_new_maker_request_def pending_request_def run_simps Let_def)

text \<open>
  C21: An accepted order leaves exactly one pending request under the trader's robohash, with
  the order's terms and the bond requirements of the response, and the requirements the bond
  is later validated against are those of the response; requests of other traders stay as they
  are. A second order of the same trader replaces the first.
\<close>

theorem order_recorded:
  assumes "sql_faults s = []"
    and "run (process_order E offer) s = (Ok req, s')"
    and "hex_decode E (or_robohash_hex offer) = Some h"
  shows "find_request h s' = Some
      \<lparr> mr_robohash = h, mr_is_buy_order = bool_to_sql_int (or_is_buy_order offer),
        mr_amount_sat = or_amount_satoshi offer, mr_bond_ratio = or_bond_ratio offer,
        mr_offer_duration_ts = or_offer_duration_ts offer, mr_bond_address = brr_bond_address req,
        mr_bond_amount_sat = brr_locking_amount_sat req,
        mr_escrow_locking_input_amount_without_trade_sum =
          brr_escrow_locking_input_amount_without_trade_sum req \<rparr> \<and>
    run (fetch_bond_requirements E (or_robohash_hex offer)) s' =
      (Ok \<lparr> br_bond_address = brr_bond_address req, br_locking_amount_sat = brr_locking_amount_sat req,
           br_min_input_sum_sat = or_amount_satoshi offer \<rparr>, s') \<and>
    (\<forall>k. k \<noteq> h \<longrightarrow> find_request k s' = find_request k s)"
proof (rule process_order_Ok [OF assms(1,3,2)])
  fix bond locking addr
  assume "req = \<lparr> brr_bond_address = addr, brr_locking_amount_sat = bond,
      brr_escrow_locking_input_amount_without_trade_sum = locking \<rparr>"
    "s' = s\<lparr>wallet_index := Suc (wallet_index s),
      maker_requests := tbl_replace mr_robohash (pending_request h offer req) (maker_requests s)\<rparr>"
  then show ?thesis
    using assms(1,3) by (simp add: fetch_bond_requirements_def run_simps requests.look_put pending_request_def)
qed

lemma order_recorded_witness:
  "find_request [109] (snd (run (process_order env0 sample_order) (init_coord []))) \<noteq> None"
proof -
  have "is_ok (fst (run (process_order env0 sample_order) (init_coord [])))" by code_simp
  then obtain req s' where r: "run (process_order env0 sample_order) (init_coord []) = (Ok req, s')"
    by (auto dest: run_is_ok)
  have "hex_decode env0 (or_robohash_hex sample_order) = Some [109]" by (simp add: sample_order_def)
  from order_recorded [OF _ r this] show ?thesis by (simp add: r)
qed

section \<open>From the pending request to the orderbook\<close>

lemma col_bool_flag_column:
  "sqlite_nulls E \<Longrightarrow> flag_column v \<Longrightarrow> col_bool E v = Some (v = Some 1)"
  by (auto simp: flag_column_def col_bool_def col_def sqlite_nulls_def)

lemma bool_flag_column: "flag_column v \<Longrightarrow> bool_to_sql_int (v = Some 1) = v"
  by (auto simp: flag_column_def)

lemma request_flag: "flags_ok s \<Longrightarrow> find_request h s = Some r \<Longrightarrow> flag_column (mr_is_buy_order r)"
  by (auto dest: tbl_find_Some simp: flags_ok_def)

definition listed_offer ::
  "string \<Rightarrow> MakerRequestRow \<Rightarrow> BondSubmissionRequest \<Rightarrow> string \<Rightarrow> ActiveOfferRow"
where
  "listed_offer i req p taker_address =
     \<lparr> ao_offer_id = i, ao_robohash = mr_robohash req, ao_is_buy_order = mr_is_buy_order req,
       ao_amount_sat = mr_amount_sat req, ao_bond_ratio = ucast (mr_bond_ratio req),
       ao_offer_duration_ts = mr_offer_duration_ts req, ao_bond_address = mr_bond_address req,
       ao_bond_amount_sat = mr_bond_amount_sat req,
       ao_escrow_locking_input_amount_without_trade_sum = mr_bond_amount_sat req,
       ao_bond_tx_hex = bsr_signed_bond_hex p, ao_payout_address = bsr_payout_address p,
       ao_change_address_maker = bsr_client_change_address p,
       ao_escrow_inputs_hex_maker_csv = bsr_bdk_psbt_inputs_hex_csv p,
       ao_taproot_pubkey_hex_maker = bsr_taproot_pubkey_hex p,
       ao_musig_pub_nonce_hex = bsr_musig_pub_nonce_hex p,
       ao_musig_pubkey_hex = bsr_musig_pubkey_hex p, ao_taker_bond_address = taker_address \<rparr>"

lemma run_move_offer_to_active:
  assumes "sql_faults s = []" and "flags_ok s" and "sqlite_nulls E"
    and "hex_decode E (bsr_robohash_hex p) = Some h" and "find_request h s = Some req"
  shows "run (move_offer_to_active E p i a) s =
    (Ok (mr_offer_duration_ts req),
     s\<lparr>maker_requests := tbl_delete mr_robohash h (maker_requests s),
       active_maker_offers := tbl_replace ao_offer_id (listed_offer i req p a) (active_maker_offers s)\<rparr>)"
  using assms request_flag [OF assms(2,5)] requests.look_key [OF assms(5)]
  by (simp add: move_offer_to_active_def fetch_and_delete_offer_from_bond_table_def run_simps
      col_bool_flag_column bool_flag_column listed_offer_def)

text \<open>The successful run of \<open>handle_maker_bond\<close>, step by step.\<close>

lemma handle_maker_bond_Ok:
  assumes "sql_faults s = []" and "flags_ok s" and "sqlite_nulls E"
    and "hex_decode E (bsr_robohash_hex p) = Some h"
    and "run (handle_maker_bond E p) s = (Ok r, s')"
  obtains req addr where "find_request h s = Some req"
    "address_at E (wallet_index s) = Ok addr"
    "r = \<lparr> oar_offer_id_hex = generate_random_order_id E 16,
           oar_bond_locked_until_timestamp = mr_offer_duration_ts req \<rparr>"
    "s' = s\<lparr>wallet_index := Suc (wallet_index s),
       maker_requests := tbl_delete mr_robohash h (maker_requests s),
       active_maker_offers :=
         tbl_replace ao_offer_id (listed_offer (oar_offer_id_hex r) req p addr) (active_maker_offers s)\<rparr>"
proof (cases "find_request h s")
  case None
  then show ?thesis using assms by (simp add: handle_maker_bond_def fetch_bond_requirements_def run_simps)
next
  case (Some req)
  let ?s = "s\<lparr>wallet_index := Suc (wallet_index s)\<rparr>"
  let ?req = "\<lparr> br_bond_address = mr_bond_address req, br_locking_amount_sat = mr_bond_amount_sat req,
      br_min_input_sum_sat = mr_amount_sat req \<rparr>"
  have "flags_ok ?s" using assms(2) by (simp add: flags_ok_def)
  note move = run_move_offer_to_active [of ?s E p h req, simplified, OF assms(1) this assms(3,4) Some]
  show ?thesis
    using assms(1,4,5) Some move that
    by (cases "bind_res (bonds_result E (mempool_utxo_set s) [submitted_bond (bsr_signed_bond_hex p) ?req]) (first_error E)";
        cases "address_at E (wallet_index s)")
      (auto simp: handle_maker_bond_def fetch_bond_requirements_def run_simps Let_def)
qed

text \<open>
  C30: When a maker's bond is accepted the pending request becomes an offer of the orderbook
  under the returned id: the request is gone, the offer has its terms and the maker's
  submission, the bond stays monitored until the end of the offer's duration, and no other
  request, offer or trade changes. What is not carried over is the locking amount: the offer's
  column holds the bond amount, whatever the request says.
\<close>

theorem maker_bond_lists_offer:
  assumes "sql_faults s = []" and "flags_ok s" and "sqlite_nulls E"
    and "hex_decode E (bsr_robohash_hex p) = Some h"
    and "run (handle_maker_bond E p) s = (Ok r, s')"
  shows "\<exists>req addr. find_request h s = Some req \<and> find_request h s' = None \<and>
    find_active (oar_offer_id_hex r) s' = Some (listed_offer (oar_offer_id_hex r) req p addr) \<and>
    ao_escrow_locking_input_amount_without_trade_sum (listed_offer (oar_offer_id_hex r) req p addr) =
      mr_bond_amount_sat req \<and>
    oar_bond_locked_until_timestamp r = mr_offer_duration_ts req \<and>
    (\<forall>k. k \<noteq> h \<longrightarrow> find_request k s' = find_request k s) \<and>
    (\<forall>i. i \<noteq> oar_offer_id_hex r \<longrightarrow> find_active i s' = find_active i s) \<and>
    taken_offers s' = taken_offers s"
proof (rule handle_maker_bond_Ok [OF assms])
  fix req addr
  assume r: "find_request h s = Some req"
    "r = \<lparr> oar_offer_id_hex = generate_random_order_id E 16,
           oar_bond_locked_until_timestamp = mr_offer_duration_ts req \<rparr>"
    "s' = s\<lparr>wallet_index := Suc (wallet_index s),
       maker_requests := tbl_delete mr_robohash h (maker_requests s),
       active_maker_offers :=
         tbl_replace ao_offer_id (listed_offer (oar_offer_id_hex r) req p addr) (active_maker_offers s)\<rparr>"
  have "ao_offer_id (listed_offer i req p addr) = i" for i
    by (simp add: listed_offer_def)
  then have "find_request h s' = None \<and>
      find_active (oar_offer_id_hex r) s' = Some (listed_offer (oar_offer_id_hex r) req p addr) \<and>
      (\<forall>k. k \<noteq> h \<longrightarrow> find_request k s' = find_request k s) \<and>
      (\<forall>i. i \<noteq> oar_offer_id_hex r \<longrightarrow> find_active i s' = find_active i s)"
    using r(3) by (simp add: requests.look_del orderbook.look_put)
  then show ?thesis using r by (auto simp: listed_offer_def)
qed

definition ordered_state :: coord where
  "ordered_state = exec (Request env0 (CreateOffer sample_order)) (init_coord [])"

lemma ordered_state_ok: "sql_faults ordered_state = []" "flags_ok ordered_state"
proof -
  show "sql_faults ordered_state = []" by (simp add: ordered_state_def)
  have "tables_ok ordered_state"
    unfolding ordered_state_def by (intro tables.event tables.start)
  then show "flags_ok ordered_state" by (simp add: tables_ok_def)
qed

lemma maker_bond_lists_offer_witness:
  "find_request [109] (snd (run (handle_maker_bond env0 (sample_bond ''m'')) ordered_state)) = None \<and>
   active_maker_offers (snd (run (handle_maker_bond env0 (sample_bond ''m'')) ordered_state)) \<noteq> []"
proof -
  have "is_ok (fst (run (handle_maker_bond env0 (sample_bond ''m'')) ordered_state))" by code_simp
  then obtain r s' where r: "run (handle_maker_bond env0 (sample_bond ''m'')) ordered_state = (Ok r, s')"
    by (auto dest: run_is_ok)
  have "hex_decode env0 (bsr_robohash_hex (sample_bond ''m'')) = Some [109]" by (simp add: sample_bond_def)
  from maker_bond_lists_offer [OF ordered_state_ok env0_laws(1) this r]
  show ?thesis by (auto simp: r tbl_find_def)
qed

text \<open>
  C31: The move from the pending requests to the orderbook is not atomic: when the driver fails
  on the INSERT, after the DELETE, the maker gets an error and the offer is in neither table.
\<close>

theorem failed_insert_loses_offer:
  assumes "sql_faults s = [False, False, True]" and "flags_ok s" and "sqlite_nulls E"
    and "hex_decode E (bsr_robohash_hex p) = Some h" and "find_request h s = Some req"
  shows "\<exists>s'. run (move_offer_to_active E p i a) s = (Err SqlFailed, s') \<and>
    find_request h s' = None \<and> active_maker_offers s' = active_maker_offers s"
  using assms request_flag [OF assms(2,5)]
  by (simp add: move_offer_to_active_def fetch_and_delete_offer_from_bond_table_def run_simps
      col_bool_flag_column sql_up_def)

lemma failed_insert_loses_offer_witness:
  "\<exists>s'. run (move_offer_to_active env0 (sample_bond ''m'') ''i'' ''a'')
      (ordered_state\<lparr>sql_faults := [False, False, True]\<rparr>) = (Err SqlFailed, s') \<and>
    find_request [109] s' = None \<and> active_maker_offers s' = []"
proof -
  let ?s = "ordered_state\<lparr>sql_faults := [False, False, True]\<rparr>"
  have "find_request [109] ?s \<noteq> None" by code_simp
  then obtain req where req: "find_request [109] ?s = Some req" by blast
  have hex: "hex_decode env0 (bsr_robohash_hex (sample_bond ''m'')) = Some [109]" by (simp add: sample_bond_def)
  have "flags_ok ?s" using ordered_state_ok(2) by (simp add: flags_ok_def)
  moreover have "active_maker_offers ?s = []" by code_simp
  ultimately show ?thesis
    using failed_insert_loses_offer [OF _ _ env0_laws(1) hex req, of "''i''" "''a''"] by simp
qed

section \<open>Searching the orderbook\<close>

lemma active_flag: "flags_ok s \<Longrightarrow> r \<in> set (active_maker_offers s) \<Longrightarrow> flag_column (ao_is_buy_order r)"
  by (simp add: flags_ok_def)

lemma respond_offers:
  assumes "sql_faults s = []"
  shows "respond E (FetchAvailableOffers q) s =
    (let found = filter (offer_matches q) (active_maker_offers s) in
     (Some (if found = [] then code 204
            else json (PublicOffersJson \<lparr>pos_offers = Some (map public_offer_of_row found)\<rparr>)), s))"
  using assms
  by (simp add: respond_def fetch_available_offers_def get_public_offers_def fetch_suitable_offers_def
      run_simps Let_def offers_error_response_def)

text \<open>
  C32: A search for buy orders returns exactly the offers of the orderbook that were created as
  buy orders and whose amount lies in the asked range, each with the requirements for the
  taker, and status 204 when there are none; it changes nothing.
\<close>

theorem buy_search_exact:
  assumes "reachable s" and "sql_faults s = []" and "ofr_buy_offers q"
  shows "\<exists>resp found. respond E (FetchAvailableOffers q) s = (Some resp, s) \<and>
    set found = {public_offer_of_row r | r. r \<in> set (active_maker_offers s) \<and> ao_is_buy_order r \<noteq> None \<and>
      sint (ofr_amount_min_sat q) \<le> sint (ao_amount_sat r) \<and>
      sint (ao_amount_sat r) \<le> sint (ofr_amount_max_sat q)} \<and>
    resp = (if found = [] then code 204 else json (PublicOffersJson \<lparr>pos_offers = Some found\<rparr>))"
proof -
  let ?found = "filter (offer_matches q) (active_maker_offers s)"
  have "flags_ok s" using tables.reachable [OF assms(1)] by (simp add: tables_ok_def)
  then have buy: "sql_eq (ao_is_buy_order r) 1 \<longleftrightarrow> ao_is_buy_order r \<noteq> None" if "r \<in> set (active_maker_offers s)" for r
    using active_flag [OF _ that] by (auto simp: flag_column_def sql_eq_def)
  have set: "set (map public_offer_of_row ?found) =
      {public_offer_of_row r | r. r \<in> set (active_maker_offers s) \<and> ao_is_buy_order r \<noteq> None \<and>
        sint (ofr_amount_min_sat q) \<le> sint (ao_amount_sat r) \<and>
        sint (ao_amount_sat r) \<le> sint (ofr_amount_max_sat q)}"
    using assms(3) buy by (auto simp: offer_matches_def)
  have "respond E (FetchAvailableOffers q) s =
      (Some (if map public_offer_of_row ?found = [] then code 204
        else json (PublicOffersJson \<lparr>pos_offers = Some (map public_offer_of_row ?found)\<rparr>)), s)"
    using respond_offers [OF assms(2), of E q] by (simp add: Let_def)
  then show ?thesis using set by blast
qed

lemma buy_search_exact_witness:
  "fst (respond env0 (FetchAvailableOffers \<lparr>ofr_buy_offers = True, ofr_amount_min_sat = 1, ofr_amount_max_sat = 50000\<rparr>)
     offer_state) \<noteq> Some (code 204)"
proof -
  let ?s = offer_state and ?q = "\<lparr>ofr_buy_offers = True, ofr_amount_min_sat = 1, ofr_amount_max_sat = 50000\<rparr>"
  have "sql_faults ?s = []" by simp
  then obtain resp found where r: "respond env0 (FetchAvailableOffers ?q) ?s = (Some resp, ?s)"
    "set found = {public_offer_of_row r | r. r \<in> set (active_maker_offers ?s) \<and> ao_is_buy_order r \<noteq> None \<and>
      sint (ofr_amount_min_sat ?q) \<le> sint (ao_amount_sat r) \<and>
      sint (ao_amount_sat r) \<le> sint (ofr_amount_max_sat ?q)}"
    "resp = (if found = [] then code 204 else json (PublicOffersJson \<lparr>pos_offers = Some found\<rparr>))"
    using buy_search_exact [of ?s ?q env0] by auto
  have "list_ex (\<lambda>r. ao_is_buy_order r \<noteq> None \<and> sint (ofr_amount_min_sat ?q) \<le> sint (ao_amount_sat r) \<and>
      sint (ao_amount_sat r) \<le> sint (ofr_amount_max_sat ?q)) (active_maker_offers ?s)" by code_simp
  then have "set found \<noteq> {}" using r(2) by (auto simp: list_ex_iff)
  then show ?thesis using r(1,3) by (auto simp: json_def code_def)
qed

lemma respond_sell_search:
  assumes "flags_ok s" and "sql_faults s = []" and "\<not> ofr_buy_offers q"
  shows "respond E (FetchAvailableOffers q) s = (Some (code 204), s)"
proof -
  have "\<not> offer_matches q r" if "r \<in> set (active_maker_offers s)" for r
    using active_flag [OF assms(1) that] assms(3) by (auto simp: offer_matches_def flag_column_def sql_eq_def)
  then show ?thesis
    using respond_offers [OF assms(2), of E q] by (auto simp: Let_def filter_empty_conv)
qed

section \<open>Taking an offer\<close>

lemma col_i32_flag_column:
  "sqlite_nulls E \<Longrightarrow> flag_column v \<Longrightarrow>
     col (null_as_i32 E) (map_option ucast v) = Some (if v = Some 1 then 1 else 0)"
  by (auto simp: flag_column_def col_def sqlite_nulls_def)

text \<open>What \<open>add_taker_info_and_move_table\<close> writes, from the offer, the taker's request and the escrow.\<close>

definition offer_of_row :: "ActiveOfferRow \<Rightarrow> AwaitingTakerOffer" where
  "offer_of_row r =
     \<lparr> ato_offer_id = ao_offer_id r, ato_robohash_maker = ao_robohash r,
       ato_is_buy_order = (ao_is_buy_order r = Some 1), ato_amount_sat = ao_amount_sat r,
       ato_bond_ratio = ao_bond_ratio r, ato_offer_duration_ts = ao_offer_duration_ts r,
       ato_bond_address_maker = ao_bond_address r, ato_bond_amount_sat = ao_bond_amount_sat r,
       ato_bond_tx_hex_maker = ao_bond_tx_hex r, ato_payout_address_maker = ao_payout_address r,
       ato_taproot_pubkey_hex_maker = ao_taproot_pubkey_hex_maker r,
       ato_musig_pub_nonce_hex_maker = ao_musig_pub_nonce_hex r,
       ato_musig_pubkey_hex_maker = ao_musig_pubkey_hex r \<rparr>"

lemma run_add_taker_info:
  assumes "sql_faults s = []" and "flags_ok s" and "sqlite_nulls E"
    and "find_active (po_offer_id_hex (opr_offer info)) s = Some r"
    and "hex_decode E (bsr_robohash_hex (opr_trade_data info)) = Some h"
  shows "run (add_taker_info_and_move_table E info escrow) s =
    (Ok (), s\<lparr>active_maker_offers := tbl_delete ao_offer_id (ao_offer_id r) (active_maker_offers s),
       taken_offers := tbl_replace to_offer_id (taken_row (offer_of_row r) h info escrow) (taken_offers s)\<rparr>)"
proof -
  have "flag_column (ao_is_buy_order r)"
    using assms(2,4) by (auto dest: tbl_find_Some simp: flags_ok_def)
  then show ?thesis
    using assms orderbook.look_key [OF assms(4)]
    by (simp add: add_taker_info_and_move_table_def fetch_and_delete_offer_from_public_offers_table_def
        run_simps col_i32_flag_column offer_of_row_def)
qed

lemma flags_ok_quiet: "quiet s s' \<Longrightarrow> flags_ok s' \<longleftrightarrow> flags_ok s"
  by (simp add: quiet_def flags_ok_def)

text \<open>The successful run of \<open>handle_taker_bond\<close>: the offer found, the escrow made, the move.\<close>

lemma handle_taker_bond_Ok:
  assumes "sql_faults s = []" and "flags_ok s" and "sqlite_nulls E"
    and "run (handle_taker_bond E p) s = (Ok resp, s')"
  obtains r h escrow t where "find_active (po_offer_id_hex (opr_offer p)) s = Some r"
    "hex_decode E (bsr_robohash_hex (opr_trade_data p)) = Some h"
    "run (create_escrow_psbt E p) s = (Ok escrow, t)" "quiet s t"
    "resp = offer_taken_response escrow"
    "s' = t\<lparr>active_maker_offers := tbl_delete ao_offer_id (ao_offer_id r) (active_maker_offers s),
       taken_offers := tbl_replace to_offer_id (taken_row (offer_of_row r) h p escrow) (taken_offers s)\<rparr>"
proof -
  let ?i = "po_offer_id_hex (opr_offer p)"
  obtain r where r: "find_active ?i s = Some r"
    using assms(1,4)
    by (cases "find_active ?i s") (auto simp: handle_taker_bond_def fetch_taker_bond_requirements_def run_simps)
  let ?req = "\<lparr> br_bond_address = ao_taker_bond_address r, br_locking_amount_sat = ao_bond_amount_sat r,
      br_min_input_sum_sat = ao_amount_sat r \<rparr>"
  let ?valid = "bind_res (bonds_result E (mempool_utxo_set s)
      [submitted_bond (bsr_signed_bond_hex (opr_trade_data p)) ?req]) (first_error E)"
  obtain res t where t: "run (create_escrow_psbt E p) s = (res, t)"
    by (cases "run (create_escrow_psbt E p) s")
  have ok: "?valid = Ok ()" "is_ok res"
    using assms(1,4) r t
    by (cases ?valid; cases res; simp add: handle_taker_bond_def fetch_taker_bond_requirements_def run_simps)+
  obtain escrow where escrow: "res = Ok escrow" using ok(2) by (cases res) auto
  have quiet: "quiet s t" using quiet_create_escrow_psbt t by (rule quietD)
  have healthy: "sql_faults t = []" "flags_ok t" "find_active ?i t = Some r"
    using quiet assms(1,2) r by (simp_all add: flags_ok_quiet) (simp_all add: quiet_def)
  obtain h where h: "hex_decode E (bsr_robohash_hex (opr_trade_data p)) = Some h"
  proof (cases "hex_decode E (bsr_robohash_hex (opr_trade_data p))")
    case None
    have "flag_column (ao_is_buy_order r)" using r assms(2) by (auto dest: tbl_find_Some simp: flags_ok_def)
    then show ?thesis
      using None assms(1,3,4) r t ok escrow healthy
      by (simp add: handle_taker_bond_def fetch_taker_bond_requirements_def run_simps
          add_taker_info_and_move_table_def fetch_and_delete_offer_from_public_offers_table_def col_i32_flag_column)
  qed
  show ?thesis
    using that [OF r h, of escrow t] assms(1,4) r t ok escrow quiet
      run_add_taker_info [OF healthy(1,2) assms(3) healthy(3) h, of escrow]
    by (simp add: handle_taker_bond_def fetch_taker_bond_requirements_def run_simps quiet_def)
qed

text \<open>
  C33: A taker whose bond is accepted gets the escrow transaction, the offer moves from the
  orderbook to the trades with the terms of the maker's offer, and the maker's next poll for
  this offer answers with the very same escrow transaction, descriptor, amounts and fee that
  the taker received. The new trade is unsigned, unconfirmed and undecided.
\<close>

theorem taker_bond_starts_trade:
  assumes "sql_faults s = []" and "flags_ok s" and "sqlite_nulls E"
    and "run (handle_taker_bond E p) s = (Ok resp, s')" and "i = po_offer_id_hex (opr_offer p)"
  shows "\<exists>offer trade. find_active i s = Some offer \<and> find_active i s' = None \<and>
    find_taken i s' = Some trade \<and> new_trade trade \<and>
    to_robohash_maker trade = ao_robohash offer \<and> to_amount_sat trade = ao_amount_sat offer \<and>
    to_is_buy_order trade = ao_is_buy_order offer \<and> to_bond_tx_hex_maker trade = ao_bond_tx_hex offer \<and>
    to_payout_address_maker trade = ao_payout_address offer \<and>
    respond E (RequestOfferStatus \<lparr>otr_robohash_hex = robohash, otr_offer_id_hex = i\<rparr>) s' =
      (Some (json (OfferTakenJson resp)), s') \<and>
    (\<forall>j. j \<noteq> i \<longrightarrow> find_active j s' = find_active j s \<and> find_taken j s' = find_taken j s)"
proof (rule handle_taker_bond_Ok [OF assms(1-4)])
  fix r h escrow t
  assume r: "find_active (po_offer_id_hex (opr_offer p)) s = Some r"
    and q: "quiet s t" and resp: "resp = offer_taken_response escrow"
    and s': "s' = t\<lparr>active_maker_offers := tbl_delete ao_offer_id (ao_offer_id r) (active_maker_offers s),
       taken_offers := tbl_replace to_offer_id (taken_row (offer_of_row r) h p escrow) (taken_offers s)\<rparr>"
  let ?trade = "taken_row (offer_of_row r) h p escrow"
  have key: "ao_offer_id r = i" "to_offer_id ?trade = i"
    using orderbook.look_key [OF r] assms(5) by (simp_all add: taken_row_def offer_of_row_def)
  have flag: "bool_to_sql_int (ao_is_buy_order r = Some 1) = ao_is_buy_order r"
    using r assms(2) by (intro bool_flag_column) (auto dest: tbl_find_Some simp: flags_ok_def)
  have healthy: "sql_faults s' = []" using q assms(1) s' by (simp add: quiet_def)
  have active: "find_active j s' = (if j = i then None else find_active j s)" for j
    using s' key by (simp add: orderbook.look_del)
  have taken: "find_taken j s' = (if j = i then Some ?trade else find_taken j s)" for j
    using s' key by (simp add: trades.look_put)
  have poll: "respond E (RequestOfferStatus \<lparr>otr_robohash_hex = robohash, otr_offer_id_hex = i\<rparr>) s' =
      (Some (json (OfferTakenJson resp)), s')"
    using taken [of i] healthy resp
    by (simp add: respond_def request_offer_status_maker_def get_offer_status_maker_def
        fetch_escrow_output_information_def run_simps offer_taken_response_def taken_row_def)
  show ?thesis
    using r active taken poll flag assms(5)
    by (simp add: new_trade_taken_row) (simp add: taken_row_def offer_of_row_def)
qed

definition take_request :: OfferPsbtRequest where
  "take_request = \<lparr> opr_offer = sample_offer, opr_trade_data = sample_bond ''t'' \<rparr>"

lemma taker_bond_starts_trade_witness:
  "find_taken sample_id (snd (run (handle_taker_bond env0 take_request) offer_state)) \<noteq> None \<and>
   find_active sample_id (snd (run (handle_taker_bond env0 take_request) offer_state)) = None"
proof -
  let ?s = offer_state
  have "is_ok (fst (run (handle_taker_bond env0 take_request) ?s))" by code_simp
  then obtain resp s' where r: "run (handle_taker_bond env0 take_request) ?s = (Ok resp, s')"
    by (auto dest: run_is_ok)
  have "sql_faults ?s = []" by simp
  moreover have "sample_id = po_offer_id_hex (opr_offer take_request)"
    by (simp add: take_request_def sample_offer_def)
  ultimately show ?thesis
    using taker_bond_starts_trade [OF _ offer_flags env0_laws(1) r, of sample_id "''m''"] by (auto simp: r)
qed

text \<open>
  C34: An offer is taken at most once by requests that follow each other: after an accepted taker
  bond every later attempt on the same offer id, with whatever bond, is answered with status
  404 and changes no table.
\<close>

theorem offer_taken_once:
  assumes "sql_faults s = []" and "flags_ok s" and "sqlite_nulls E"
    and "run (handle_taker_bond E p) s = (Ok resp, s')"
    and "po_offer_id_hex (opr_offer p') = po_offer_id_hex (opr_offer p)"
  shows "respond E' (SubmitTakerBond p') s' = (Some (code 404), s')"
proof (rule handle_taker_bond_Ok [OF assms(1-4)])
  fix r h escrow t
  assume r: "find_active (po_offer_id_hex (opr_offer p)) s = Some r" and q: "quiet s t"
    and s': "s' = t\<lparr>active_maker_offers := tbl_delete ao_offer_id (ao_offer_id r) (active_maker_offers s),
       taken_offers := tbl_replace to_offer_id (taken_row (offer_of_row r) h p escrow) (taken_offers s)\<rparr>"
  have "find_active (po_offer_id_hex (opr_offer p')) s' = None"
    using s' orderbook.look_key [OF r] assms(5) by simp
  moreover have "sql_faults s' = []" using q assms(1) s' by (simp add: quiet_def)
  ultimately show ?thesis
    by (simp add: respond_def submit_taker_bond_def handle_taker_bond_def fetch_taker_bond_requirements_def
        run_simps bond_error_response_def)
qed

lemma offer_taken_once_witness:
  "respond env0 (SubmitTakerBond take_request)
     (snd (run (handle_taker_bond env0 take_request) offer_state)) =
   (Some (code 404), snd (run (handle_taker_bond env0 take_request) offer_state))"
proof -
  let ?s = offer_state
  have "is_ok (fst (run (handle_taker_bond env0 take_request) ?s))" by code_simp
  then obtain resp s' where r: "run (handle_taker_bond env0 take_request) ?s = (Ok resp, s')"
    by (auto dest: run_is_ok)
  have "sql_faults ?s = []" by simp
  from offer_taken_once [OF this offer_flags env0_laws(1) r refl] show ?thesis by (simp add: r)
qed

end
