(* ===== verification/Trade_System.thy ===== *)
theory Trade_System
  imports Trade_Service Orders_Spec Escrow_Spec
begin

text \<open>
  A trader connected to the coordinator: the trader's HTTP requests are answered by the
  coordinator's router, and between two of them the coordinator works on whatever else
  reaches it. What the trader's polling loops, prompts and requests then amount to.
\<close>

section \<open>The connection\<close>

text \<open>
  \<open>schedule\<close> lists what happens to the coordinator before each request of the trader; when it
  is used up nothing else happens.
\<close>

record network =
  server :: coord
  schedule :: "event list list"

fun route :: "ApiRequest \<Rightarrow> string" where
  "route Test = ''/test''"
| "route (CreateOffer p) = ''/create-offer''"
| "route (SubmitMakerBond p) = ''/submit-maker-bond''"
| "route (FetchAvailableOffers p) = ''/fetch-available-offers''"
| "route (SubmitTakerBond p) = ''/submit-taker-bond''"
| "route (RequestOfferStatus p) = ''/request-offer-status''"
| "route (SubmitEscrowPsbt p) = ''/submit-escrow-psbt''"
| "route (PollEscrowConfirmation p) = ''/poll-escrow-confirmation''"
| "route (SubmitObligationConfirmation p) = ''/submit-obligation-confirmation''"
| "route (RequestEscrow p) = ''/request-escrow''"
| "route (PollFinalPayout p) = ''/poll-final-payout''"
| "route (SubmitPayoutSignature p) = ''/submit-payout-signature''"

definition due :: "network \<Rightarrow> event list" where
  "due n = (case schedule n of [] \<Rightarrow> [] | es # ess \<Rightarrow> es)"

text \<open>The state in which the coordinator finds itself when the next request arrives.\<close>

definition on_arrival :: "network \<Rightarrow> coord" where
  "on_arrival n = exec_all (due n) (server n)"

definition coordinator_post :: "env \<Rightarrow> string \<Rightarrow> string \<Rightarrow> ApiRequest \<Rightarrow> network \<Rightarrow> (Response, anyhow) res \<times> network" where
  "coordinator_post C base url req n =
     (if url = base @ route req
      then (case respond C req (on_arrival n) of
              (Some r, s) \<Rightarrow> (Ok r, \<lparr> server = s, schedule = tl (schedule n) \<rparr>)
            | (None, s) \<Rightarrow> (Err (External ''connection closed''), \<lparr> server = s, schedule = tl (schedule n) \<rparr>))
      else (Ok (code 404), \<lparr> server = on_arrival n, schedule = tl (schedule n) \<rparr>))"

definition connected :: "network tenv \<Rightarrow> env \<Rightarrow> TraderSettings \<Rightarrow> bool" where
  "connected E C cfg \<longleftrightarrow> http_post E = coordinator_post C (ts_coordinator_endpoint cfg)"

text \<open>The coordinator runs from a new database and its driver does not fail.\<close>

definition sound :: "network \<Rightarrow> bool" where
  "sound n \<longleftrightarrow> reachable (server n) \<and> sql_faults (server n) = []"

lemma sound_arrival: "sound n \<Longrightarrow> reachable (on_arrival n) \<and> sql_faults (on_arrival n) = []"
  by (simp add: sound_def on_arrival_def reachable_exec_all)

lemma respond_exec: "snd (respond C req s) = exec (Request C req) s"
  by (auto simp: respond_def exec_simps split: prod.split res.split)

lemma post_connected:
  assumes "connected E C cfg" and "respond C req (on_arrival (net s)) = (Some r, c)"
    and "url = ts_coordinator_endpoint cfg @ route req"
  shows "post E url req s = Some (Ok r, s\<lparr>net := \<lparr> server = c, schedule = tl (schedule (net s)) \<rparr>\<rparr>)"
  using assms by (simp add: post_def connected_def coordinator_post_def)

lemma sound_after:
  assumes "sound n"
  shows "sound \<lparr> server = snd (respond C req (on_arrival n)), schedule = ss \<rparr>"
  using sound_arrival [OF assms] by (simp add: sound_def respond_exec reachable_exec)

section \<open>A sample trader\<close>

definition tenv0 :: "network tenv" where
  "tenv0 = \<lparr>
     t_overflow_checks = True,
     os_rng = (\<lambda>n. [of_nat n]), t_unix_now = Some 1700000000, now_nanos_le = Some [7],
     dotenv = (\<lambda>f. Ok (\<lambda>v. None)), t_hash256 = sample_script,
     t_hex_encode = sample_encode, t_hex_decode = sample_decode,
     xprv_from_str = (\<lambda>x. Ok (sample_script x)), xprv_new_master = Ok,
     keypair_secret = id, keypair_public = id, x_only_public_key = id, x_only_to_string = sample_encode,
     electrum_connect = (\<lambda>e. Ok ()), wallet_new = (\<lambda>x. Ok ()),
     wallet_sync = (\<lambda>n. Ok ()), wallet_balance = (\<lambda>n. Ok 100000),
     wallet_address = (\<lambda>i. Ok ''a''),
     wallet_list_unspent = (\<lambda>n. Ok [\<lparr> wu_outpoint = \<lparr> op_txid = ''p'', op_vout = 0 \<rparr>, wu_value = 100000 \<rparr>]),
     wallet_psbt_input = (\<lambda>u. Ok [1]), serialize_psbt_input = (\<lambda>i p. Ok i),
     t_regtest_script = (\<lambda>a. Ok (sample_script a)),
     build_bond = (\<lambda>plan n. Ok [2]), wallet_sign = (\<lambda>p. Ok (p, True)),
     extract_tx_hex = sample_encode,
     psbt_from_str = (\<lambda>x. Ok (sample_script x)), t_psbt_deserialize = Ok, t_psbt_serialize_hex = sample_encode,
     psbt_funding_utxos = (\<lambda>p. [Ok \<lparr> txo_value = 24000, txo_script_pubkey = [] \<rparr>]),
     psbt_hash_ty = (\<lambda>p. Ok 0), key_spend_hash = (\<lambda>p u h. Ok p),
     sec_nonce_build = (\<lambda>seed salt. seed @ salt), public_nonce = id, pub_nonce_to_string = sample_encode,
     musig_secret_key = Ok, t_agg_nonce_from_str = (\<lambda>x. Ok (sample_script x)),
     t_key_agg_ctx_from_hex = (\<lambda>x. Ok (sample_script x)),
     sign_partial = (\<lambda>ctx sk sn an msg. Ok (Some sn)),
     http_post = coordinator_post env0 ''c'' \<rparr>"

definition sample_settings :: "string \<Rightarrow> OfferType \<Rightarrow> TraderSettings" where
  "sample_settings who trade_type = \<lparr>
     ts_electrum_endpoint = ''e'', ts_coordinator_endpoint = ''c'', ts_robosats_robohash_hex = who,
     ts_trade_type = trade_type, ts_payout_address = who, ts_bond_ratio = 10,
     ts_wallet_xprv = sample_script who, ts_duration_unix_ts = 1700086400 \<rparr>"

definition sample_trader :: "coord \<Rightarrow> event list list \<Rightarrow> string list \<Rightarrow> network trader" where
  "sample_trader c es input = \<lparr> stdin = input, rng_calls = 0, wallet_next = 0,
     net = \<lparr> server = c, schedule = es \<rparr> \<rparr>"

lemma connected_sample [simp]: "connected tenv0 env0 (sample_settings who t)"
  by (simp add: connected_def tenv0_def sample_settings_def)

lemma sound_sample [simp]: "reachable c \<Longrightarrow> sql_faults c = [] \<Longrightarrow> sound (net (sample_trader c es input))"
  by (simp add: sound_def sample_trader_def)

lemma load_sample_wallet:
  "load_wallet tenv0 cfg (sample_trader c es input) =
     Some (Ok \<lparr> tw_taproot_pubkey = ts_wallet_xprv cfg \<rparr>, (sample_trader c es input)\<lparr>wallet_next := 1\<rparr>)"
  by (simp add: load_wallet_def fbind_def fret_def flift_def from_net_def new_address_def tenv0_def sample_trader_def)

section \<open>The coordinator as the trader's service\<close>

definition confirmation_status :: "env \<Rightarrow> OfferTakenRequest \<Rightarrow> coord \<Rightarrow> nat" where
  "confirmation_status C q s =
     (case hex_decode C (otr_robohash_hex q) of
        None \<Rightarrow> 500
      | Some h \<Rightarrow>
          (case find_taken (otr_offer_id_hex q) s of
             None \<Rightarrow> 404
           | Some r \<Rightarrow>
               if \<not> party h r then 404
               else if to_escrow_psbt_is_confirmed r = 1 then 200 else 202))"

lemma respond_confirmation:
  assumes "sql_faults s = []" and "keys_distinct s"
  shows "respond C (PollEscrowConfirmation q) s = (Some (code (confirmation_status C q s)), s)"
proof (cases "hex_decode C (otr_robohash_hex q)")
  case None
  then show ?thesis using assms(1)
    by (simp add: respond_def poll_escrow_confirmation_def fetch_escrow_confirmation_status_def
        is_valid_robohash_in_table_def run_simps confirmation_status_def)
next
  case (Some h)
  show ?thesis
    using assms Some valid_robohash_iff [OF assms(2), of h "otr_offer_id_hex q"]
    by (cases "find_taken (otr_offer_id_hex q) s")
      (auto simp: respond_def poll_escrow_confirmation_def fetch_escrow_confirmation_status_def
        is_valid_robohash_in_table_def fetch_escrow_tx_confirmation_status_def run_simps
        confirmation_status_def)
qed

text \<open>The network after \<open>k\<close> requests that change nothing, and what the next one finds.\<close>

definition after :: "nat \<Rightarrow> network \<Rightarrow> network" where
  "after k n = \<lparr> server = exec_all (concat (take k (schedule n))) (server n), schedule = drop k (schedule n) \<rparr>"

definition found_at :: "nat \<Rightarrow> network \<Rightarrow> coord" where
  "found_at k n = exec_all (concat (take (Suc k) (schedule n))) (server n)"

lemma after_0 [simp]: "after 0 n = n"
  by (simp add: after_def)

lemma due_after: "concat (take (Suc k) (schedule n)) = concat (take k (schedule n)) @ due (after k n)"
proof (cases "k < length (schedule n)")
  case True
  then have "drop k (schedule n) = schedule n ! k # drop (Suc k) (schedule n)" by (rule Cons_nth_drop_Suc [symmetric])
  then show ?thesis using True by (simp add: take_Suc_conv_app_nth due_def after_def)
qed (simp add: due_def after_def)

lemma arrival_after: "on_arrival (after k n) = found_at k n"
  unfolding found_at_def due_after by (simp add: on_arrival_def exec_all_append after_def)

lemma served_after: "\<lparr> server = found_at k n, schedule = tl (schedule (after k n)) \<rparr> = after (Suc k) n"
  by (simp add: after_def found_at_def drop_Suc tl_drop)

lemma sound_found: "sound n \<Longrightarrow> reachable (found_at k n) \<and> sql_faults (found_at k n) = []"
  by (simp add: sound_def found_at_def reachable_exec_all)

text \<open>What the trader's loops rely on, and the coordinator keeps.\<close>

definition moved_on :: "network \<Rightarrow> network" where
  "moved_on n = \<lparr> server = on_arrival n, schedule = tl (schedule n) \<rparr>"

lemma moved_on_after: "(moved_on ^^ k) n = after k n"
proof (induction k)
  case (Suc k)
  then show ?case using served_after [of k n] by (simp add: moved_on_def arrival_after)
qed simp

interpretation service: trade_service base "coordinator_post C base" sound moved_on
    "\<lambda>p n. confirmation_status C p (on_arrival n)" for base C
proof
  fix n and q :: OffersRequest assume n: "sound n" and "\<not> ofr_buy_offers q"
  then have "respond C (FetchAvailableOffers q) (on_arrival n) = (Some (code 204), on_arrival n)"
    using sound_arrival [OF n] by (intro respond_sell_search) (simp_all add: reachable_flags)
  then show "coordinator_post C base (base @ ''/fetch-available-offers'') (FetchAvailableOffers q) n = (Ok (code 204), moved_on n)"
    by (simp add: coordinator_post_def moved_on_def)
next
  fix n and p :: OfferTakenRequest assume n: "sound n"
  then have "respond C (PollEscrowConfirmation p) (on_arrival n) =
      (Some (code (confirmation_status C p (on_arrival n))), on_arrival n)"
    using sound_arrival [OF n] by (intro respond_confirmation) (simp_all add: reachable_keys)
  then show "coordinator_post C base (base @ ''/poll-escrow-confirmation'') (PollEscrowConfirmation p) n =
      (Ok (code (confirmation_status C p (on_arrival n))), moved_on n)"
    by (simp add: coordinator_post_def moved_on_def)
next
  fix n assume "sound n"
  then show "sound (moved_on n)" using sound_arrival [of n] by (simp add: sound_def moved_on_def)
qed

section \<open>A taker that wants to buy\<close>

lemma load_wallet_net: "load_wallet E cfg s = Some (r, s') \<Longrightarrow> net s' = net s"
  by (auto simp: load_wallet_def fbind_def fret_def flift_def from_net_def new_address_def
      split: option.splits res.splits prod.splits)

text \<open>
  C36: A taker that wants to buy never gets to trade: the program polls the orderbook for sell
  offers for ever, whatever offers other traders create and whatever else the coordinator
  does between the polls.
\<close>

theorem buying_taker_polls_forever:
  assumes "connected E C cfg" and "is_buy_order (ts_trade_type cfg)" and "sound (net s)"
    and "load_wallet E cfg s = Some (Ok w, s')"
  shows "await_offers E cfg s' = None \<and> run_taker E cfg s = None"
proof -
  have "sound (net s')" using load_wallet_net [OF assms(4)] assms(3) by simp
  from service.buyer_polls_forever [OF assms(1) [unfolded connected_def] refl assms(2) this]
  show ?thesis using assms(4) by (simp add: run_taker_def fbind_simps)
qed

lemma buying_taker_polls_forever_witness:
  "run_taker tenv0 (sample_settings ''t'' (Buy 20000))
     (sample_trader offer_state [[Request env0 (CreateOffer (sample_order\<lparr>or_is_buy_order := False\<rparr>))]] [''0'']) = None"
  using buying_taker_polls_forever [OF connected_sample _ _ load_sample_wallet, of "''t''" "Buy 20000" offer_state]
  by (simp add: sample_settings_def)

section \<open>Waiting for the confirmation of the escrow\<close>

text \<open>
  The wait for the confirmation of the escrow: the trader polls as long as the coordinator
  answers 202, which is for ever if the escrow is never confirmed; with the first other answer it
  goes on, with success exactly if the escrow is confirmed and with an error otherwise. What the
  coordinator answers is decided by the trade it has in its table at that moment, and the polls
  themselves change nothing there.
\<close>

lemma confirmation_wait:
  assumes "connected E C cfg" and "sound (net s)"
    and "\<And>k. answer k = confirmation_status C (ready_request cfg i) (found_at k (net s))"
  shows "((\<forall>k. answer k = 202) \<longrightarrow> poll_confirmation E cfg i s = None) \<and>
    (\<forall>k. (\<forall>j < k. answer j = 202) \<and> answer k \<noteq> 202 \<longrightarrow>
      poll_confirmation E cfg i s =
        Some (if answer k = 200 then Ok ()
              else Err (Anyhow ''Requesting offer status when waiting on other party failed''),
          s\<lparr>net := after (Suc k) (net s)\<rparr>))"
proof -
  have "answer k = confirmation_status C (ready_request cfg i) (on_arrival ((moved_on ^^ k) (net s)))" for k
    using assms(3) by (simp add: moved_on_after arrival_after)
  from service.wait_for_confirmation [OF assms(1) [unfolded connected_def] refl assms(2) this]
  show ?thesis by (simp only: moved_on_after)
qed

lemma confirmation_wait_witness:
  "poll_confirmation tenv0 (sample_settings ''m'' (Buy 20000)) sample_id (sample_trader (later []) [] []) =
     Some (Ok (), sample_trader (later []) [] [])"
proof -
  let ?cfg = "sample_settings ''m'' (Buy 20000)" and ?s = "sample_trader (later []) [] []"
  have n: "found_at 0 (net ?s) = later []" "after (Suc 0) (net ?s) = net ?s"
    by (simp_all add: found_at_def after_def sample_trader_def)
  have "confirmation_status env0 (ready_request ?cfg sample_id) (later []) = 200"
    by (simp add: confirmation_status_def ready_request_def as_poll_def sample_settings_def later_def
        confirmed_state_def tbl_find_def sample_trade_def party_def)
  moreover have "sound (net ?s)" by simp
  note confirmation_wait [OF connected_sample this refl, of "''m''" "Buy 20000" sample_id,
      THEN conjunct2, THEN spec, of 0]
  ultimately show ?thesis using n by simp
qed

section \<open>The answers of the payout poll\<close>

text \<open>
  The two messages of a failed payout poll are swapped: a trader whose escrow the coordinator
  reports lost (410) is told that the request failed, and a trader whose request failed is told
  that it lost the escrow and its bond; so is one that polls a trade that is already paid out and
  deleted.
\<close>

lemma payout_poll_messages:
  assumes "connected E C cfg"
    and "respond C (PollFinalPayout (ready_request cfg i)) (on_arrival (net s)) = (Some r, c)"
    and "status r \<notin> {200, 201, 202}"
    and "s' = s\<lparr>net := \<lparr> server = c, schedule = tl (schedule (net s)) \<rparr>\<rparr>"
  shows "poll_payout E cfg i s =
      Some (Err (Anyhow (if status r = 410 then ''Requesting final payout when waiting on other party failed''
                         else ''We lost the escrow, your bond is gone'')), s') \<and>
    (sql_faults (on_arrival (net s)) = [] \<and> find_taken i (on_arrival (net s)) = None \<longrightarrow> status r = 500)"
proof -
  have "poll_payout_loop E cfg i s =
      Some (Err (Anyhow (if status r = 410 then ''Requesting final payout when waiting on other party failed''
                         else ''We lost the escrow, your bond is gone'')), s')"
    unfolding poll_payout_loop_def
    by (rule forever_simps(2)) (use post_connected [OF assms(1,2)] assms(3,4) in \<open>simp add: try_step_def payout_decision_def\<close>)
  moreover have "status r = 500" if "sql_faults (on_arrival (net s)) = []" "find_taken i (on_arrival (net s)) = None"
    using assms(2) that
    by (auto simp: respond_def poll_final_payout_def handle_final_payout_def fetch_trader_happiness_def
        run_simps request_error_response_def code_def ready_request_def as_poll_def)
  ultimately show ?thesis by (simp add: poll_payout_def fbind_simps)
qed

lemma payout_poll_messages_witness:
  "\<exists>s'. poll_payout tenv0 (sample_settings ''m'' (Buy 20000)) sample_id (sample_trader offer_state [] []) =
     Some (Err (Anyhow ''We lost the escrow, your bond is gone''), s')"
proof -
  let ?cfg = "sample_settings ''m'' (Buy 20000)" and ?s = "sample_trader offer_state [] []"
  have n: "on_arrival (net ?s) = offer_state" by (simp add: on_arrival_def due_def sample_trader_def)
  have "respond env0 (PollFinalPayout (ready_request ?cfg sample_id)) offer_state = (Some (code 500), offer_state)"
    by (simp add: respond_def poll_final_payout_def handle_final_payout_def fetch_trader_happiness_def
        run_simps request_error_response_def ready_request_def as_poll_def offer_state_def tbl_find_def)
  then show ?thesis
    using payout_poll_messages [OF connected_sample, of "''m''" "Buy 20000" sample_id ?s "code 500" offer_state] n
    by (simp add: code_def)
qed

section \<open>The prompts\<close>

lemma fiat_turn:
  "try_step read_line fiat_decision s =
    (case stdin s of [] \<Rightarrow> Some (None, s) | l # ls \<Rightarrow> Some (fiat_decision l, s\<lparr>stdin := ls\<rparr>))"
  by (simp add: try_step_def read_line_def fiat_decision_def trim_def to_lowercase_def split: list.split)

text \<open>
  The confirmation prompt decides by the first line that reads y, Y or M after trimming and
  leaves the lines after it unread; lines before it are asked again. Without such a line it does
  not return: at the end of the input it goes on reading empty lines for ever.
\<close>

lemma fiat_prompt:
  "fiat_confirmation_cli_input s =
    (case dropWhile (\<lambda>l. fiat_decision l = None) (stdin s) of
       [] \<Rightarrow> None
     | l # ls \<Rightarrow> Some (Ok (to_lowercase (trim l) = ''y''), s\<lparr>stdin := ls\<rparr>))"
proof -
  have "forever (try_step read_line fiat_decision) (s\<lparr>stdin := ls\<rparr>) =
      (case dropWhile (\<lambda>l. fiat_decision l = None) ls of
         [] \<Rightarrow> None
       | l # ls \<Rightarrow> Some (Ok (to_lowercase (trim l) = ''y''), s\<lparr>stdin := ls\<rparr>))" for ls
  proof (induction ls)
    case Nil
    have "forever (try_step read_line fiat_decision) (s\<lparr>stdin := []\<rparr>) = None"
      by (rule forever_diverges [where I = "\<lambda>t. stdin t = []"]) (simp_all add: fiat_turn)
    then show ?case by simp
  next
    case (Cons l ls)
    show ?case
    proof (cases "fiat_decision l")
      case None
      then show ?thesis using Cons by (simp add: forever_simps fiat_turn)
    next
      case (Some r)
      then have "r = Ok (to_lowercase (trim l) = ''y'')" by (auto simp: fiat_decision_def split: if_splits)
      then show ?thesis using Some by (simp add: forever_simps fiat_turn)
    qed
  qed
  from this [of "stdin s"] show ?thesis by (simp add: fiat_confirmation_cli_input_def)
qed

section \<open>An order from the command line\<close>

lemma hours_to_ts_exact:
  assumes "parse_u64 hours = Ok h" and "t_unix_now E = Some t" and "unat t + 3600 * unat h < 2 ^ 64"
  shows "\<exists>ts. hours_to_ts E hours = Ok ts \<and> unat ts = unat t + 3600 * unat h"
proof -
  have "unat h * unat (3600 :: u64) < 2 ^ 64" using assms(3) by simp
  then have m: "mul_u64 (t_overflow_checks E) h 3600 = (Ok (h * 3600) :: (u64, anyhow) res)"
    "unat (h * 3600) = unat h * 3600"
    using unat_mul_u64 [of h 3600] by (simp_all add: mul_u64_Ok)
  have "unat t + unat (h * 3600) < 2 ^ 64" using assms(3) m(2) by (simp add: mult.commute)
  then show ?thesis
    using assms(1,2) m by (simp add: hours_to_ts_def now_secs_def add_u64_Ok unat_add_u64)
qed

text \<open>
  C37: Orders from the trader's command line and the coordinator's validation agree: an amount of
  10000 to 20000000 sat and a ratio of 2 to 50 percent for 4 to 168 hours is accepted when it arrives
  within the hour, and one for less than 3 hours or more than 169 is refused; 3 hours are accepted
  only within the second in which the settings were entered.
\<close>

theorem cli_order_validated:
  assumes "parse_u64 hours = Ok h" and "t_unix_now E = Some t" and "unix_now C = Some t'"
    and "unat t \<le> unat t'" and "unat t' \<le> unat t + 3600" and "unat t' + 604800 < 2 ^ 64"
    and "unat t + 3600 * unat h < 2 ^ 64"
    and "10000 \<le> unat (offer_value (ts_trade_type cfg))" and "unat (offer_value (ts_trade_type cfg)) \<le> 20000000"
    and "2 \<le> unat (ts_bond_ratio cfg)" and "unat (ts_bond_ratio cfg) \<le> 50"
    and "hours_to_ts E hours = Ok (ts_duration_unix_ts cfg)"
  shows "(4 \<le> unat h \<and> unat h \<le> 168 \<longrightarrow>
      validate_offer C (as_offer_request (format_order_request cfg)) = Ok True) \<and>
    (unat h < 3 \<or> 169 < unat h \<longrightarrow>
      validate_offer C (as_offer_request (format_order_request cfg)) = Ok False) \<and>
    (unat h = 3 \<longrightarrow> validate_offer C (as_offer_request (format_order_request cfg)) = Ok (t' = t))"
proof -
  let ?o = "as_offer_request (format_order_request cfg)"
  have o: "or_amount_satoshi ?o = offer_value (ts_trade_type cfg)" "or_bond_ratio ?o = ts_bond_ratio cfg"
    "or_offer_duration_ts ?o = ts_duration_unix_ts cfg"
    by (cases "ts_trade_type cfg"; simp add: as_offer_request_def format_order_request_def)+
  have range: "offer_in_range ?o"
    using assms(8-11) o by (simp add: offer_in_range_def word_le_nat_alt)
  have ts: "unat (ts_duration_unix_ts cfg) = unat t + 3600 * unat h"
    using hours_to_ts_exact [OF assms(1,2,7)] assms(12) by simp
  have "validate_offer C ?o = Ok (unat t' + 10800 \<le> unat t + 3600 * unat h \<and> unat t + 3600 * unat h \<le> unat t' + 604800)"
    using validate_offer_iff [OF assms(3,6), of ?o] range o(3) ts by (simp add: acceptable_def)
  moreover have "unat t' = unat t \<longleftrightarrow> t' = t" by (simp add: word_unat_eq_iff)
  ultimately show ?thesis using assms(4,5) by auto
qed

lemma cli_order_validated_witness:
  "validate_offer env0 (as_offer_request (format_order_request
     (sample_settings ''m'' (Sell 20000)))) = Ok True"
proof -
  have "parse_u64 ''24'' = Ok 24" by code_simp
  moreover from this have "hours_to_ts tenv0 ''24'' = Ok 1700086400"
    by (simp add: hours_to_ts_def now_secs_def tenv0_def mul_u64_def add_u64_def)
  ultimately show ?thesis
    using cli_order_validated [of "''24''" 24 tenv0 1700000000 env0 1700000000 "sample_settings ''m'' (Sell 20000)"]
    by (simp add: tenv0_def env0_def sample_settings_def)
qed

end
