(* ===== verification/Trade_Spec.thy ===== *)
theory Trade_Spec
  imports Trade_System
begin

text \<open>
  The trader's part of the trade: the inputs it chooses for the escrow transaction against what
  the coordinator deducts from them, and the offer it gets onto the orderbook.
\<close>

section \<open>The choice of inputs\<close>

definition utxo_sum :: "WalletUtxo list \<Rightarrow> int" where
  "utxo_sum us = sum_list (map (\<lambda>u. sint (wu_value u)) us)"

lemma utxo_sum_simps [simp]: "utxo_sum [] = 0" "utxo_sum (u # us) = sint (wu_value u) + utxo_sum us"
  by (simp_all add: utxo_sum_def)

text \<open>The first outputs that reach the amount; all of them when they do not.\<close>

fun enough :: "int \<Rightarrow> WalletUtxo list \<Rightarrow> WalletUtxo list" where
  "enough amount [] = []"
| "enough amount (u # us) =
     (if amount \<le> sint (wu_value u) then [u] else u # enough (amount - sint (wu_value u)) us)"

lemma enough_prefix: "\<exists>rest. us = enough amount us @ rest"
  by (induction amount us rule: enough.induct) auto

lemma enough_reaches: "amount \<le> utxo_sum us \<Longrightarrow> us \<noteq> [] \<Longrightarrow> amount \<le> utxo_sum (enough amount us)"
proof (induction amount us rule: enough.induct)
  case (1 amount)
  then show ?case by simp
next
  case (2 amount u us)
  then show ?case by (cases "us = []") auto
qed

lemma enough_all: "utxo_sum us < amount \<Longrightarrow> (\<And>u. u \<in> set us \<Longrightarrow> 0 \<le> sint (wu_value u)) \<Longrightarrow> enough amount us = us"
proof (induction amount us rule: enough.induct)
  case (1 amount)
  then show ?case by simp
next
  case (2 amount u us)
  then have "0 \<le> utxo_sum us" by (auto simp: utxo_sum_def intro!: sum_list_nonneg)
  then show ?case using 2 by auto
qed

text \<open>
  The inputs a trader offers for the escrow are the first unspent outputs of its wallet, in the
  wallet's order, up to the one that reaches the amount, each as its serialized PSBT input. When
  the wallet does not hold the amount, all its outputs are offered, and nothing is reported.
\<close>

lemma inputs_chosen:
  assumes "select_inputs E amount utxos = Ok inputs"
    and "\<And>u. u \<in> set utxos \<Longrightarrow> 0 \<le> sint (wu_value u) \<and> sint (wu_value u) < 2 ^ 60" and "0 \<le> sint amount"
  shows "map fst inputs = enough (sint amount) utxos \<and>
    (\<forall>(u, hex) \<in> set inputs. \<exists>p b. wallet_psbt_input E u = Ok p \<and>
       serialize_psbt_input E p (wu_outpoint u) = Ok b \<and> hex = t_hex_encode E b) \<and>
    (utxo_sum utxos < sint amount \<longrightarrow> map fst inputs = utxos) \<and>
    (sint amount \<le> utxo_sum utxos \<and> utxos \<noteq> [] \<longrightarrow> sint amount \<le> utxo_sum (map fst inputs))"
proof -
  have "map fst inputs = enough (sint amount) utxos \<and>
    (\<forall>(u, hex) \<in> set inputs. \<exists>p b. wallet_psbt_input E u = Ok p \<and>
       serialize_psbt_input E p (wu_outpoint u) = Ok b \<and> hex = t_hex_encode E b)"
    using assms
  proof (induction utxos arbitrary: amount inputs)
    case Nil
    then show ?case by simp
  next
    case (Cons u us)
    let ?rest = "amount - wu_value u"
    obtain p b where pb: "wallet_psbt_input E u = Ok p" "serialize_psbt_input E p (wu_outpoint u) = Ok b"
      using Cons.prems(1) by (auto simp: bind_res_eq_Ok)
    have u: "0 \<le> sint (wu_value u)" "sint (wu_value u) < 2 ^ 60" using Cons.prems(2) by auto
    have "sint amount < 2 ^ 63" using sint_lt [of amount] by simp
    then have rest: "sint ?rest = sint amount - sint (wu_value u)"
      using u Cons.prems(3) by (simp add: sint_word_diff signed_take_bit_int_eq_self)
    have sub: "sub_i64 (t_overflow_checks E) amount (wu_value u) = (Ok ?rest :: (i64, anyhow) res)"
      using u Cons.prems(3) \<open>sint amount < 2 ^ 63\<close> by (simp add: sub_i64_def)
    show ?case
    proof (cases "sint amount \<le> sint (wu_value u)")
      case True
      then have "?rest \<le>s 0" using rest by (simp add: word_sle_eq)
      then show ?thesis using Cons.prems(1) pb sub True by (auto simp: Let_def)
    next
      case False
      then have go: "\<not> ?rest \<le>s 0" using rest by (simp add: word_sle_eq)
      then obtain inputs' where i: "select_inputs E ?rest us = Ok inputs'" "inputs = (u, t_hex_encode E b) # inputs'"
        using Cons.prems(1) pb sub by (auto simp: Let_def elim!: map_res.elims)
      then show ?thesis
        using Cons.IH [OF i(1)] Cons.prems(2) False rest pb by auto
    qed
  qed
  then show ?thesis using enough_reaches [of "sint amount" utxos] enough_all [of utxos "sint amount"] assms(2) by auto
qed

definition sample_utxos :: "WalletUtxo list" where
  "sample_utxos = map (\<lambda>v. \<lparr> wu_outpoint = \<lparr> op_txid = ''p'', op_vout = 0 \<rparr>, wu_value = v \<rparr>) [10000, 15000, 9000]"

lemma inputs_chosen_witness:
  "\<exists>inputs. select_inputs tenv0 22000 sample_utxos = Ok inputs \<and> map (wu_value \<circ> fst) inputs = [10000, 15000]"
proof -
  have "is_ok (select_inputs tenv0 22000 sample_utxos)" by code_simp
  then obtain inputs where i: "select_inputs tenv0 22000 sample_utxos = Ok inputs" by (auto elim: is_ok.elims)
  have "0 \<le> sint (wu_value u) \<and> sint (wu_value u) < 2 ^ 60" if "u \<in> set sample_utxos" for u
    using that by (auto simp: sample_utxos_def)
  from inputs_chosen [OF i this] have "map fst inputs = enough 22000 sample_utxos" by simp
  also have "\<dots> = take 2 sample_utxos" by (simp add: sample_utxos_def)
  finally have "map wu_value (map fst inputs) = [10000, 15000]" by (simp add: sample_utxos_def)
  then show ?thesis using i by (simp add: comp_def)
qed

section \<open>Whether the inputs suffice\<close>

definition psbt_inputs_sum :: "EscrowPsbtConstructionData \<Rightarrow> nat" where
  "psbt_inputs_sum d = sum_list (map unat (witness_values (ed_escrow_input_utxos d)))"

text \<open>What the coordinator deducts from a trader's inputs, when nothing overflows.\<close>

lemma change_amount_result:
  assumes "unat escrow + unat fee + 5000 < 2 ^ 64" and "psbt_inputs_sum d < 2 ^ 64"
    and "overflow_checks E" and "0 < psbt_inputs_sum d"
  shows "escrow_change_amount E d escrow fee 10000 =
    (if psbt_inputs_sum d < unat escrow + unat fee + 5000 then Panic
     else Ok (of_nat (psbt_inputs_sum d) - (escrow + fee + 5000)))"
proof -
  obtain total where sum: "sum_from_u64 True 0 (witness_values (ed_escrow_input_utxos d)) = (Ok total :: (u64, anyhow) res)"
      "unat total = psbt_inputs_sum d"
    using sum_from_u64_no_overflow [of 0 "witness_values (ed_escrow_input_utxos d)" True] assms(2)
    unfolding psbt_inputs_sum_def by auto
  then have "total \<noteq> 0" using assms(4) by auto
  then have total: "escrow_input_sum True d = Ok total" "unat total = psbt_inputs_sum d"
    using sum by (simp_all add: escrow_input_sum_def)
  have "unat escrow + unat fee < 2 ^ 64" "unat (escrow + fee) + unat (5000 :: u64) < 2 ^ 64"
    using assms(1) by (simp_all add: unat_add_u64)
  then have add: "add_u64 True escrow fee = (Ok (escrow + fee) :: (u64, anyhow) res)"
    "add_u64 True (escrow + fee) 5000 = (Ok (escrow + fee + 5000) :: (u64, anyhow) res)"
    "unat (escrow + fee + 5000) = unat escrow + unat fee + 5000"
    by (simp_all add: add_u64_Ok unat_add_u64)
  have "of_nat (psbt_inputs_sum d) = total" by (simp flip: total(2))
  then show ?thesis
    using assms(3) total add by (simp add: escrow_change_amount_def sub_u64_unat)
qed

text \<open>
  C38: A maker that brings the inputs its order asks for has enough for the escrow transaction: as
  long as the fee the escrow is charged is at most 5000 sat above the one announced with the
  order, the change is what is left over the request, and at least zero.
\<close>

theorem maker_inputs_suffice:
  assumes "order_requirements C (as_offer_request (format_order_request cfg)) = Ok (bond, locking)"
    and "offer_in_range (as_offer_request (format_order_request cfg))"
    and "announced = order_fee (coordinator_feerate C) (offer_value (ts_trade_type cfg))"
    and "unat announced < 2 ^ 62" and "unat fee \<le> unat announced + 5000" and "overflow_checks C"
    and "escrow_input_amount E (ts_trade_type cfg)
      \<lparr> brr_bond_address = a, brr_locking_amount_sat = bond,
        brr_escrow_locking_input_amount_without_trade_sum = locking \<rparr> = Ok asked"
    and "locks = (if is_buy_order (ts_trade_type cfg) then bond else offer_value (ts_trade_type cfg) + bond)"
    and "unat asked \<le> psbt_inputs_sum d" and "psbt_inputs_sum d < 2 ^ 64"
  shows "\<exists>change. escrow_change_amount C d locks fee 10000 = Ok change \<and>
    unat change + unat fee = psbt_inputs_sum d - unat asked + unat announced + 5000"
proof -
  let ?o = "as_offer_request (format_order_request cfg)" and ?v = "offer_value (ts_trade_type cfg)"
  have v: "or_amount_satoshi ?o = ?v"
    by (cases "ts_trade_type cfg") (simp_all add: as_offer_request_def format_order_request_def)
  have amount: "unat ?v \<le> 20000000" using order_bounds(2) [OF assms(2)] v by simp
  have b: "2 * unat bond \<le> unat ?v" "unat locking = unat bond + unat announced + 10000"
    using order_requirements_amounts [OF assms(2), of C] assms(1,3,4) v by (auto simp: add.commute)
  have locks: "unat locks = (if is_buy_order (ts_trade_type cfg) then unat bond else unat ?v + unat bond)"
    using assms(8) b amount by (simp add: unat_add_u64)
  have asked: "unat asked = unat locks + unat announced + 10000"
  proof (cases "is_buy_order (ts_trade_type cfg)")
    case True
    then show ?thesis using assms(7) locks b by (simp add: escrow_input_amount_def)
  next
    case False
    have lt: "unat locking + unat ?v < 2 ^ 64" using b amount assms(4) by simp
    then have "asked = locking + ?v" using assms(7) False by (simp add: escrow_input_amount_def add_u64_Ok)
    then show ?thesis using unat_add_u64 [OF lt] False locks b by simp
  qed
  have small: "unat locks + unat fee + 5000 < 2 ^ 64" using locks b amount assms(4,5) by (auto split: if_splits)
  have fits: "unat locks + unat fee + 5000 \<le> psbt_inputs_sum d" using asked assms(5,9) by simp
  let ?change = "of_nat (psbt_inputs_sum d) - (locks + fee + 5000) :: u64"
  have "escrow_change_amount C d locks fee 10000 = Ok ?change"
    using change_amount_result [OF small assms(10,6)] fits by simp
  moreover have "unat ?change = psbt_inputs_sum d - (unat locks + unat fee + 5000)"
  proof -
    have "unat (locks + fee + 5000) = unat locks + unat fee + 5000" using small by (simp add: unat_add_u64)
    moreover have "unat (of_nat (psbt_inputs_sum d) :: u64) = psbt_inputs_sum d"
      using assms(10) by (simp add: unat_of_nat)
    ultimately show ?thesis using fits by (simp add: unat_sub_u64)
  qed
  ultimately show ?thesis using asked fits assms(5,9) by auto
qed

text \<open>A trader whose escrow inputs carry the given amounts.\<close>

definition construction_with :: "u64 list \<Rightarrow> EscrowPsbtConstructionData" where
  "construction_with values = sample_construction\<lparr>ed_escrow_input_utxos :=
     map (\<lambda>v. sample_input\<lparr>pi_witness_utxo := Some \<lparr> txo_value = v, txo_script_pubkey = [] \<rparr>\<rparr>) values\<rparr>"

lemma psbt_inputs_sum_with [simp]: "psbt_inputs_sum (construction_with vs) = sum_list (map unat vs)"
  by (induction vs) (simp_all add: psbt_inputs_sum_def construction_with_def witness_values_def List.map_filter_simps)

lemma maker_inputs_suffice_witness:
  "\<exists>change. escrow_change_amount env0 (construction_with [12000, 200]) 2000 200 10000 = Ok change \<and> unat change = 5000"
proof -
  let ?cfg = "sample_settings ''m'' (Buy 20000)"
  have "order_requirements env0 (as_offer_request (format_order_request ?cfg)) = Ok (2000, 12200) \<and>
      offer_in_range (as_offer_request (format_order_request ?cfg)) \<and>
      200 = order_fee (coordinator_feerate env0) (offer_value (ts_trade_type ?cfg)) \<and> overflow_checks env0 \<and>
      escrow_input_amount tenv0 (ts_trade_type ?cfg) \<lparr> brr_bond_address = ''b'', brr_locking_amount_sat = 2000,
        brr_escrow_locking_input_amount_without_trade_sum = 12200 \<rparr> = Ok 12200 \<and>
      2000 = (if is_buy_order (ts_trade_type ?cfg) then 2000 else offer_value (ts_trade_type ?cfg) + 2000)"
    by code_simp
  then show ?thesis
    using maker_inputs_suffice [of env0 ?cfg 2000 12200 200 200 tenv0 "''b''" 12200 2000 "construction_with [12000, 200]"]
    by simp
qed

text \<open>
  C39: A taker that brings what the orderbook asks for has too little: the offer a maker's bond puts
  there as a buy order asks, besides the amount, for the bond alone, so a taker whose inputs carry
  what its client computes from the offer, but not the fees on top, makes the coordinator's
  computation of the change panic, and no escrow transaction is assembled.
\<close>

theorem taker_asked_for_too_little:
  assumes "sql_faults s = []" and "flags_ok s" and "sqlite_nulls C" and "int_decoding C"
    and "hex_decode C (bsr_robohash_hex p) = Some h"
    and "run (handle_maker_bond C p) s = (Ok activated, s')"
    and "ofr_buy_offers q" and "run (fetch_suitable_offers q) s' = (Ok (Some offers), s')"
    and "offer \<in> set offers" and "po_offer_id_hex offer = oar_offer_id_hex activated"
    and "0 \<le> sint (po_amount_sat offer)" and "0 \<le> sint (brr_locking_amount_sat (po_bond_requirements offer))"
    and "escrow_input_amount E (Sell (po_amount_sat offer)) (po_bond_requirements offer) = Ok asked"
    and "run (get_escrow_tx_amounts C (po_offer_id_hex offer) rate) s' = (Ok (maker_locks, taker_locks, fee), s')"
    and "t_overflow_checks E" and "overflow_checks C"
    and "0 < psbt_inputs_sum taker" and "unat asked \<le> psbt_inputs_sum taker"
    and "psbt_inputs_sum taker < unat asked + unat fee + 5000" and "unat asked + unat fee + 5000 < 2 ^ 64"
  shows "unat asked = unat (po_amount_sat offer) + unat (brr_locking_amount_sat (po_bond_requirements offer)) \<and>
    escrow_change_amount C taker taker_locks fee 10000 = Panic \<and>
    escrow_plan C maker taker script fee_script maker_locks taker_locks fee \<noteq> Ok plan"
proof (rule handle_maker_bond_Ok [OF assms(1-3,5,6)])
  fix req addr
  let ?row = "listed_offer (oar_offer_id_hex activated) req p addr"
  assume req: "find_request h s = Some req"
    and s': "s' = s\<lparr>wallet_index := Suc (wallet_index s),
       maker_requests := tbl_delete mr_robohash h (maker_requests s),
       active_maker_offers := tbl_replace ao_offer_id ?row (active_maker_offers s)\<rparr>"
  obtain row where row: "row \<in> set (active_maker_offers s')" "offer_matches q row" "offer = public_offer_of_row row"
    using assms(8,9) by (auto simp: fetch_suitable_offers_def run_simps Let_def split: if_splits)
  have "ao_offer_id ?row = oar_offer_id_hex activated" by (simp add: listed_offer_def)
  then have same: "row = ?row"
    using row(1,3) assms(10) by (auto simp: s' set_tbl_replace public_offer_of_row_def)
  have offer: "po_amount_sat offer = ao_amount_sat ?row"
    "brr_locking_amount_sat (po_bond_requirements offer) = ao_bond_amount_sat ?row"
    "brr_escrow_locking_input_amount_without_trade_sum (po_bond_requirements offer) = ao_bond_amount_sat ?row"
    by (simp_all add: row(3) same public_offer_of_row_def listed_offer_def)
  have found: "find_active (po_offer_id_hex offer) s' = Some ?row"
    by (simp add: assms(10) s' orderbook.look_put listed_offer_def)
  have flag: "flag_column (ao_is_buy_order ?row)" "ao_is_buy_order ?row = Some 1"
    using request_flag [OF assms(2) req] row(2) same assms(7)
    by (auto simp: listed_offer_def offer_matches_def sql_eq_def split: option.splits)
  have asked: "asked = ao_amount_sat ?row + ao_bond_amount_sat ?row"
    "unat asked = unat (ao_amount_sat ?row) + unat (ao_bond_amount_sat ?row)"
    "unat (ao_amount_sat ?row) + unat (ao_bond_amount_sat ?row) < 2 ^ 64"
    using assms(13,15) offer by (auto simp: escrow_input_amount_def add_u64_checked unat_add_u64 add.commute)
  have "sql_faults s' = []" using assms(1) by (simp add: s')
  from run_get_escrow_tx_amounts [OF this assms(3,4) found flag(1) _ _ asked(3)]
  have "taker_locks = asked"
    unfolding asked(1) using assms(11,12,14) flag(2) offer by (auto simp: Let_def)
  then have "escrow_change_amount C taker taker_locks fee 10000 = Panic"
    using change_amount_result [of taker_locks fee taker C] assms(16,17,19,20) by simp
  then show ?thesis using asked(2) offer by (auto simp: escrow_plan_def Let_def bind_res_eq_Ok)
qed

lemma taker_asked_for_too_little_witness:
  "escrow_change_amount env0 (construction_with [22000]) 22000 200 10000 = Panic"
proof -
  let ?q = "\<lparr>ofr_buy_offers = True, ofr_amount_min_sat = 1, ofr_amount_max_sat = 50000\<rparr>"
  let ?bond = "run (handle_maker_bond env0 (sample_bond ''m'')) ordered_state"
  let ?req = "\<lparr> brr_bond_address = ''b'', brr_locking_amount_sat = 2000,
      brr_escrow_locking_input_amount_without_trade_sum = 2000 \<rparr>"
  let ?offer = "\<lparr> po_amount_sat = 20000, po_offer_id_hex = generate_random_order_id env0 16, po_bond_requirements = ?req \<rparr>"
  have c: "map_res oar_offer_id_hex (fst ?bond) = Ok (generate_random_order_id env0 16) \<and>
      fst (run (fetch_suitable_offers ?q) (snd ?bond)) =
        Ok (Some [?offer]) \<and>
      fst (run (get_escrow_tx_amounts env0 (generate_random_order_id env0 16) (1, 0)) (snd ?bond)) = Ok (2000, 22000, 200) \<and>
      snd (run (fetch_suitable_offers ?q) (snd ?bond)) = snd ?bond \<and>
      snd (run (get_escrow_tx_amounts env0 (generate_random_order_id env0 16) (1, 0)) (snd ?bond)) = snd ?bond \<and>
      escrow_input_amount tenv0 (Sell 20000) ?req = Ok 22000"
    by code_simp
  obtain activated s' where r: "?bond = (Ok activated, s')" "oar_offer_id_hex activated = generate_random_order_id env0 16"
    using c by (cases ?bond; cases "fst ?bond") auto
  have search: "run (fetch_suitable_offers ?q) s' = (Ok (Some [?offer]), s')"
    and amounts: "run (get_escrow_tx_amounts env0 (po_offer_id_hex ?offer) (1, 0)) s' = (Ok (2000, 22000, 200), s')"
    using c unfolding r(1) by (simp_all add: prod_eq_iff)
  have "hex_decode env0 (bsr_robohash_hex (sample_bond ''m'')) = Some [109]" by (simp add: sample_bond_def)
  moreover have "int_decoding env0" "t_overflow_checks tenv0" "overflow_checks env0"
    by (simp_all add: int_decoding_def env0_def tenv0_def)
  moreover note taker_asked_for_too_little [OF ordered_state_ok env0_laws(1) _ _ r(1) _ search, of "[109]" ?offer tenv0 22000 "(1, 0)" 2000 22000 200
      "construction_with [22000]" "construction_with []"]
  ultimately show ?thesis using amounts c r(2) by simp
qed

section \<open>The offer a maker gets onto the orderbook\<close>

text \<open>The steps of a trader that do not touch the network.\<close>

definition offline :: "('n, 'a) flow \<Rightarrow> bool" where
  "offline m \<longleftrightarrow> (\<forall>s r s'. m s = Some (r, s') \<longrightarrow> net s' = net s)"

named_theorems offline_intro \<open>flows that do not touch the network\<close>

lemma offlineD: "offline m \<Longrightarrow> m s = Some (r, s') \<Longrightarrow> net s' = net s"
  by (simp add: offline_def)

lemma offline_basic [offline_intro]:
  "offline (fret a)" "offline (flift r)" "offline (from_net f)" "offline (new_address E)" "offline (get_seed E)"
  by (auto simp: offline_def fret_def flift_def from_net_def new_address_def get_seed_def)

lemma offline_fbind [offline_intro]: "offline m \<Longrightarrow> (\<And>a. offline (f a)) \<Longrightarrow> offline (fbind m f)"
  unfolding offline_def fbind_def by (auto split: option.splits res.splits)

lemma offline_case_prod [offline_intro]: "(\<And>a b. offline (f a b)) \<Longrightarrow> offline (case x of (a, b) \<Rightarrow> f a b)"
  by (cases x) simp

lemma offline_if [offline_intro]: "offline m \<Longrightarrow> offline k \<Longrightarrow> offline (if b then m else k)"
  by simp

lemma offline_assembly: "offline (trade_onchain_assembly E req cfg)"
  unfolding trade_onchain_assembly_def assemble_bond_def create_musig_data_def generate_nonce_def
  by (intro offline_intro)

lemma offline_inputs: "offline (get_escrow_psbt_inputs E amount)"
  unfolding get_escrow_psbt_inputs_def by (intro offline_intro)

lemma post_quiet:
  assumes "connected E C cfg" and "schedule (net s) = []" and "url = ts_coordinator_endpoint cfg @ route req"
    and "post E url req s = Some (Ok r, s')"
  shows "respond C req (server (net s)) = (Some r, server (net s')) \<and> schedule (net s') = []"
  using assms
  by (auto simp: post_def connected_def coordinator_post_def on_arrival_def due_def split: prod.splits option.splits)

lemma created_request:
  assumes "respond C (CreateOffer o') s = (Some r, s')" and "json_bond_requirements r = Ok req"
  shows "run (process_order C o') s = (Ok req, s')"
  using assms
  by (cases "validate_offer C o'"; cases "run (process_order C o') s")
    (auto simp: respond_def receive_order_def run_simps json_bond_requirements_def json_error_def code_def json_def
      app_error_response_def split: res.splits if_splits)

lemma submitted_bond_request:
  assumes "respond C (SubmitMakerBond p) s = (Some r, s')" and "json_order_activated r = Ok a"
  shows "\<exists>oar. run (handle_maker_bond C p) s = (Ok oar, s') \<and> oac_offer_id_hex a = oar_offer_id_hex oar"
  using assms
  by (cases "run (handle_maker_bond C p) s")
    (auto simp: respond_def submit_maker_bond_def run_simps json_order_activated_def json_error_def code_def json_def
      bond_error_response_def split: res.splits BondError.splits)

text \<open>The steps of \<open>create_offer\<close> when it succeeds.\<close>

lemma create_offer_Ok:
  assumes "create_offer E w cfg s = Some (Ok offer, s')"
  obtains req s1 bond md addr s2 amount csv change s3 pub act p where
    "fetch_bond_requirement E cfg s = Some (Ok req, s1)"
    "trade_onchain_assembly E req cfg s1 = Some (Ok (bond, md, addr), s2)"
    "get_escrow_psbt_inputs E amount s2 = Some (Ok (csv, change), s3)"
    "fst (get_pub_for_sharing E (ms_nonce md)) = Ok pub"
    "send_maker E p cfg s3 = Some (Ok act, s')"
    "p = \<lparr> bsr_robohash_hex = ts_robosats_robohash_hex cfg, bsr_signed_bond_hex = extract_tx_hex E bond,
       bsr_payout_address = addr, bsr_taproot_pubkey_hex = t_hex_encode E (tw_taproot_pubkey w),
       bsr_musig_pub_nonce_hex = t_hex_encode E pub, bsr_musig_pubkey_hex = t_hex_encode E (ms_public_key md),
       bsr_bdk_psbt_inputs_hex_csv = csv, bsr_client_change_address = change \<rparr>"
    "offer = \<lparr> aof_offer_id_hex = oac_offer_id_hex act,
       aof_used_musig_config = md\<lparr>ms_nonce := snd (get_pub_for_sharing E (ms_nonce md))\<rparr>,
       aof_used_bond = bond, aof_expected_payout_address = addr, aof_escrow_psbt = None,
       aof_escrow_change_address = change, aof_psbt_inputs_hex_csv = csv \<rparr>"
  using assms by (auto simp: create_offer_def fbind_Ok flift_def fret_def Let_def split: prod.splits)

lemma order_terms:
  "or_amount_satoshi (as_offer_request (format_order_request cfg)) = offer_value (ts_trade_type cfg)"
  "or_is_buy_order (as_offer_request (format_order_request cfg)) = is_buy_order (ts_trade_type cfg)"
  "or_bond_ratio (as_offer_request (format_order_request cfg)) = ts_bond_ratio cfg"
  "or_offer_duration_ts (as_offer_request (format_order_request cfg)) = ts_duration_unix_ts cfg"
  "or_robohash_hex (as_offer_request (format_order_request cfg)) = ts_robosats_robohash_hex cfg"
  by (cases "ts_trade_type cfg"; simp add: as_offer_request_def format_order_request_def)+

text \<open>What the coordinator has after the first and after the second request of the maker.\<close>

lemma order_requested:
  assumes "connected E C cfg" and "sound (net s)" and "schedule (net s) = []"
    and "hex_decode C (ts_robosats_robohash_hex cfg) = Some h"
    and "fetch_bond_requirement E cfg s = Some (Ok req, s1)"
  shows "sound (net s1) \<and> schedule (net s1) = [] \<and>
    find_request h (server (net s1)) = Some (pending_request h (as_offer_request (format_order_request cfg)) req)"
proof -
  let ?o = "as_offer_request (format_order_request cfg)"
  obtain r where r: "post E (ts_coordinator_endpoint cfg @ ''/create-offer'') (CreateOffer ?o) s = Some (Ok r, s1)"
      "json_bond_requirements r = Ok req"
    using assms(5) by (auto simp: fetch_bond_requirement_def fbind_Ok flift_def)
  have resp: "respond C (CreateOffer ?o) (server (net s)) = (Some r, server (net s1))" "schedule (net s1) = []"
    using post_quiet [OF assms(1,3) _ r(1)] by simp_all
  have "sql_faults (server (net s)) = []" "hex_decode C (or_robohash_hex ?o) = Some h"
    using assms(2,4) by (simp_all add: sound_def order_terms)
  then obtain ad where after: "server (net s1) = (server (net s))\<lparr>wallet_index := Suc (wallet_index (server (net s))),
      maker_requests := tbl_replace mr_robohash (pending_request h ?o req) (maker_requests (server (net s)))\<rparr>"
    by (rule process_order_Ok [OF _ _ created_request [OF resp(1) r(2)]])
  have "mr_robohash (pending_request h ?o req) = h" by (simp add: pending_request_def)
  then have "find_request h (server (net s1)) = Some (pending_request h ?o req)"
    unfolding after by (simp add: requests.look_put)
  moreover have "server (net s1) = exec (Request C (CreateOffer ?o)) (server (net s))"
    using respond_exec [of C "CreateOffer ?o" "server (net s)"] resp(1) by simp
  then have "sound (net s1)" using assms(2) by (simp add: sound_def reachable_exec)
  ultimately show ?thesis using resp(2) by simp
qed

lemma bond_sent:
  assumes "connected E C cfg" and "sound (net s)" and "schedule (net s) = []" and "sqlite_nulls C"
    and "hex_decode C (bsr_robohash_hex p) = Some h" and "find_request h (server (net s)) = Some req"
    and "send_maker E p cfg s = Some (Ok act, s')"
  shows "\<exists>addr. server (net s') = (server (net s))\<lparr>wallet_index := Suc (wallet_index (server (net s))),
    maker_requests := tbl_delete mr_robohash h (maker_requests (server (net s))),
    active_maker_offers := tbl_replace ao_offer_id (listed_offer (oac_offer_id_hex act) req p addr)
      (active_maker_offers (server (net s)))\<rparr>"
proof -
  obtain r where r: "post E (ts_coordinator_endpoint cfg @ ''/submit-maker-bond'') (SubmitMakerBond p) s = Some (Ok r, s')"
      "json_order_activated r = Ok act"
    using assms(7) by (auto simp: send_maker_def fbind_Ok flift_def)
  have "respond C (SubmitMakerBond p) (server (net s)) = (Some r, server (net s'))"
    using post_quiet [OF assms(1,3) _ r(1)] by simp
  then obtain oar where oar: "run (handle_maker_bond C p) (server (net s)) = (Ok oar, server (net s'))"
      "oac_offer_id_hex act = oar_offer_id_hex oar"
    using submitted_bond_request r(2) by blast
  have ok: "sql_faults (server (net s)) = []" "flags_ok (server (net s))"
    using assms(2) by (simp_all add: sound_def reachable_flags)
  show ?thesis
    by (rule handle_maker_bond_Ok [OF ok assms(4,5) oar(1)]) (use assms(6) oar(2) in auto)
qed

text \<open>
  C40: When the maker's program has created its offer, and nobody else was served meanwhile, the
  coordinator's orderbook holds it under the id the program knows: with the terms of the
  maker's settings, the bond it signed, its payout and change addresses and its escrow inputs, and with
  the public part of the very nonce the program keeps for signing, which is still unused; nothing is left pending.
\<close>

theorem maker_offer_on_orderbook:
  assumes "connected E C cfg" and "sound (net s)" and "schedule (net s) = []" and "sqlite_nulls C"
    and "hex_decode C (ts_robosats_robohash_hex cfg) = Some h"
    and "create_offer E w cfg s = Some (Ok offer, s')"
  shows "\<exists>row. find_active (aof_offer_id_hex offer) (server (net s')) = Some row \<and>
    ao_robohash row = h \<and> ao_amount_sat row = offer_value (ts_trade_type cfg) \<and>
    ao_is_buy_order row = bool_to_sql_int (is_buy_order (ts_trade_type cfg)) \<and>
    ao_bond_ratio row = ucast (ts_bond_ratio cfg) \<and> ao_offer_duration_ts row = ts_duration_unix_ts cfg \<and>
    ao_bond_tx_hex row = extract_tx_hex E (aof_used_bond offer) \<and>
    ao_payout_address row = aof_expected_payout_address offer \<and>
    ao_change_address_maker row = aof_escrow_change_address offer \<and>
    ao_escrow_inputs_hex_maker_csv row = aof_psbt_inputs_hex_csv offer \<and>
    ao_musig_pub_nonce_hex row =
      t_hex_encode E (public_nonce E (mn_secret_nonce (ms_nonce (aof_used_musig_config offer)))) \<and>
    get_sec_for_signing (ms_nonce (aof_used_musig_config offer)) =
      Ok (mn_secret_nonce (ms_nonce (aof_used_musig_config offer))) \<and>
    find_request h (server (net s')) = None"
proof -
  let ?o = "as_offer_request (format_order_request cfg)"
  show ?thesis
  proof (rule create_offer_Ok [OF assms(6)])
    fix req s1 bond md addr s2 amount csv change s3 pub act p
    assume fetch: "fetch_bond_requirement E cfg s = Some (Ok req, s1)"
      and assembly: "trade_onchain_assembly E req cfg s1 = Some (Ok (bond, md, addr), s2)"
      and inputs: "get_escrow_psbt_inputs E amount s2 = Some (Ok (csv, change), s3)"
      and nonce: "fst (get_pub_for_sharing E (ms_nonce md)) = Ok pub"
      and send: "send_maker E p cfg s3 = Some (Ok act, s')"
      and p: "p = \<lparr> bsr_robohash_hex = ts_robosats_robohash_hex cfg, bsr_signed_bond_hex = extract_tx_hex E bond,
         bsr_payout_address = addr, bsr_taproot_pubkey_hex = t_hex_encode E (tw_taproot_pubkey w),
         bsr_musig_pub_nonce_hex = t_hex_encode E pub, bsr_musig_pubkey_hex = t_hex_encode E (ms_public_key md),
         bsr_bdk_psbt_inputs_hex_csv = csv, bsr_client_change_address = change \<rparr>"
      and offer: "offer = \<lparr> aof_offer_id_hex = oac_offer_id_hex act,
         aof_used_musig_config = md\<lparr>ms_nonce := snd (get_pub_for_sharing E (ms_nonce md))\<rparr>,
         aof_used_bond = bond, aof_expected_payout_address = addr, aof_escrow_psbt = None,
         aof_escrow_change_address = change, aof_psbt_inputs_hex_csv = csv \<rparr>"
    note order = order_requested [OF assms(1-3,5) fetch]
    have net: "net s3 = net s1"
      using offlineD [OF offline_assembly assembly] offlineD [OF offline_inputs inputs] by simp
    obtain addr' where listed: "server (net s') = (server (net s3))\<lparr>wallet_index := Suc (wallet_index (server (net s3))),
        maker_requests := tbl_delete mr_robohash h (maker_requests (server (net s3))),
        active_maker_offers := tbl_replace ao_offer_id (listed_offer (oac_offer_id_hex act) (pending_request h ?o req) p addr')
          (active_maker_offers (server (net s3)))\<rparr>"
      using bond_sent [OF assms(1) _ _ assms(4) _ _ send, of h "pending_request h ?o req"] order net assms(5) p by auto
    let ?row = "listed_offer (oac_offer_id_hex act) (pending_request h ?o req) p addr'"
    have found: "find_active (aof_offer_id_hex offer) (server (net s')) = Some ?row"
      "find_request h (server (net s')) = None"
      using listed offer by (simp_all add: orderbook.look_put requests.look_del listed_offer_def)
    have sec: "pub = public_nonce E (mn_secret_nonce (ms_nonce md))" "\<not> mn_accessed_for_signing (ms_nonce md)"
      "snd (get_pub_for_sharing E (ms_nonce md)) = (ms_nonce md)\<lparr>mn_accessed_for_sharing := True\<rparr>"
      using nonce by (auto simp: get_pub_for_sharing_def split: if_splits)
    show ?thesis
      by (rule exI [of _ ?row])
        (use found order_terms sec p offer in \<open>simp add: listed_offer_def pending_request_def get_sec_for_signing_def\<close>)
  qed
qed

lemma maker_offer_on_orderbook_witness:
  "\<exists>offer s'. create_offer tenv0 \<lparr> tw_taproot_pubkey = [1] \<rparr> (sample_settings ''m'' (Buy 20000))
     (sample_trader (init_coord []) [] []) = Some (Ok offer, s') \<and>
   map_option ao_amount_sat (find_active (aof_offer_id_hex offer) (server (net s'))) = Some 20000"
proof -
  let ?cfg = "sample_settings ''m'' (Buy 20000)" and ?s = "sample_trader (init_coord []) [] []"
  let ?run = "create_offer tenv0 \<lparr> tw_taproot_pubkey = [1] \<rparr> ?cfg ?s"
  have "(case ?run of Some (r, s') \<Rightarrow> is_ok r | None \<Rightarrow> False)" by code_simp
  then obtain offer s' where r: "?run = Some (Ok offer, s')"
    by (auto split: option.splits elim: is_ok.elims)
  have "reachable (init_coord [])" by (rule reachable_init)
  then have "sound (net ?s)" by simp
  moreover have "schedule (net ?s) = []" "hex_decode env0 (ts_robosats_robohash_hex ?cfg) = Some [109]"
    "offer_value (ts_trade_type ?cfg) = 20000"
    by (simp_all add: sample_trader_def sample_settings_def)
  ultimately obtain row where "find_active (aof_offer_id_hex offer) (server (net s')) = Some row" "ao_amount_sat row = 20000"
    using maker_offer_on_orderbook [OF connected_sample _ _ env0_laws(1) _ r] by auto
  then show ?thesis using r by auto
qed

end
