(* ===== verification/Monitors_Spec.thy ===== *)
theory Monitors_Spec
  imports Invariants
begin

text \<open>
  What one round of the background tasks does to the orderbook and to the trades: which violating
  bonds are punished, and which escrows are marked as confirmed.
\<close>

section \<open>Punishment of violating bonds\<close>

lemma update_values: "snd ` set (AList.update k v m) \<subseteq> insert v (snd ` set m)"
  by (induction m) auto

definition bonds_of :: "bond_map \<Rightarrow> MonitoringBond list" where
  "bonds_of m = map (\<lambda>(_, (bond, _)). bond) m"

lemma bonds_of_update: "set (bonds_of (AList.update k (b, e) m)) \<subseteq> insert b (set (bonds_of m))"
  using update_values [of k "(b, e)" m] by (force simp: bonds_of_def)

lemma bonds_of_Nil [simp]: "bonds_of [] = []"
  by (simp add: bonds_of_def)

lemma bonds_of_Cons [simp]: "bonds_of ((k, v) # m) = fst v # bonds_of m"
  by (cases v) (simp add: bonds_of_def)

lemma bonds_of_extend: "set (bonds_of (extend_map m m')) \<subseteq> set (bonds_of m) \<union> set (bonds_of m')"
proof (induction m m' rule: extend_map.induct)
  case (2 m k v kvs)
  then show ?case using bonds_of_update [of k "fst v" "snd v" m] by simp blast
qed simp

lemma check_bonds_source: "check_bonds E m bonds = Ok m' \<Longrightarrow> set (bonds_of m') \<subseteq> set (bonds_of m) \<union> set bonds"
proof (induction bonds arbitrary: m)
  case (Cons b bonds)
  then show ?case using bonds_of_update by (fastforce simp: bind_res_eq_Ok split: option.splits)
qed simp

lemma search_source: "search_monitoring_bond_by_txid E bonds txid = Ok b \<Longrightarrow> b \<in> set bonds"
  by (induction bonds) (auto simp: bind_res_eq_Ok split: if_splits)

lemma rejected_source:
  "rejected_bonds E bonds m rs = Ok m' \<Longrightarrow> set (bonds_of m') \<subseteq> set (bonds_of m) \<union> set bonds"
proof (induction rs arbitrary: m)
  case (Cons r rs)
  then show ?case using bonds_of_update search_source by (fastforce simp: bind_res_eq_Ok split: if_splits)
qed simp

lemma mempool_source:
  "bonds_in_mempool E u m bonds = Ok m' \<Longrightarrow> set (bonds_of m') \<subseteq> set (bonds_of m) \<union> set bonds"
proof (induction bonds arbitrary: m)
  case (Cons b bonds)
  then show ?case using bonds_of_update by (fastforce simp: bind_res_eq_Ok split: if_splits)
qed simp

lemma bonds_result_source:
  assumes "bonds_result E u bonds = Ok m"
  shows "set (bonds_of m) \<subseteq> set bonds"
proof -
  obtain m1 m2 m3 where m: "check_bonds E [] bonds = Ok m1" "test_mempool_accept_bonds E bonds = Ok m2"
      "bonds_in_mempool E u [] bonds = Ok m3" "m = extend_map (extend_map m1 m2) m3"
    using assms by (auto simp: bonds_result_def bind_res_eq_Ok)
  have "set (bonds_of m2) \<subseteq> set bonds"
    using m(2) rejected_source [of E bonds "[]"] by (auto simp: test_mempool_accept_bonds_def bind_res_eq_Ok)
  then show ?thesis
    using check_bonds_source [OF m(1)] mempool_source [OF m(3)] bonds_of_extend [of m1 m2]
      bonds_of_extend [of "extend_map m1 m2" m3] m(4) by simp blast
qed

text \<open>The transaction that \<open>publish_bond_tx_hex\<close> publishes, if it can.\<close>

definition published_bond :: "env \<Rightarrow> MonitoringBond \<Rightarrow> Transaction option" where
  "published_bond E bond =
     (case hex_decode E (mb_bond_tx_hex bond) of
        None \<Rightarrow> None
      | Some raw \<Rightarrow>
          (case tx_deserialize E raw of
             Ok tx \<Rightarrow> if is_ok (broadcast_accepted E tx) then Some tx else None
           | _ \<Rightarrow> None))"

text \<open>The state once the bonds \<open>bs\<close> are punished.\<close>

definition punished_state :: "env \<Rightarrow> MonitoringBond list \<Rightarrow> coord \<Rightarrow> coord" where
  "punished_state E bs s = s\<lparr>active_maker_offers :=
       filter (\<lambda>r. ao_offer_id r \<notin> mb_trade_id_hex ` set bs) (active_maker_offers s),
     published := published s @ map (the \<circ> published_bond E) bs\<rparr>"

lemma run_punish:
  assumes "sql_faults s = []" and "mb_table bond = Orderbook"
  shows "snd (run (punish E bond) s) = (case published_bond E bond of None \<Rightarrow> s | Some tx \<Rightarrow> punished_state E [bond] s) \<and>
    is_ok (fst (run (punish E bond) s)) = (published_bond E bond \<noteq> None)"
  using assms
  by (auto simp: punish_def publish_bond_tx_hex_def broadcast_def remove_violating_bond_def published_bond_def run_simps
      punished_state_def tbl_delete_def decode_hex_def split: option.splits res.splits)

lemma run_treat_violation:
  "punishment_enabled E = Some ''1'' \<Longrightarrow> treat_violation E = punish E"
  by (simp add: treat_violation_def fun_eq_iff)

lemma punish_all:
  assumes "sql_faults s = []" and "\<And>b. b \<in> set bs \<Longrightarrow> mb_table b = Orderbook"
  shows "snd (run (for_each (punish E) bs) s) = punished_state E (takeWhile (\<lambda>b. published_bond E b \<noteq> None) bs) s"
  using assms
proof (induction bs arbitrary: s)
  case Nil
  then show ?case by (simp add: run_ret punished_state_def)
next
  case (Cons b bs)
  obtain r u where run: "run (punish E b) s = (r, u)" by (cases "run (punish E b) s")
  have first: "u = (case published_bond E b of None \<Rightarrow> s | Some tx \<Rightarrow> punished_state E [b] s)"
      "is_ok r = (published_bond E b \<noteq> None)"
    using run_punish [of s b E] Cons.prems run by simp_all
  show ?case
  proof (cases "published_bond E b")
    case None
    then have "snd (run (for_each (punish E) (b # bs)) s) = s"
      using first by (cases r) (simp_all add: run_andThen run)
    then show ?thesis using None by (simp add: punished_state_def)
  next
    case (Some tx)
    then have "snd (run (for_each (punish E) (b # bs)) s) = snd (run (for_each (punish E) bs) u)"
      using first(2) by (cases r) (simp_all add: run_andThen run)
    moreover have "sql_faults u = []" using Some first(1) Cons.prems(1) by (simp add: punished_state_def)
    ultimately show ?thesis
      using Cons.IH [of u] Cons.prems(2) Some first(1)
      by (simp add: punished_state_def conj_commute)
  qed
qed

text \<open>An offer whose bond is refused survives the punishment of others: ids are unique.\<close>

lemma punished_keeps:
  assumes "keys_distinct s" and "r \<in> set (active_maker_offers s)"
    and "set bs \<subseteq> set (map monitoring_bond_of_row (active_maker_offers s))"
    and "monitoring_bond_of_row r \<notin> set bs"
  shows "r \<in> set (active_maker_offers (punished_state E bs s))"
proof -
  have inj: "inj_on ao_offer_id (set (active_maker_offers s))"
    using assms(1) by (simp add: keys_distinct_def tbl_wf_def distinct_map)
  have "ao_offer_id r \<notin> mb_trade_id_hex ` set bs"
  proof
    assume "ao_offer_id r \<in> mb_trade_id_hex ` set bs"
    then obtain b where b: "b \<in> set bs" "ao_offer_id r = mb_trade_id_hex b" by blast
    then obtain r' where r': "r' \<in> set (active_maker_offers s)" "b = monitoring_bond_of_row r'"
      using assms(3) by auto
    then have "ao_offer_id r' = ao_offer_id r" using b(2) by (simp add: monitoring_bond_of_row_def)
    then have "r' = r" using inj_onD [OF inj _ r'(1) assms(2)] by simp
    then show False using assms(4) b(1) r'(2) by simp
  qed
  then show ?thesis using assms(2) by (simp add: punished_state_def)
qed

lemma bonds_of_iter [simp]: "set (bonds_of (bond_map_iter E m)) = set (bonds_of m)"
  by (simp add: bonds_of_def bond_map_iter_def)

text \<open>
  C15: A round of the bond monitoring with punishment enabled goes through the violating bonds in the
  order in which the map is iterated, whatever that order is: each is published and its offer leaves
  the orderbook, up to the first whose transaction the node does not accept, which ends the round. So
  every violating bond is punished if the node accepts all of them, and the offer of a bond that
  the node refuses stays on the orderbook in any order.
\<close>

theorem bond_round_punishes:
  assumes "sql_faults s = []" and "keys_distinct s" and "punishment_enabled E = Some ''1''"
    and "run (validate_bonds E (map monitoring_bond_of_row (active_maker_offers s))) s = (Ok violations, s)"
    and "violating = map (\<lambda>(_, (bond, _)). bond) (bond_map_iter E violations)"
    and "punished = takeWhile (\<lambda>b. published_bond E b \<noteq> None) violating"
  shows "exec (BondRound E) s = s\<lparr>
      active_maker_offers := filter (\<lambda>r. ao_offer_id r \<notin> mb_trade_id_hex ` set punished) (active_maker_offers s),
      published := published s @ map (the \<circ> published_bond E) punished\<rparr> \<and>
    ((\<forall>b \<in> set violating. published_bond E b \<noteq> None) \<longrightarrow> punished = violating) \<and>
    (\<forall>r \<in> set (active_maker_offers s). published_bond E (monitoring_bond_of_row r) = None \<longrightarrow>
       r \<in> set (active_maker_offers (exec (BondRound E) s)))"
proof -
  have result: "bonds_result E (mempool_utxo_set s) (map monitoring_bond_of_row (active_maker_offers s)) = Ok violations"
    using assms(4) by (simp add: run_simps)
  have violating: "violating = bonds_of (bond_map_iter E violations)" using assms(5) by (simp add: bonds_of_def)
  have source: "set violating \<subseteq> set (map monitoring_bond_of_row (active_maker_offers s))"
    unfolding violating using bonds_result_source [OF result] by simp
  have table: "mb_table b = Orderbook" if "b \<in> set violating" for b
    using source that by (auto simp: monitoring_bond_of_row_def)
  have "exec (BondRound E) s = snd (run (for_each (punish E) violating) s)"
  proof (cases "active_maker_offers s = []")
    case True
    then have "violating = []" using source by simp
    then show ?thesis using True assms(1)
      by (simp add: exec_simps monitor_bonds_def fetch_all_bonds_def run_simps)
  next
    case False
    then show ?thesis using assms(1,3) result assms(5)
      by (simp add: exec_simps monitor_bonds_def fetch_all_bonds_def run_simps run_treat_violation)
  qed
  also have "\<dots> = punished_state E punished s"
    using punish_all [OF assms(1), of violating E] table assms(6) by simp
  finally have round: "exec (BondRound E) s = punished_state E punished s" .
  have "b \<in> set punished \<Longrightarrow> b \<in> set violating \<and> published_bond E b \<noteq> None" for b
    using assms(6) by (auto dest: set_takeWhileD)
  then have "\<forall>r \<in> set (active_maker_offers s). published_bond E (monitoring_bond_of_row r) = None \<longrightarrow>
       r \<in> set (active_maker_offers (exec (BondRound E) s))"
    unfolding round using punished_keeps [OF assms(2)] source by (metis subset_iff)
  then show ?thesis
    using round assms(6) by (simp add: punished_state_def takeWhile_eq_all_conv)
qed

text \<open>The maker has spent the input of its bond, and a node that refuses the bond because of that.\<close>

definition spent_state :: coord where
  "spent_state = offer_state\<lparr>mempool_utxo_set := [\<lparr> op_txid = ''p'', op_vout = 0 \<rparr>]\<rparr>"

definition conflict_env :: env where
  "conflict_env = env0\<lparr>broadcast_accepted := \<lambda>tx. Err (Anyhow ''txn-mempool-conflict'')\<rparr>"

lemma bond_round_punishes_witness:
  "active_maker_offers (exec (BondRound env0) spent_state) = [] \<and>
   sample_row \<in> set (active_maker_offers (exec (BondRound conflict_env) spent_state))"
proof -
  let ?bonds = "map monitoring_bond_of_row (active_maker_offers spent_state)"
  have c: "(case run (validate_bonds env0 ?bonds) spent_state of
        (Ok v, t) \<Rightarrow> t = spent_state \<and> map (\<lambda>(_, (bond, _)). bond) (bond_map_iter env0 v) = [monitoring_bond_of_row sample_row] \<and>
          published_bond env0 (monitoring_bond_of_row sample_row) \<noteq> None | _ \<Rightarrow> False)"
    by code_simp
  then obtain v where v: "run (validate_bonds env0 ?bonds) spent_state = (Ok v, spent_state)"
      "[monitoring_bond_of_row sample_row] = map (\<lambda>(_, (bond, _)). bond) (bond_map_iter env0 v)"
      "published_bond env0 (monitoring_bond_of_row sample_row) \<noteq> None"
    by (auto split: prod.splits res.splits)
  have c': "(case run (validate_bonds conflict_env ?bonds) spent_state of
        (Ok v, t) \<Rightarrow> t = spent_state \<and> published_bond conflict_env (monitoring_bond_of_row sample_row) = None | _ \<Rightarrow> False)"
    by code_simp
  then obtain v' where v': "run (validate_bonds conflict_env ?bonds) spent_state = (Ok v', spent_state)"
      "published_bond conflict_env (monitoring_bond_of_row sample_row) = None"
    by (auto split: prod.splits res.splits)
  have s: "sql_faults spent_state = []" "active_maker_offers spent_state = [sample_row]" "keys_distinct spent_state"
    by (simp_all add: spent_state_def offer_state_def init_coord_def keys_distinct_def tbl_wf_def)
  have E: "punishment_enabled env0 = Some ''1''" "punishment_enabled conflict_env = Some ''1''"
    by (simp_all add: env0_def conflict_env_def)
  have "active_maker_offers (exec (BondRound env0) spent_state) = []"
    using bond_round_punishes [OF s(1,3) E(1) v(1,2) refl] v(3) by (simp add: s(2) monitoring_bond_of_row_def)
  moreover have "\<forall>r \<in> set (active_maker_offers spent_state). published_bond conflict_env (monitoring_bond_of_row r) = None \<longrightarrow>
      r \<in> set (active_maker_offers (exec (BondRound conflict_env) spent_state))"
    using bond_round_punishes [OF s(1,3) E(2) v'(1) refl refl] by (elim conjE)
  ultimately show ?thesis using v'(2) s(2) by simp
qed

section \<open>Confirmation of escrow transactions\<close>

text \<open>What the node says of a transaction: an answer that ends the round, or enough confirmations.\<close>

definition lookup_fails :: "env \<Rightarrow> string \<Rightarrow> bool" where
  "lookup_fails E txid \<longleftrightarrow> \<not> is_ok (txid_parse E txid) \<or>
     (case rpc_transaction_info E txid of TxInfo n \<Rightarrow> False | RpcErrorCode c \<Rightarrow> c \<noteq> -5 | OtherRpcError \<Rightarrow> True)"

definition deep :: "env \<Rightarrow> string \<Rightarrow> bool" where
  "deep E txid \<longleftrightarrow> (\<exists>n \<in> set_option (case rpc_transaction_info E txid of TxInfo c \<Rightarrow> c | _ \<Rightarrow> None). 3 < n)"

lemma get_confirmations_fails: "\<exists>txid \<in> set txids. lookup_fails E txid \<Longrightarrow> \<not> is_ok (get_confirmations E txids)"
proof (induction txids)
  case (Cons txid txids)
  then show ?case
    by (cases "txid_parse E txid"; cases "rpc_transaction_info E txid"; cases "get_confirmations E txids")
      (auto simp: lookup_fails_def)
qed simp

lemma get_confirmations_Ok:
  "\<forall>txid \<in> set txids. \<not> lookup_fails E txid \<Longrightarrow> get_confirmations E txids = Ok (filter (deep E) txids)"
proof (induction txids)
  case (Cons txid txids)
  then show ?case
    by (cases "txid_parse E txid"; cases "rpc_transaction_info E txid")
      (auto simp: lookup_fails_def deep_def split: option.splits)
qed simp

lemma run_confirm_bond_txids:
  "sql_faults s = [] \<Longrightarrow> run (confirm_bond_txids txids) s =
     (Ok (), s\<lparr>taken_offers := map (\<lambda>r. if to_escrow_psbt_txid r \<in> set txids then r\<lparr>to_escrow_psbt_is_confirmed := 1\<rparr> else r)
        (taken_offers s)\<rparr>)"
proof (induction txids arbitrary: s)
  case Nil
  then show ?case by (simp add: confirm_bond_txids_def run_ret)
next
  case (Cons txid txids)
  let ?u = "s\<lparr>taken_offers := confirm_txid txid (taken_offers s)\<rparr>"
  have "run (confirm_bond_txids (txid # txids)) s = run (confirm_bond_txids txids) ?u"
    using Cons.prems by (simp add: confirm_bond_txids_def run_simps)
  moreover have "map (\<lambda>r. if to_escrow_psbt_txid r \<in> set txids then r\<lparr>to_escrow_psbt_is_confirmed := 1\<rparr> else r) (confirm_txid txid rows) =
      map (\<lambda>r. if to_escrow_psbt_txid r \<in> set (txid # txids) then r\<lparr>to_escrow_psbt_is_confirmed := 1\<rparr> else r) rows" for rows
    by (induction rows) (auto simp: confirm_txid_def)
  ultimately show ?case using Cons.IH [of ?u] Cons.prems by simp
qed

lemma exec_confirmation_round:
  assumes "sql_faults s = []" and "run fetch_unconfirmed_escrow_txids s = (Ok txids, s)"
    and "get_confirmations E txids = Ok found"
  shows "exec (ConfirmationRound E) s = s\<lparr>taken_offers :=
    map (\<lambda>r. if to_escrow_psbt_txid r \<in> set found then r\<lparr>to_escrow_psbt_is_confirmed := 1\<rparr> else r) (taken_offers s)\<rparr>"
proof (cases "found = []")
  case True
  then show ?thesis using assms(2,3)
    by (simp add: exec_simps update_transaction_confirmations_def run_onResult run_ret)
next
  case False
  then have "txids \<noteq> []" using assms(3) by auto
  then show ?thesis using assms False run_confirm_bond_txids [OF assms(1), of found]
    by (simp add: exec_simps update_transaction_confirmations_def run_onResult run_ret)
qed

text \<open>
  C16: A round of the confirmation monitoring asks the node for every escrow transaction that is not
  marked as confirmed. If one of the answers is an error (other than that the transaction is not
  known), nothing is marked at all; otherwise exactly the trades whose transaction has more than
  three confirmations become confirmed.
\<close>

theorem confirmation_round:
  assumes "sql_faults s = []" and "flags_ok s"
  shows "exec (ConfirmationRound E) s =
    (if \<exists>r \<in> set (taken_offers s). to_escrow_psbt_is_confirmed r = 0 \<and> lookup_fails E (to_escrow_psbt_txid r) then s
     else s\<lparr>taken_offers := map (\<lambda>r. if to_escrow_psbt_is_confirmed r = 0 \<and> deep E (to_escrow_psbt_txid r)
         then r\<lparr>to_escrow_psbt_is_confirmed := 1\<rparr> else r) (taken_offers s)\<rparr>)"
proof -
  let ?open = "filter (\<lambda>r. to_escrow_psbt_is_confirmed r = 0) (taken_offers s)"
  let ?txids = "map to_escrow_psbt_txid ?open"
  have fetch: "run fetch_unconfirmed_escrow_txids s = (Ok ?txids, s)"
    using assms(1) by (simp add: fetch_unconfirmed_escrow_txids_def run_simps)
  show ?thesis
  proof (cases "\<exists>txid \<in> set ?txids. lookup_fails E txid")
    case True
    then have "(case get_confirmations E ?txids of Ok txids \<Rightarrow> txids | _ \<Rightarrow> []) = []"
      using get_confirmations_fails [OF True] by (cases "get_confirmations E ?txids") simp_all
    then have "exec (ConfirmationRound E) s = s"
      using fetch by (simp add: exec_simps update_transaction_confirmations_def run_onResult run_ret)
    then show ?thesis using True by auto
  next
    case False
    then have found: "get_confirmations E ?txids = Ok (filter (deep E) ?txids)" by (simp add: get_confirmations_Ok)
    let ?mark = "map (\<lambda>r. if to_escrow_psbt_txid r \<in> set (filter (deep E) ?txids)
      then r\<lparr>to_escrow_psbt_is_confirmed := 1\<rparr> else r) (taken_offers s)"
    have "exec (ConfirmationRound E) s = s\<lparr>taken_offers := ?mark\<rparr>"
      by (rule exec_confirmation_round [OF assms(1) fetch found])
    moreover have "?mark = map (\<lambda>r. if to_escrow_psbt_is_confirmed r = 0 \<and> deep E (to_escrow_psbt_txid r)
        then r\<lparr>to_escrow_psbt_is_confirmed := 1\<rparr> else r) (taken_offers s)"
    proof (rule map_cong [OF refl])
      fix r assume r: "r \<in> set (taken_offers s)"
      then have "to_escrow_psbt_is_confirmed r = 0 \<or> to_escrow_psbt_is_confirmed r = 1"
        using assms(2) by (auto simp: flags_ok_def trade_flags_def)
      then show "(if to_escrow_psbt_txid r \<in> set (filter (deep E) ?txids) then r\<lparr>to_escrow_psbt_is_confirmed := 1\<rparr> else r) =
          (if to_escrow_psbt_is_confirmed r = 0 \<and> deep E (to_escrow_psbt_txid r) then r\<lparr>to_escrow_psbt_is_confirmed := 1\<rparr> else r)"
        using r by auto
    qed
    ultimately show ?thesis using False by auto
  qed
qed

text \<open>A node that knows the escrow but fails for another transaction.\<close>

definition failing_env :: env where
  "failing_env = env0\<lparr>rpc_transaction_info := \<lambda>i. OtherRpcError\<rparr>"

lemma confirmation_round_witness:
  "exec (ConfirmationRound failing_env) taken_state = taken_state \<and>
   map to_escrow_psbt_is_confirmed (taken_offers (exec (ConfirmationRound env0) taken_state)) = [1]"
proof -
  have rows: "taken_offers taken_state = [sample_trade]" "to_escrow_psbt_is_confirmed sample_trade = 0"
    by (simp_all add: taken_state_def sample_trade_def)
  have node: "lookup_fails failing_env txid" "\<not> lookup_fails env0 txid" "deep env0 txid" for txid
    by (simp_all add: lookup_fails_def deep_def failing_env_def env0_def)
  have "sql_faults taken_state = []" "flags_ok taken_state" using reachable_flags [OF reachable_taken] by simp_all
  note round = confirmation_round [OF this]
  show ?thesis using round [of failing_env] round [of env0] rows node by simp
qed

end
