(* ===== verification/Mempool_Spec.thy ===== *)
theory Mempool_Spec
  imports Monitors_Spec
begin

text \<open>
  The copy of the node's mempool (\<open>mempool_monitoring.rs\<close>): what a round of the thread leaves in it,
  and that the validation of bonds reports every bond with an input that a copied transaction spends.
\<close>

section \<open>One round\<close>

text \<open>What the copy says of a transaction that the node knows is true.\<close>

definition copy_correct :: "env \<Rightarrow> coord \<Rightarrow> bool" where
  "copy_correct E s \<longleftrightarrow>
     (\<forall>(txid, inputs) \<in> set (mempool_transactions s). \<forall>tx. rpc_raw_transaction E txid = Ok tx \<longrightarrow> inputs = tx_input tx)"

lemma fetch_mempool_member:
  "(t, ins) \<in> set (fetch_mempool_txs E m txids) \<longleftrightarrow>
     (t, ins) \<in> set m \<or>
     t \<in> set txids \<and> t \<notin> fst ` set m \<and> (\<exists>tx. rpc_raw_transaction E t = Ok tx \<and> ins = tx_input tx)"
proof (induction E m txids rule: fetch_mempool_txs.induct)
  case (2 E m txid txids)
  show ?case
  proof (cases "txid \<in> fst ` set m")
    case True
    then show ?thesis using 2(1) by auto
  next
    case False
    then show ?thesis using 2(2-4) by (cases "rpc_raw_transaction E txid") auto
  qed
qed simp

lemma exec_mempool_round:
  assumes "rpc_raw_mempool E = Ok txids"
  shows "exec (MempoolRound E) s = refresh_mempool E txids s"
  using assms by (simp add: exec_simps run_mempool_def run_simps)

lemma refreshed_member:
  "(t, ins) \<in> set (mempool_transactions (refresh_mempool E txids s)) \<longleftrightarrow>
     t \<in> set txids \<and> (t, ins) \<in> set (fetch_mempool_txs E (mempool_transactions s) txids)"
  by (auto simp: refresh_mempool_def Let_def)

lemma refreshed_utxo:
  "out \<in> set (mempool_utxo_set (refresh_mempool E txids s)) \<longleftrightarrow>
     (\<exists>t ins. (t, ins) \<in> set (mempool_transactions (refresh_mempool E txids s)) \<and> out \<in> set ins)"
  by (force simp: refresh_mempool_def Let_def)

lemma copied:
  assumes "copy_correct E s" and "txid \<in> set txids" and "rpc_raw_transaction E txid = Ok tx"
  shows "(txid, tx_input tx) \<in> set (mempool_transactions (refresh_mempool E txids s))"
  using assms unfolding refreshed_member fetch_mempool_member copy_correct_def by force

lemma copy_correct_refreshed: "copy_correct E s \<Longrightarrow> copy_correct E (refresh_mempool E txids s)"
  unfolding copy_correct_def using fetch_mempool_member refreshed_member by fastforce

section \<open>The bonds that are reported\<close>

lemma map_of_extend:
  assumes "distinct (map fst m')"
  shows "map_of (extend_map m m') k = (case map_of m' k of Some v \<Rightarrow> Some v | None \<Rightarrow> map_of m k)"
  using assms
proof (induction m m' rule: extend_map.induct)
  case (2 m k' v kvs)
  then show ?case
    by (auto simp: update_conv' split: option.split dest: map_of_SomeD)
       (force dest: map_of_SomeD)
qed simp

text \<open>The entries of the lookup: each under the id of its bond.\<close>

definition reported :: "env \<Rightarrow> MonitoringBond list \<Rightarrow> bond_map \<Rightarrow> bool" where
  "reported E bonds m \<longleftrightarrow> distinct (map fst m) \<and>
     (\<forall>k v. map_of m k = Some v \<longrightarrow>
        (\<exists>b \<in> set bonds. v = (b, Anyhow ''Input in mempool'') \<and> bond_id E b = Ok k))"

lemma reported_update:
  "reported E bonds m \<Longrightarrow> b \<in> set bonds \<Longrightarrow> bond_id E b = Ok k \<Longrightarrow>
     reported E bonds (AList.update k (b, Anyhow ''Input in mempool'') m)"
  by (simp add: reported_def update_conv' distinct_update)

lemma lookup_reports:
  assumes "bonds_in_mempool E u m bonds = Ok m'" and "reported E all m" and "set bonds \<subseteq> set all"
  shows "reported E all m' \<and> dom (map_of m) \<subseteq> dom (map_of m') \<and>
    (\<forall>b \<in> set bonds. \<forall>tx. bond_transaction E b = Ok tx \<longrightarrow> set (tx_input tx) \<inter> set u \<noteq> {} \<longrightarrow>
       (\<exists>k. bond_id E b = Ok k \<and> k \<in> dom (map_of m')))"
  using assms
proof (induction bonds arbitrary: m)
  case (Cons b bonds)
  from Cons.prems(1) obtain tx where tx: "bond_transaction E b = Ok tx"
    by (auto simp: bind_res_eq_Ok)
  show ?case
  proof (cases "\<exists>i \<in> set (tx_input tx). i \<in> set u")
    case True
    then obtain k where k: "bond_id E b = Ok k"
      "bonds_in_mempool E u (AList.update k (b, Anyhow ''Input in mempool'') m) bonds = Ok m'"
      using Cons.prems(1) tx by (auto simp: bind_res_eq_Ok)
    note ih = Cons.IH [OF k(2) reported_update [OF Cons.prems(2) _ k(1)]]
    have "dom (map_of (AList.update k (b, Anyhow ''Input in mempool'') m)) = insert k (dom (map_of m))"
      by (simp add: update_conv')
    then show ?thesis using ih Cons.prems(3) k(1) by auto
  next
    case False
    then have "bonds_in_mempool E u m bonds = Ok m'" using Cons.prems(1) tx by simp
    from Cons.IH [OF this Cons.prems(2)] Cons.prems(3) False tx show ?thesis by auto
  qed
qed simp

text \<open>
  C17: A double spend is detected: after a round of the mempool thread, a validation that succeeds
  reports every bond one of whose inputs is spent by a transaction of the node's mempool, under the
  id of the bond; and the copy holds no transaction that has left the mempool.
\<close>

theorem double_spend_detected:
  assumes "copy_correct E s" and "rpc_raw_mempool E = Ok txids"
    and "txid \<in> set txids" and "rpc_raw_transaction E txid = Ok tx"
    and "run (validate_bonds E' bonds) (exec (MempoolRound E) s) = (Ok violations, s')"
    and "bond \<in> set bonds" and "bond_transaction E' bond = Ok bond_tx"
    and "set (tx_input bond_tx) \<inter> set (tx_input tx) \<noteq> {}"
  shows "(\<exists>k. \<exists>b \<in> set bonds. bond_id E' bond = Ok k \<and> bond_id E' b = Ok k \<and>
      map_of violations k = Some (b, Anyhow ''Input in mempool'')) \<and>
    fst ` set (mempool_transactions (exec (MempoolRound E) s)) \<subseteq> set txids \<and>
    copy_correct E (exec (MempoolRound E) s)"
proof -
  note round = exec_mempool_round [OF assms(2), of s]
  let ?u = "mempool_utxo_set (exec (MempoolRound E) s)"
  have spent: "set (tx_input bond_tx) \<inter> set ?u \<noteq> {}"
    using copied [OF assms(1,3,4)] assms(8) refreshed_utxo unfolding round by blast
  obtain m1 m2 m3 where m: "bonds_in_mempool E' ?u [] bonds = Ok m3"
      "violations = extend_map (extend_map m1 m2) m3"
    using assms(5) by (auto simp: run_simps bonds_result_def bind_res_eq_Ok)
  have "reported E' bonds []" by (simp add: reported_def)
  note rep = lookup_reports [OF m(1) this subset_refl]
  then obtain k v where "bond_id E' bond = Ok k" "map_of m3 k = Some v"
    using assms(6,7) spent by blast
  moreover from this obtain b where "b \<in> set bonds" "v = (b, Anyhow ''Input in mempool'')" "bond_id E' b = Ok k"
    using rep unfolding reported_def by blast
  moreover have "map_of violations k = Some v"
    unfolding m(2) using map_of_extend [of m3 "extend_map m1 m2" k] rep calculation(2) by (simp add: reported_def)
  ultimately show ?thesis
    using copy_correct_refreshed [OF assms(1)] refreshed_member unfolding round by auto
qed

text \<open>The node knows of a transaction that spends the input of the maker's bond.\<close>

definition spending_env :: env where
  "spending_env = env0\<lparr>rpc_raw_mempool := Ok [''x''], rpc_raw_transaction := \<lambda>txid. Ok (sample_tx [109])\<rparr>"

lemma double_spend_detected_witness:
  "\<exists>violations. run (validate_bonds env0 (map monitoring_bond_of_row (active_maker_offers offer_state)))
      (exec (MempoolRound spending_env) offer_state) =
      (Ok violations, exec (MempoolRound spending_env) offer_state) \<and> violations \<noteq> []"
proof -
  let ?s = "exec (MempoolRound spending_env) offer_state"
  let ?bonds = "map monitoring_bond_of_row (active_maker_offers offer_state)"
  have c: "is_ok (fst (run (validate_bonds env0 ?bonds) ?s)) \<and> snd (run (validate_bonds env0 ?bonds) ?s) = ?s \<and>
      bond_transaction env0 (monitoring_bond_of_row sample_row) = Ok (sample_tx [109]) \<and>
      tx_input (sample_tx [109]) \<noteq> []"
    by code_simp
  then obtain v where v: "run (validate_bonds env0 ?bonds) ?s = (Ok v, ?s)" by (auto dest: run_is_ok)
  have E: "rpc_raw_mempool spending_env = Ok [''x'']" "''x'' \<in> set [''x'']"
    "rpc_raw_transaction spending_env ''x'' = Ok (sample_tx [109])"
    by (simp_all add: spending_env_def)
  have "copy_correct spending_env offer_state" by (simp add: copy_correct_def offer_state_def)
  moreover have "monitoring_bond_of_row sample_row \<in> set ?bonds" by (simp add: offer_state_def)
  ultimately show ?thesis
    using double_spend_detected [OF _ E v, of "monitoring_bond_of_row sample_row" "sample_tx [109]"] c v by auto
qed

end
