(* ===== verification/Lifecycle_Spec.thy ===== *)
theory Lifecycle_Spec
  imports Escrow_Spec Orders_Spec
begin

text \<open>
  The life of a trade as an abstract machine, and the refinement: every event of the coordinator
  moves every trade along it. The machine knows of a trade only whether its escrow is confirmed
  and who has signed the payout.
\<close>

section \<open>The abstract machine\<close>

datatype phase = NoTrade | Funding | Trading bool bool

datatype move = Stay | Take | Confirm_escrow | Sign_payout

text \<open>
  \<open>Trading m t\<close>: the escrow is confirmed, and the maker (\<open>m\<close>) and the taker (\<open>t\<close>) have signed the
  payout or not. The second signature ends the trade, unless the payout could not be published.
\<close>

inductive life :: "move \<Rightarrow> phase \<Rightarrow> phase \<Rightarrow> bool" where
  Stays: "life m p p"
| Takes: "life Take NoTrade Funding"
| Confirms: "life Confirm_escrow Funding (Trading False False)"
| MakerSigns: "life Sign_payout (Trading False t) (Trading True t)"
| TakerSigns: "life Sign_payout (Trading m False) (Trading m True)"
| MakerEnds: "life Sign_payout (Trading False True) NoTrade"
| TakerEnds: "life Sign_payout (Trading True False) NoTrade"

inductive_simps life_Stay_simp: "life Stay p q"

text \<open>The phases in the order a trade goes through them; between the signatures the maker's counts more.\<close>

fun progress :: "phase \<Rightarrow> nat" where
  "progress NoTrade = 0"
| "progress Funding = 1"
| "progress (Trading m t) = 2 + of_bool t + 2 * of_bool m"

lemma progress_inject: "progress p = progress q \<longleftrightarrow> p = q"
  by (cases p; cases q) (auto simp: of_bool_def split: if_splits)

instantiation phase :: linorder
begin

definition less_eq_phase :: "phase \<Rightarrow> phase \<Rightarrow> bool" where
  "p \<le> q \<longleftrightarrow> progress p \<le> progress q"

definition less_phase :: "phase \<Rightarrow> phase \<Rightarrow> bool" where
  "p < q \<longleftrightarrow> progress p < progress q"

instance
  by intro_classes (auto simp: less_eq_phase_def less_phase_def progress_inject)

end

text \<open>A trade goes forward until it ends.\<close>

lemma life_forward: "life m p q \<Longrightarrow> p \<le> q \<or> q = NoTrade"
  by (induction rule: life.induct) (simp_all add: less_eq_phase_def)

fun move_of :: "event \<Rightarrow> move" where
  "move_of (Request E (SubmitTakerBond p)) = Take"
| "move_of (Request E (SubmitPayoutSignature p)) = Sign_payout"
| "move_of (ConfirmationRound E) = Confirm_escrow"
| "move_of _ = Stay"

definition row_phase :: "TakenOfferRow \<Rightarrow> phase" where
  "row_phase r =
     (if to_escrow_psbt_is_confirmed r = 1
      then Trading (to_musig_partial_sig_hex_maker r \<noteq> None) (to_musig_partial_sig_hex_taker r \<noteq> None)
      else Funding)"

definition phase_of :: "string \<Rightarrow> coord \<Rightarrow> phase" where
  "phase_of i s = (case find_taken i s of None \<Rightarrow> NoTrade | Some r \<Rightarrow> row_phase r)"

lemma phase_of_cong: "find_taken i s' = find_taken i s \<Longrightarrow> phase_of i s' = phase_of i s"
  by (simp add: phase_of_def)

section \<open>Events that do not move a trade\<close>

text \<open>The permissions that leave the phases alone.\<close>

definition calm :: "permission set" where
  "calm = - ({NewTrades, Confirmations, Closings} \<union>
     range (Update \<circ> PartialSigMaker) \<union> range (Update \<circ> PartialSigTaker))"

lemma row_phase_update: "Update u \<in> calm \<Longrightarrow> row_phase (apply_update u r) = row_phase r"
  by (cases u) (auto simp: calm_def row_phase_def)

lemma phase_of_calm: "effect calm s s' \<Longrightarrow> phase_of i s' = phase_of i s"
proof (induction rule: effect.induct)
  case (UpdateTrade u s j)
  then show ?case
    using trades.look_upd [of "apply_update u" i j "taken_offers s"]
    by (auto simp: phase_of_def row_phase_update split: option.splits)
qed (simp_all add: phase_of_def calm_def)

lemma calm_event:
  assumes "event_writes e \<subseteq> calm"
  shows "phase_of i (exec e s) = phase_of i s"
  unfolding exec_def
  by (rule rtranclp_keeps [OF within_run [OF within_writes_mono [OF within_event_writes assms]],
        of "\<lambda>t. phase_of i t = phase_of i s"]) (simp_all add: phase_of_calm)

lemma move_of_Stay: "move_of e = Stay \<Longrightarrow> event_writes e \<subseteq> calm"
  by (cases e rule: move_of.cases) (auto simp: calm_def)

section \<open>The confirmation of an escrow\<close>

lemma find_confirm:
  "tbl_find to_offer_id i (confirm_txid txid rows) =
     map_option (\<lambda>r. if to_escrow_psbt_txid r = txid then r\<lparr>to_escrow_psbt_is_confirmed := 1\<rparr> else r)
       (tbl_find to_offer_id i rows)"
  by (induction rows) (auto simp: tbl_find_def confirm_txid_def)

text \<open>A confirmation moves a trade from funding to trading, where nobody has signed yet, and no other.\<close>

definition confirmed_from :: "phase \<Rightarrow> phase \<Rightarrow> bool" where
  "confirmed_from p q \<longleftrightarrow> q = p \<or> p = Funding \<and> q = Trading False False"

lemma confirm_effect:
  assumes "effect {Confirmations} s s'" and "gated s"
  shows "confirmed_from (phase_of i s) (phase_of i s')"
  using assms
proof (induction rule: effect.induct)
  case (Confirm s txid)
  show ?case
  proof (cases "find_taken i s")
    case (Some r)
    then have "gated_row r" using Confirm by (auto dest: tbl_find_Some simp: gated_def)
    then show ?thesis using Some
      by (auto simp: phase_of_def find_confirm confirmed_from_def row_phase_def gated_row_def untouched_def)
  qed (simp add: phase_of_def find_confirm confirmed_from_def)
qed (simp_all add: phase_of_def confirmed_from_def)

lemma confirmation_moves:
  assumes "gated s"
  shows "confirmed_from (phase_of i s) (phase_of i (exec (ConfirmationRound E) s))"
proof -
  have "gated t \<and> confirmed_from (phase_of i s) (phase_of i t)" if "(effect {Confirmations})\<^sup>*\<^sup>* s t" for t
    using that
  proof (induction rule: rtranclp_induct)
    case base
    then show ?case using assms by (simp add: confirmed_from_def)
  next
    case (step t u)
    have "effect signing t u" using step(2) by (rule effect_mono) (simp add: signing_def)
    then show ?case using step gated_effect confirm_effect [OF step(2), of i] by (auto simp: confirmed_from_def)
  qed
  then show ?thesis
    unfolding exec_def using within_run [OF within_event_writes [of "ConfirmationRound E"], of s] by simp
qed

section \<open>The signature of the payout\<close>

lemma signature_moves:
  assumes "sql_faults s = []" and "keys_distinct s" and "sqlite_nulls E"
  shows "life Sign_payout (phase_of i s) (phase_of i (exec (Request E (SubmitPayoutSignature p)) s))"
proof -
  let ?j = "pgr_offer_id_hex p" and ?s' = "snd (run (handle_payout_signature E p) s)"
  have exec: "exec (Request E (SubmitPayoutSignature p)) s = ?s'"
    by (cases "run (handle_payout_signature E p) s")
      (auto simp: exec_simps submit_payout_signature_def run_simps split: res.split)
  show ?thesis
  proof (cases "check_result E ?j (pgr_robohash_hex p) s = Ok ()")
    case False
    then have "?s' = s"
      using run_check [OF assms(1,2)] by (auto simp: handle_payout_signature_def run_andThen split: res.splits)
    then show ?thesis using exec by (simp add: Stays)
  next
    case True
    then obtain h r where r: "hex_decode E (pgr_robohash_hex p) = Some h" "find_taken ?j s = Some r" "party h r"
      "to_escrow_psbt_is_confirmed r = 1"
      by (auto simp: check_result_Ok)
    let ?r = "add_partial_sig h (pgr_partial_sig_hex p) r"
    note sign = run_payout_signature [OF assms r refl]
    have key: "to_offer_id ?r = ?j" using trades.look_key [OF r(2)] by (simp add: add_partial_sig_def)
    note found = find_set_trade [OF r(2) key]
    show ?thesis
    proof (cases "already_signed h r")
      case True
      then show ?thesis using sign exec by (simp add: Stays)
    next
      case False
      have signed: "life Sign_payout (row_phase r) (row_phase ?r)"
        using False r(4) by (auto simp: row_phase_def add_partial_sig_def already_signed_def intro: life.intros)
      have ended: "life Sign_payout (row_phase r) NoTrade"
        if "to_musig_partial_sig_hex_maker ?r \<noteq> None" "to_musig_partial_sig_hex_taker ?r \<noteq> None"
        using that False r(4)
        by (auto simp: row_phase_def add_partial_sig_def already_signed_def intro: life.intros split: if_splits)
      have kept: "life Sign_payout (phase_of i s) (phase_of i (set_trade ?j ?r s))"
        using signed r(2) found by (simp add: phase_of_def Stays)
      have deleted: "life Sign_payout (phase_of i s)
          (phase_of i ((set_trade ?j ?r s)\<lparr>published := ps, taken_offers := tbl_delete to_offer_id ?j (taken_offers (set_trade ?j ?r s))\<rparr>))"
        if "to_musig_partial_sig_hex_maker ?r \<noteq> None" "to_musig_partial_sig_hex_taker ?r \<noteq> None" for ps
        using ended [OF that] r(2) found [of i] by (simp add: phase_of_def trades.look_del Stays)
      show ?thesis
        using sign False exec kept deleted
        by (auto simp: complete_payout_def split: option.splits res.splits)
    qed
  qed
qed

section \<open>Taking an offer\<close>

text \<open>The steps before the INSERT do not touch the trades.\<close>

lemma trades_unchanged: "effect {Offers} s s' \<Longrightarrow> taken_offers s' = taken_offers s"
  by (induction rule: effect.induct) simp_all

lemma keeps_trades: "within (effect {Offers}) m \<Longrightarrow> keeps (\<lambda>s. taken_offers s = rows) m"
  by (erule within_keeps) (simp add: trades_unchanged)

lemma add_taker_info_fails:
  "triple (\<lambda>s. taken_offers s = rows) (add_taker_info_and_move_table E p escrow)
     (\<lambda>_ _. True) (\<lambda>s. taken_offers s = rows)"
proof -
  have "within (effect {Offers}) (fetch_and_delete_offer_from_public_offers_table E i)" for i
    unfolding fetch_and_delete_offer_from_public_offers_table_def
    by (intro within_andThen within_ret within_try_get within_effects within_effect_execute) (simp add: DeleteOffer)
  moreover have "within (effect {Offers}) (decode_hex E h)" for h
    by (rule within_decode_hex)
  ultimately show ?thesis
    unfolding add_taker_info_and_move_table_def execute_def
    by (intro triple_andThen [OF keeps_trades] triple_statement) auto
qed

lemma taker_bond_fails:
  assumes "run (handle_taker_bond E p) s = (res, s')" and "\<not> is_ok res"
  shows "taken_offers s' = taken_offers s"
proof -
  let ?P = "\<lambda>t. taken_offers t = taken_offers s"
  have "triple ?P (handle_taker_bond E p) (\<lambda>_ _. True) ?P"
    unfolding handle_taker_bond_def
  proof (intro triple_andThen triple_mapErr triple_ret TrueI)
    show "keeps ?P (fetch_taker_bond_requirements i)" for i
      unfolding fetch_taker_bond_requirements_def by (intro keeps_trades within_steps within_effects)
    show "keeps ?P (validate_bond_tx_hex E tx req)" for tx req
      by (intro keeps_trades within_effects)
    show "keeps ?P (create_escrow_psbt E p)"
      by (intro keeps_trades within_effects)
    show "triple ?P (add_taker_info_and_move_table E p escrow) (\<lambda>_ _. True) ?P" for escrow
      by (rule add_taker_info_fails)
  qed
  from tripleD [OF this, of s] assms show ?thesis by (cases res) simp_all
qed

lemma taker_moves:
  assumes "sql_faults s = []" and "flags_ok s" and "sqlite_nulls E"
    and "\<And>j. find_active j s \<noteq> None \<Longrightarrow> find_taken j s = None"
  shows "life Take (phase_of i s) (phase_of i (exec (Request E (SubmitTakerBond p)) s))"
proof -
  obtain res s' where run: "run (handle_taker_bond E p) s = (res, s')" by (cases "run (handle_taker_bond E p) s")
  have exec: "exec (Request E (SubmitTakerBond p)) s = s'"
    using run by (auto simp: exec_simps submit_taker_bond_def run_simps split: res.split)
  show ?thesis
  proof (cases "is_ok res")
    case False
    then have "phase_of i s' = phase_of i s" using taker_bond_fails [OF run] by (simp add: phase_of_def)
    then show ?thesis using exec by (simp add: Stays)
  next
    case True
    then obtain resp where "run (handle_taker_bond E p) s = (Ok resp, s')" using run by (auto elim: is_ok.elims)
    then show ?thesis
    proof (rule handle_taker_bond_Ok [OF assms(1-3)])
      fix r h escrow t
      assume r: "find_active (po_offer_id_hex (opr_offer p)) s = Some r"
        and s': "s' = t\<lparr>active_maker_offers := tbl_delete ao_offer_id (ao_offer_id r) (active_maker_offers s),
          taken_offers := tbl_replace to_offer_id (taken_row (offer_of_row r) h p escrow) (taken_offers s)\<rparr>"
      let ?row = "taken_row (offer_of_row r) h p escrow"
      have row: "to_offer_id ?row = ao_offer_id r" "row_phase ?row = Funding"
        by (simp_all add: taken_row_def offer_of_row_def row_phase_def)
      have "find_taken (ao_offer_id r) s = None" using assms(4) r orderbook.look_key [OF r] by auto
      then show ?thesis
        using exec s' row by (auto simp: phase_of_def trades.look_put intro: life.intros)
    qed
  qed
qed

section \<open>The refinement\<close>

lemma phase_restarted: "restarted s s' \<Longrightarrow> phase_of i s' = phase_of i s"
  by (auto dest: restarted_durable simp: phase_of_def durable_def)

lemma event_moves:
  assumes "reachable s" and "sql_faults s = []"
    and "\<And>j. find_active j s \<noteq> None \<Longrightarrow> find_taken j s = None"
    and "\<And>E req. e = Request E req \<Longrightarrow> sqlite_nulls E"
  shows "life (move_of e) (phase_of i s) (phase_of i (exec e s))"
proof (cases "move_of e")
  case Stay
  then show ?thesis using calm_event [OF move_of_Stay [OF Stay], of i s] by (simp add: Stays)
next
  case Take
  then obtain E p where e: "e = Request E (SubmitTakerBond p)" by (cases e rule: move_of.cases) auto
  then show ?thesis
    using taker_moves [OF assms(2) reachable_flags [OF assms(1)] assms(4) [OF e] assms(3)] by simp
next
  case Confirm_escrow
  then obtain E where "e = ConfirmationRound E" by (cases e rule: move_of.cases) auto
  then show ?thesis
    using confirmation_moves [OF trade_gate.reachable [OF assms(1)], of i E]
    by (auto simp: confirmed_from_def intro: life.intros)
next
  case Sign_payout
  then obtain E p where e: "e = Request E (SubmitPayoutSignature p)" by (cases e rule: move_of.cases) auto
  then show ?thesis
    using signature_moves [OF assms(2) reachable_keys [OF assms(1)] assms(4) [OF e]] by simp
qed

text \<open>
  C1: The coordinator refines the life of a trade: a taker bond can only start one, only a confirmation
  round makes a trade with a locked escrow out of it, only a payout signature adds to the
  signatures or, being the second one, ends it, and no other event (a request of either trader, the
  bond monitoring, the operator's decisions, the mempool) moves it at all, and neither does a
  restart. So a trade only goes forward, until it ends.
\<close>

theorem lifecycle_refinement:
  assumes "reachable s" and "sql_faults s = []"
    and "\<And>j. find_active j s \<noteq> None \<Longrightarrow> find_taken j s = None"
    and "\<And>E req. e = Request E req \<Longrightarrow> sqlite_nulls E"
  shows "life (move_of e) (phase_of i s) (phase_of i (exec e s)) \<and>
    (phase_of i s \<le> phase_of i (exec e s) \<or> phase_of i (exec e s) = NoTrade) \<and>
    (\<forall>s'. restarted s s' \<longrightarrow> phase_of i s' = phase_of i s)"
proof -
  have "life (move_of e) (phase_of i s) (phase_of i (exec e s))"
    using assms by (rule event_moves)
  then show ?thesis using life_forward phase_restarted by blast
qed

lemma lifecycle_refinement_witness:
  "life Take NoTrade (phase_of sample_id (exec (Request env0 (SubmitTakerBond take_request)) offer_state))"
proof -
  have "phase_of sample_id offer_state = NoTrade" "\<And>j. find_taken j offer_state = None"
    by (simp_all add: phase_of_def offer_state_def tbl_find_def)
  then show ?thesis
    using lifecycle_refinement [of offer_state "Request env0 (SubmitTakerBond take_request)" sample_id] env0_laws(1)
    by simp
qed

section \<open>A taker can make an offer vanish\<close>

text \<open>
  C22: A taker bond that is valid but comes with a robohash that is not a hex string destroys the offer:
  the coordinator deletes it from the orderbook before it decodes the robohash, answers 500, and
  the offer is neither on the orderbook nor a trade.
\<close>

theorem malformed_taker_loses_offer:
  assumes "sql_faults s = []" and "flags_ok s" and "sqlite_nulls E"
    and "find_active (po_offer_id_hex (opr_offer p)) s = Some r"
    and "run (validate_bond_tx_hex E (bsr_signed_bond_hex (opr_trade_data p))
        \<lparr> br_bond_address = ao_taker_bond_address r, br_locking_amount_sat = ao_bond_amount_sat r,
          br_min_input_sum_sat = ao_amount_sat r \<rparr>) s = (Ok (), s)"
    and "run (create_escrow_psbt E p) s = (Ok escrow, t)"
    and "hex_decode E (bsr_robohash_hex (opr_trade_data p)) = None"
  shows "\<exists>s'. respond E (SubmitTakerBond p) s = (Some (code 500), s') \<and>
    find_active (po_offer_id_hex (opr_offer p)) s' = None \<and> taken_offers s' = taken_offers s"
proof -
  have quiet: "quiet s t" using quiet_create_escrow_psbt assms(6) by (rule quietD)
  then have t: "sql_faults t = []" "find_active (po_offer_id_hex (opr_offer p)) t = Some r" "taken_offers t = taken_offers s"
    using assms(1,4) by (simp_all add: quiet_def)
  have "flag_column (ao_is_buy_order r)" using assms(2,4) by (auto dest: tbl_find_Some simp: flags_ok_def)
  then have "run (add_taker_info_and_move_table E p escrow) t =
      (Err HexDecode, t\<lparr>active_maker_offers := tbl_delete ao_offer_id (po_offer_id_hex (opr_offer p)) (active_maker_offers t)\<rparr>)"
    using assms(3,7) t
    by (simp add: add_taker_info_and_move_table_def fetch_and_delete_offer_from_public_offers_table_def run_simps
        col_i32_flag_column)
  then show ?thesis
    using assms(1,4-6) t(3)
    by (simp add: respond_def submit_taker_bond_def handle_taker_bond_def fetch_taker_bond_requirements_def
        run_onResult run_andThen run_mapErr run_ret run_fetch_one bond_error_response_def)
qed

text \<open>A library whose hex decoder refuses the empty string.\<close>

definition strict_env :: env where
  "strict_env = env0\<lparr>hex_decode := \<lambda>s. if s = [] then None else sample_decode s\<rparr>"

definition malformed_request :: OfferPsbtRequest where
  "malformed_request = take_request\<lparr>opr_trade_data := (sample_bond ''t'')\<lparr>bsr_robohash_hex := []\<rparr>\<rparr>"

lemma malformed_taker_loses_offer_witness:
  "\<exists>s'. respond strict_env (SubmitTakerBond malformed_request) offer_state = (Some (code 500), s') \<and>
     find_active sample_id s' = None \<and> taken_offers s' = []"
proof -
  have c: "run (validate_bond_tx_hex strict_env (bsr_signed_bond_hex (opr_trade_data malformed_request))
        \<lparr> br_bond_address = ao_taker_bond_address sample_row, br_locking_amount_sat = ao_bond_amount_sat sample_row,
          br_min_input_sum_sat = ao_amount_sat sample_row \<rparr>) offer_state = (Ok (), offer_state) \<and>
      is_ok (fst (run (create_escrow_psbt strict_env malformed_request) offer_state))"
    by code_simp
  then obtain escrow t where esc: "run (create_escrow_psbt strict_env malformed_request) offer_state = (Ok escrow, t)"
    by (auto dest: run_is_ok)
  have id: "po_offer_id_hex (opr_offer malformed_request) = sample_id"
    by (simp add: malformed_request_def take_request_def sample_offer_def)
  have "find_active (po_offer_id_hex (opr_offer malformed_request)) offer_state = Some sample_row"
    by (simp add: id offer_state_def tbl_find_def sample_row_def)
  moreover have "sqlite_nulls strict_env" using env0_laws(1) by (simp add: strict_env_def sqlite_nulls_def)
  moreover have "hex_decode strict_env (bsr_robohash_hex (opr_trade_data malformed_request)) = None"
    by (simp add: strict_env_def malformed_request_def)
  moreover have "taken_offers offer_state = []" by (simp add: offer_state_def)
  ultimately show ?thesis
    using malformed_taker_loses_offer [OF _ offer_flags _ _ conjunct1 [OF c] esc] id by simp
qed

end
