(* ===== verification/Interleaving.thy ===== *)
theory Interleaving
  imports Lifecycle_Spec
begin

text \<open>
  The coordinator as the tokio runtime executes it: the tasks of several requests and background
  rounds are alive at the same time, and between any two actions of one of them the others may act.
  The theory relates this semantics to \<open>run\<close> (a task alone), carries the invariants of single
  actions over to it, and shows what the handlers that read, decide and then write do not exclude.
\<close>

section \<open>Interleaved execution\<close>

inductive task_step :: "'s \<times> ('s, 'a) task \<Rightarrow> 's \<times> ('s, 'a) task \<Rightarrow> bool" where
  action: "g s = (t, s') \<Longrightarrow> task_step (s, Step g) (s', t)"

inductive_cases task_stepE: "task_step (s, t) c"
inductive_simps task_step_Done [simp]: "task_step (s, Done a) c"
inductive_simps task_step_Step: "task_step (s, Step g) c"

text \<open>One of the tasks that are alive acts.\<close>

inductive sched :: "'s \<times> ('s, 'a) task list \<Rightarrow> 's \<times> ('s, 'a) task list \<Rightarrow> bool" where
  turn: "i < length ts \<Longrightarrow> task_step (s, ts ! i) (s', t) \<Longrightarrow> sched (s, ts) (s', ts[i := t])"

abbreviation advances :: "'s \<times> ('s, 'a) task \<Rightarrow> 's \<times> ('s, 'a) task \<Rightarrow> bool" where
  "advances \<equiv> task_step\<^sup>*\<^sup>*"

abbreviation interleaves :: "'s \<times> ('s, 'a) task list \<Rightarrow> 's \<times> ('s, 'a) task list \<Rightarrow> bool" where
  "interleaves \<equiv> sched\<^sup>*\<^sup>*"

text \<open>
  The whole coordinator: at any time another request or round may start, and at any time the process
  may end, wherever its tasks are, and be started again.
\<close>

inductive concurrent :: "coord \<Rightarrow> (coord, unit) task list \<Rightarrow> bool" where
  Boot: "concurrent (init_coord faults) []"
| Arrive: "concurrent s ts \<Longrightarrow> concurrent s (ts @ [event_task e])"
| Turn: "concurrent s ts \<Longrightarrow> sched (s, ts) (s', ts') \<Longrightarrow> concurrent s' ts'"
| Restart: "concurrent s ts \<Longrightarrow> restarted s s' \<Longrightarrow> concurrent s' []"

section \<open>A task that advances while the others wait\<close>

lemma advances_run: "run m s = (a, s') \<Longrightarrow> advances (s, m) (s', Done a)"
proof (induction m arbitrary: s)
  case (Done b)
  then show ?case by simp
next
  case (Step g)
  obtain t u where g: "g s = (t, u)" by (cases "g s")
  have "t \<in> Basic_BNFs.fsts (g s)" by (simp add: g)
  from Step.IH [OF rangeI this] Step.prems g have "advances (u, t) (s', Done a)" by simp
  moreover have "task_step (s, Step g) (u, t)" using g by (rule action)
  ultimately show ?case by (rule converse_rtranclp_into_rtranclp [rotated])
qed

lemma advances_chain: "advances (s, m) (s', m') \<Longrightarrow> advances (s, chain m f) (s', chain m' f)"
proof (induction "(s', m')" arbitrary: s' m' rule: rtranclp_induct)
  case base
  then show ?case by simp
next
  case (step c)
  obtain u n where c: "c = (u, n)" by (cases c)
  from step(2) [unfolded c] have "task_step (u, chain n f) (s', chain m' f)"
    by (cases n) (auto simp: task_step_Step)
  then show ?case using step(3) [OF c] by simp
qed

lemma advances_andThen: "run m s = (Ok a, s') \<Longrightarrow> advances (s, andThen m f) (s', f a)"
  unfolding andThen_def
  by (drule advances_run, drule advances_chain
    [where f = "\<lambda>r. case r of Ok a \<Rightarrow> f a | Err e \<Rightarrow> Done (Err e) | Panic \<Rightarrow> Done Panic"]) simp

lemma advances_in_andThen: "advances (s, m) (s', m') \<Longrightarrow> advances (s, andThen m f) (s', andThen m' f)"
  unfolding andThen_def by (rule advances_chain)

lemma advances_in_mapErr: "advances (s, m) (s', m') \<Longrightarrow> advances (s, mapErr g m) (s', mapErr g m')"
  unfolding mapErr_def by (rule advances_chain)

lemma advances_in_onResult: "advances (s, m) (s', m') \<Longrightarrow> advances (s, onResult m f h) (s', onResult m' f h)"
  unfolding onResult_def by (rule advances_chain)

lemma interleaves_turns:
  assumes "advances (s, t) (s', t')" and "i < length ts" and "ts ! i = t"
  shows "interleaves (s, ts) (s', ts[i := t'])"
  using assms(1)
proof (induction "(s', t')" arbitrary: s' t' rule: rtranclp_induct)
  case base
  have "ts[i := t] = ts" using assms(3) by auto
  then show ?case by simp
next
  case (step c)
  obtain u n where c: "c = (u, n)" by (cases c)
  have "sched (u, ts[i := n]) (s', ts[i := n, i := t'])"
    using step(2) assms(2) by (intro turn) (simp_all add: c)
  then show ?case using step(3) [OF c] by simp
qed

text \<open>A sequential run is one of the interleavings.\<close>

lemma concurrent_turns: "interleaves (s, ts) (s', ts') \<Longrightarrow> concurrent s ts \<Longrightarrow> concurrent s' ts'"
  by (induction "(s', ts')" arbitrary: s' ts' rule: rtranclp_induct) (auto intro: Turn)

lemma concurrent_exec: "concurrent s ts \<Longrightarrow> \<exists>ts'. concurrent (exec e s) ts'"
proof -
  assume "concurrent s ts"
  then have arrived: "concurrent s (ts @ [event_task e])" by (rule Arrive)
  have "advances (s, event_task e) (exec e s, Done (fst (run (event_task e) s)))"
    by (rule advances_run, cases "run (event_task e) s") (simp add: exec_def)
  from interleaves_turns [OF this, of "length ts" "ts @ [event_task e]"] arrived show ?thesis
    by (auto dest: concurrent_turns)
qed

lemma concurrent_reachable: "reachable s \<Longrightarrow> \<exists>ts. concurrent s ts"
  by (induction rule: reachable.induct) (use Boot concurrent_exec Restart in blast)+

section \<open>Invariants of single actions\<close>

lemma within_task_step: "task_step (s, t) (s', t') \<Longrightarrow> within R t \<Longrightarrow> R s s' \<and> within R t'"
  by (erule task_stepE, clarsimp, erule within_StepE) (metis fst_conv snd_conv)

context action_invariant
begin

text \<open>The tasks that are alive have only actions that keep the invariant left.\<close>

lemma concurrent: "concurrent s ts \<Longrightarrow> I s \<and> (\<forall>t \<in> set ts. within (effect UNIV) t)"
proof (induction rule: concurrent.induct)
  case (Boot faults)
  then show ?case by (simp add: init)
next
  case (Arrive s ts e)
  then show ?case by (simp add: within_event)
next
  case (Turn s ts s' ts')
  from Turn(2) show ?case
  proof cases
    case (turn i t)
    have "within (effect UNIV) (ts ! i)" using Turn.IH turn(2) by simp
    from within_task_step [OF turn(3) this] have "effect UNIV s s'" "within (effect UNIV) t" by simp_all
    then show ?thesis using Turn.IH turn(1) by (auto intro: effect dest!: set_update_subset_insert [THEN subsetD])
  qed
next
  case (Restart s ts s')
  then show ?case using restarted [OF _ Restart(2)] by simp
qed

end


text \<open>
  C2: However the requests and the background rounds are interleaved, whatever statements the
  database refuses, and wherever in its tasks the process crashes and is started again, the tables
  stay well-formed: no two rows of a table have the same key, the
  flag columns hold only values the code writes, and the mempool copy and its inputs agree.
\<close>

theorem tables_ok_interleaved:
  assumes "concurrent s ts"
  shows "tables_ok s"
  using tables.concurrent [OF assms] by simp


text \<open>Schedules as lists of turns, for evaluation: a finished task lets its turn pass.\<close>

fun schedule :: "nat list \<Rightarrow> 's \<times> ('s, 'a) task list \<Rightarrow> 's \<times> ('s, 'a) task list" where
  "schedule [] c = c"
| "schedule (i # turns) (s, ts) =
     (if length ts \<le> i then schedule turns (s, ts)
      else (case ts ! i of
              Done a \<Rightarrow> schedule turns (s, ts)
            | Step g \<Rightarrow> (case g s of (t, s') \<Rightarrow> schedule turns (s', ts[i := t]))))"

lemma interleaves_schedule: "interleaves c (schedule turns c)"
proof (induction turns c rule: schedule.induct)
  case (2 i turns s ts)
  show ?case
  proof (cases "i < length ts")
    case True
    show ?thesis
    proof (cases "ts ! i")
      case (Done a)
      then show ?thesis using 2 True by simp
    next
      case (Step g)
      obtain t s' where g: "g s = (t, s')" by (cases "g s")
      have "sched (s, ts) (s', ts[i := t])" using True Step g by (intro turn) (simp_all add: action)
      then show ?thesis using 2(3) [of g t s'] True Step g
        by (simp add: converse_rtranclp_into_rtranclp)
    qed
  qed (use 2 in simp)
qed simp

text \<open>The orders of two traders, served in turn; the turns of the first come late.\<close>

lemma tables_ok_interleaved_witness:
  "\<exists>s. tables_ok s \<and> map mr_robohash (maker_requests s) = [[114], [109]]"
proof -
  define orders where "orders = [Request env0 (CreateOffer sample_order),
    Request env0 (CreateOffer (sample_order\<lparr>or_robohash_hex := ''r''\<rparr>))]"
  define c where "c = schedule [0, 1, 1, 1, 0, 0, 1, 0] (init_coord [], map event_task orders)"
  have rows: "map mr_robohash (maker_requests (fst c)) = [[114], [109]]" unfolding c_def orders_def by code_simp
  have "concurrent (init_coord []) (map event_task orders)"
    using Arrive [OF Arrive [OF Boot]] by (simp add: orders_def del: event_task.simps)
  moreover have "interleaves (init_coord [], map event_task orders) (fst c, snd c)"
    unfolding c_def prod.collapse by (rule interleaves_schedule)
  ultimately have "concurrent (fst c) (snd c)" by (rule concurrent_turns [rotated])
  from tables_ok_interleaved [OF this] rows show ?thesis by (intro exI conjI)
qed

end
