(* ===== verification/Races.thy ===== *)
theory Races
  imports Interleaving
begin

text \<open>
  Interleavings of requests on the same offer: what the handlers promise when they run alone (one
  payout transaction per trade, one taker per offer) does not hold between concurrent requests.
\<close>

text \<open>The first, second or third of three tasks, or of two, advances.\<close>

lemma turns_of_three:
  "advances (s, a) (s', a') \<Longrightarrow> interleaves (s, [a, b, c]) (s', [a', b, c])"
  "advances (s, b) (s', b') \<Longrightarrow> interleaves (s, [a, b, c]) (s', [a, b', c])"
  "advances (s, c) (s', c') \<Longrightarrow> interleaves (s, [a, b, c]) (s', [a, b, c'])"
  using interleaves_turns [of s a s' a' 0 "[a, b, c]"] interleaves_turns [of s b s' b' 1 "[a, b, c]"]
    interleaves_turns [of s c s' c' 2 "[a, b, c]"] by simp_all

lemma turns_of_two:
  "advances (s, a) (s', a') \<Longrightarrow> interleaves (s, [a, b]) (s', [a', b])"
  "advances (s, b) (s', b') \<Longrightarrow> interleaves (s, [a, b]) (s', [a, b'])"
  using interleaves_turns [of s a s' a' 0 "[a, b]"] interleaves_turns [of s b s' b' 1 "[a, b]"] by simp_all

section \<open>Three polls of one payout\<close>

text \<open>What is left of a poll when it reaches \<open>toggle_processing\<close>, and the HTTP handler around it.\<close>

abbreviation lock_section :: "env \<Rightarrow> string \<Rightarrow> PayoutData \<Rightarrow> (coord, PayoutProcessingResult, RequestError) async" where
  "lock_section E i d \<equiv> andThen (mapErr Database (toggle_processing i))
     (\<lambda>locked. if \<not> locked then ret NotReady else assemble_locked E i d)"

abbreviation polling :: "(coord, PayoutProcessingResult, RequestError) async \<Rightarrow> (coord, Response, anyhow) async" where
  "polling m \<equiv> onResult m (\<lambda>r. ret (payout_result_response r)) (\<lambda>e. ret (request_error_response e))"

text \<open>A trade whose payout both traders wait for and nobody has assembled.\<close>

definition payout_due :: "string \<Rightarrow> TakenOfferRow \<Rightarrow> coord \<Rightarrow> bool" where
  "payout_due i r s \<longleftrightarrow>
     sql_faults s = [] \<and> keys_distinct s \<and> find_taken i s = Some r \<and> trade_flags r \<and>
     both_happy (happiness_of r) \<and> to_payout_transaction_psbt_hex r = None"

lemma poll_reaches_lock:
  assumes "payout_due i r s" and "sqlite_nulls E" and "payout_of_row E r = Ok d" and "otr_offer_id_hex p = i"
  shows "advances (s, api_server E (PollFinalPayout p)) (s, polling (lock_section E i d))"
proof -
  have row: "sql_faults s = []" "find_taken i s = Some r" using assms(1) by (simp_all add: payout_due_def)
  have happy: "run (mapErr Database (fetch_trader_happiness i)) s = (Ok (happiness_of r), s)"
    using run_fetch_trader_happiness [OF row] by (simp add: run_mapErr)
  have data: "run (mapErr Database (fetch_payout_data E i)) s = (Ok d, s)"
    using run_fetch_payout_data [OF row(1) assms(2) row(2)] assms(1,3)
    by (simp add: payout_due_def trade_flags_def payout_of_row_def run_mapErr)
  have stored: "run (mapErr Database (fetch_keyspend_payout_psbt i)) s = (Ok None, s)"
    using assms(1) by (simp add: payout_due_def fetch_keyspend_payout_psbt_def run_simps)
  have "both_happy (happiness_of r)" using assms(1) by (simp add: payout_due_def)
  then have "advances (s, handle_final_payout E p) (s, lock_section E i d)"
    unfolding handle_final_payout_def assms(4)
    by (intro rtranclp_trans [OF advances_andThen [OF happy]], simp only: if_True,
      intro rtranclp_trans [OF advances_andThen [OF data]] rtranclp_trans [OF advances_andThen [OF stored]]) simp
  then show ?thesis by (simp add: poll_final_payout_def advances_in_onResult)
qed

lemma poll_toggles:
  assumes "sql_faults s = []" and "keys_distinct s" and "find_taken i s = Some r"
  shows "advances (s, polling (lock_section E i d))
    (set_trade i (toggled r) s, polling (if to_processing r = 0 then assemble_locked E i d else ret NotReady))"
proof -
  have "run (mapErr Database (toggle_processing i)) s = (Ok (to_processing r = 0), set_trade i (toggled r) s)"
    using run_toggle [OF assms] by (simp add: run_mapErr)
  note this [THEN advances_andThen, THEN advances_in_onResult,
    of "\<lambda>locked. if \<not> locked then ret NotReady else assemble_locked E i d"
       "\<lambda>r. ret (payout_result_response r)" "\<lambda>e. ret (request_error_response e)"]
  then show ?thesis by (cases "to_processing r = 0") simp_all
qed

lemma poll_assembles:
  assumes "sql_faults s = []" and "keys_distinct s" and "find_taken i s = Some r" and "assembled_payout E d = Ok x"
  shows "advances (s, polling (assemble_locked E i d))
    (set_trade i (toggled (r\<lparr>to_payout_transaction_psbt_hex := Some x\<rparr>)) s,
     Done (Ok (json (PayoutJson (payout_response E d x)))))"
  using run_assemble_locked [OF assms(1-3), of E d] assms(4)
  by (intro advances_run) (simp add: run_simps payout_result_response_def)

text \<open>
  C13: The flag \<open>processing\<close> does not exclude anybody: of three polls of a trade that have all read
  the trade before its payout was assembled, the first takes the flag, the second releases it, and
  the third takes it again; then the first and the third both assemble a payout, each is answered
  with its own transaction, the one that is stored last stays, and the flag stays taken.
\<close>

theorem processing_flag_is_no_lock:
  assumes "payout_due i r s" and "to_processing r = 0"
    and "sqlite_nulls E1" "sqlite_nulls E2" "sqlite_nulls E3"
    and "otr_offer_id_hex p1 = i" "otr_offer_id_hex p2 = i" "otr_offer_id_hex p3 = i"
    and "payout_of_row E1 r = Ok d1" "payout_of_row E2 r = Ok d2" "payout_of_row E3 r = Ok d3"
    and "assembled_payout E1 d1 = Ok x1" "assembled_payout E3 d3 = Ok x3"
  shows "\<exists>s'. interleaves
      (s, [api_server E1 (PollFinalPayout p1), api_server E2 (PollFinalPayout p2), api_server E3 (PollFinalPayout p3)])
      (s', [Done (Ok (json (PayoutJson (payout_response E1 d1 x1)))), Done (Ok (code 202)),
            Done (Ok (json (PayoutJson (payout_response E3 d3 x3))))]) \<and>
    find_taken i s' = Some (r\<lparr>to_payout_transaction_psbt_hex := Some x3, to_processing := 1\<rparr>)"
proof -
  note row = assms(1) [unfolded payout_due_def]
  have key: "to_offer_id r = i" using row trades.look_key by blast
  let ?row = "\<lambda>x f. r\<lparr>to_payout_transaction_psbt_hex := x, to_processing := f\<rparr>"
  let ?at = "\<lambda>x f. set_trade i (?row x f) s"
  have at: "sql_faults (?at x f) = []" "keys_distinct (?at x f)" "find_taken i (?at x f) = Some (?row x f)" for x f
    using row key find_set_trade [of i s r "?row x f" i] keys_set_trade [of s "?row x f" i] by simp_all
  have twice: "set_trade i (?row y g) (?at x f) = ?at y g" for x f y g
    using row key by (simp add: set_trade_twice)
  have "toggled r = ?row None 1" using row assms(2) by (simp add: toggled_def)
  then have lock1: "advances (s, polling (lock_section E1 i d1)) (?at None 1, polling (assemble_locked E1 i d1))"
    using poll_toggles [of s i r E1 d1] row assms(2) by simp
  have release: "advances (?at None 1, polling (lock_section E2 i d2)) (?at None 0, Done (Ok (code 202)))"
    using poll_toggles [OF at [where x = None and f = 1], of E2 d2]
    by (simp add: toggled_def twice payout_result_response_def onResult_def ret_def)
  have lock3: "advances (?at None 0, polling (lock_section E3 i d3)) (?at None 1, polling (assemble_locked E3 i d3))"
    using poll_toggles [OF at [where x = None and f = 0], of E3 d3] by (simp add: toggled_def twice)
  have first: "advances (?at None 1, polling (assemble_locked E1 i d1))
      (?at (Some x1) 0, Done (Ok (json (PayoutJson (payout_response E1 d1 x1)))))"
    using poll_assembles [OF at [where x = None and f = 1] assms(12)] by (simp add: toggled_def twice)
  have third: "advances (?at (Some x1) 0, polling (assemble_locked E3 i d3))
      (?at (Some x3) 1, Done (Ok (json (PayoutJson (payout_response E3 d3 x3)))))"
    using poll_assembles [OF at [where x = "Some x1" and f = 0] assms(13)] by (simp add: toggled_def twice)
  note reach = poll_reaches_lock [OF assms(1)]
  have "interleaves
      (s, [api_server E1 (PollFinalPayout p1), api_server E2 (PollFinalPayout p2), api_server E3 (PollFinalPayout p3)])
      (?at (Some x3) 1, [Done (Ok (json (PayoutJson (payout_response E1 d1 x1)))), Done (Ok (code 202)),
        Done (Ok (json (PayoutJson (payout_response E3 d3 x3))))])"
    by (rule rtranclp_trans [OF turns_of_three(1) [OF reach [OF assms(3,9,6)]] rtranclp_trans [OF turns_of_three(2) [OF reach [OF assms(4,10,7)]]
        rtranclp_trans [OF turns_of_three(3) [OF reach [OF assms(5,11,8)]] rtranclp_trans [OF turns_of_three(1) [OF lock1]
        rtranclp_trans [OF turns_of_three(2) [OF release] rtranclp_trans [OF turns_of_three(3) [OF lock3]
        rtranclp_trans [OF turns_of_three(1) [OF first] turns_of_three(3) [OF third]]]]]]]])
  then show ?thesis using at(3) by blast
qed

lemma processing_flag_is_no_lock_witness:
  "\<exists>s' resp1 resp3. interleaves
      (later both_happy_events,
       [api_server env0 (PollFinalPayout (sample_poll ''m'')), api_server env0 (PollFinalPayout (sample_poll ''t'')),
        api_server other_fee_env (PollFinalPayout (sample_poll ''m''))])
      (s', [Done (Ok (json (PayoutJson resp1))), Done (Ok (code 202)), Done (Ok (json (PayoutJson resp3)))]) \<and>
    pr_payout_psbt_hex resp1 \<noteq> pr_payout_psbt_hex resp3"
proof -
  let ?s = "later both_happy_events"
  have c: "(case find_taken sample_id ?s of None \<Rightarrow> False | Some r \<Rightarrow>
      to_payout_transaction_psbt_hex r = None \<and> to_processing r = 0 \<and> both_happy (happiness_of r) \<and>
      (case (payout_of_row env0 r, payout_of_row other_fee_env r) of
         (Ok d, Ok d') \<Rightarrow> (case (assembled_payout env0 d, assembled_payout other_fee_env d') of
            (Ok x, Ok x') \<Rightarrow> x \<noteq> x' | _ \<Rightarrow> False)
       | _ \<Rightarrow> False))"
    by code_simp
  then obtain r d d' x x' where r: "find_taken sample_id ?s = Some r" "to_payout_transaction_psbt_hex r = None"
      "to_processing r = 0" "both_happy (happiness_of r)" "payout_of_row env0 r = Ok d"
      "payout_of_row other_fee_env r = Ok d'" "assembled_payout env0 d = Ok x"
      "assembled_payout other_fee_env d' = Ok x'" "x \<noteq> x'"
    by (auto split: option.splits res.splits)
  have "payout_due sample_id r ?s"
    using r later_keys taken_trade_flags [OF later_flags r(1)] by (simp add: payout_due_def)
  moreover note other_fee_laws
  ultimately show ?thesis
    using processing_flag_is_no_lock [OF _ r(3) env0_laws(1) env0_laws(1), of sample_id ?s other_fee_env
        "sample_poll ''m''" "sample_poll ''t''" "sample_poll ''m''" d d d' x x'] r
    by (fastforce simp: sample_poll_def payout_response_def)
qed

section \<open>Two takers of one offer\<close>

text \<open>
  \<open>pauses s m t n\<close>: while the others wait, the task \<open>m\<close> gets from \<open>s\<close> to \<open>t\<close>, and what is left of it
  then does what \<open>n\<close> does, in whatever state the others leave behind.
\<close>

definition pauses :: "coord \<Rightarrow> (coord, 'a, 'e) async \<Rightarrow> coord \<Rightarrow> (coord, 'a, 'e) async \<Rightarrow> bool" where
  "pauses s m t n \<longleftrightarrow>
     (\<exists>rest. advances (s, m) (t, rest) \<and> (\<forall>u. sql_faults u = [] \<longrightarrow> run rest u = run n u))"

lemma pauses_andThen: "pauses s m t n \<Longrightarrow> pauses s (andThen m f) t (andThen n f)"
  unfolding pauses_def
  by (elim exE conjE, rule exI, rule conjI, erule advances_in_andThen) (simp add: run_andThen)

lemma pauses_mapErr: "pauses s m t n \<Longrightarrow> pauses s (mapErr g m) t (mapErr g n)"
  unfolding pauses_def
  by (elim exE conjE, rule exI, rule conjI, erule advances_in_mapErr) (simp add: run_mapErr)

lemma pauses_onResult: "pauses s m t n \<Longrightarrow> pauses s (onResult m f h) t (onResult n f h)"
  unfolding pauses_def
  by (elim exE conjE, rule exI, rule conjI, erule advances_in_onResult) (simp add: run_onResult)

lemma pauses_after: "run m s = (Ok a, s') \<Longrightarrow> pauses s' (f a) t n \<Longrightarrow> pauses s (andThen m f) t n"
  unfolding pauses_def by (meson advances_andThen rtranclp_trans)

lemma pauses_now: "(\<And>u. sql_faults u = [] \<Longrightarrow> run m u = run n u) \<Longrightarrow> pauses s m s n"
  unfolding pauses_def by blast

text \<open>The taker that has selected the offer: it will delete it, whoever has done so before.\<close>

abbreviation delete_selected :: "ActiveOfferRow \<Rightarrow> (coord, AwaitingTakerOffer, anyhow) async" where
  "delete_selected r \<equiv>
     andThen (execute (\<lambda>s. s\<lparr>active_maker_offers := tbl_delete ao_offer_id (ao_offer_id r) (active_maker_offers s)\<rparr>))
       (\<lambda>_. ret (offer_of_row r))"

lemma offer_selected:
  assumes "sql_faults s = []" and "sqlite_nulls E" and "find_active i s = Some r" and "flag_column (ao_is_buy_order r)"
  shows "pauses s (fetch_and_delete_offer_from_public_offers_table E i) s (delete_selected r)"
proof -
  have fetched: "run (fetch_one (find_active i)) s = (Ok r, s)" using assms(1,3) by (simp add: run_simps)
  show ?thesis
    unfolding fetch_and_delete_offer_from_public_offers_table_def
    by (rule pauses_after [OF fetched], rule pauses_now)
      (use assms orderbook.look_key [OF assms(3)] in \<open>simp add: run_simps col_i32_flag_column offer_of_row_def\<close>)
qed

lemma taker_selected:
  assumes "sql_faults s = []" and "flags_ok s" and "sqlite_nulls E" and "run (handle_taker_bond E p) s = (Ok resp, s')"
  obtains (selected) r h escrow t rest where "find_active (po_offer_id_hex (opr_offer p)) s = Some r"
    "run (create_escrow_psbt E p) s = (Ok escrow, t)" "quiet s t" "resp = offer_taken_response escrow"
    "advances (s, api_server E (SubmitTakerBond p)) (t, rest)"
    "\<And>u. sql_faults u = [] \<Longrightarrow> run rest u = (Ok (json (OfferTakenJson resp)),
       u\<lparr>active_maker_offers := tbl_delete ao_offer_id (ao_offer_id r) (active_maker_offers u),
         taken_offers := tbl_replace to_offer_id (taken_row (offer_of_row r) h p escrow) (taken_offers u)\<rparr>)"
proof (rule handle_taker_bond_Ok [OF assms])
  fix r h escrow t
  assume r: "find_active (po_offer_id_hex (opr_offer p)) s = Some r"
    and h: "hex_decode E (bsr_robohash_hex (opr_trade_data p)) = Some h"
    and escrow: "run (create_escrow_psbt E p) s = (Ok escrow, t)" "quiet s t" "resp = offer_taken_response escrow"
  have t: "sql_faults t = []" "find_active (po_offer_id_hex (opr_offer p)) t = Some r"
    using escrow(2) assms(1) r by (simp_all add: quiet_def)
  have flag: "flag_column (ao_is_buy_order r)" using assms(2) r by (auto dest: tbl_find_Some simp: flags_ok_def)
  define req where "req = \<lparr> br_bond_address = ao_taker_bond_address r, br_locking_amount_sat = ao_bond_amount_sat r,
      br_min_input_sum_sat = ao_amount_sat r \<rparr>"
  have fetched: "run (mapErr (\<lambda>_. BondNotFound) (fetch_taker_bond_requirements (po_offer_id_hex (opr_offer p)))) s = (Ok req, s)"
    using assms(1) r by (simp add: fetch_taker_bond_requirements_def run_simps req_def)
  have valid: "run (mapErr InvalidBond (validate_bond_tx_hex E (bsr_signed_bond_hex (opr_trade_data p)) req)) s = (Ok (), s)"
    using assms(4) fetched unfolding handle_taker_bond_def
    by (auto simp: run_andThen_Ok run_mapErr run_validate_bond_tx_hex split: prod.splits)
  have made: "run (mapErr BondCoordinatorError (create_escrow_psbt E p)) s = (Ok escrow, t)"
    using escrow(1) by (simp add: run_mapErr)
  have "pauses s (api_server E (SubmitTakerBond p)) t (onResult (andThen (mapErr BondCoordinatorError
      (andThen (delete_selected r) (\<lambda>public_offer. andThen (decode_hex E (bsr_robohash_hex (opr_trade_data p)))
        (\<lambda>robohash_taker. execute (\<lambda>s. s\<lparr>taken_offers :=
          tbl_replace to_offer_id (taken_row public_offer robohash_taker p escrow) (taken_offers s)\<rparr>)))))
      (\<lambda>_. ret (offer_taken_response escrow))) (\<lambda>r. ret (json (OfferTakenJson r))) (\<lambda>e. ret (bond_error_response e)))"
    unfolding api_server.simps submit_taker_bond_def handle_taker_bond_def add_taker_info_and_move_table_def
    by (intro pauses_onResult pauses_after [OF fetched] pauses_after [OF valid] pauses_after [OF made]
        pauses_andThen pauses_mapErr offer_selected t assms(3) flag)
  then show ?thesis
    using that [OF r escrow] h escrow(3) by (auto simp: pauses_def run_simps)
qed

text \<open>
  C14: Two takers of the same offer whose requests overlap can both be told that they took it: both
  select the offer before either deletes it, both are answered 200 with an escrow of their own, and
  the trade of the second replaces the trade of the first. The maker is then told the escrow of the
  second, and the first taker waits with a transaction that nobody will sign.
\<close>

theorem offer_taken_twice:
  assumes "sql_faults s = []" and "flags_ok s" and "sqlite_nulls E1" "sqlite_nulls E2"
    and "po_offer_id_hex (opr_offer p1) = i" "po_offer_id_hex (opr_offer p2) = i"
    and "run (handle_taker_bond E1 p1) s = (Ok resp1, s1)"
    and "run (create_escrow_psbt E1 p1) s = (Ok escrow1, t)"
    and "run (handle_taker_bond E2 p2) t = (Ok resp2, s2)"
  shows "\<exists>s'. interleaves (s, [api_server E1 (SubmitTakerBond p1), api_server E2 (SubmitTakerBond p2)])
      (s', [Done (Ok (json (OfferTakenJson resp1))), Done (Ok (json (OfferTakenJson resp2)))]) \<and>
    map_option to_bond_tx_hex_taker (find_taken i s') = Some (bsr_signed_bond_hex (opr_trade_data p2)) \<and>
    respond E (RequestOfferStatus \<lparr>otr_robohash_hex = robohash, otr_offer_id_hex = i\<rparr>) s' =
      (Some (json (OfferTakenJson resp2)), s')"
proof (rule taker_selected [OF assms(1-3,7)])
  fix r1 h1 e1 t1 rest1
  assume 1: "run (create_escrow_psbt E1 p1) s = (Ok e1, t1)" "quiet s t1"
    "advances (s, api_server E1 (SubmitTakerBond p1)) (t1, rest1)"
    "\<And>u. sql_faults u = [] \<Longrightarrow> run rest1 u = (Ok (json (OfferTakenJson resp1)),
       u\<lparr>active_maker_offers := tbl_delete ao_offer_id (ao_offer_id r1) (active_maker_offers u),
         taken_offers := tbl_replace to_offer_id (taken_row (offer_of_row r1) h1 p1 e1) (taken_offers u)\<rparr>)"
  have t: "t1 = t" "sql_faults t = []" "flags_ok t"
    using 1(1,2) assms(1,2,8) flags_ok_quiet [of s t1] by (simp_all add: quiet_def)
  show ?thesis
  proof (rule taker_selected [OF t(2,3) assms(4,9)])
    fix r2 h2 e2 t2 rest2
    assume 2: "find_active (po_offer_id_hex (opr_offer p2)) t = Some r2" "quiet t t2" "resp2 = offer_taken_response e2"
      "advances (t, api_server E2 (SubmitTakerBond p2)) (t2, rest2)"
      "\<And>u. sql_faults u = [] \<Longrightarrow> run rest2 u = (Ok (json (OfferTakenJson resp2)),
         u\<lparr>active_maker_offers := tbl_delete ao_offer_id (ao_offer_id r2) (active_maker_offers u),
           taken_offers := tbl_replace to_offer_id (taken_row (offer_of_row r2) h2 p2 e2) (taken_offers u)\<rparr>)"
    define u where "u = snd (run rest1 t2)"
    define s' where "s' = snd (run rest2 u)"
    have t2: "sql_faults t2 = []" using 2(2) t(2) by (simp add: quiet_def)
    have u: "run rest1 t2 = (Ok (json (OfferTakenJson resp1)), u)" "sql_faults u = []"
      using 1(4) [OF t2] t2 by (simp_all add: u_def)
    have s': "run rest2 u = (Ok (json (OfferTakenJson resp2)), s')" "sql_faults s' = []"
      using 2(5) [OF u(2)] u(2) by (simp_all add: s'_def)
    have "to_offer_id (taken_row (offer_of_row r2) h2 p2 e2) = i"
      using orderbook.look_key [OF 2(1)] assms(6) by (simp add: taken_row_def offer_of_row_def)
    then have trade: "find_taken i s' = Some (taken_row (offer_of_row r2) h2 p2 e2)"
      using 2(5) [OF u(2)] by (simp add: s'_def trades.look_put)
    have "interleaves (s, [api_server E1 (SubmitTakerBond p1), api_server E2 (SubmitTakerBond p2)])
        (s', [Done (Ok (json (OfferTakenJson resp1))), Done (Ok (json (OfferTakenJson resp2)))])"
      using turns_of_two(1) [OF 1(3)] turns_of_two(2) [OF 2(4)] turns_of_two(1) [OF advances_run [OF u(1)]]
        turns_of_two(2) [OF advances_run [OF s'(1)]]
      unfolding t(1) by (meson rtranclp_trans)
    then show ?thesis
      using trade s'(2) 2(3)
      by (auto simp: respond_def request_offer_status_maker_def get_offer_status_maker_def
          fetch_escrow_output_information_def run_simps offer_taken_response_def taken_row_def)
  qed
qed

definition rival_request :: OfferPsbtRequest where
  "rival_request = \<lparr> opr_offer = sample_offer, opr_trade_data = sample_bond ''r'' \<rparr>"

lemma offer_taken_twice_witness:
  "\<exists>s' resp1 resp2. interleaves
      (offer_state, [api_server env0 (SubmitTakerBond take_request), api_server env0 (SubmitTakerBond rival_request)])
      (s', [Done (Ok (json (OfferTakenJson resp1))), Done (Ok (json (OfferTakenJson resp2)))]) \<and>
    map_option to_bond_tx_hex_taker (find_taken sample_id s') = Some ''r''"
proof -
  have "is_ok (fst (run (handle_taker_bond env0 take_request) offer_state)) \<and>
      (case run (create_escrow_psbt env0 take_request) offer_state of (Ok escrow, t) \<Rightarrow>
         is_ok (fst (run (handle_taker_bond env0 rival_request) t)) | _ \<Rightarrow> False)"
    by code_simp
  then obtain resp1 s1 escrow t resp2 s2 where "run (handle_taker_bond env0 take_request) offer_state = (Ok resp1, s1)"
      "run (create_escrow_psbt env0 take_request) offer_state = (Ok escrow, t)"
      "run (handle_taker_bond env0 rival_request) t = (Ok resp2, s2)"
    by (auto dest!: run_is_ok split: prod.splits res.splits)
  from offer_taken_twice [OF _ offer_flags env0_laws(1) env0_laws(1) _ _ this, of sample_id env0 "[]"]
  show ?thesis
    by (fastforce simp: take_request_def rival_request_def sample_offer_def sample_bond_def)
qed

end
