(* ===== verification/Restart_Spec.thy ===== *)
theory Restart_Spec
  imports Interleaving
begin

text \<open>
  Start, end and restart of the coordinator's process: what a start leaves of the database, when the
  process can end, and what a crash costs the trades that were in progress.
\<close>

section \<open>Starting\<close>

text \<open>
  C19: A start of the coordinator keeps every order, offer and trade and what was published,
  whether it succeeds or fails; when it succeeds, the three tables exist, no copy of the mempool is
  left from an earlier process and its thread runs, and the wallet hands out addresses from the index
  the node knows of, whatever the last process had handed out.
\<close>

theorem start_keeps_trades:
  assumes "run (start_coordinator B) (stopped tables s) = (r, p)"
  shows "maker_requests (coordinator p) = maker_requests s \<and>
    active_maker_offers (coordinator p) = active_maker_offers s \<and>
    taken_offers (coordinator p) = taken_offers s \<and> published (coordinator p) = published s \<and>
    (is_ok r \<longrightarrow> set tables_of_schema \<union> set tables \<subseteq> set (schema p) \<and>
       mempool_transactions (coordinator p) = [] \<and> mempool_utxo_set (coordinator p) = [] \<and> mempool_thread p \<and>
       (\<exists>xprv config. wallet_settings B = Ok (xprv, config) \<and>
          wallet_sync B config = Ok (wallet_index (coordinator p))))"
proof -
  have "durable s (coordinator p)" using start_durable [OF assms] by (simp add: stopped_def)
  moreover have "is_ok r \<longrightarrow> set tables_of_schema \<union> set tables \<subseteq> set (schema p) \<and>
       mempool_transactions (coordinator p) = [] \<and> mempool_utxo_set (coordinator p) = [] \<and> mempool_thread p \<and>
       (\<exists>xprv config. wallet_settings B = Ok (xprv, config) \<and> wallet_sync B config = Ok (wallet_index (coordinator p)))"
  proof
    assume "is_ok r"
    then obtain f where "run (start_coordinator B) (stopped tables s) = (Ok f, p)"
      using assms by (cases r) simp_all
    then show "set tables_of_schema \<union> set tables \<subseteq> set (schema p) \<and>
       mempool_transactions (coordinator p) = [] \<and> mempool_utxo_set (coordinator p) = [] \<and> mempool_thread p \<and>
       (\<exists>xprv config. wallet_settings B = Ok (xprv, config) \<and> wallet_sync B config = Ok (wallet_index (coordinator p)))"
      by (rule start_Ok) (auto simp: served_def stopped_def tables_of_schema_def)
  qed
  ultimately show ?thesis by (simp add: durable_def)
qed

lemma start_keeps_trades_witness:
  "\<exists>p :: process. taken_offers (coordinator p) = taken_offers confirmed_state \<and> taken_offers (coordinator p) \<noteq> [] \<and>
     wallet_index (coordinator p) = 0 \<and> wallet_index confirmed_state \<noteq> 0 \<and> mempool_thread p"
proof -
  let ?p = "stopped tables_of_schema confirmed_state"
  have c: "is_ok (fst (run (start_coordinator boot0) ?p)) \<and> taken_offers confirmed_state \<noteq> [] \<and>
      wallet_index confirmed_state \<noteq> 0" by code_simp
  obtain r p where r: "run (start_coordinator boot0) ?p = (r, p)" by (cases "run (start_coordinator boot0) ?p")
  have "wallet_sync boot0 config = Ok 0" for config by (simp add: boot0_def)
  then have "taken_offers (coordinator p) = taken_offers confirmed_state \<and> wallet_index (coordinator p) = 0 \<and> mempool_thread p"
    using start_keeps_trades [OF r] c by (auto simp: r)
  then show ?thesis using c by metis
qed

section \<open>Ending\<close>

text \<open>
  C20: A start that fails ends the process only if it fails early: once the client of the node
  is created the mempool thread runs, nobody can stop it any more, and the process waits for it for
  ever, whatever passes the thread makes; before that it ends at once.
\<close>

theorem failed_start_hangs:
  assumes "run (start_coordinator B) (stopped tables s) = (r, p)" and "\<not> is_ok r"
  shows "if is_ok (fst (run (init_db B) (stopped tables s))) \<and> is_ok (wallet_settings B)
    then \<forall>Es. end_process Es p = None else end_process [] p \<noteq> None"
  using start_thread [OF assms(1)] join_thread_waits by (simp add: end_process_def)

lemma failed_start_hangs_witness:
  "\<forall>Es. end_process Es (snd (run (start_coordinator offline_boot) (stopped [] (init_coord [])))) = None"
proof -
  let ?p = "stopped [] (init_coord [])"
  have c: "\<not> is_ok (fst (run (start_coordinator offline_boot) ?p)) \<and>
      is_ok (fst (run (init_db offline_boot) ?p)) \<and> is_ok (wallet_settings offline_boot)" by code_simp
  obtain r p where r: "run (start_coordinator offline_boot) ?p = (r, p)" by (cases "run (start_coordinator offline_boot) ?p")
  show ?thesis using failed_start_hangs [OF r] c by (simp add: r)
qed

lemma passes_keep_thread:
  "mempool_thread p \<Longrightarrow> \<not> shutdown_message p \<Longrightarrow> shutdown_sender p \<Longrightarrow> thread_handle p \<Longrightarrow>
     q = fold mempool_pass Es p \<Longrightarrow>
     mempool_thread q \<and> \<not> shutdown_message q \<and> shutdown_sender q \<and> thread_handle q"
  by (induction Es arbitrary: p) (simp_all add: mempool_pass_def)

text \<open>
  The thread of a started coordinator goes on until \<open>shutdown\<close>: after any passes, \<open>shutdown\<close>
  returns with the next pass, which changes nothing but ends the thread, the process can then end,
  and a second \<open>shutdown\<close> does nothing; without it the process never ends.
\<close>

lemma shutdown_ends_thread:
  assumes "run (start_coordinator B) (stopped tables s) = (Ok feerate, p)"
    and "q = fold mempool_pass Es p"
  shows "end_process Es' q = None \<and> shutdown [] q = None \<and>
    (\<exists>q'. shutdown (E # Es') q = Some q' \<and> coordinator q' = coordinator q \<and> schema q' = schema q \<and>
       \<not> mempool_thread q' \<and> shutdown [] q' = Some q' \<and> end_process [] q' = Some q')"
proof -
  have "mempool_thread p \<and> \<not> shutdown_message p \<and> shutdown_sender p \<and> thread_handle p"
    using assms(1) by (rule start_Ok) (simp add: served_def)
  then have q: "mempool_thread q" "\<not> shutdown_message q" "shutdown_sender q" "thread_handle q"
    using passes_keep_thread [OF _ _ _ _ assms(2)] by auto
  have "join_thread Es' x = Some x" if "\<not> mempool_thread x" for x
    using that by (cases Es') simp_all
  then show ?thesis
    using q join_thread_waits
    by (simp add: end_process_def shutdown_def send_shutdown_def Let_def mempool_pass_def)
qed

lemma shutdown_ends_thread_witness:
  "\<exists>q'. shutdown [env0] (fold mempool_pass [env0, env0]
     (snd (run (start_coordinator boot0) (stopped [] (init_coord []))))) = Some q' \<and> \<not> mempool_thread q'"
proof -
  let ?p = "stopped [] (init_coord [])"
  have "is_ok (fst (run (start_coordinator boot0) ?p))" by code_simp
  then obtain f p where r: "run (start_coordinator boot0) ?p = (Ok f, p)" by (auto dest: run_is_ok)
  from shutdown_ends_thread [OF r refl, of "[]" "[env0, env0]" env0] show ?thesis by (auto simp: r)
qed

section \<open>Crashes\<close>

lemma start_boot0:
  "sql_faults (coordinator p) = [] \<Longrightarrow> run (start_coordinator boot0) p = (Ok (1, 0), served 0 p)"
  by (simp add: boot0_def start_coordinator_def init_db_def init_coordinator_wallet_def env_var_or_def wallet_settings_def
      rpc_config_def listen_def run_simps Let_def served_def tables_of_schema_def)

text \<open>
  C18: A crash between the storing of the second partial signature and the publication of the payout
  strands the trade: the signatures survive, the payout has not been published, and after the
  restart every signature of either trader, in whatever environment, is refused with status 500.
\<close>

theorem crash_strands_payout:
  assumes "sql_faults s = []" and "keys_distinct s"
    and "hex_decode E (pgr_robohash_hex p) = Some h" and "find_taken (pgr_offer_id_hex p) s = Some r"
    and "party h r" and "to_escrow_psbt_is_confirmed r = 1" and "\<not> already_signed h r"
    and "to_musig_partial_sig_hex_maker (add_partial_sig h (pgr_partial_sig_hex p) r) \<noteq> None"
    and "to_musig_partial_sig_hex_taker (add_partial_sig h (pgr_partial_sig_hex p) r) \<noteq> None"
  shows "\<exists>t rest. advances (s, api_server E (SubmitPayoutSignature p)) (t, rest) \<and>
    find_taken (pgr_offer_id_hex p) t = Some (add_partial_sig h (pgr_partial_sig_hex p) r) \<and> sql_faults t = [] \<and>
    (\<forall>s' E' p' h'. restarted t s' \<longrightarrow> sqlite_nulls E' \<longrightarrow> pgr_offer_id_hex p' = pgr_offer_id_hex p \<longrightarrow>
       hex_decode E' (pgr_robohash_hex p') = Some h' \<longrightarrow> party h' r \<longrightarrow>
       published s' = published s \<and> respond E' (SubmitPayoutSignature p') s' = (Some (code 500), s'))"
proof -
  let ?i = "pgr_offer_id_hex p" and ?r = "add_partial_sig h (pgr_partial_sig_hex p) r"
  let ?t = "set_trade ?i ?r s"
  have "check_result E ?i (pgr_robohash_hex p) s = Ok ()"
    using assms by (auto simp: check_result_Ok)
  then have check: "run (check_offer_and_confirmation E ?i (pgr_robohash_hex p)) s = (Ok (), s)"
    using run_check [OF assms(1,2)] by simp
  have insert: "run (mapErr Database (insert_partial_sig E (pgr_partial_sig_hex p) ?i (pgr_robohash_hex p))) s = (Ok (), ?t)"
    using run_insert_partial_sig [OF assms(1-5)] assms(7) by (simp add: run_mapErr)
  have stored: "\<exists>rest. advances (s, api_server E (SubmitPayoutSignature p)) (?t, rest)"
    unfolding api_server.simps submit_payout_signature_def handle_payout_signature_def
    by (rule exI, rule advances_in_onResult, rule rtranclp_trans [OF advances_andThen [OF check] advances_andThen [OF insert]])
  have id: "to_offer_id ?r = ?i" using trades.look_key [OF assms(4)] by (simp add: add_partial_sig_def)
  have t: "sql_faults ?t = []" "keys_distinct ?t" "find_taken ?i ?t = Some ?r"
    using assms(1) keys_set_trade [OF assms(2) id] find_set_trade [OF assms(4) id, of ?i] by simp_all
  have "published s' = published s \<and> respond E' (SubmitPayoutSignature p') s' = (Some (code 500), s')"
    if re: "restarted ?t s'" and E': "sqlite_nulls E'" "pgr_offer_id_hex p' = ?i"
      "hex_decode E' (pgr_robohash_hex p') = Some h'" "party h' r" for s' E' p' h'
  proof -
    have d: "durable ?t s'" using re by (rule restarted_durable)
    have "sql_faults s' = []" "keys_distinct s'" "find_taken (pgr_offer_id_hex p') s' = Some ?r"
      using d t E'(2) by (simp_all add: durable_def keys_distinct_def)
    moreover have "party h' ?r" "already_signed h' ?r"
      using E'(4) assms(8,9) by (auto simp: party_def already_signed_def add_partial_sig_def)
    ultimately show ?thesis
      using repeated_signature_refused [OF _ _ E'(1,3)] d by (auto simp: durable_def)
  qed
  then show ?thesis using stored t(1,3) by blast
qed

lemma crash_strands_payout_witness:
  "\<exists>s'. published s' = published (later maker_signed_events) \<and> taken_offers s' \<noteq> [] \<and>
     respond env0 (SubmitPayoutSignature (sample_sig ''t'')) s' = (Some (code 500), s') \<and>
     respond env0 (SubmitPayoutSignature (sample_sig ''m'')) s' = (Some (code 500), s')"
proof -
  let ?s = "later maker_signed_events" and ?p = "sample_sig ''t''"
  have "map_option (\<lambda>r. party [116] r \<and> party [109] r \<and> to_escrow_psbt_is_confirmed r = 1 \<and> \<not> already_signed [116] r \<and>
        to_musig_partial_sig_hex_maker (add_partial_sig [116] ''t'' r) \<noteq> None \<and>
        to_musig_partial_sig_hex_taker (add_partial_sig [116] ''t'' r) \<noteq> None)
      (find_taken sample_id ?s) = Some True \<and> sql_faults ?s = []"
    by code_simp
  then obtain r where r: "find_taken sample_id ?s = Some r" "party [116] r" "party [109] r" "to_escrow_psbt_is_confirmed r = 1"
      "\<not> already_signed [116] r" "to_musig_partial_sig_hex_maker (add_partial_sig [116] ''t'' r) \<noteq> None"
      "to_musig_partial_sig_hex_taker (add_partial_sig [116] ''t'' r) \<noteq> None" "sql_faults ?s = []"
    by auto
  have p: "pgr_offer_id_hex (sample_sig w) = sample_id" "pgr_robohash_hex (sample_sig w) = w"
      "pgr_partial_sig_hex (sample_sig w) = w" for w
    by (simp_all add: sample_sig_def)
  from crash_strands_payout [of ?s env0 ?p "[116]" r] r later_keys obtain t where
    t: "find_taken sample_id t = Some (add_partial_sig [116] ''t'' r)" "sql_faults t = []"
    "\<And>s' p' h'. restarted t s' \<Longrightarrow> pgr_offer_id_hex p' = sample_id \<Longrightarrow> hex_decode env0 (pgr_robohash_hex p') = Some h' \<Longrightarrow>
       party h' r \<Longrightarrow> published s' = published ?s \<and> respond env0 (SubmitPayoutSignature p') s' = (Some (code 500), s')"
    using env0_laws(1) by (auto simp: p)
  have "restarted t (coordinator (served 0 (stopped [] t)))"
    by (rule Served [OF start_boot0]) (simp add: stopped_def t(2))
  moreover have "taken_offers (coordinator (served 0 (stopped [] t))) \<noteq> []"
    using t(1) by (auto simp: served_def stopped_def tbl_find_def)
  moreover have "hex_decode env0 (pgr_robohash_hex (sample_sig ''m'')) = Some [109]"
    "hex_decode env0 (pgr_robohash_hex (sample_sig ''t'')) = Some [116]" by (simp_all add: p)
  ultimately show ?thesis using t(3) p(1) r(2,3) by blast
qed

end
