(* ===== verification/Completion_Spec.thy ===== *)
theory Completion_Spec
  imports Escrow_Spec
begin

text \<open>
  The second half of the protocol as a whole: from a confirmed escrow, two honest traders whose
  requests are served one after the other get their payout published and the trade ends.
\<close>

fun respond_all :: "env \<Rightarrow> ApiRequest list \<Rightarrow> coord \<Rightarrow> Response option list \<times> coord" where
  "respond_all E [] s = ([], s)"
| "respond_all E (req # reqs) s =
     (case respond E req s of (r, s') \<Rightarrow> apfst (Cons r) (respond_all E reqs s'))"

lemma respond_all_append:
  "respond_all E xs s = (rs, s') \<Longrightarrow> respond_all E ys s' = (rs', s'') \<Longrightarrow> respond_all E (xs @ ys) s = (rs @ rs', s'')"
proof (induction xs arbitrary: s rs)
  case (Cons req xs)
  obtain r t where "respond E req s = (r, t)" by (cases "respond E req s")
  moreover obtain qs u where "respond_all E xs t = (qs, u)" by (cases "respond_all E xs t")
  ultimately show ?case using Cons.prems Cons.IH [of t qs] by auto
qed simp

text \<open>The two robohashes of a trade, in either order.\<close>

definition traders :: "bytes \<Rightarrow> bytes \<Rightarrow> TakenOfferRow \<Rightarrow> bool" where
  "traders h h' r \<longleftrightarrow> h \<noteq> h' \<and>
     (h = to_robohash_maker r \<and> h' = to_robohash_taker r \<or> h = to_robohash_taker r \<and> h' = to_robohash_maker r)"

lemma traders_party: "traders h h' r \<Longrightarrow> party h r \<and> party h' r"
  by (auto simp: traders_def party_def)

section \<open>Both traders confirm\<close>

lemma both_confirm:
  assumes "sql_faults s = []" and "keys_distinct s" and "find_taken i s = Some r"
    and "to_escrow_psbt_is_confirmed r = 1" and "traders h h' r"
    and "hex_decode E a = Some h" and "hex_decode E b = Some h'"
  shows "respond_all E [SubmitObligationConfirmation \<lparr>otr_robohash_hex = a, otr_offer_id_hex = i\<rparr>,
      SubmitObligationConfirmation \<lparr>otr_robohash_hex = b, otr_offer_id_hex = i\<rparr>] s =
    ([Some (code 200), Some (code 200)], set_trade i (r\<lparr>to_maker_happy := Some 1, to_taker_happy := Some 1\<rparr>) s)"
proof -
  let ?r = "set_happiness h True r"
  have key: "to_offer_id ?r = i" using trades.look_key [OF assms(3)] by simp
  have r': "party h' ?r" "to_escrow_psbt_is_confirmed ?r = 1"
    "set_happiness h' True ?r = r\<lparr>to_maker_happy := Some 1, to_taker_happy := Some 1\<rparr>"
    using assms(4,5) by (auto simp: set_happiness_def traders_def party_def Let_def bool_to_sql_int_def)
  show ?thesis
    using run_word(1) [OF assms(1,2,6,3) _ assms(4)] traders_party [OF assms(5)] r'(3)
      run_word(1) [OF _ keys_set_trade [OF assms(2) key] assms(7) _ r'(1,2)] find_set_trade [OF assms(3) key, of i] assms(1)
      set_trade_twice [OF key]
    by simp
qed

section \<open>Both traders fetch the payout transaction\<close>

lemma both_poll:
  assumes "sql_faults s = []" and "keys_distinct s" and "sqlite_nulls E" and "find_taken i s = Some r" and "trade_flags r"
    and "both_happy (happiness_of r)" and "to_payout_transaction_psbt_hex r = None" and "to_processing r = 0"
    and "payout_of_row E r = Ok d" and "assembled_payout E d = Ok x"
  shows "respond_all E [PollFinalPayout \<lparr>otr_robohash_hex = a, otr_offer_id_hex = i\<rparr>,
      PollFinalPayout \<lparr>otr_robohash_hex = b, otr_offer_id_hex = i\<rparr>] s =
    (replicate 2 (Some (json (PayoutJson (payout_response E d x)))), set_trade i (r\<lparr>to_payout_transaction_psbt_hex := Some x\<rparr>) s)"
proof -
  let ?r = "r\<lparr>to_payout_transaction_psbt_hex := Some x\<rparr>" and ?s = "set_trade i (r\<lparr>to_payout_transaction_psbt_hex := Some x\<rparr>) s"
  have poll: "respond E (PollFinalPayout \<lparr>otr_robohash_hex = a, otr_offer_id_hex = i\<rparr>) t =
      (Some (json (PayoutJson (payout_response E d x))), t')"
    if "run (handle_final_payout E \<lparr>otr_robohash_hex = a, otr_offer_id_hex = i\<rparr>) t =
      (Ok (ReadyPSBT (payout_response E d x)), t')" for a t t'
    using that by (simp add: respond_def poll_final_payout_def run_simps payout_result_response_def)
  have key: "to_offer_id ?r = i" using trades.look_key [OF assms(4)] by simp
  have same: "r\<lparr>to_payout_transaction_psbt_hex := Some x, to_processing := 0\<rparr> = ?r" using assms(8) by simp
  have "respond E (PollFinalPayout \<lparr>otr_robohash_hex = a, otr_offer_id_hex = i\<rparr>) s =
      (Some (json (PayoutJson (payout_response E d x))), ?s)"
    using run_payout_happy [OF assms(1-3), of "\<lparr>otr_robohash_hex = a, otr_offer_id_hex = i\<rparr>" r] assms(4-10) same
    by (intro poll) simp
  moreover have "trade_flags ?r" "both_happy (happiness_of ?r)" "payout_of_row E ?r = Ok d"
    using assms(5,6,9)
    by (auto simp: trade_flags_def happiness_of_def payout_of_row_def payout_of_def split: if_splits)
  then have "respond E (PollFinalPayout \<lparr>otr_robohash_hex = b, otr_offer_id_hex = i\<rparr>) ?s =
      (Some (json (PayoutJson (payout_response E d x))), ?s)"
    using run_payout_happy [of ?s E "\<lparr>otr_robohash_hex = b, otr_offer_id_hex = i\<rparr>" ?r] assms(1,3)
      keys_set_trade [OF assms(2) key] find_set_trade [OF assms(4) key, of i]
    by (intro poll) simp
  ultimately show ?thesis by (simp add: numeral_2_eq_2)
qed

section \<open>Both traders sign\<close>

lemma delete_set_trade:
  assumes "to_offer_id r = i"
  shows "tbl_delete to_offer_id i (taken_offers (set_trade i r s)) = tbl_delete to_offer_id i (taken_offers s)"
proof -
  have "tbl_delete to_offer_id i (tbl_update to_offer_id i (\<lambda>_. r) rows) = tbl_delete to_offer_id i rows" for rows
    using assms by (induction rows) (simp_all add: tbl_delete_def tbl_update_def)
  then show ?thesis by (simp add: set_trade_def)
qed

lemma both_sign:
  assumes "sql_faults s = []" and "keys_distinct s" and "sqlite_nulls E" and "find_taken i s = Some r"
    and "to_escrow_psbt_is_confirmed r = 1" and "traders h h' r"
    and "to_musig_partial_sig_hex_maker r = None" "to_musig_partial_sig_hex_taker r = None"
    and "hex_decode E a = Some h" and "hex_decode E b = Some h'"
    and "keyspend_of E r (if h = to_robohash_maker r then sig else sig') (if h = to_robohash_maker r then sig' else sig) = Ok ctx"
    and "publish_payout E ctx = Ok tx"
  shows "respond_all E
      [SubmitPayoutSignature \<lparr>pgr_partial_sig_hex = sig, pgr_offer_id_hex = i, pgr_robohash_hex = a\<rparr>,
       SubmitPayoutSignature \<lparr>pgr_partial_sig_hex = sig', pgr_offer_id_hex = i, pgr_robohash_hex = b\<rparr>] s =
    ([Some (code 202), Some (code 200)],
     s\<lparr>published := published s @ [tx], taken_offers := tbl_delete to_offer_id i (taken_offers s)\<rparr>)"
proof -
  let ?p = "\<lparr>pgr_partial_sig_hex = sig, pgr_offer_id_hex = i, pgr_robohash_hex = a\<rparr>"
    and ?q = "\<lparr>pgr_partial_sig_hex = sig', pgr_offer_id_hex = i, pgr_robohash_hex = b\<rparr>"
    and ?r = "add_partial_sig h sig r"
  let ?s = "set_trade i ?r s"
  have key: "to_offer_id ?r = i" "to_offer_id (add_partial_sig h' sig' ?r) = i"
    using trades.look_key [OF assms(4)] by (simp_all add: add_partial_sig_def)
  have row: "\<not> already_signed h r" "\<not> already_signed h' ?r" "party h' ?r" "to_escrow_psbt_is_confirmed ?r = 1"
    using assms(5-8) by (auto simp: already_signed_def add_partial_sig_def traders_def party_def)
  have first: "run (handle_payout_signature E ?p) s = (Ok False, ?s)"
    using run_payout_signature [OF assms(1-3), of ?p h r] assms(4-9) traders_party [OF assms(6)] row(1)
    by (auto simp: add_partial_sig_def split: option.splits)
  have "keyspend_of E ?r = keyspend_of E r" by (simp add: fun_eq_iff keyspend_of_def add_partial_sig_def)
  moreover have "tbl_delete to_offer_id i (taken_offers (set_trade i (add_partial_sig h' sig' ?r) ?s)) =
      tbl_delete to_offer_id i (taken_offers s)"
    using key by (simp add: delete_set_trade)
  ultimately have second: "run (handle_payout_signature E ?q) ?s =
      (Ok True, s\<lparr>published := published s @ [tx], taken_offers := tbl_delete to_offer_id i (taken_offers s)\<rparr>)"
    using run_payout_signature [of ?s E ?q h' ?r, OF _ keys_set_trade [OF assms(2) key(1)] assms(3) _ _ row(3,4) refl]
      find_set_trade [OF assms(4) key(1), of i] assms(1,6-8,10-12) row(2)
    by (auto simp: complete_payout_def add_partial_sig_def traders_def set_trade_def split: if_splits)
  show ?thesis using first second by (simp add: respond_def submit_payout_signature_def run_simps)
qed

section \<open>The settlement\<close>

text \<open>
  C3: A trade with a confirmed escrow settles: once both traders have confirmed their obligations, in
  either order, both polls are answered with the same payout transaction; once both have signed
  it, in either order, the payout is published with the signature aggregated from the two, and the
  trade, and nothing else, is gone from the tables. Every request on the way is answered with
  success, if the libraries and the node accept what they are given.
\<close>

theorem confirmed_trade_settles:
  assumes "sql_faults s = []" and "keys_distinct s" and "flags_ok s" and "sqlite_nulls E" and "find_taken i s = Some r"
    and "to_escrow_psbt_is_confirmed r = 1" and "untouched r"
    and "traders h h' r" and "hex_decode E a = Some h" and "hex_decode E b = Some h'"
    and "traders k k' r" and "hex_decode E c = Some k" and "hex_decode E e = Some k'"
    and "payout_of_row E r = Ok d" and "assembled_payout E d = Ok x"
    and "keyspend_of E (r\<lparr>to_payout_transaction_psbt_hex := Some x\<rparr>)
      (if k = to_robohash_maker r then sig else sig') (if k = to_robohash_maker r then sig' else sig) = Ok ctx"
    and "publish_payout E ctx = Ok tx"
  shows "respond_all E
      [SubmitObligationConfirmation \<lparr>otr_robohash_hex = a, otr_offer_id_hex = i\<rparr>,
       SubmitObligationConfirmation \<lparr>otr_robohash_hex = b, otr_offer_id_hex = i\<rparr>,
       PollFinalPayout \<lparr>otr_robohash_hex = a, otr_offer_id_hex = i\<rparr>,
       PollFinalPayout \<lparr>otr_robohash_hex = b, otr_offer_id_hex = i\<rparr>,
       SubmitPayoutSignature \<lparr>pgr_partial_sig_hex = sig, pgr_offer_id_hex = i, pgr_robohash_hex = c\<rparr>,
       SubmitPayoutSignature \<lparr>pgr_partial_sig_hex = sig', pgr_offer_id_hex = i, pgr_robohash_hex = e\<rparr>] s =
    ([Some (code 200), Some (code 200), Some (json (PayoutJson (payout_response E d x))),
      Some (json (PayoutJson (payout_response E d x))), Some (code 202), Some (code 200)],
     s\<lparr>published := published s @ [tx], taken_offers := tbl_delete to_offer_id i (taken_offers s)\<rparr>)"
proof -
  let ?r1 = "r\<lparr>to_maker_happy := Some 1, to_taker_happy := Some 1\<rparr>"
  let ?r2 = "?r1\<lparr>to_payout_transaction_psbt_hex := Some x\<rparr>"
  let ?s1 = "set_trade i ?r1 s" and ?s2 = "set_trade i ?r2 s"
  have key: "to_offer_id ?r1 = i" "to_offer_id ?r2 = i" using trades.look_key [OF assms(5)] by simp_all
  have s1: "sql_faults ?s1 = []" "keys_distinct ?s1" "find_taken i ?s1 = Some ?r1"
    and s2: "sql_faults ?s2 = []" "keys_distinct ?s2" "find_taken i ?s2 = Some ?r2"
    using assms(1) keys_set_trade [OF assms(2) key(1)] keys_set_trade [OF assms(2) key(2)]
      find_set_trade [OF assms(5) key(1)] find_set_trade [OF assms(5) key(2)] by simp_all
  have r1: "trade_flags ?r1" "both_happy (happiness_of ?r1)" "to_payout_transaction_psbt_hex ?r1 = None"
      "to_processing ?r1 = 0" "payout_of_row E ?r1 = Ok d"
    using taken_trade_flags [OF assms(3,5)] assms(7,14)
    by (auto simp: trade_flags_def flag_column_def both_happy_def happiness_of_def untouched_def payout_of_row_def
        payout_of_def split: if_splits)
  have r2: "to_escrow_psbt_is_confirmed ?r2 = 1" "traders k k' ?r2" "to_musig_partial_sig_hex_maker ?r2 = None"
      "to_musig_partial_sig_hex_taker ?r2 = None"
      "keyspend_of E ?r2 (if k = to_robohash_maker ?r2 then sig else sig') (if k = to_robohash_maker ?r2 then sig' else sig) = Ok ctx"
    using assms(6,7,11,16) by (simp_all add: untouched_def traders_def keyspend_of_def)
  have s2_end: "?s2\<lparr>published := published ?s2 @ [tx], taken_offers := tbl_delete to_offer_id i (taken_offers ?s2)\<rparr> =
      s\<lparr>published := published s @ [tx], taken_offers := tbl_delete to_offer_id i (taken_offers s)\<rparr>"
    using delete_set_trade [OF key(2), of s] by (simp add: set_trade_def)
  note confirm = both_confirm [OF assms(1,2,5,6,8-10)]
  note poll = both_poll [OF s1(1,2) assms(4) s1(3) r1 assms(15), of a b, unfolded set_trade_twice [OF key(1)]]
  note sign = both_sign [OF s2(1,2) assms(4) s2(3) r2(1-4) assms(12,13) r2(5) assms(17), unfolded s2_end]
  show ?thesis using respond_all_append [OF confirm respond_all_append [OF poll sign]] by (simp add: numeral_2_eq_2)
qed

lemma confirmed_trade_settles_witness:
  "\<exists>resp tx. respond_all env0
      [SubmitObligationConfirmation (sample_poll ''t''), SubmitObligationConfirmation (sample_poll ''m''),
       PollFinalPayout (sample_poll ''t''), PollFinalPayout (sample_poll ''m''),
       SubmitPayoutSignature (sample_sig ''m''), SubmitPayoutSignature (sample_sig ''t'')] confirmed_state =
    ([Some (code 200), Some (code 200), Some (json (PayoutJson resp)), Some (json (PayoutJson resp)),
      Some (code 202), Some (code 200)],
     confirmed_state\<lparr>published := published confirmed_state @ [tx], taken_offers := []\<rparr>)"
proof -
  let ?s = confirmed_state and ?mh = "[109] :: bytes" and ?th = "[116] :: bytes"
  have s: "sql_faults ?s = []" "keys_distinct ?s" "flags_ok ?s" using later_keys [of "[]"] later_flags [of "[]"]
    by (simp_all add: later_def confirmed_state_def taken_state_def init_coord_def)
  have c: "(case find_taken sample_id ?s of None \<Rightarrow> False | Some r \<Rightarrow>
      to_escrow_psbt_is_confirmed r = 1 \<and> untouched r \<and> traders ?th ?mh r \<and> traders ?mh ?th r \<and> ?mh = to_robohash_maker r \<and>
      (case payout_of_row env0 r of Ok d \<Rightarrow> (case assembled_payout env0 d of Ok x \<Rightarrow>
        (case keyspend_of env0 (r\<lparr>to_payout_transaction_psbt_hex := Some x\<rparr>) ''m'' ''t'' of Ok ctx \<Rightarrow>
           is_ok (publish_payout env0 ctx) | _ \<Rightarrow> False) | _ \<Rightarrow> False) | _ \<Rightarrow> False))"
    by code_simp
  then obtain r d x ctx tx where r: "find_taken sample_id ?s = Some r" "to_escrow_psbt_is_confirmed r = 1" "untouched r"
      "traders ?th ?mh r" "traders ?mh ?th r" "?mh = to_robohash_maker r" "payout_of_row env0 r = Ok d" "assembled_payout env0 d = Ok x"
      "keyspend_of env0 (r\<lparr>to_payout_transaction_psbt_hex := Some x\<rparr>) ''m'' ''t'' = Ok ctx" "publish_payout env0 ctx = Ok tx"
    by (auto split: option.splits res.splits elim: is_ok.elims)
  have "tbl_delete to_offer_id sample_id (taken_offers ?s) = []"
    by (simp add: confirmed_state_def tbl_delete_def sample_trade_def)
  then show ?thesis
    using confirmed_trade_settles [OF s env0_laws(1) r(1-4) hex_sample(2,1) r(5) hex_sample r(7,8), of "''m''" "''t''" ctx tx] r(6,9,10)
    by (auto simp: sample_poll_def sample_sig_def)
qed

end
