(* ===== verification/Spec2Isabelle.thy ===== *)
theory Spec2Isabelle
  imports Bonds_Spec Trade_Spec Mempool_Spec Races Restart_Spec Completion_Spec
begin

text \<open>
  Verification of taptrade-core: the coordinator (\<open>taptrade-cli-demo/coordinator/src\<close>) and the
  trader's program (\<open>taptrade-cli-demo/trader/src\<close>) of a bitcoin exchange without custody. A maker
  and a taker lock bonds and then an escrow; the coordinator keeps the orderbook and the trades in
  SQLite, watches bonds and confirmations, assembles the transactions and aggregates the traders'
  MuSig2 signatures; an operator decides disputes.

  \<^bold>\<open>The model.\<close> The state \<open>coord\<close> (\<open>Tables\<close>) is the content of the three tables of
  \<open>CoordinatorDB::init\<close>, the wallet's next address index, the copy of the node's mempool, the
  transactions published so far, and the statements the database driver will fail to execute
  (\<open>sql_faults\<close>). An \<open>async fn\<close> is a task (\<open>Tasks\<close>): a resumption whose steps are the atomic
  actions on the state (one SQL statement, one wallet call, one access to the mempool state).
  \<open>run\<close> executes a task alone; \<open>sched\<close> (\<open>Interleaving\<close>) executes several at a time. A Rust
  \<open>Result\<close> that may also panic is \<open>res\<close> (\<open>Ok\<close>, \<open>Err\<close>, \<open>Panic\<close>); integers are words, their
  arithmetic panics or wraps with the cargo profile (\<open>overflow_checks\<close>); f64 is an exact model of
  the operations used, on non-negative finite numbers (\<open>Float64\<close>). The libraries, the node, the
  clock, the random numbers and the configuration are the parameters \<open>env\<close> (\<open>Externals\<close>, the
  coordinator's), \<open>boot\<close> (\<open>Startup\<close>, those of its start) and \<open>tenv\<close> (\<open>Trader\<close>, the trader's). What a theorem relies on of them is named
  in its hypotheses: \<open>sqlite_nulls\<close>, \<open>int_decoding\<close> and \<open>hex_laws\<close>; the witnesses instantiate
  them with the environment of \<open>Sample\<close>.

  \<^bold>\<open>Parts of the program and theories.\<close>
  \<^item> \<open>Api\<close>: the messages and error types of \<open>communication/api.rs\<close> and \<open>handler_errors.rs\<close>.
  \<^item> \<open>Keyspend\<close>: the data of the payout and the MuSig2 glue of \<open>coordinator/coordinator_utils.rs\<close>
    and the parsing of PSBT inputs of \<open>wallet/wallet_utils.rs\<close>.
  \<^item> \<open>Database\<close>: one task per method of \<open>database/mod.rs\<close>, statement by statement.
  \<^item> \<open>BondTx\<close>, \<open>EscrowTx\<close>: the validation of bonds, addresses and broadcast (\<open>wallet/mod.rs\<close>,
    \<open>wallet/wallet_utils.rs\<close>, the lookup of \<open>mempool_monitoring.rs\<close>), the escrow transaction
    (\<open>wallet/escrow_psbt.rs\<close>) and the payout transaction (\<open>wallet/payout_tx.rs\<close>).
  \<^item> \<open>Handlers\<close>, \<open>Http\<close>: the request handlers of \<open>coordinator/mod.rs\<close>, and the validation, status
    codes and router of \<open>communication/mod.rs\<close>.
  \<^item> \<open>Monitors\<close>: one round of each background loop (\<open>bond_monitoring.rs\<close>,
    \<open>tx_confirmation_monitoring.rs\<close>, \<open>escrow_cli.rs\<close>, \<open>mempool_monitoring.rs\<close>).
  \<^item> \<open>System\<close>: the coordinator of \<open>main.rs\<close>: requests and rounds as events.
  \<^item> \<open>Startup\<close>: the process around that state: \<open>CoordinatorDB::init\<close>, \<open>init_coordinator_wallet\<close>, the
    mempool handler with its thread and shutdown, the start and the end of \<open>main\<close>; sequential runs
    with restarts, and the locales \<open>run_invariant\<close> (kept by events and restarts) and
    \<open>action_invariant\<close> (kept by single actions and restarts).
  \<^item> \<open>Trader\<close>, \<open>Trader_Settings\<close>, \<open>Trader_Wallet\<close>, \<open>Trader_Requests\<close>, \<open>Trader_Flows\<close>: the trader's
    \<open>cli/\<close>, \<open>wallet/\<close>, \<open>communication/\<close>, \<open>trading/\<close> and \<open>main.rs\<close> as state-passing functions over an
    abstract network \<open>'n\<close>; a loop that may never end has the result \<open>None\<close>.
  \<^item> \<open>Trade_Service\<close>, \<open>Trade_System\<close>: what the trader's loops rely on of the service, as a locale, and
    its interpretation: the trader's network instantiated with the router of the coordinator, other
    events arriving between the trader's requests.

  \<^bold>\<open>What the lemmas show.\<close>
  \<^item> \<open>Effects\<close> gives every handler and background task a set of permissions: the abstract changes a
    single action of it may make. The invariants, the refinement and the frame lemmas rest on it.
  \<^item> \<open>Invariants\<close>: well-formed tables under every interleaving (\<open>tables\<close>), and the gating of a trade
    by the confirmation of its escrow in sequential runs (\<open>trade_gate\<close>), as interpretations.
  \<^item> \<open>Orders_Spec\<close>: amounts of an order, its way to the orderbook, searches, the taking of an offer.
  \<^item> \<open>Bonds_Spec\<close>, \<open>Monitors_Spec\<close>, \<open>Mempool_Spec\<close>: when a bond is accepted, what is submitted to the
    node, what a round of the monitoring punishes or confirms, and that a double spend is noticed.
  \<^item> \<open>Escrow_Spec\<close>: balance and publication of the escrow transaction, the one payout per trade and
    its agreement with what the coordinator aggregates the traders' signatures for.
  \<^item> \<open>Payout_Spec\<close>, \<open>Settlement_Spec\<close>: signatures, publication and amounts of the payout, disputes
    and their decision.
  \<^item> \<open>Completion_Spec\<close>: the second half of the protocol from the confirmed escrow to its end.
  \<^item> \<open>Lifecycle_Spec\<close>: the coordinator refines an abstract life of a trade (no trade, funding,
    trading with the signatures given).
  \<^item> \<open>Interleaving\<close>, \<open>Races\<close>: invariants of single actions hold when tasks are interleaved, and
    across crashes at any point of them; the exclusion the payout poll aims at and the single taker
    of an offer do not.
  \<^item> \<open>Restart_Spec\<close>: a start keeps the trades; when the process can end; what a crash costs.
  \<^item> \<open>Trade_System\<close>, \<open>Trade_Spec\<close>: both programs together: when the trader's loops end and with
    what, and whether what a trader brings suffices for what the coordinator deducts.

  \<^bold>\<open>Loops.\<close> The recursions of the coordinator are structural, but \<open>chunks\<close> and the digits of the
  f64 rounding, which have measures. Its endless loops are modelled by one round, and the runs by
  sequences of rounds; waiting for the mempool thread is a recursion over the passes the thread makes
  (\<open>join_thread\<close>, \<open>None\<close> while it runs). The trader's polling loops are \<open>forever\<close> (\<open>Trader\<close>), a \<open>partial_function\<close>:
  \<open>forever_returns\<close> and \<open>forever_diverges\<close> decide whether they end; no fuel is used anywhere.

  \<^bold>\<open>Not modelled.\<close> TCP, JSON and the text of error messages; logging; poisoned locks; the sleeps of
  the loops; the schedule of a start, during which the mempool thread already runs (it touches only
  its copy, which a start does not read); the cryptography,
  scripts, coin selection and PSBT operations behind bdk, rust-bitcoin, miniscript and musig2,
  which are parameters. The rows of a table are kept in insertion order, where SQLite promises no
  order; the map of violating bonds is iterated in an order the environment chooses
  (\<open>hash_rank\<close>), as \<open>HashMap\<close> iterates in a random one. A numeric
  column that the code always binds is not nullable in the model. The coordinator's tests
  (\<open>db_tests.rs\<close>, \<open>wallet_tests.rs\<close>) are not code of the program.
\<close>

end
